(* ===== verification/Prelude.thy ===== *)
theory Prelude
  imports Complex_Main "HOL-Library.Word" "HOL-Library.AList" "HOL-Library.Log_Nat"
begin

text \<open>
  The vocabulary the component theories share: what a Go function can do beyond returning a
  value (run-time panics, error returns), Go's maps, its machine integers, float32, time
  values and durations, together with the lemmas that let \<open>simp\<close> and \<open>auto\<close> carry the
  component proofs.

  \<^item> A function that can panic returns \<open>go_panic + 'a\<close>; one that returns \<open>(T, error)\<close> returns
    \<open>'e + 'a\<close> for an error datatype of its component. \<open>bindE\<close> sequences both, \<open>deref\<close> is a
    pointer dereference, \<open>foldE\<close> a loop whose body may fail.
  \<^item> A Go map is an association list with distinct keys (\<open>go_map\<close>); a map that may be nil is an
    \<open>option\<close> of one. The interface the code relies on is the locale \<open>keyed_store\<close>.
  \<^item> \<open>int32\<close> and \<open>uint32\<close> are 32-bit words; time.Time and time.Duration are integers in
    nanoseconds, with the int64 wrap-around of duration arithmetic and the saturation of
    time.Since written out; a (finite) float32 is a rational.
\<close>

named_theorems go_simps \<open>equations that unfold the plumbing of Go's effects\<close>

section \<open>Panics, errors and sequencing\<close>

datatype go_panic = NilPointer | NilMapWrite | PanicValue string

definition bindE :: "'e + 'a \<Rightarrow> ('a \<Rightarrow> 'e + 'b) \<Rightarrow> 'e + 'b" where
  "bindE m f = (case m of Inl e \<Rightarrow> Inl e | Inr x \<Rightarrow> f x)"

definition deref :: "'a option \<Rightarrow> go_panic + 'a" where
  "deref p = (case p of None \<Rightarrow> Inl NilPointer | Some x \<Rightarrow> Inr x)"

fun foldE :: "('a \<Rightarrow> 's \<Rightarrow> 'e + 's) \<Rightarrow> 'a list \<Rightarrow> 's \<Rightarrow> 'e + 's" where
  "foldE f [] s = Inr s"
| "foldE f (x # xs) s = bindE (f x s) (foldE f xs)"

lemma bindE_simps [simp, go_simps]:
  "bindE (Inl e) f = Inl e"
  "bindE (Inr x) f = f x"
  by (simp_all add: bindE_def)

lemma deref_simps [simp, go_simps]:
  "deref None = Inl NilPointer"
  "deref (Some x) = Inr x"
  by (simp_all add: deref_def)

lemma bindE_eq_Inr: "bindE m f = Inr y \<longleftrightarrow> (\<exists>x. m = Inr x \<and> f x = Inr y)"
  by (cases m) auto

lemma bindE_eq_Inl: "bindE m f = Inl e \<longleftrightarrow> m = Inl e \<or> (\<exists>x. m = Inr x \<and> f x = Inl e)"
  by (cases m) auto

lemma deref_eq_Inr [simp]: "deref p = Inr x \<longleftrightarrow> p = Some x"
  by (cases p) auto

lemma deref_eq_Inl [simp]: "deref p = Inl e \<longleftrightarrow> p = None \<and> e = NilPointer"
  by (cases p) auto

lemma bindE_assoc: "bindE (bindE m f) g = bindE m (\<lambda>x. bindE (f x) g)"
  by (cases m) auto

lemma foldE_append: "foldE f (xs @ ys) s = bindE (foldE f xs s) (foldE f ys)"
  by (induction xs arbitrary: s) (auto simp: bindE_def split: sum.splits)

text \<open>A loop whose body never fails is a pure fold.\<close>

lemma foldE_total:
  assumes "\<And>x s. x \<in> set xs \<Longrightarrow> f x s = Inr (g x s)"
  shows "foldE f xs s = Inr (fold g xs s)"
  using assms by (induction xs arbitrary: s) auto

text \<open>The invariant rule for a loop that may fail.\<close>

lemma foldE_invariant:
  assumes "foldE f xs s = Inr t" and "P s"
    and "\<And>x s s'. x \<in> set xs \<Longrightarrow> P s \<Longrightarrow> f x s = Inr s' \<Longrightarrow> P s'"
  shows "P t"
  using assms
proof (induction xs arbitrary: s)
  case Nil
  then show ?case by simp
next
  case (Cons x xs)
  from Cons.prems(1) obtain s1 where s1: "f x s = Inr s1" "foldE f xs s1 = Inr t"
    by (auto simp: bindE_eq_Inr)
  have "P s1" using Cons.prems(2,3) s1(1) by auto
  with Cons.IH [OF s1(2)] Cons.prems(3) show ?case by auto
qed

text \<open>
  The append-if loop: a body that either panics, leaves the accumulator alone or appends one
  element. It computes a filter of the list it ranges over, or panics where a body panics.
\<close>

definition appendIfE :: "('a \<Rightarrow> 'e + bool) \<Rightarrow> ('a \<Rightarrow> 'b) \<Rightarrow> 'a \<Rightarrow> 'b list \<Rightarrow> 'e + 'b list" where
  "appendIfE p g x acc = bindE (p x) (\<lambda>b. Inr (if b then acc @ [g x] else acc))"

lemma foldE_appendIf_Inr:
  assumes "foldE (appendIfE p g) xs acc = Inr ys"
  shows "ys = acc @ map g (filter (\<lambda>x. p x = Inr True) xs) \<and> (\<forall>x \<in> set xs. \<exists>b. p x = Inr b)"
  using assms
proof (induction xs arbitrary: acc)
  case Nil
  then show ?case by simp
next
  case (Cons x xs)
  from Cons.prems obtain acc' where step: "appendIfE p g x acc = Inr acc'"
    and "foldE (appendIfE p g) xs acc' = Inr ys"
    by (auto simp: bindE_eq_Inr)
  moreover from step obtain b where b: "p x = Inr b" "acc' = (if b then acc @ [g x] else acc)"
    by (auto simp: appendIfE_def bindE_eq_Inr)
  ultimately have rest: "foldE (appendIfE p g) xs (if b then acc @ [g x] else acc) = Inr ys"
    by simp
  from Cons.IH [OF rest] b show ?case by (cases b) auto
qed

lemma foldE_appendIf_total:
  assumes "\<forall>x \<in> set xs. \<exists>b. p x = Inr b"
  shows "foldE (appendIfE p g) xs acc = Inr (acc @ map g (filter (\<lambda>x. p x = Inr True) xs))"
  using assms
proof (induction xs arbitrary: acc)
  case Nil
  then show ?case by simp
next
  case (Cons x xs)
  then obtain b where "p x = Inr b" by auto
  with Cons show ?case by (cases b) (auto simp: appendIfE_def)
qed

lemma foldE_Inl_witness:
  assumes "foldE f xs s = Inl e"
  shows "\<exists>x \<in> set xs. \<exists>t. f x t = Inl e"
  using assms by (induction xs arbitrary: s) (auto simp: bindE_eq_Inl)

section \<open>Go maps\<close>

type_synonym ('k, 'v) go_map = "('k \<times> 'v) list"

abbreviation map_get :: "('k, 'v) go_map \<Rightarrow> 'k \<Rightarrow> 'v option" where
  "map_get \<equiv> map_of"

abbreviation map_put :: "'k \<Rightarrow> 'v \<Rightarrow> ('k, 'v) go_map \<Rightarrow> ('k, 'v) go_map" where
  "map_put \<equiv> AList.update"

abbreviation map_wf :: "('k, 'v) go_map \<Rightarrow> bool" where
  "map_wf m \<equiv> distinct (map fst m)"

text \<open>\<open>m[k]\<close> on a map of strings: the zero value \<open>\"\"\<close> when the key is missing or the map is nil.\<close>

definition str_index :: "(string, string) go_map \<Rightarrow> string \<Rightarrow> string" where
  "str_index m k = (case map_get m k of None \<Rightarrow> [] | Some v \<Rightarrow> v)"

definition nil_map :: "('k, 'v) go_map option \<Rightarrow> ('k, 'v) go_map" where
  "nil_map m = (case m of None \<Rightarrow> [] | Some m' \<Rightarrow> m')"

text \<open>\<open>m[k] = v\<close> on a map that may be nil.\<close>

definition map_assign :: "'k \<Rightarrow> 'v \<Rightarrow> ('k, 'v) go_map option \<Rightarrow> go_panic + ('k, 'v) go_map" where
  "map_assign k v m = (case m of None \<Rightarrow> Inl NilMapWrite | Some m' \<Rightarrow> Inr (map_put k v m'))"

text \<open>\<open>for k, v := range src { dst[k] = v }\<close>\<close>

fun map_copy :: "('k, 'v) go_map \<Rightarrow> ('k, 'v) go_map \<Rightarrow> ('k, 'v) go_map" where
  "map_copy [] dst = dst"
| "map_copy ((k, v) # src) dst = map_copy src (map_put k v dst)"

lemma nil_map_simps [simp, go_simps]:
  "nil_map None = []"
  "nil_map (Some m) = m"
  by (simp_all add: nil_map_def)

lemma map_assign_simps [simp, go_simps]:
  "map_assign k v None = Inl NilMapWrite"
  "map_assign k v (Some m) = Inr (map_put k v m)"
  by (simp_all add: map_assign_def)

text \<open>
  The interface of a keyed store, and what a client that fills one in a loop gets from it. It
  is what the code relies on for labels, annotations, the deployments of a worker and the
  Temporal versions.
\<close>

locale keyed_store =
  fixes lookup :: "'m \<Rightarrow> 'k \<Rightarrow> 'v option"
    and insert_at :: "'k \<Rightarrow> 'v \<Rightarrow> 'm \<Rightarrow> 'm"
    and wf :: "'m \<Rightarrow> bool"
  assumes lookup_insert: "lookup (insert_at k v m) = (lookup m)(k \<mapsto> v)"
    and wf_insert: "wf m \<Longrightarrow> wf (insert_at k v m)"
begin

definition insert_all :: "('k \<times> 'v) list \<Rightarrow> 'm \<Rightarrow> 'm" where
  "insert_all kvs m = fold (\<lambda>(k, v). insert_at k v) kvs m"

lemma wf_insert_all: "wf m \<Longrightarrow> wf (insert_all kvs m)"
  by (induction kvs arbitrary: m) (auto simp: insert_all_def wf_insert)

lemma lookup_insert_all:
  "distinct (map fst kvs) \<Longrightarrow> lookup (insert_all kvs m) = lookup m ++ map_of kvs"
proof (induction kvs arbitrary: m)
  case Nil
  then show ?case by (simp add: insert_all_def)
next
  case (Cons kv kvs)
  obtain k v where kv: "kv = (k, v)" by (cases kv)
  have "insert_all (kv # kvs) m = insert_all kvs (insert_at k v m)"
    by (simp add: insert_all_def kv)
  moreover have "k \<notin> dom (map_of kvs)"
    using Cons.prems kv by (auto simp: dom_map_of_conv_image_fst)
  ultimately show ?case
    using Cons kv by (auto simp: lookup_insert map_add_def fun_eq_iff split: option.splits)
qed

lemma lookup_last_insert: "lookup (insert_at k v (insert_all kvs m)) k = Some v"
  by (simp add: lookup_insert)

end

interpretation gm: keyed_store map_get map_put map_wf
  by unfold_locales (simp_all add: update_conv' distinct_update)

lemma map_copy_insert_all: "map_copy src dst = gm.insert_all src dst"
  by (induction src dst rule: map_copy.induct) (auto simp: gm.insert_all_def)

lemma map_get_put [simp]: "map_get (map_put k v m) k' = (if k' = k then Some v else map_get m k')"
  by (simp add: update_conv')

lemma map_get_copy: "map_wf src \<Longrightarrow> map_get (map_copy src dst) = map_get dst ++ map_get src"
  by (simp add: map_copy_insert_all gm.lookup_insert_all)

lemma map_wf_copy: "map_wf dst \<Longrightarrow> map_wf (map_copy src dst)"
  by (simp add: map_copy_insert_all gm.wf_insert_all)

lemma str_index_put [simp]: "str_index (map_put k v m) k' = (if k' = k then v else str_index m k')"
  by (simp add: str_index_def)

lemma str_index_Nil [simp]: "str_index [] k = []"
  by (simp add: str_index_def)

section \<open>Machine integers, floating point and time\<close>

type_synonym int32 = "32 word"
type_synonym uint32 = "32 word"

text \<open>Two's complement wrap-around of an int64 result.\<close>

definition wrap64 :: "int \<Rightarrow> int" where
  "wrap64 n = (n + 2 ^ 63) mod 2 ^ 64 - 2 ^ 63"

lemma wrap64_id: "- (2 ^ 63) \<le> n \<Longrightarrow> n < 2 ^ 63 \<Longrightarrow> wrap64 n = n"
  by (simp add: wrap64_def)

type_synonym go_time = int      \<comment> \<open>time.Time, metav1.Time: nanoseconds since the epoch\<close>
type_synonym duration = int     \<comment> \<open>time.Duration: nanoseconds, within int64\<close>

text \<open>\<open>time.Time{}\<close>: January 1, year 1, UTC.\<close>

definition zero_time :: go_time where "zero_time = - 62135596800000000000"

definition Second :: duration where "Second = 1000000000"
definition Minute :: duration where "Minute = 60 * Second"
definition Hour :: duration where "Hour = 60 * Minute"

lemmas duration_units = Second_def Minute_def Hour_def

definition maxDuration :: duration where "maxDuration = 2 ^ 63 - 1"
definition minDuration :: duration where "minDuration = - (2 ^ 63)"

text \<open>\<open>time.Since(t)\<close> at the instant \<open>now\<close>: Go saturates the difference of two times.\<close>

definition time_Since :: "go_time \<Rightarrow> go_time \<Rightarrow> duration" where
  "time_Since now t = max minDuration (min maxDuration (now - t))"

lemma time_Since_gt:
  assumes "0 \<le> d" and "time_Since now t > d"
  shows "now - t > d"
  using assms by (auto simp: time_Since_def minDuration_def maxDuration_def max_def min_def split: if_splits)

lemma time_Since_gtI:
  assumes "d < maxDuration" and "now - t > d"
  shows "time_Since now t > d"
  using assms by (auto simp: time_Since_def minDuration_def maxDuration_def max_def min_def split: if_splits)

text \<open>
  A finite float32 is a rational. \<open>float32(n)\<close> of an integer is exact below \<open>2 ^ 24\<close> and rounds
  to the nearest 24-bit significand, ties to even, above.
\<close>

type_synonym float32 = rat

definition round_half_even :: "int \<Rightarrow> int \<Rightarrow> int" where
  "round_half_even a d =
     (let q = a div d; r = a mod d
      in if 2 * r < d \<or> (2 * r = d \<and> even q) then q else q + 1)"

definition float32_of_int :: "int \<Rightarrow> float32" where
  "float32_of_int n =
     (let a = \<bar>n\<bar>
      in if a < 2 ^ 24 then of_int n
         else let d = 2 ^ nat (bitlen a - 24) in of_int (sgn n * round_half_even a d * d))"

lemma float32_of_int_exact [simp]: "\<bar>n\<bar> < 2 ^ 24 \<Longrightarrow> float32_of_int n = of_int n"
  by (simp add: float32_of_int_def)

lemma sint_word_of_int32:
  "- (2 ^ 31) \<le> n \<Longrightarrow> n < 2 ^ 31 \<Longrightarrow> sint (word_of_int n :: int32) = n"
  by (simp add: sint_sbintrunc' signed_take_bit_int_eq_self)

section \<open>Lists\<close>

lemma length_filter_eq_length: "length (filter P xs) = length xs \<longleftrightarrow> (\<forall>x \<in> set xs. P x)"
  by (metis filter_True length_filter_less less_irrefl)

end
