(* ===== verification/Api_Types.thy ===== *)
theory Api_Types
  imports Prelude
begin

text \<open>
  The data the controller works on. First the custom resources of the repository
  (\<^verbatim>\<open>api/v1alpha1/worker_types.go\<close>, \<^verbatim>\<open>api/v1alpha1/temporalconnection_types.go\<close>), struct by
  struct with the source's fields; an embedded struct is a record extension. Then the
  Kubernetes objects the code reads and writes: each record has the fields some code of the
  repository names, and the fields no code names are kept together as one opaque string
  (\<open>..._rest\<close>), so that a theorem can say they are left alone.

  A pointer to a struct that may be nil is an \<open>option\<close>. \<open>corev1.ObjectReference\<close> pointers are
  used as map keys by the planner, so they carry their address (\<open>ref_ptr\<close>).
\<close>

section \<open>Errors of the APIs the code calls\<close>

text \<open>
  An error returned by the Kubernetes or the Temporal client: what \<open>errors.As\<close>,
  \<open>client.IgnoreNotFound\<close> and \<open>apierrors.IsConflict\<close> can tell of it, and its text.
\<close>

datatype api_error_kind = ErrNotFound | ErrConflict | ErrOther

record api_error =
  err_kind :: api_error_kind
  err_text :: string

section \<open>Kubernetes objects\<close>

record TypeMeta =
  tm_APIVersion :: string
  tm_Kind :: string

record OwnerReference =
  or_APIVersion :: string
  or_Kind :: string
  or_Name :: string
  or_UID :: string
  or_BlockOwnerDeletion :: "bool option"
  or_Controller :: "bool option"

record ObjectMeta =
  om_Name :: string
  om_Namespace :: string
  om_UID :: string
  om_Labels :: "(string, string) go_map option"
  om_Annotations :: "(string, string) go_map option"
  om_OwnerReferences :: "OwnerReference list"
  om_CreationTimestamp :: go_time
  om_ResourceVersion :: string

record ObjectReference =
  ref_APIVersion :: string
  ref_Kind :: string
  ref_Name :: string
  ref_Namespace :: string
  ref_UID :: string
  ref_ResourceVersion :: string
  ref_FieldPath :: string

text \<open>A pointer: its address and what it points to (never written through by the code).\<close>

type_synonym ref_ptr = "nat \<times> ObjectReference"

record SecretKeySelector =
  sk_Name :: string
  sk_Key :: string
  sk_Optional :: "bool option"

record ConfigMapKeySelector =
  ck_Name :: string
  ck_Key :: string
  ck_Optional :: "bool option"

datatype EnvVarSource = SecretKeyRefSource SecretKeySelector | OtherEnvSource string

record EnvVar =
  ev_Name :: string
  ev_Value :: string
  ev_ValueFrom :: "EnvVarSource option"

record VolumeMount =
  vm_Name :: string
  vm_MountPath :: string
  vm_rest :: string

record SecretVolumeSource =
  sv_SecretName :: string
  sv_rest :: string

record Volume =
  vol_Name :: string
  vol_Secret :: "SecretVolumeSource option"
  vol_rest :: string

record Container =
  ctr_Name :: string
  ctr_Image :: string
  ctr_Env :: "EnvVar list"
  ctr_VolumeMounts :: "VolumeMount list"
  ctr_rest :: string

record PodSpec =
  ps_Containers :: "Container list"
  ps_Volumes :: "Volume list"
  ps_rest :: string

record PodTemplateSpec =
  pt_Labels :: "(string, string) go_map option"
  pt_Annotations :: "(string, string) go_map option"
  pt_Spec :: PodSpec
  pt_rest :: string

record DeploymentCondition =
  dc_Type :: string
  dc_Status :: string
  dc_LastTransitionTime :: go_time

record DeploymentSpec =
  ds_Replicas :: "int32 option"
  ds_Selector :: "(string, string) go_map option option"  \<comment> \<open>nil selector, or its MatchLabels\<close>
  ds_Template :: PodTemplateSpec
  ds_MinReadySeconds :: int32
  ds_rest :: string

record DeploymentStatus =
  dst_Replicas :: int32
  dst_Conditions :: "DeploymentCondition list"

record Deployment =
  d_TypeMeta :: TypeMeta
  d_ObjectMeta :: ObjectMeta
  d_Spec :: DeploymentSpec
  d_Status :: DeploymentStatus

abbreviation d_Name :: "Deployment \<Rightarrow> string" where
  "d_Name d \<equiv> om_Name (d_ObjectMeta d)"

abbreviation d_Replicas :: "Deployment \<Rightarrow> int32 option" where
  "d_Replicas d \<equiv> ds_Replicas (d_Spec d)"

section \<open>TemporalConnection\<close>

record SecretReference =
  sr_Name :: string

record TemporalConnectionSpec =
  tc_HostPort :: string
  tc_MutualTLSSecretRef :: "SecretReference option"
  tc_APIKeySecretRef :: "SecretKeySelector option"

record TemporalConnection =
  tconn_ObjectMeta :: ObjectMeta
  tconn_Spec :: TemporalConnectionSpec

section \<open>TemporalWorkerDeployment: the desired state\<close>

record TemporalConnectionReference =
  tcr_Name :: string

record WorkerOptions =
  wo_TemporalConnectionRef :: TemporalConnectionReference
  wo_TemporalNamespace :: string
  wo_UnsafeCustomBuildID :: string

text \<open>The strategy is a string with three named values; any other string is \<open>OtherStrategy\<close>.\<close>

datatype DefaultVersionUpdateStrategy =
  UpdateManual | UpdateAllAtOnce | UpdateProgressive | OtherStrategy string

record GateInputSource =
  gi_ConfigMapKeyRef :: "ConfigMapKeySelector option"
  gi_SecretKeyRef :: "SecretKeySelector option"

record GateWorkflowConfig =
  gate_WorkflowType :: string
  gate_Input :: "string option"        \<comment> \<open>the raw bytes of the inline JSON\<close>
  gate_InputFrom :: "GateInputSource option"

record RolloutStep =
  step_RampPercentage :: int
  step_PauseDuration :: duration

record RolloutStrategy =
  rs_Strategy :: DefaultVersionUpdateStrategy
  rs_Gate :: "GateWorkflowConfig option"
  rs_Steps :: "RolloutStep list"

record SunsetStrategy =
  ss_ScaledownDelay :: "duration option"
  ss_DeleteDelay :: "duration option"

record TemporalWorkerDeploymentSpec =
  spec_Replicas :: "int32 option"
  spec_Template :: PodTemplateSpec
  spec_MinReadySeconds :: int32
  spec_ProgressDeadlineSeconds :: "int32 option"
  spec_RolloutStrategy :: RolloutStrategy
  spec_SunsetStrategy :: SunsetStrategy
  spec_WorkerOptions :: WorkerOptions

section \<open>TemporalWorkerDeployment: the observed state\<close>

datatype VersionStatus =
  VersionStatusNotRegistered | VersionStatusInactive | VersionStatusRamping
  | VersionStatusCurrent | VersionStatusDraining | VersionStatusDrained

datatype WorkflowExecutionStatus =
  WorkflowExecutionStatusRunning | WorkflowExecutionStatusCompleted
  | WorkflowExecutionStatusFailed | WorkflowExecutionStatusCanceled
  | WorkflowExecutionStatusTerminated | WorkflowExecutionStatusTimedOut

record WorkflowExecution =
  wf_WorkflowID :: string
  wf_RunID :: string
  wf_Status :: WorkflowExecutionStatus
  wf_TaskQueue :: string

record TaskQueue =
  tq_Name :: string

record BaseWorkerDeploymentVersion =
  v_BuildID :: string
  v_Status :: VersionStatus
  v_HealthySince :: "go_time option"
  v_Deployment :: "ref_ptr option"
  v_TaskQueues :: "TaskQueue list"
  v_ManagedBy :: string

type_synonym CurrentWorkerDeploymentVersion = BaseWorkerDeploymentVersion

record TargetWorkerDeploymentVersion = BaseWorkerDeploymentVersion +
  v_TestWorkflows :: "WorkflowExecution list"
  v_RampPercentage :: "float32 option"
  v_RampingSince :: "go_time option"
  v_RampLastModifiedAt :: "go_time option"

record DeprecatedWorkerDeploymentVersion = BaseWorkerDeploymentVersion +
  v_DrainedSince :: "go_time option"
  v_EligibleForDeletion :: bool

record TemporalWorkerDeploymentStatus =
  st_TargetVersion :: TargetWorkerDeploymentVersion
  st_CurrentVersion :: "CurrentWorkerDeploymentVersion option"
  st_DeprecatedVersions :: "DeprecatedWorkerDeploymentVersion list"
  st_VersionConflictToken :: string
  st_LastModifierIdentity :: string
  st_VersionCount :: int32

record TemporalWorkerDeployment =
  twd_TypeMeta :: TypeMeta
  twd_ObjectMeta :: ObjectMeta
  twd_Spec :: TemporalWorkerDeploymentSpec
  twd_Status :: TemporalWorkerDeploymentStatus

abbreviation twd_Name :: "TemporalWorkerDeployment \<Rightarrow> string" where
  "twd_Name w \<equiv> om_Name (twd_ObjectMeta w)"

abbreviation twd_Namespace :: "TemporalWorkerDeployment \<Rightarrow> string" where
  "twd_Namespace w \<equiv> om_Namespace (twd_ObjectMeta w)"

section \<open>The state of the worker's Deployments in the cluster\<close>

text \<open>
  \<open>k8s.DeploymentState\<close> (\<^verbatim>\<open>internal/k8s/deployments.go\<close>). Its \<open>Deployments\<close> map holds pointers to
  the listed objects, one per build ID, and the planner updates the objects through them:
  the build ID is the address, the map is the store.
\<close>

type_synonym dep_ptr = string

record DeploymentState =
  ks_Deployments :: "(string, Deployment) go_map"
  ks_DeploymentsByTime :: "Deployment list"
  ks_DeploymentRefs :: "(string, ref_ptr) go_map"

end
