(* ===== verification/Samples.thy ===== *)
theory Samples
  imports Api_Types
begin

text \<open>
  Concrete resources at which the witnesses of the component theories are evaluated: a worker
  deployment with one container and a two-step progressive rollout, a connection with a TLS
  secret, and a Deployment of one version. They model no code.
\<close>

definition sample_container :: Container where
  "sample_container =
     \<lparr>ctr_Name = ''worker'', ctr_Image = ''app:v1'', ctr_Env = [], ctr_VolumeMounts = [], ctr_rest = []\<rparr>"

definition sample_template :: PodTemplateSpec where
  "sample_template =
     \<lparr>pt_Labels = Some [(''app'', ''w'')], pt_Annotations = None,
      pt_Spec = \<lparr>ps_Containers = [sample_container], ps_Volumes = [], ps_rest = []\<rparr>, pt_rest = []\<rparr>"

definition sample_steps :: "RolloutStep list" where
  "sample_steps =
     [\<lparr>step_RampPercentage = 10, step_PauseDuration = 30 * Second\<rparr>,
      \<lparr>step_RampPercentage = 50, step_PauseDuration = 60 * Second\<rparr>]"

definition sample_rollout :: RolloutStrategy where
  "sample_rollout = \<lparr>rs_Strategy = UpdateProgressive, rs_Gate = None, rs_Steps = sample_steps\<rparr>"

definition sample_spec :: TemporalWorkerDeploymentSpec where
  "sample_spec =
     \<lparr>spec_Replicas = Some 3, spec_Template = sample_template, spec_MinReadySeconds = 0,
      spec_ProgressDeadlineSeconds = None, spec_RolloutStrategy = sample_rollout,
      spec_SunsetStrategy = \<lparr>ss_ScaledownDelay = Some Hour, ss_DeleteDelay = Some (24 * Hour)\<rparr>,
      spec_WorkerOptions =
        \<lparr>wo_TemporalConnectionRef = \<lparr>tcr_Name = ''conn''\<rparr>, wo_TemporalNamespace = ''tns'',
         wo_UnsafeCustomBuildID = []\<rparr>\<rparr>"

definition sample_meta :: ObjectMeta where
  "sample_meta =
     \<lparr>om_Name = ''foo'', om_Namespace = ''ns'', om_UID = ''u1'', om_Labels = None, om_Annotations = None,
      om_OwnerReferences = [], om_CreationTimestamp = 0, om_ResourceVersion = []\<rparr>"

definition sample_target :: TargetWorkerDeploymentVersion where
  "sample_target =
     \<lparr>v_BuildID = ''v2'', v_Status = VersionStatusInactive, v_HealthySince = None, v_Deployment = None,
      v_TaskQueues = [], v_ManagedBy = [], v_TestWorkflows = [], v_RampPercentage = None,
      v_RampingSince = None, v_RampLastModifiedAt = None\<rparr>"

definition sample_current :: CurrentWorkerDeploymentVersion where
  "sample_current =
     \<lparr>v_BuildID = ''v1'', v_Status = VersionStatusCurrent, v_HealthySince = Some 0, v_Deployment = None,
      v_TaskQueues = [], v_ManagedBy = []\<rparr>"

definition sample_status :: TemporalWorkerDeploymentStatus where
  "sample_status =
     \<lparr>st_TargetVersion = sample_target, st_CurrentVersion = Some sample_current,
      st_DeprecatedVersions = [], st_VersionConflictToken = ''tok'', st_LastModifierIdentity = [],
      st_VersionCount = 2\<rparr>"

definition sample_twd :: TemporalWorkerDeployment where
  "sample_twd =
     \<lparr>twd_TypeMeta = \<lparr>tm_APIVersion = ''temporal.io/v1alpha1'', tm_Kind = ''TemporalWorkerDeployment''\<rparr>,
      twd_ObjectMeta = sample_meta, twd_Spec = sample_spec, twd_Status = sample_status\<rparr>"

definition sample_connection :: TemporalConnectionSpec where
  "sample_connection =
     \<lparr>tc_HostPort = ''host:7233'', tc_MutualTLSSecretRef = Some \<lparr>sr_Name = ''tls''\<rparr>, tc_APIKeySecretRef = None\<rparr>"

definition sample_deployment :: "string \<Rightarrow> int32 option \<Rightarrow> Deployment" where
  "sample_deployment buildID replicas =
     \<lparr>d_TypeMeta = \<lparr>tm_APIVersion = [], tm_Kind = []\<rparr>,
      d_ObjectMeta = sample_meta
        \<lparr>om_Name := ''foo-'' @ buildID, om_Labels := Some [(''temporal.io/build-id'', buildID)]\<rparr>,
      d_Spec =
        \<lparr>ds_Replicas = replicas, ds_Selector = Some (Some [(''temporal.io/build-id'', buildID)]),
         ds_Template = sample_template\<lparr>pt_Annotations := Some []\<rparr>, ds_MinReadySeconds = 0, ds_rest = []\<rparr>,
      d_Status = \<lparr>dst_Replicas = 0, dst_Conditions = []\<rparr>\<rparr>"

definition sample_ref :: "nat \<Rightarrow> ref_ptr" where
  "sample_ref a =
     (a, \<lparr>ref_APIVersion = [], ref_Kind = [], ref_Name = [], ref_Namespace = ''ns'', ref_UID = [],
          ref_ResourceVersion = [], ref_FieldPath = []\<rparr>)"

lemmas sample_defs = sample_container_def sample_template_def sample_steps_def sample_rollout_def
  sample_spec_def sample_meta_def sample_target_def sample_current_def sample_status_def
  sample_twd_def sample_connection_def sample_deployment_def sample_ref_def

end
