(* ===== verification/Webhook.thy ===== *)
theory Webhook
  imports Samples
begin

text \<open>
  The admission webhook of the TemporalWorkerDeployment resource
  (\<^verbatim>\<open>api/v1alpha1/temporalworker_webhook.go\<close>, \<^verbatim>\<open>internal/defaults/defaults.go\<close>): defaulting of the
  sunset delays and validation of the name, the rollout steps and the gate input. The
  reconciler runs both on every pass, so what they establish is what the planner may rely
  on; the locale \<open>rollout_validator\<close> states that promise.
\<close>

section \<open>Defaults\<close>

definition defaults_ScaledownDelay :: duration where
  "defaults_ScaledownDelay = 1 * Hour"

definition defaults_DeleteDelay :: duration where
  "defaults_DeleteDelay = 24 * Hour"

definition defaults_ServerMaxVersions :: int where
  "defaults_ServerMaxVersions = 100"

text \<open>\<open>int32(ServerMaxVersions * 0.75)\<close>, a constant expression that is exact.\<close>

definition defaults_MaxVersionsIneligibleForDeletion :: int32 where
  "defaults_MaxVersionsIneligibleForDeletion = word_of_int (defaults_ServerMaxVersions * 75 div 100)"

definition defaults_ControllerIdentity :: string where
  "defaults_ControllerIdentity = ''temporal-worker-controller''"

text \<open>An object handed to the webhook, by its dynamic type.\<close>

datatype runtime_object = ObjTWD TemporalWorkerDeployment | ObjOther

datatype field_error =
    NameTooLong string
  | StepsRequired
  | PauseTooShort nat duration
  | RampNotIncreasing nat int
  | GateInputAndInputFrom
  | GateInputFromNotExactlyOne

datatype webhook_error = BadRequest | Invalid string "field_error list"

definition Spec_Default :: "TemporalWorkerDeploymentSpec \<Rightarrow> TemporalWorkerDeploymentSpec" where
  "Spec_Default s =
     (let s1 = (if ss_ScaledownDelay (spec_SunsetStrategy s) = None
                then s\<lparr>spec_SunsetStrategy := (spec_SunsetStrategy s)
                         \<lparr>ss_ScaledownDelay := Some defaults_ScaledownDelay\<rparr>\<rparr>
                else s)
      in if ss_DeleteDelay (spec_SunsetStrategy s1) = None
         then s1\<lparr>spec_SunsetStrategy := (spec_SunsetStrategy s1)
                   \<lparr>ss_DeleteDelay := Some defaults_DeleteDelay\<rparr>\<rparr>
         else s1)"

definition TWD_Default :: "runtime_object \<Rightarrow> webhook_error + TemporalWorkerDeployment" where
  "TWD_Default obj =
     (case obj of
        ObjTWD dep \<Rightarrow> Inr (dep\<lparr>twd_Spec := Spec_Default (twd_Spec dep)\<rparr>)
      | ObjOther \<Rightarrow> Inl BadRequest)"

section \<open>Validation\<close>

definition maxTemporalWorkerDeploymentNameLen :: nat where
  "maxTemporalWorkerDeploymentNameLen = 63"

text \<open>The loop over the steps, with the index and the last ramp seen.\<close>

fun validateSteps :: "nat \<Rightarrow> int \<Rightarrow> RolloutStep list \<Rightarrow> field_error list" where
  "validateSteps i lastRamp [] = []"
| "validateSteps i lastRamp (s # ss) =
     (if step_PauseDuration s < 30 * Second then [PauseTooShort i (step_PauseDuration s)] else [])
     @ (if step_RampPercentage s \<le> lastRamp then [RampNotIncreasing i (step_RampPercentage s)] else [])
     @ validateSteps (Suc i) (step_RampPercentage s) ss"

definition validateGate :: "GateWorkflowConfig option \<Rightarrow> field_error list" where
  "validateGate g =
     (case g of
        None \<Rightarrow> []
      | Some gate \<Rightarrow>
          (if gate_Input gate \<noteq> None \<and> gate_InputFrom gate \<noteq> None then [GateInputAndInputFrom] else [])
          @ (case gate_InputFrom gate of
               None \<Rightarrow> []
             | Some src \<Rightarrow>
                 let cm = gi_ConfigMapKeyRef src; sec = gi_SecretKeyRef src
                 in if (cm = None \<and> sec = None) \<or> (cm \<noteq> None \<and> sec \<noteq> None)
                    then [GateInputFromNotExactlyOne] else []))"

definition validateRolloutStrategy :: "RolloutStrategy \<Rightarrow> field_error list" where
  "validateRolloutStrategy s =
     (if rs_Strategy s = UpdateProgressive
      then (if rs_Steps s = [] then [StepsRequired] else []) @ validateSteps 0 0 (rs_Steps s)
      else [])
     @ validateGate (rs_Gate s)"

definition validateForUpdateOrCreate :: "TemporalWorkerDeployment \<Rightarrow> webhook_error + unit" where
  "validateForUpdateOrCreate new =
     (let allErrs = (if length (twd_Name new) > maxTemporalWorkerDeploymentNameLen
                     then [NameTooLong (twd_Name new)] else [])
                    @ validateRolloutStrategy (spec_RolloutStrategy (twd_Spec new))
      in if allErrs \<noteq> [] then Inl (Invalid (twd_Name new) allErrs) else Inr ())"

definition TWD_validateForUpdateOrCreate :: "runtime_object \<Rightarrow> webhook_error + unit" where
  "TWD_validateForUpdateOrCreate obj =
     (case obj of ObjTWD dep \<Rightarrow> validateForUpdateOrCreate dep | ObjOther \<Rightarrow> Inl BadRequest)"

definition ValidateCreate :: "runtime_object \<Rightarrow> webhook_error + unit" where
  "ValidateCreate obj = TWD_validateForUpdateOrCreate obj"

definition ValidateUpdate :: "runtime_object \<Rightarrow> runtime_object \<Rightarrow> webhook_error + unit" where
  "ValidateUpdate oldObj newObj = TWD_validateForUpdateOrCreate newObj"

definition ValidateDelete :: "runtime_object \<Rightarrow> webhook_error + unit" where
  "ValidateDelete obj = Inr ()"

lemmas validate_defs = ValidateCreate_def ValidateUpdate_def TWD_validateForUpdateOrCreate_def
  validateForUpdateOrCreate_def validateRolloutStrategy_def

section \<open>What the validator accepts\<close>

definition ramps :: "RolloutStep list \<Rightarrow> int list" where
  "ramps steps = map step_RampPercentage steps"

lemma ramps_simps [simp]:
  "ramps [] = []"
  "ramps (s # ss) = step_RampPercentage s # ramps ss"
  "length (ramps ss) = length ss"
  by (simp_all add: ramps_def)

definition steps_ok :: "int \<Rightarrow> RolloutStep list \<Rightarrow> bool" where
  "steps_ok lo steps \<longleftrightarrow>
     sorted_wrt (<) (lo # ramps steps) \<and> (\<forall>s \<in> set steps. 30 * Second \<le> step_PauseDuration s)"

definition gate_ok :: "GateWorkflowConfig \<Rightarrow> bool" where
  "gate_ok gate \<longleftrightarrow>
     (case gate_InputFrom gate of
        None \<Rightarrow> True
      | Some src \<Rightarrow> gate_Input gate = None \<and> (gi_ConfigMapKeyRef src = None) \<noteq> (gi_SecretKeyRef src = None))"

lemma sorted_wrt_less_Cons2:
  "sorted_wrt (<) ((x::int) # y # zs) \<longleftrightarrow> x < y \<and> sorted_wrt (<) (y # zs)"
  by (auto intro: less_trans)

lemma validateSteps_Nil_iff: "validateSteps i lo steps = [] \<longleftrightarrow> steps_ok lo steps"
proof (induction steps arbitrary: i lo)
  case Nil
  then show ?case by (simp add: steps_ok_def)
next
  case (Cons s steps)
  then show ?case
    by (auto simp: steps_ok_def sorted_wrt_less_Cons2 simp del: sorted_wrt.simps(2) split: if_splits)
qed

lemma validateGate_Nil_iff: "validateGate g = [] \<longleftrightarrow> (\<forall>gate. g = Some gate \<longrightarrow> gate_ok gate)"
  by (auto simp: validateGate_def gate_ok_def Let_def split: option.splits if_splits)

lemma validateRolloutStrategy_Nil_iff:
  "validateRolloutStrategy s = [] \<longleftrightarrow>
     (rs_Strategy s = UpdateProgressive \<longrightarrow> rs_Steps s \<noteq> [] \<and> steps_ok 0 (rs_Steps s))
     \<and> (\<forall>gate. rs_Gate s = Some gate \<longrightarrow> gate_ok gate)"
  by (auto simp: validateRolloutStrategy_def validateSteps_Nil_iff validateGate_Nil_iff)

text \<open>
  The contract a validator of rollout strategies offers to the code that acts on them.
\<close>

locale rollout_validator =
  fixes accepts :: "RolloutStrategy \<Rightarrow> bool"
  assumes accepts_steps: "accepts s \<Longrightarrow> rs_Strategy s = UpdateProgressive \<Longrightarrow>
      rs_Steps s \<noteq> [] \<and> steps_ok 0 (rs_Steps s)"
    and accepts_gate: "accepts s \<Longrightarrow> rs_Gate s = Some gate \<Longrightarrow> gate_ok gate"
begin

lemma accepts_positive:
  "accepts s \<Longrightarrow> rs_Strategy s = UpdateProgressive \<Longrightarrow> x \<in> set (ramps (rs_Steps s)) \<Longrightarrow> 0 < x"
  using accepts_steps [of s] by (auto simp: steps_ok_def)

lemma accepts_increasing:
  "accepts s \<Longrightarrow> rs_Strategy s = UpdateProgressive \<Longrightarrow> sorted_wrt (<) (ramps (rs_Steps s))"
  using accepts_steps [of s] by (auto simp: steps_ok_def)

lemma accepts_distinct:
  "accepts s \<Longrightarrow> rs_Strategy s = UpdateProgressive \<Longrightarrow> distinct (ramps (rs_Steps s))"
  using accepts_increasing strict_sorted_iff by blast

lemma accepts_pause:
  "accepts s \<Longrightarrow> rs_Strategy s = UpdateProgressive \<Longrightarrow> st \<in> set (rs_Steps s) \<Longrightarrow>
   30 * Second \<le> step_PauseDuration st"
  using accepts_steps [of s] by (auto simp: steps_ok_def)

end

interpretation wh: rollout_validator "\<lambda>s. validateRolloutStrategy s = []"
  by unfold_locales (auto simp: validateRolloutStrategy_Nil_iff)

section \<open>Properties\<close>

text \<open>
  C35 (functional). The validator accepts a resource exactly when its name has at most 63
  bytes, a Progressive rollout has at least one step with ramps that strictly increase from
  above 0 and pauses of at least 30 seconds, and a gate takes its input from at most one
  place, which names exactly one of a ConfigMap key and a Secret key. This is what the code checks, and the documentation differs in two
  places: the comment of \<open>RampPercentage\<close> bounds ramps by 99, which only the schema of the resource does, not the validator; and
  \<^verbatim>\<open>docs/configuration.md\<close> gives a last step of 100 percent without a pause as an example, which the validator rejects.
\<close>

theorem ValidateCreate_iff:
  "ValidateCreate (ObjTWD w) = Inr () \<longleftrightarrow>
     length (twd_Name w) \<le> 63
     \<and> (rs_Strategy (spec_RolloutStrategy (twd_Spec w)) = UpdateProgressive \<longrightarrow>
          rs_Steps (spec_RolloutStrategy (twd_Spec w)) \<noteq> []
          \<and> sorted_wrt (<) (0 # ramps (rs_Steps (spec_RolloutStrategy (twd_Spec w))))
          \<and> (\<forall>s \<in> set (rs_Steps (spec_RolloutStrategy (twd_Spec w))). 30 * Second \<le> step_PauseDuration s))
     \<and> (\<forall>gate. rs_Gate (spec_RolloutStrategy (twd_Spec w)) = Some gate \<longrightarrow> gate_ok gate)"
  using validateRolloutStrategy_Nil_iff [of "spec_RolloutStrategy (twd_Spec w)"]
  by (simp add: ValidateCreate_def TWD_validateForUpdateOrCreate_def validateForUpdateOrCreate_def
      Let_def maxTemporalWorkerDeploymentNameLen_def steps_ok_def)

theorem ValidateCreate_iff_witness:
  "ValidateCreate (ObjTWD sample_twd) = Inr ()"
  using ValidateCreate_iff [of sample_twd]
  by (simp add: sample_defs ramps_def duration_units)

text \<open>The two differences, at concrete steps: the documented canary rollout is rejected, and a ramp of 250 percent is accepted.\<close>

lemma documented_canary_rejected:
  "validateRolloutStrategy
     \<lparr>rs_Strategy = UpdateProgressive, rs_Gate = None,
      rs_Steps = [\<lparr>step_RampPercentage = 1, step_PauseDuration = 30 * Minute\<rparr>,
                  \<lparr>step_RampPercentage = 100, step_PauseDuration = 0\<rparr>]\<rparr> \<noteq> []"
  by (simp add: validateRolloutStrategy_Nil_iff steps_ok_def duration_units)

lemma no_upper_bound:
  "validateRolloutStrategy
     \<lparr>rs_Strategy = UpdateProgressive, rs_Gate = None,
      rs_Steps = [\<lparr>step_RampPercentage = 250, step_PauseDuration = Minute\<rparr>]\<rparr> = []"
  by (simp add: validateRolloutStrategy_Nil_iff steps_ok_def ramps_def duration_units)

text \<open>
  Defaulting fills exactly the sunset delays that are not set (one hour to
  scale down, 24 hours to delete), keeps every delay the user set and every other field, and
  a second pass changes nothing.
\<close>

theorem Spec_Default_spec:
  "ss_ScaledownDelay (spec_SunsetStrategy (Spec_Default s))
     = Some (case ss_ScaledownDelay (spec_SunsetStrategy s) of None \<Rightarrow> Hour | Some d \<Rightarrow> d)
   \<and> ss_DeleteDelay (spec_SunsetStrategy (Spec_Default s))
     = Some (case ss_DeleteDelay (spec_SunsetStrategy s) of None \<Rightarrow> 24 * Hour | Some d \<Rightarrow> d)
   \<and> (Spec_Default s)\<lparr>spec_SunsetStrategy := spec_SunsetStrategy s\<rparr> = s
   \<and> Spec_Default (Spec_Default s) = Spec_Default s"
  by (cases "ss_ScaledownDelay (spec_SunsetStrategy s)"; cases "ss_DeleteDelay (spec_SunsetStrategy s)")
     (simp_all add: Spec_Default_def Let_def defaults_ScaledownDelay_def defaults_DeleteDelay_def)

end
