(* ===== verification/Naming.thy ===== *)
theory Naming
  imports Samples
begin

text \<open>
  Names and sanitising (\<^verbatim>\<open>internal/k8s/deployments.go\<close>: \<open>TruncateString\<close>, \<open>CleanStringForDNS\<close>,
  \<open>cleanBuildID\<close>, \<open>ComputeWorkerDeploymentName\<close>, \<open>ComputeVersionedDeploymentName\<close>). A Go string
  is its bytes. The two regular expressions are negated character classes under \<open>+\<close>, and
  \<open>ReplaceAllString\<close> replaces each maximal run of characters outside the class by one
  separator: \<open>replace_runs\<close>. Every byte of a rune outside ASCII is outside both classes, so
  working on bytes and on runes gives the same result.

  The facts about sanitising hold for any class that contains the separator: they are
  proved once, in the locale \<open>sanitizer\<close>, and interpreted for both classes.
\<close>

definition ResourceNameSeparator :: string where
  "ResourceNameSeparator = ''-''"

definition WorkerDeploymentNameSeparator :: string where
  "WorkerDeploymentNameSeparator = ''/''"

definition MaxBuildIdLen :: int where
  "MaxBuildIdLen = 63"

definition alnum :: "char \<Rightarrow> bool" where
  "alnum c \<longleftrightarrow> (let n = of_char c :: nat in
     (97 \<le> n \<and> n \<le> 122) \<or> (65 \<le> n \<and> n \<le> 90) \<or> (48 \<le> n \<and> n \<le> 57))"

definition dns_char :: "char \<Rightarrow> bool" where
  "dns_char c \<longleftrightarrow> alnum c \<or> c = CHR ''-''"

definition build_id_char :: "char \<Rightarrow> bool" where
  "build_id_char c \<longleftrightarrow> alnum c \<or> c = CHR ''-'' \<or> c = CHR ''.'' \<or> c = CHR ''_''"

text \<open>\<open>regexp.MustCompile(`[^...]+`).ReplaceAllString(s, \"-\")\<close> for the class \<open>ok\<close>.\<close>

function replace_runs :: "(char \<Rightarrow> bool) \<Rightarrow> string \<Rightarrow> string" where
  "replace_runs ok [] = []"
| "replace_runs ok (c # cs) =
     (if ok c then c # replace_runs ok cs
      else CHR ''-'' # replace_runs ok (dropWhile (\<lambda>x. \<not> ok x) cs))"
  by pat_completeness auto
termination replace_runs
  by (relation "measure (\<lambda>(ok, s). length s)") (auto simp: less_Suc_eq_le length_dropWhile_le)

text \<open>\<open>strings.Trim(s, cutset)\<close> for the set of characters \<open>cutset\<close>.\<close>

definition Trim :: "(char \<Rightarrow> bool) \<Rightarrow> string \<Rightarrow> string" where
  "Trim cutset s = rev (dropWhile cutset (rev (dropWhile cutset s)))"

definition separator_char :: "char \<Rightarrow> bool" where
  "separator_char c \<longleftrightarrow> c = CHR ''-'' \<or> c = CHR ''.'' \<or> c = CHR ''_''"

definition TruncateString :: "string \<Rightarrow> int \<Rightarrow> string" where
  "TruncateString s n = (if int (length s) > n \<and> n > 0 then take (nat n) s else s)"

definition CleanStringForDNS :: "string \<Rightarrow> string" where
  "CleanStringForDNS s = replace_runs dns_char s"

definition cleanBuildID :: "string \<Rightarrow> string" where
  "cleanBuildID s = Trim separator_char (replace_runs build_id_char s)"

definition ComputeWorkerDeploymentName :: "TemporalWorkerDeployment \<Rightarrow> string" where
  "ComputeWorkerDeploymentName w = twd_Namespace w @ WorkerDeploymentNameSeparator @ twd_Name w"

definition ComputeVersionedDeploymentName :: "string \<Rightarrow> string \<Rightarrow> string" where
  "ComputeVersionedDeploymentName baseName buildID =
     CleanStringForDNS (baseName @ ResourceNameSeparator @ buildID)"

section \<open>Truncation and trimming\<close>

lemma TruncateString_length: "0 < n \<Longrightarrow> int (length (TruncateString s n)) \<le> n"
  by (auto simp: TruncateString_def)

lemma TruncateString_take: "0 < n \<Longrightarrow> TruncateString s n = take (nat n) s"
  by (auto simp: TruncateString_def)

lemma TruncateString_id: "int (length s) \<le> n \<Longrightarrow> TruncateString s n = s"
  by (simp add: TruncateString_def)

lemma set_TruncateString: "set (TruncateString s n) \<subseteq> set s"
  by (auto simp: TruncateString_def dest: in_set_takeD)

lemma set_Trim: "set (Trim cutset s) \<subseteq> set s"
  unfolding Trim_def by (metis set_dropWhileD set_rev subsetI)

lemma length_Trim: "length (Trim cutset s) \<le> length s"
  unfolding Trim_def by (metis length_dropWhile_le length_rev order_trans)

lemma Trim_ends:
  assumes "Trim cutset s \<noteq> []"
  shows "\<not> cutset (hd (Trim cutset s)) \<and> \<not> cutset (last (Trim cutset s))"
proof -
  let ?t = "dropWhile cutset s"
  have ne: "dropWhile cutset (rev ?t) \<noteq> []" using assms by (simp add: Trim_def)
  have "last (Trim cutset s) = hd (dropWhile cutset (rev ?t))"
    by (simp add: Trim_def last_rev ne)
  with hd_dropWhile [OF ne] have l: "\<not> cutset (last (Trim cutset s))" by simp
  obtain p where p: "rev ?t = p @ dropWhile cutset (rev ?t)"
    by (metis takeWhile_dropWhile_id)
  have "?t = Trim cutset s @ rev p"
    using arg_cong [OF p, of rev] by (simp add: Trim_def)
  moreover from this assms have "?t \<noteq> []" by auto
  ultimately have "hd (Trim cutset s) = hd ?t" using assms by (metis hd_append2)
  with hd_dropWhile [OF \<open>?t \<noteq> []\<close>] l show ?thesis by simp
qed

lemma Trim_id:
  assumes "s \<noteq> [] \<Longrightarrow> \<not> cutset (hd s) \<and> \<not> cutset (last s)"
  shows "Trim cutset s = s"
proof (cases "s = []")
  case True
  then show ?thesis by (simp add: Trim_def)
next
  case False
  with assms have "dropWhile cutset s = s" "dropWhile cutset (rev s) = rev s"
    by (auto simp: dropWhile_eq_self_iff hd_rev)
  then show ?thesis by (simp add: Trim_def)
qed

lemma Trim_idem: "Trim cutset (Trim cutset s) = Trim cutset s"
  by (rule Trim_id) (rule Trim_ends)

section \<open>Sanitising by a character class\<close>

locale sanitizer =
  fixes ok :: "char \<Rightarrow> bool"
  assumes ok_separator: "ok CHR ''-''"
begin

lemma clean_chars: "c \<in> set (replace_runs ok s) \<Longrightarrow> ok c"
proof (induction s rule: length_induct)
  case (1 s)
  show ?case
  proof (cases s)
    case Nil
    with 1 show ?thesis by simp
  next
    case (Cons d cs)
    moreover have "length (dropWhile (\<lambda>x. \<not> ok x) cs) < length s"
      using Cons length_dropWhile_le [of _ cs] by (simp add: less_Suc_eq_le)
    ultimately show ?thesis using 1 ok_separator by (auto split: if_splits)
  qed
qed

lemma clean_length: "length (replace_runs ok s) \<le> length s"
proof (induction s rule: length_induct)
  case (1 s)
  show ?case
  proof (cases s)
    case Nil
    then show ?thesis by simp
  next
    case (Cons c cs)
    have "length (replace_runs ok cs) \<le> length cs"
      using 1 Cons by simp
    moreover have "length (replace_runs ok (dropWhile (\<lambda>x. \<not> ok x) cs)) \<le> length cs"
      using 1 Cons length_dropWhile_le [of "\<lambda>x. \<not> ok x" cs]
      by (metis length_Cons less_Suc_eq_le order_trans)
    ultimately show ?thesis using Cons by simp
  qed
qed

lemma clean_id: "(\<And>c. c \<in> set s \<Longrightarrow> ok c) \<Longrightarrow> replace_runs ok s = s"
  by (induction s) auto

lemma clean_id_iff: "replace_runs ok s = s \<longleftrightarrow> (\<forall>c \<in> set s. ok c)"
  using clean_chars clean_id by metis

lemma clean_idem: "replace_runs ok (replace_runs ok s) = replace_runs ok s"
  by (rule clean_id) (rule clean_chars)

lemma clean_eq_Nil_iff: "replace_runs ok s = [] \<longleftrightarrow> s = []"
  by (cases s) auto

lemma clean_append_ok: "(\<And>c. c \<in> set t \<Longrightarrow> ok c) \<Longrightarrow> replace_runs ok (s @ t) = replace_runs ok s @ t"
proof (induction s rule: length_induct)
  case (1 s)
  show ?case
  proof (cases s)
    case Nil
    with 1 show ?thesis by (simp add: clean_id)
  next
    case (Cons c cs)
    let ?d = "dropWhile (\<lambda>x. \<not> ok x)"
    have drop: "replace_runs ok (?d (cs @ t)) = replace_runs ok (?d cs) @ t"
    proof (cases "\<exists>x \<in> set cs. ok x")
      case True
      then have "?d (cs @ t) = ?d cs @ t" by (auto simp: dropWhile_append1)
      moreover have "length (?d cs) < length s" using Cons length_dropWhile_le [of _ cs] by (simp add: less_Suc_eq_le)
      ultimately show ?thesis using 1 by simp
    next
      case False
      then have e1: "?d cs = []" and "?d (cs @ t) = ?d t"
        by (simp_all add: dropWhile_append2 dropWhile_eq_Nil_conv)
      moreover have "?d t = t" using "1.prems" by (cases t) auto
      ultimately have e2: "?d (cs @ t) = t" by simp
      have "replace_runs ok t = t" using "1.prems" by (rule clean_id)
      then show ?thesis by (simp only: e1 e2 replace_runs.simps append_Nil)
    qed
    have "replace_runs ok (cs @ t) = replace_runs ok cs @ t" using 1 Cons by simp
    with drop Cons show ?thesis by simp
  qed
qed

end

interpretation dns: sanitizer dns_char
  by unfold_locales (simp add: dns_char_def)

interpretation bid: sanitizer build_id_char
  by unfold_locales (simp add: build_id_char_def)

lemma alnum_not_separator: "alnum c \<Longrightarrow> \<not> separator_char c"
  by (auto simp: alnum_def separator_char_def)

lemma build_id_char_not_separator: "build_id_char c \<Longrightarrow> \<not> separator_char c \<Longrightarrow> alnum c"
  by (auto simp: build_id_char_def separator_char_def)

section \<open>Build IDs as Kubernetes label values\<close>

text \<open>
  The syntax of a label value, from the comment above \<open>cleanBuildID\<close>: at most 63 characters;
  unless empty, it begins and ends with an alphanumeric character, with alphanumerics,
  dashes, underscores and dots in between.
\<close>

definition label_syntax :: "string \<Rightarrow> bool" where
  "label_syntax s \<longleftrightarrow>
     (\<forall>c \<in> set s. build_id_char c) \<and> (s \<noteq> [] \<longrightarrow> alnum (hd s) \<and> alnum (last s))"

definition valid_label :: "string \<Rightarrow> bool" where
  "valid_label s \<longleftrightarrow> length s \<le> 63 \<and> label_syntax s"

lemma cleanBuildID_chars: "c \<in> set (cleanBuildID s) \<Longrightarrow> build_id_char c"
  using set_Trim [of separator_char "replace_runs build_id_char s"] bid.clean_chars
  by (auto simp: cleanBuildID_def)

lemma cleanBuildID_length: "length (cleanBuildID s) \<le> length s"
  using length_Trim [of separator_char "replace_runs build_id_char s"] bid.clean_length [of s]
  by (simp add: cleanBuildID_def)

lemma cleanBuildID_label_syntax: "label_syntax (cleanBuildID s)"
proof -
  let ?r = "cleanBuildID s"
  have "alnum (hd ?r) \<and> alnum (last ?r)" if "?r \<noteq> []"
  proof -
    have "\<not> separator_char (hd ?r)" "\<not> separator_char (last ?r)"
      using Trim_ends that unfolding cleanBuildID_def by blast+
    moreover have "build_id_char (hd ?r)" "build_id_char (last ?r)"
      using that cleanBuildID_chars hd_in_set last_in_set by blast+
    ultimately show ?thesis by (simp add: build_id_char_not_separator)
  qed
  then show ?thesis using cleanBuildID_chars by (auto simp: label_syntax_def)
qed

lemma cleanBuildID_id_iff: "cleanBuildID s = s \<longleftrightarrow> label_syntax s"
proof
  assume "cleanBuildID s = s"
  then show "label_syntax s" using cleanBuildID_label_syntax [of s] by simp
next
  assume s: "label_syntax s"
  then have "replace_runs build_id_char s = s"
    by (auto simp: label_syntax_def intro: bid.clean_id)
  moreover have "Trim separator_char s = s"
    using s by (intro Trim_id) (auto simp: label_syntax_def alnum_not_separator)
  ultimately show "cleanBuildID s = s" by (simp add: cleanBuildID_def)
qed

end
