(* ===== verification/Digest.thy ===== *)
theory Digest
  imports Naming
begin

unbundle bit_operations_syntax

text \<open>
  Hashes and digests: \<open>utils.ComputeHash\<close> (\<^verbatim>\<open>internal/controller/k8s.io/utils/utils.go\<close>) and
  \<open>ComputeConnectionSpecHash\<close>, \<open>ComputePodTemplateSpecHash\<close> (\<^verbatim>\<open>internal/k8s/deployments.go\<close>).
  From Go's standard library the code uses FNV-1a (32 bit), SHA-256, hexadecimal encoding and
  zero-padded decimal formatting, which are defined here on words and strings. Code outside
  the repository is a parameter (\<open>third_party\<close>): the spew printer, the safe encoding of
  apimachinery's \<open>rand\<close> package, the group/version string of an object's kind and the image
  reference parser of distribution/reference.
\<close>

section \<open>Third-party code the names depend on\<close>

text \<open>
  A parsed image reference, by the interfaces its value implements: \<open>reference.Tagged\<close>,
  \<open>reference.Digested\<close>, \<open>reference.Named\<close>.
\<close>

record parsed_reference =
  pr_Tag :: "string option"
  pr_DigestHex :: "string option"
  pr_Path :: "string option"

record third_party =
  tp_spew :: "PodTemplateSpec \<Rightarrow> string"
  tp_SafeEncodeString :: "string \<Rightarrow> string"
  tp_ParseReference :: "string \<Rightarrow> parsed_reference option"
  tp_GroupVersionString :: "string \<Rightarrow> string"

text \<open>
  What the code relies on of \<open>rand.SafeEncodeString\<close>: it encodes byte by byte, into
  alphanumeric characters.
\<close>

definition safe_encoding :: "third_party \<Rightarrow> bool" where
  "safe_encoding tp \<longleftrightarrow>
     (\<forall>s. length (tp_SafeEncodeString tp s) = length s \<and> (\<forall>c \<in> set (tp_SafeEncodeString tp s). alnum c))"

section \<open>FNV-1a and the pod template hash\<close>

definition fnv32a_step :: "char \<Rightarrow> 32 word \<Rightarrow> 32 word" where
  "fnv32a_step c h = (h XOR of_char c) * 16777619"

definition fnv32a_Write :: "string \<Rightarrow> 32 word \<Rightarrow> 32 word" where
  "fnv32a_Write bs h = fold fnv32a_step bs h"

definition fnv32a_init :: "32 word" where
  "fnv32a_init = 2166136261"

text \<open>\<open>deepHashObject\<close>: reset the hasher, then write the printed object.\<close>

definition deepHashObject :: "third_party \<Rightarrow> PodTemplateSpec \<Rightarrow> 32 word" where
  "deepHashObject tp template = fnv32a_Write (tp_spew tp template) fnv32a_init"

fun digits :: "nat \<Rightarrow> string" where
  "digits n = (if n < 10 then [char_of (48 + n)] else digits (n div 10) @ [char_of (48 + n mod 10)])"

declare digits.simps [simp del]

text \<open>\<open>fmt.Sprintf(\"%0<w>d\", n)\<close>\<close>

definition pad_decimal :: "nat \<Rightarrow> nat \<Rightarrow> string" where
  "pad_decimal w n = (let ds = digits n in replicate (w - length ds) (CHR ''0'') @ ds)"

text \<open>\<open>binary.LittleEndian.PutUint32\<close> into the first four of eight zero bytes.\<close>

definition collision_bytes :: "int32 \<Rightarrow> string" where
  "collision_bytes n =
     map (\<lambda>i. char_of (unat (drop_bit (8 * i) n AND 255) :: nat)) [0..<4] @ replicate 4 (char_of (0::nat))"

definition ComputeHash :: "third_party \<Rightarrow> PodTemplateSpec \<Rightarrow> int32 option \<Rightarrow> bool \<Rightarrow> string" where
  "ComputeHash tp template collisionCount short =
     (let h0 = deepHashObject tp template;
          h = (case collisionCount of None \<Rightarrow> h0 | Some n \<Rightarrow> fnv32a_Write (collision_bytes n) h0)
      in if short then tp_SafeEncodeString tp (pad_decimal 4 (unat h mod 10000))
         else tp_SafeEncodeString tp (pad_decimal 10 (unat h mod 10000)))"

lemma length_digits: "n < 10 ^ Suc k \<Longrightarrow> length (digits n) \<le> Suc k"
proof (induction k arbitrary: n)
  case 0
  then show ?case by (simp add: digits.simps [of n])
next
  case (Suc k)
  show ?case
  proof (cases "n < 10")
    case True
    then show ?thesis by (simp add: digits.simps [of n])
  next
    case False
    have "n div 10 < 10 ^ Suc k" using Suc.prems by (simp add: less_mult_imp_div_less mult.commute)
    from Suc.IH [OF this] False show ?thesis by (simp add: digits.simps [of n])
  qed
qed

lemma length_pad_decimal: "n < 10000 \<Longrightarrow> 4 \<le> w \<Longrightarrow> length (pad_decimal w n) = w"
  using length_digits [of n 3] by (simp add: pad_decimal_def Let_def)

lemma length_ComputeHash:
  assumes "safe_encoding tp"
  shows "length (ComputeHash tp t cc short) = (if short then 4 else 10)"
  using assms by (simp add: ComputeHash_def Let_def safe_encoding_def length_pad_decimal)

lemma ComputeHash_alnum:
  assumes "safe_encoding tp" and "c \<in> set (ComputeHash tp t cc short)"
  shows "alnum c"
  using assms by (auto simp: ComputeHash_def Let_def safe_encoding_def split: if_splits)

section \<open>SHA-256\<close>

definition rotr :: "nat \<Rightarrow> 32 word \<Rightarrow> 32 word" where
  "rotr n x = drop_bit n x OR push_bit (32 - n) x"

definition sha_Ch :: "32 word \<Rightarrow> 32 word \<Rightarrow> 32 word \<Rightarrow> 32 word" where
  "sha_Ch x y z = (x AND y) XOR (NOT x AND z)"

definition sha_Maj :: "32 word \<Rightarrow> 32 word \<Rightarrow> 32 word \<Rightarrow> 32 word" where
  "sha_Maj x y z = (x AND y) XOR (x AND z) XOR (y AND z)"

definition sha_S0 :: "32 word \<Rightarrow> 32 word" where
  "sha_S0 x = rotr 2 x XOR rotr 13 x XOR rotr 22 x"

definition sha_S1 :: "32 word \<Rightarrow> 32 word" where
  "sha_S1 x = rotr 6 x XOR rotr 11 x XOR rotr 25 x"

definition sha_s0 :: "32 word \<Rightarrow> 32 word" where
  "sha_s0 x = rotr 7 x XOR rotr 18 x XOR drop_bit 3 x"

definition sha_s1 :: "32 word \<Rightarrow> 32 word" where
  "sha_s1 x = rotr 17 x XOR rotr 19 x XOR drop_bit 10 x"

definition sha_K :: "32 word list" where
  "sha_K =
    [1116352408, 1899447441, 3049323471, 3921009573, 961987163, 1508970993, 2453635748, 2870763221,
     3624381080, 310598401, 607225278, 1426881987, 1925078388, 2162078206, 2614888103, 3248222580,
     3835390401, 4022224774, 264347078, 604807628, 770255983, 1249150122, 1555081692, 1996064986,
     2554220882, 2821834349, 2952996808, 3210313671, 3336571891, 3584528711, 113926993, 338241895,
     666307205, 773529912, 1294757372, 1396182291, 1695183700, 1986661051, 2177026350, 2456956037,
     2730485921, 2820302411, 3259730800, 3345764771, 3516065817, 3600352804, 4094571909, 275423344,
     430227734, 506948616, 659060556, 883997877, 958139571, 1322822218, 1537002063, 1747873779,
     1955562222, 2024104815, 2227730452, 2361852424, 2428436474, 2756734187, 3204031479, 3329325298]"

type_synonym sha_state =
  "32 word \<times> 32 word \<times> 32 word \<times> 32 word \<times> 32 word \<times> 32 word \<times> 32 word \<times> 32 word"

definition sha_init :: sha_state where
  "sha_init = (1779033703, 3144134277, 1013904242, 2773480762, 1359893119, 2600822924, 528734635, 1541459225)"

definition sha_round :: "32 word \<times> 32 word \<Rightarrow> sha_state \<Rightarrow> sha_state" where
  "sha_round kw st =
     (case (kw, st) of ((k, w), (a, b, c, d, e, f, g, h)) \<Rightarrow>
        let t1 = h + sha_S1 e + sha_Ch e f g + k + w;
            t2 = sha_S0 a + sha_Maj a b c
        in (t1 + t2, a, b, c, d + t1, e, f, g))"

text \<open>The message schedule, the newest word first: one new word from the last sixteen.\<close>

definition sha_next :: "32 word list \<Rightarrow> 32 word list" where
  "sha_next ws = (sha_s1 (ws ! 1) + ws ! 6 + sha_s0 (ws ! 14) + ws ! 15) # ws"

definition sha_schedule :: "32 word list \<Rightarrow> 32 word list" where
  "sha_schedule block = rev ((sha_next ^^ 48) (rev block))"

definition sha_add :: "sha_state \<Rightarrow> sha_state \<Rightarrow> sha_state" where
  "sha_add x y =
     (case (x, y) of ((a, b, c, d, e, f, g, h), (a', b', c', d', e', f', g', h')) \<Rightarrow>
        (a + a', b + b', c + c', d + d', e + e', f + f', g + g', h + h'))"

definition sha_compress :: "32 word list \<Rightarrow> sha_state \<Rightarrow> sha_state" where
  "sha_compress block st = sha_add st (fold sha_round (zip sha_K (sha_schedule block)) st)"

definition byte_be :: "nat \<Rightarrow> nat \<Rightarrow> nat" where
  "byte_be i n = (n div 256 ^ i) mod 256"

definition sha_pad :: "nat list \<Rightarrow> nat list" where
  "sha_pad m =
     m @ [128] @ replicate (nat ((55 - int (length m)) mod 64)) 0
       @ map (\<lambda>i. byte_be i (8 * length m)) (rev [0..<8])"

fun be_words :: "nat list \<Rightarrow> 32 word list" where
  "be_words (a # b # c # d # bs) = of_nat (((a * 256 + b) * 256 + c) * 256 + d) # be_words bs"
| "be_words bs = []"

function sha_blocks :: "32 word list \<Rightarrow> sha_state \<Rightarrow> sha_state" where
  "sha_blocks ws st =
     (if length ws < 16 then st else sha_blocks (drop 16 ws) (sha_compress (take 16 ws) st))"
  by pat_completeness auto
termination sha_blocks
  by (relation "measure (\<lambda>(ws, st). length ws)") auto

declare sha_blocks.simps [simp del]

definition word_bytes :: "32 word \<Rightarrow> nat list" where
  "word_bytes w = map (\<lambda>i. byte_be i (unat w)) [3, 2, 1, 0]"

definition state_words :: "sha_state \<Rightarrow> 32 word list" where
  "state_words st = (case st of (a, b, c, d, e, f, g, h) \<Rightarrow> [a, b, c, d, e, f, g, h])"

definition sha256_Sum :: "string \<Rightarrow> nat list" where
  "sha256_Sum s =
     concat (map word_bytes (state_words (sha_blocks (be_words (sha_pad (map of_char s))) sha_init)))"

definition hex_digit :: "nat \<Rightarrow> char" where
  "hex_digit n = (if n < 10 then char_of (48 + n) else char_of (87 + n))"

definition hex_EncodeToString :: "nat list \<Rightarrow> string" where
  "hex_EncodeToString bs = concat (map (\<lambda>b. [hex_digit (b div 16), hex_digit (b mod 16)]) bs)"

definition sha256_hex :: "string \<Rightarrow> string" where
  "sha256_hex s = hex_EncodeToString (sha256_Sum s)"

lemma length_hex: "length (hex_EncodeToString bs) = 2 * length bs"
  by (induction bs) (auto simp: hex_EncodeToString_def)

lemma length_concat_word_bytes: "length (concat (map word_bytes ws)) = 4 * length ws"
  by (induction ws) (auto simp: word_bytes_def)

lemma length_state_words: "length (state_words st) = 8"
  by (cases st) (simp add: state_words_def split: prod.split)

lemma length_sha256_hex: "length (sha256_hex s) = 64"
  by (simp add: sha256_hex_def length_hex sha256_Sum_def length_concat_word_bytes length_state_words)

lemma sha256_hex_not_Nil: "sha256_hex s \<noteq> []"
  using length_sha256_hex [of s] by auto

lemma hex_digit_ok: "n < 16 \<Longrightarrow> alnum (hex_digit n)"
  by (auto simp: hex_digit_def alnum_def)

lemma hex_alnum:
  assumes "\<And>b. b \<in> set bs \<Longrightarrow> b < 256" and "c \<in> set (hex_EncodeToString bs)"
  shows "alnum c"
proof -
  from assms(2) obtain b where b: "b \<in> set bs" and "c = hex_digit (b div 16) \<or> c = hex_digit (b mod 16)"
    by (auto simp: hex_EncodeToString_def)
  moreover from assms(1) [OF b] have "b div 16 < 16" by simp
  ultimately show ?thesis by (auto intro: hex_digit_ok)
qed

lemma word_bytes_lt: "b \<in> set (word_bytes w) \<Longrightarrow> b < 256"
  by (auto simp: word_bytes_def byte_be_def)

lemma sha256_hex_alnum: "c \<in> set (sha256_hex s) \<Longrightarrow> alnum c"
  unfolding sha256_hex_def sha256_Sum_def by (rule hex_alnum) (auto dest: word_bytes_lt)

section \<open>The annotations of a Deployment\<close>

text \<open>What is written to the hasher for a connection: the host, then the secret's name.\<close>

definition connection_bytes :: "TemporalConnectionSpec \<Rightarrow> string" where
  "connection_bytes connection =
     tc_HostPort connection
     @ (case tc_MutualTLSSecretRef connection of
          Some r \<Rightarrow> sr_Name r
        | None \<Rightarrow> (case tc_APIKeySecretRef connection of Some k \<Rightarrow> sk_Name k | None \<Rightarrow> []))"

definition ComputeConnectionSpecHash :: "TemporalConnectionSpec \<Rightarrow> string" where
  "ComputeConnectionSpecHash connection =
     (if tc_HostPort connection = [] then [] else sha256_hex (connection_bytes connection))"

definition ComputePodTemplateSpecHash :: "third_party \<Rightarrow> PodTemplateSpec \<Rightarrow> string" where
  "ComputePodTemplateSpecHash tp template = sha256_hex (tp_spew tp template)"

lemma ComputeConnectionSpecHash_Nil_iff:
  "ComputeConnectionSpecHash c = [] \<longleftrightarrow> tc_HostPort c = []"
  by (simp add: ComputeConnectionSpecHash_def sha256_hex_not_Nil)

lemma ComputePodTemplateSpecHash_not_Nil [simp]: "ComputePodTemplateSpecHash tp t \<noteq> []"
  by (simp add: ComputePodTemplateSpecHash_def sha256_hex_not_Nil)

end
