(* ===== verification/Go_IO.thy ===== *)
theory Go_IO
  imports Api_Types
begin

text \<open>
  Code that talks to the Kubernetes API server or to Temporal. A computation reads and advances
  a \<open>world\<close>: the clock, and the record of the requests that change something, each with the
  error it got. What a remote call answers is a parameter of the model, a function of the
  request and of the whole world at that moment, together with the time the call takes, so the
  answers may change from one attempt to the next. A computation that never returns is \<open>None\<close>;
  one that returns gives a value, a Go error or a panic.
\<close>

section \<open>Requests, the world, outcomes\<close>

text \<open>The options of \<open>ExecuteWorkflow\<close> that differ between calls, with the input if there is one.\<close>

record start_workflow_request =
  sw_ID :: string
  sw_TaskQueue :: string
  sw_PinnedDeployment :: string
  sw_PinnedBuildId :: string
  sw_WorkflowType :: string
  sw_Input :: "string option"

datatype api_call =
    CreateDeployment Deployment
  | DeleteDeployment Deployment
  | ScaleDeployment ObjectMeta int32
  | UpdateDeployment Deployment
  | UpdateStatus TemporalWorkerDeployment
  | ExecuteWorkflow start_workflow_request
  | SetCurrentVersion string string string string          \<comment> \<open>deployment, build ID, conflict token, identity\<close>
  | SetRampingVersion string string float32 string string  \<comment> \<open>deployment, build ID, percentage, token, identity\<close>
  | UpsertVersionMetadata string string "(string \<times> string) list"
  | RemoveVersionMetadata string string "string list"

record world =
  w_now :: go_time
  w_calls :: "(api_call \<times> api_error option) list"

datatype 'a outcome = Ok 'a | Err api_error | Panic go_panic

type_synonym 'a io = "world \<Rightarrow> ('a outcome \<times> world) option"

text \<open>A remote call: its answer and how long it takes.\<close>

type_synonym 'a remote = "world \<Rightarrow> (api_error + 'a) \<times> nat"

section \<open>Sequencing\<close>

definition io_return :: "'a \<Rightarrow> 'a io" where
  "io_return x = (\<lambda>w. Some (Ok x, w))"

definition io_fail :: "api_error \<Rightarrow> 'a io" where
  "io_fail e = (\<lambda>w. Some (Err e, w))"

definition io_panic :: "go_panic \<Rightarrow> 'a io" where
  "io_panic p = (\<lambda>w. Some (Panic p, w))"

definition io_bind :: "'a io \<Rightarrow> ('a \<Rightarrow> 'b io) \<Rightarrow> 'b io" where
  "io_bind m f = (\<lambda>w.
     case m w of
       None \<Rightarrow> None
     | Some (Ok x, w') \<Rightarrow> f x w'
     | Some (Err e, w') \<Rightarrow> Some (Err e, w')
     | Some (Panic p, w') \<Rightarrow> Some (Panic p, w'))"

fun io_fold :: "('a \<Rightarrow> 's \<Rightarrow> 's io) \<Rightarrow> 'a list \<Rightarrow> 's \<Rightarrow> 's io" where
  "io_fold f [] s = io_return s"
| "io_fold f (x # xs) s = io_bind (f x s) (io_fold f xs)"

text \<open>\<open>if err != nil { return err }\<close> for an error that is a value.\<close>

definition io_lift :: "api_error + 'a \<Rightarrow> 'a io" where
  "io_lift r = (case r of Inl e \<Rightarrow> io_fail e | Inr x \<Rightarrow> io_return x)"

definition io_total :: "'a io \<Rightarrow> bool" where
  "io_total m \<longleftrightarrow> (\<forall>w. m w \<noteq> None)"

section \<open>Remote calls and the clock\<close>

text \<open>A call that only reads: it takes time.\<close>

definition io_read :: "'a remote \<Rightarrow> (api_error + 'a) io" where
  "io_read f = (\<lambda>w. Some (Ok (fst (f w)), w\<lparr>w_now := w_now w + int (snd (f w))\<rparr>))"

text \<open>A call that changes something: it is recorded with its outcome.\<close>

definition io_write :: "(api_call \<Rightarrow> 'a remote) \<Rightarrow> api_call \<Rightarrow> (api_error + 'a) io" where
  "io_write f c = (\<lambda>w.
     Some (Ok (fst (f c w)),
           w\<lparr>w_now := w_now w + int (snd (f c w)),
              w_calls := w_calls w @ [(c, case fst (f c w) of Inl e \<Rightarrow> Some e | Inr _ \<Rightarrow> None)]\<rparr>))"

definition io_now :: "go_time io" where
  "io_now = (\<lambda>w. Some (Ok (w_now w), w))"

text \<open>\<open>fmt.Errorf(\"...: %w\", err)\<close> keeps what \<open>errors.As\<close> can tell of the wrapped error.\<close>

definition wrap_error :: "string \<Rightarrow> api_error \<Rightarrow> api_error" where
  "wrap_error prefix e = e\<lparr>err_text := prefix @ '': '' @ err_text e\<rparr>"

definition new_error :: "string \<Rightarrow> api_error" where
  "new_error txt = \<lparr>err_kind = ErrOther, err_text = txt\<rparr>"

definition map_error :: "string \<Rightarrow> api_error + 'a \<Rightarrow> api_error + 'a" where
  "map_error prefix r = (case r of Inl e \<Rightarrow> Inl (wrap_error prefix e) | Inr x \<Rightarrow> Inr x)"

lemma err_kind_wrap [simp]: "err_kind (wrap_error p e) = err_kind e"
  by (simp add: wrap_error_def)

lemma err_kind_new [simp]: "err_kind (new_error t) = ErrOther"
  by (simp add: new_error_def)

lemma map_error_simps [simp]:
  "map_error p (Inr x) = Inr x" "map_error p (Inl e) = Inl (wrap_error p e)"
  by (simp_all add: map_error_def)

section \<open>Laws\<close>

named_theorems io_simps \<open>equations that run a computation on a world\<close>
named_theorems io_intros \<open>rules for computations that return\<close>

lemma io_run [io_simps]:
  "io_return x w = Some (Ok x, w)"
  "io_fail e w = Some (Err e, w)"
  "io_panic p w = Some (Panic p, w)"
  "io_now w = Some (Ok (w_now w), w)"
  "io_lift (Inl e) = io_fail e"
  "io_lift (Inr x) = io_return x"
  by (simp_all add: io_return_def io_fail_def io_panic_def io_now_def io_lift_def)

lemma io_bind_simps [io_simps]:
  "m w = Some (Ok x, w') \<Longrightarrow> io_bind m f w = f x w'"
  "m w = Some (Err e, w') \<Longrightarrow> io_bind m f w = Some (Err e, w')"
  "m w = Some (Panic p, w') \<Longrightarrow> io_bind m f w = Some (Panic p, w')"
  by (simp_all add: io_bind_def)

lemma io_bind_return [simp]:
  "io_bind (io_return x) f = f x"
  "io_bind (io_fail e) f = io_fail e"
  "io_bind (io_panic p) f = io_panic p"
  by (simp_all add: io_bind_def io_return_def io_fail_def io_panic_def fun_eq_iff)

lemma io_bind_assoc: "io_bind (io_bind m f) g = io_bind m (\<lambda>x. io_bind (f x) g)"
  by (auto simp: io_bind_def fun_eq_iff split: option.splits prod.splits outcome.splits)

lemma io_bind_OkE:
  assumes "io_bind m f w = Some (Ok y, w')"
  obtains x w1 where "m w = Some (Ok x, w1)" and "f x w1 = Some (Ok y, w')"
  using assms by (auto simp: io_bind_def split: option.splits outcome.splits)

lemma io_lift_Ok: "io_lift r w = Some (Ok x, w') \<longleftrightarrow> r = Inr x \<and> w' = w"
  by (cases r) (auto simp: io_run)

lemma io_return_Ok [simp]: "io_return x w = Some (Ok y, w') \<longleftrightarrow> y = x \<and> w' = w"
  by (auto simp: io_run)

lemma io_fail_Ok [simp]: "io_fail e w = Some (Ok y, w') \<longleftrightarrow> False"
  by (simp add: io_run)

lemma io_panic_Ok [simp]: "io_panic p w = Some (Ok y, w') \<longleftrightarrow> False"
  by (simp add: io_run)

lemma io_fold_append: "io_fold f (xs @ ys) s = io_bind (io_fold f xs s) (io_fold f ys)"
proof (induction xs arbitrary: s)
  case (Cons x xs)
  then have "io_fold f (xs @ ys) = (\<lambda>s. io_bind (io_fold f xs s) (io_fold f ys))" by blast
  then show ?case by (simp add: io_bind_assoc)
qed simp

text \<open>The invariant rule for a loop of remote calls.\<close>

lemma io_fold_invariant:
  assumes "io_fold f xs s w = Some (Ok t, w')" and "P s"
    and "\<And>x s s' w w'. x \<in> set xs \<Longrightarrow> P s \<Longrightarrow> f x s w = Some (Ok s', w') \<Longrightarrow> P s'"
  shows "P t"
  using assms
proof (induction xs arbitrary: s w)
  case Nil
  then show ?case by simp
next
  case (Cons x xs)
  from Cons.prems(1) obtain s1 w1 where s1: "f x s w = Some (Ok s1, w1)"
    and rest: "io_fold f xs s1 w1 = Some (Ok t, w')"
    by (auto elim: io_bind_OkE)
  have "P s1" using Cons.prems(3) [OF _ Cons.prems(2) s1] by simp
  then show ?case by (rule Cons.IH [OF rest]) (rule Cons.prems(3); simp)
qed

lemma io_total_basic [simp, io_intros]:
  "io_total (io_return x)" "io_total (io_fail e)" "io_total (io_panic p)" "io_total (io_lift r)"
  "io_total (io_read f)" "io_total (io_write g c)" "io_total io_now"
  by (simp_all add: io_total_def io_run io_read_def io_write_def io_lift_def split: sum.splits)

lemma io_total_bind [io_intros]:
  assumes "io_total m" and "\<And>x. io_total (f x)"
  shows "io_total (io_bind m f)"
  using assms by (fastforce simp: io_total_def io_bind_def split: option.splits outcome.splits)

lemma io_total_fold [io_intros]:
  assumes "\<And>x s. io_total (f x s)"
  shows "io_total (io_fold f xs s)"
  using assms by (induction xs arbitrary: s) (auto intro: io_total_bind)

lemma io_total_if [io_intros]: "io_total m \<Longrightarrow> io_total n \<Longrightarrow> io_total (if b then m else n)"
  by simp

text \<open>
  Computations that only read and always return a value, which has a given property: the
  judgement the proofs about remote reads are carried out in.
\<close>

definition io_gives :: "'a io \<Rightarrow> ('a \<Rightarrow> bool) \<Rightarrow> bool" where
  "io_gives m P \<longleftrightarrow> (\<forall>w. \<exists>x w'. m w = Some (Ok x, w') \<and> w_calls w' = w_calls w \<and> P x)"

abbreviation io_ok :: "'a io \<Rightarrow> bool" where
  "io_ok m \<equiv> io_gives m (\<lambda>_. True)"

lemma io_givesE:
  assumes "io_gives m P"
  obtains x w' where "m w = Some (Ok x, w')" and "w_calls w' = w_calls w" and "P x"
  using assms unfolding io_gives_def by blast

lemma io_gives_mono:
  assumes "io_gives m P" and "\<And>x. P x \<Longrightarrow> Q x"
  shows "io_gives m Q"
  using assms unfolding io_gives_def by blast

lemma io_gives_return [io_intros]: "P x \<Longrightarrow> io_gives (io_return x) P"
  by (simp add: io_gives_def io_run)

lemma io_gives_read [io_intros]: "io_ok (io_read f)"
  by (simp add: io_gives_def io_read_def)

lemma io_gives_bind:
  assumes "io_gives m Q" and "\<And>x. Q x \<Longrightarrow> io_gives (f x) P"
  shows "io_gives (io_bind m f) P"
  unfolding io_gives_def
proof
  fix w
  obtain x w1 where "m w = Some (Ok x, w1)" "w_calls w1 = w_calls w" "Q x"
    by (rule io_givesE [OF assms(1)])
  moreover from \<open>Q x\<close> obtain y w2 where "f x w1 = Some (Ok y, w2)" "w_calls w2 = w_calls w1" "P y"
    by (rule io_givesE [OF assms(2)])
  ultimately show "\<exists>x w'. io_bind m f w = Some (Ok x, w') \<and> w_calls w' = w_calls w \<and> P x"
    by (simp add: io_bind_simps(1))
qed

lemma io_gives_ok_bind [io_intros]: "io_ok m \<Longrightarrow> (\<And>x. io_gives (f x) P) \<Longrightarrow> io_gives (io_bind m f) P"
  by (rule io_gives_bind)

lemma io_gives_sum [io_intros]:
  "(\<And>e. r = Inl e \<Longrightarrow> io_gives (f e) P) \<Longrightarrow> (\<And>x. r = Inr x \<Longrightarrow> io_gives (g x) P)
   \<Longrightarrow> io_gives (case r of Inl e \<Rightarrow> f e | Inr x \<Rightarrow> g x) P"
  by (cases r) auto

lemma io_gives_option [io_intros]:
  "(r = None \<Longrightarrow> io_gives m P) \<Longrightarrow> (\<And>x. r = Some x \<Longrightarrow> io_gives (g x) P)
   \<Longrightarrow> io_gives (case r of None \<Rightarrow> m | Some x \<Rightarrow> g x) P"
  by (cases r) auto

lemma io_gives_if [io_intros]:
  "(b \<Longrightarrow> io_gives m P) \<Longrightarrow> (\<not> b \<Longrightarrow> io_gives n P) \<Longrightarrow> io_gives (if b then m else n) P"
  by simp

lemma io_gives_fold:
  assumes "I s" and "\<And>x s. x \<in> set xs \<Longrightarrow> I s \<Longrightarrow> io_gives (f x s) I"
  shows "io_gives (io_fold f xs s) I"
  using assms
proof (induction xs arbitrary: s)
  case Nil
  then show ?case by (simp add: io_gives_return)
next
  case (Cons x xs)
  then show ?case by (auto intro!: io_gives_bind [where Q = I])
qed

lemma io_ok_fold [io_intros]: "(\<And>x s. io_ok (f x s)) \<Longrightarrow> io_ok (io_fold f xs s)"
  by (rule io_gives_fold) auto

text \<open>
  Computations that return, with any outcome, and change nothing remotely; the code before the
  first write and between two writes is of this kind.
\<close>

definition io_quiet :: "'a io \<Rightarrow> bool" where
  "io_quiet m \<longleftrightarrow> (\<forall>w. \<exists>r w'. m w = Some (r, w') \<and> w_calls w' = w_calls w)"

lemma io_quietE:
  assumes "io_quiet m"
  obtains r w' where "m w = Some (r, w')" and "w_calls w' = w_calls w"
  using assms unfolding io_quiet_def by blast

lemma io_gives_quiet: "io_gives m P \<Longrightarrow> io_quiet m"
  unfolding io_gives_def io_quiet_def by blast

lemma io_quiet_basic [simp, io_intros]:
  "io_quiet (io_return x)" "io_quiet (io_fail e)" "io_quiet (io_panic p)" "io_quiet (io_lift r)"
  "io_quiet (io_read f)" "io_quiet io_now"
  by (simp_all add: io_quiet_def io_run io_read_def io_lift_def split: sum.splits)

lemma io_quiet_bind [io_intros]:
  assumes "io_quiet m" and "\<And>x. io_quiet (f x)"
  shows "io_quiet (io_bind m f)"
  unfolding io_quiet_def
proof
  fix w
  obtain r w1 where m: "m w = Some (r, w1)" "w_calls w1 = w_calls w" by (rule io_quietE [OF assms(1)])
  show "\<exists>r w'. io_bind m f w = Some (r, w') \<and> w_calls w' = w_calls w"
  proof (cases r)
    case (Ok x)
    obtain r' w2 where "f x w1 = Some (r', w2)" "w_calls w2 = w_calls w1" by (rule io_quietE [OF assms(2)])
    with m Ok show ?thesis by (simp add: io_bind_def)
  qed (use m in \<open>simp_all add: io_bind_def\<close>)
qed

lemma io_quiet_cases [io_intros]:
  "(\<And>e. io_quiet (f e)) \<Longrightarrow> (\<And>x. io_quiet (g x)) \<Longrightarrow> io_quiet (case r of Inl e \<Rightarrow> f e | Inr x \<Rightarrow> g x)"
  "io_quiet m \<Longrightarrow> (\<And>x. io_quiet (h x)) \<Longrightarrow> io_quiet (case q of None \<Rightarrow> m | Some x \<Rightarrow> h x)"
  "io_quiet m \<Longrightarrow> io_quiet n \<Longrightarrow> io_quiet (if b then m else n)"
  "(\<And>x y. io_quiet (k x y)) \<Longrightarrow> io_quiet (case z of (x, y) \<Rightarrow> k x y)"
  by (simp_all split: sum.splits option.splits prod.splits)

end
