(* ===== verification/K8s_Deployments.thy ===== *)
theory K8s_Deployments
  imports Digest Go_IO
begin

text \<open>
  The package \<^verbatim>\<open>internal/k8s\<close> (\<^verbatim>\<open>deployments.go\<close>): reading the Deployments of a worker into a
  \<open>DeploymentState\<close>, health, build IDs, and the construction of a versioned Deployment. The
  list call to the API server and \<open>ctrl.SetControllerReference\<close> are parameters.
\<close>

definition DeployOwnerKey :: string where "DeployOwnerKey = ''.metadata.controller''"
definition BuildIDLabel :: string where "BuildIDLabel = ''temporal.io/build-id''"
definition twdNameLabel :: string where "twdNameLabel = ''temporal.io/deployment-name''"
definition ConnectionSpecHashAnnotation :: string where
  "ConnectionSpecHashAnnotation = ''temporal.io/connection-spec-hash''"
definition PodTemplateSpecHashAnnotation :: string where
  "PodTemplateSpecHashAnnotation = ''temporal.io/pod-template-spec-hash''"

lemmas label_defs = BuildIDLabel_def twdNameLabel_def
lemmas annotation_defs = ConnectionSpecHashAnnotation_def PodTemplateSpecHashAnnotation_def

lemma keys_distinct [simp]:
  "BuildIDLabel \<noteq> twdNameLabel" "twdNameLabel \<noteq> BuildIDLabel"
  "ConnectionSpecHashAnnotation \<noteq> PodTemplateSpecHashAnnotation"
  "PodTemplateSpecHashAnnotation \<noteq> ConnectionSpecHashAnnotation"
  by (simp_all add: label_defs annotation_defs)

section \<open>The Deployments of a worker\<close>

definition NewObjectRef :: "third_party \<Rightarrow> Deployment \<Rightarrow> ObjectReference" where
  "NewObjectRef tp obj =
     \<lparr>ref_APIVersion = tp_GroupVersionString tp (tm_APIVersion (d_TypeMeta obj)),
      ref_Kind = tm_Kind (d_TypeMeta obj),
      ref_Name = om_Name (d_ObjectMeta obj),
      ref_Namespace = om_Namespace (d_ObjectMeta obj),
      ref_UID = om_UID (d_ObjectMeta obj),
      ref_ResourceVersion = [], ref_FieldPath = []\<rparr>"

definition deployment_build_id :: "Deployment \<Rightarrow> string option" where
  "deployment_build_id d = map_get (nil_map (om_Labels (d_ObjectMeta d))) BuildIDLabel"

text \<open>The body of the loop over the sorted list; \<open>addr\<close> is the address of the new reference.\<close>

definition track_deployment :: "third_party \<Rightarrow> nat \<times> Deployment \<Rightarrow> DeploymentState \<Rightarrow> DeploymentState" where
  "track_deployment tp item state =
     (let (addr, deploy) = item
      in case deployment_build_id deploy of
           None \<Rightarrow> state
         | Some buildID \<Rightarrow>
             state\<lparr>ks_Deployments := map_put buildID deploy (ks_Deployments state),
                   ks_DeploymentsByTime := ks_DeploymentsByTime state @ [deploy],
                   ks_DeploymentRefs := map_put buildID (addr, NewObjectRef tp deploy) (ks_DeploymentRefs state)\<rparr>)"

definition empty_DeploymentState :: DeploymentState where
  "empty_DeploymentState = \<lparr>ks_Deployments = [], ks_DeploymentsByTime = [], ks_DeploymentRefs = []\<rparr>"

definition creation_time :: "Deployment \<Rightarrow> go_time" where
  "creation_time d = om_CreationTimestamp (d_ObjectMeta d)"

text \<open>\<open>listed\<close> is the answer of \<open>k8sClient.List\<close>; \<open>sort_key\<close> is a stable sort, as \<open>sort.SliceStable\<close>.\<close>

definition GetDeploymentState ::
  "third_party \<Rightarrow> api_error + Deployment list \<Rightarrow> api_error + DeploymentState" where
  "GetDeploymentState tp listed =
     bindE (map_error ''unable to list child deployments'' listed) (\<lambda>items.
       let sorted = sort_key creation_time items
       in Inr (fold (track_deployment tp) (enumerate 0 sorted) empty_DeploymentState))"

definition IsDeploymentHealthy :: "Deployment \<Rightarrow> bool \<times> go_time option" where
  "IsDeploymentHealthy deployment =
     (case find (\<lambda>c. dc_Type c = ''Available'' \<and> dc_Status c = ''True'') (dst_Conditions (d_Status deployment)) of
        Some c \<Rightarrow> (True, Some (dc_LastTransitionTime c))
      | None \<Rightarrow> (False, None))"

section \<open>Build IDs\<close>

definition computeImagePrefix :: "third_party \<Rightarrow> string \<Rightarrow> int \<Rightarrow> string" where
  "computeImagePrefix tp s maxLen =
     (let s' = (case tp_ParseReference tp s of
                  None \<Rightarrow> s
                | Some ref \<Rightarrow>
                    (case pr_Tag ref of
                       Some t \<Rightarrow> t
                     | None \<Rightarrow>
                         (case pr_DigestHex ref of
                            Some h \<Rightarrow> h
                          | None \<Rightarrow> (case pr_Path ref of Some p \<Rightarrow> p | None \<Rightarrow> s))))
      in TruncateString s' maxLen)"

definition default_build_id :: "third_party \<Rightarrow> PodTemplateSpec \<Rightarrow> string" where
  "default_build_id tp template =
     (case ps_Containers (pt_Spec template) of
        c # _ \<Rightarrow>
          if ctr_Image c \<noteq> [] then
            let shortHashSuffix = ResourceNameSeparator @ ComputeHash tp template None True;
                maxImgLen = MaxBuildIdLen - int (length shortHashSuffix);
                imagePrefix = computeImagePrefix tp (ctr_Image c) maxImgLen
            in cleanBuildID (imagePrefix @ shortHashSuffix)
          else ComputeHash tp template None False
      | [] \<Rightarrow> ComputeHash tp template None False)"

definition ComputeBuildID :: "third_party \<Rightarrow> TemporalWorkerDeployment \<Rightarrow> string" where
  "ComputeBuildID tp w =
     (let override = wo_UnsafeCustomBuildID (spec_WorkerOptions (twd_Spec w));
          cleaned = cleanBuildID override
      in if override \<noteq> [] \<and> cleaned \<noteq> [] then TruncateString cleaned MaxBuildIdLen
         else default_build_id tp (spec_Template (twd_Spec w)))"

section \<open>The pod spec of a version\<close>

definition env_value :: "string \<Rightarrow> string \<Rightarrow> EnvVar" where
  "env_value n v = \<lparr>ev_Name = n, ev_Value = v, ev_ValueFrom = None\<rparr>"

definition base_env :: "TemporalConnectionSpec \<Rightarrow> string \<Rightarrow> string \<Rightarrow> string \<Rightarrow> EnvVar list" where
  "base_env connection temporalNamespace workerDeploymentName buildID =
     [env_value ''TEMPORAL_ADDRESS'' (tc_HostPort connection),
      env_value ''TEMPORAL_NAMESPACE'' temporalNamespace,
      env_value ''TEMPORAL_DEPLOYMENT_NAME'' workerDeploymentName,
      env_value ''TEMPORAL_WORKER_BUILD_ID'' buildID]"

definition tls_env :: "EnvVar list" where
  "tls_env =
     [env_value ''TEMPORAL_TLS'' ''true'',
      env_value ''TEMPORAL_TLS_CLIENT_KEY_PATH'' ''/etc/temporal/tls/tls.key'',
      env_value ''TEMPORAL_TLS_CLIENT_CERT_PATH'' ''/etc/temporal/tls/tls.crt'']"

definition tls_mount :: VolumeMount where
  "tls_mount = \<lparr>vm_Name = ''temporal-tls'', vm_MountPath = ''/etc/temporal/tls'', vm_rest = []\<rparr>"

definition tls_volume :: "string \<Rightarrow> Volume" where
  "tls_volume secretName =
     \<lparr>vol_Name = ''temporal-tls'',
      vol_Secret = Some \<lparr>sv_SecretName = secretName, sv_rest = []\<rparr>,
      vol_rest = []\<rparr>"

definition api_key_env :: "SecretKeySelector \<Rightarrow> EnvVar" where
  "api_key_env sel =
     \<lparr>ev_Name = ''TEMPORAL_API_KEY'', ev_Value = [], ev_ValueFrom = Some (SecretKeyRefSource sel)\<rparr>"

definition append_env :: "EnvVar list \<Rightarrow> Container \<Rightarrow> Container" where
  "append_env es c = c\<lparr>ctr_Env := ctr_Env c @ es\<rparr>"

definition append_mount :: "VolumeMount \<Rightarrow> Container \<Rightarrow> Container" where
  "append_mount m c = c\<lparr>ctr_VolumeMounts := ctr_VolumeMounts c @ [m]\<rparr>"

definition map_containers :: "(Container \<Rightarrow> Container) \<Rightarrow> PodSpec \<Rightarrow> PodSpec" where
  "map_containers f ps = ps\<lparr>ps_Containers := map f (ps_Containers ps)\<rparr>"

definition ApplyControllerPodSpecModifications ::
  "PodSpec \<Rightarrow> TemporalConnectionSpec \<Rightarrow> string \<Rightarrow> string \<Rightarrow> string \<Rightarrow> PodSpec" where
  "ApplyControllerPodSpecModifications podSpec connection temporalNamespace workerDeploymentName buildID =
     (let ps = map_containers
                 (append_env (base_env connection temporalNamespace workerDeploymentName buildID)) podSpec
      in case tc_MutualTLSSecretRef connection of
           Some r \<Rightarrow>
             let ps' = map_containers (\<lambda>c. append_mount tls_mount (append_env tls_env c)) ps
             in ps'\<lparr>ps_Volumes := ps_Volumes ps' @ [tls_volume (sr_Name r)]\<rparr>
         | None \<Rightarrow>
             (case tc_APIKeySecretRef connection of
                Some sel \<Rightarrow> map_containers (append_env [api_key_env sel]) ps
              | None \<Rightarrow> ps))"

section \<open>A new Deployment\<close>

definition selector_labels :: "string \<Rightarrow> string \<Rightarrow> (string, string) go_map" where
  "selector_labels name buildID =
     [(twdNameLabel, TruncateString (CleanStringForDNS name) 63), (BuildIDLabel, TruncateString buildID 63)]"

definition pod_annotations ::
  "third_party \<Rightarrow> PodTemplateSpec \<Rightarrow> TemporalConnectionSpec \<Rightarrow> (string, string) go_map" where
  "pod_annotations tp template connection =
     map_put PodTemplateSpecHashAnnotation (ComputePodTemplateSpecHash tp template)
       (map_put ConnectionSpecHashAnnotation (ComputeConnectionSpecHash connection)
         (map_copy (nil_map (pt_Annotations template)) []))"

definition NewDeploymentWithOwnerRef ::
  "third_party \<Rightarrow> TypeMeta \<Rightarrow> ObjectMeta \<Rightarrow> TemporalWorkerDeploymentSpec \<Rightarrow> string \<Rightarrow> string
   \<Rightarrow> TemporalConnectionSpec \<Rightarrow> Deployment" where
  "NewDeploymentWithOwnerRef tp typeMeta objectMeta spec workerDeploymentName buildID connection =
     (let selectorLabels = selector_labels (om_Name objectMeta) buildID;
          podLabels = map_copy selectorLabels (map_copy (nil_map (pt_Labels (spec_Template spec))) []);
          podSpec = ApplyControllerPodSpecModifications (pt_Spec (spec_Template spec)) connection
                      (wo_TemporalNamespace (spec_WorkerOptions spec)) workerDeploymentName buildID;
          podAnnotations = pod_annotations tp (spec_Template spec) connection
      in \<lparr>d_TypeMeta = \<lparr>tm_APIVersion = [], tm_Kind = []\<rparr>,
          d_ObjectMeta =
            \<lparr>om_Name = ComputeVersionedDeploymentName (om_Name objectMeta) buildID,
             om_Namespace = om_Namespace objectMeta,
             om_UID = [],
             om_Labels = Some selectorLabels,
             om_Annotations = pt_Annotations (spec_Template spec),
             om_OwnerReferences =
               [\<lparr>or_APIVersion = tm_APIVersion typeMeta, or_Kind = tm_Kind typeMeta,
                 or_Name = om_Name objectMeta, or_UID = om_UID objectMeta,
                 or_BlockOwnerDeletion = Some True, or_Controller = None\<rparr>],
             om_CreationTimestamp = zero_time,
             om_ResourceVersion = []\<rparr>,
          d_Spec =
            \<lparr>ds_Replicas = spec_Replicas spec,
             ds_Selector = Some (Some selectorLabels),
             ds_Template =
               \<lparr>pt_Labels = Some podLabels, pt_Annotations = Some podAnnotations,
                pt_Spec = podSpec, pt_rest = []\<rparr>,
             ds_MinReadySeconds = spec_MinReadySeconds spec,
             ds_rest = []\<rparr>,
          d_Status = \<lparr>dst_Replicas = 0, dst_Conditions = []\<rparr>\<rparr>)"

text \<open>\<open>set_ref w d\<close> is \<open>ctrl.SetControllerReference(w, d, scheme)\<close>.\<close>

definition NewDeploymentWithControllerRef ::
  "third_party \<Rightarrow> (TemporalWorkerDeployment \<Rightarrow> Deployment \<Rightarrow> api_error + Deployment)
   \<Rightarrow> TemporalWorkerDeployment \<Rightarrow> string \<Rightarrow> TemporalConnectionSpec \<Rightarrow> api_error + Deployment" where
  "NewDeploymentWithControllerRef tp set_ref w buildID connection =
     (let d = NewDeploymentWithOwnerRef tp (twd_TypeMeta w) (twd_ObjectMeta w) (twd_Spec w)
                (ComputeWorkerDeploymentName w) buildID connection
      in set_ref w d)"

section \<open>Lemmas: reading the Deployments\<close>

definition latest_for :: "string \<Rightarrow> (nat \<times> Deployment) list \<Rightarrow> (nat \<times> Deployment) option" where
  "latest_for b items = find (\<lambda>(a, d). deployment_build_id d = Some b) (rev items)"

lemma latest_for_snoc:
  "latest_for b (items @ [(a, d)]) =
     (if deployment_build_id d = Some b then Some (a, d) else latest_for b items)"
  by (simp add: latest_for_def)

lemma latest_for_SomeD:
  "latest_for b items = Some (a, d) \<Longrightarrow> (a, d) \<in> set items \<and> deployment_build_id d = Some b"
  by (auto simp: latest_for_def find_Some_iff in_set_conv_nth) (metis length_rev nth_mem set_rev in_set_conv_nth)

lemma track_all:
  fixes tp items
  defines "st \<equiv> fold (track_deployment tp) items empty_DeploymentState"
  shows "map_get (ks_Deployments st) b = map_option snd (latest_for b items)"
    and "map_get (ks_DeploymentRefs st) b =
           map_option (\<lambda>(a, d). (a, NewObjectRef tp d)) (latest_for b items)"
    and "ks_DeploymentsByTime st = filter (\<lambda>d. deployment_build_id d \<noteq> None) (map snd items)"
    and "map_wf (ks_Deployments st)" and "map_wf (ks_DeploymentRefs st)"
proof -
  have "(\<forall>b. map_get (ks_Deployments st) b = map_option snd (latest_for b items))
    \<and> (\<forall>b. map_get (ks_DeploymentRefs st) b =
             map_option (\<lambda>(a, d). (a, NewObjectRef tp d)) (latest_for b items))
    \<and> ks_DeploymentsByTime st = filter (\<lambda>d. deployment_build_id d \<noteq> None) (map snd items)
    \<and> map_wf (ks_Deployments st) \<and> map_wf (ks_DeploymentRefs st)"
    unfolding st_def
  proof (induction items rule: rev_induct)
    case Nil
    then show ?case by (simp add: empty_DeploymentState_def latest_for_def)
  next
    case (snoc x items)
    obtain a d where x: "x = (a, d)" by (cases x)
    from snoc show ?case
      by (cases "deployment_build_id d")
         (simp_all add: x latest_for_snoc track_deployment_def gm.wf_insert)
  qed
  then show "map_get (ks_Deployments st) b = map_option snd (latest_for b items)"
    and "map_get (ks_DeploymentRefs st) b =
           map_option (\<lambda>(a, d). (a, NewObjectRef tp d)) (latest_for b items)"
    and "ks_DeploymentsByTime st = filter (\<lambda>d. deployment_build_id d \<noteq> None) (map snd items)"
    and "map_wf (ks_Deployments st)" and "map_wf (ks_DeploymentRefs st)"
    by blast+
qed

lemma map_snd_latest_for:
  "map_option snd (latest_for b (enumerate n xs)) = find (\<lambda>d. deployment_build_id d = Some b) (rev xs)"
proof (induction xs rule: rev_induct)
  case Nil
  then show ?case by (simp add: latest_for_def)
next
  case (snoc x xs)
  then show ?case by (simp add: enumerate_append_eq latest_for_snoc)
qed

text \<open>What every state read from the cluster satisfies.\<close>

definition deployments_wf :: "third_party \<Rightarrow> DeploymentState \<Rightarrow> bool" where
  "deployments_wf tp st \<longleftrightarrow>
     map_wf (ks_Deployments st) \<and> map_wf (ks_DeploymentRefs st)
     \<and> (\<forall>b d. map_get (ks_Deployments st) b = Some d \<longrightarrow>
          deployment_build_id d = Some b
          \<and> (\<exists>a. map_get (ks_DeploymentRefs st) b = Some (a, NewObjectRef tp d)))
     \<and> dom (map_get (ks_DeploymentRefs st)) = dom (map_get (ks_Deployments st))
     \<and> (\<forall>b b' r. map_get (ks_DeploymentRefs st) b = Some r \<longrightarrow> map_get (ks_DeploymentRefs st) b' = Some r \<longrightarrow> b = b')
     \<and> sorted (map creation_time (ks_DeploymentsByTime st))"

lemma latest_for_address:
  assumes "latest_for b (enumerate n ds) = Some (a, d)" and "latest_for b' (enumerate n ds) = Some (a, d')"
  shows "b = b'"
proof -
  have "(a, d) \<in> set (enumerate n ds)" "(a, d') \<in> set (enumerate n ds)"
    using assms latest_for_SomeD by blast+
  then have "d = d'" by (auto simp: in_set_enumerate_eq)
  with assms show ?thesis using latest_for_SomeD by (metis option.inject)
qed

lemma GetDeploymentState_wf:
  assumes "GetDeploymentState tp (Inr items) = Inr st"
  shows "deployments_wf tp st"
proof -
  let ?L = "enumerate 0 (sort_key creation_time items)"
  have st: "st = fold (track_deployment tp) ?L empty_DeploymentState"
    using assms by (simp add: GetDeploymentState_def Let_def)
  note T = track_all [of tp ?L, folded st]
  have "sorted (map creation_time (filter (\<lambda>d. deployment_build_id d \<noteq> None) (sort_key creation_time items)))"
    by (rule sorted_filter) simp
  moreover have "deployment_build_id d = Some b \<and> (\<exists>a. map_get (ks_DeploymentRefs st) b = Some (a, NewObjectRef tp d))"
    if "map_get (ks_Deployments st) b = Some d" for b d
    using that latest_for_SomeD [of b ?L] by (auto simp: T)
  moreover have "b = b'" if "map_get (ks_DeploymentRefs st) b = Some r" "map_get (ks_DeploymentRefs st) b' = Some r" for b b' r
    using that latest_for_address [of b 0 _ "fst r"] by (auto simp: T)
  ultimately show ?thesis
    unfolding deployments_wf_def by (auto simp: T(1,2,3,4,5) dom_def split: option.splits)
qed

section \<open>Lemmas: build IDs\<close>

lemma Trim_neq_Nil: "\<exists>c \<in> set s. \<not> cutset c \<Longrightarrow> Trim cutset s \<noteq> []"
  by (auto simp: Trim_def) (metis dropWhile_eq_Nil_conv rev_is_Nil_conv set_dropWhileD hd_dropWhile list.set_sel(1))

lemma Trim_append_keep:
  assumes "t \<noteq> []" and "\<And>c. c \<in> set t \<Longrightarrow> \<not> cutset c"
  shows "\<exists>p. Trim cutset (s @ t) = p @ t"
proof -
  have "\<exists>q. dropWhile cutset (s @ t) = q @ t"
  proof (cases "\<exists>x \<in> set s. \<not> cutset x")
    case True
    then show ?thesis by (auto simp: dropWhile_append1)
  next
    case False
    with assms have "dropWhile cutset (s @ t) = t"
      by (cases t) (auto simp: dropWhile_append2)
    then show ?thesis by auto
  qed
  then obtain q where q: "dropWhile cutset (s @ t) = q @ t" by blast
  have "dropWhile cutset (rev t @ rev q) = rev t @ rev q"
    using assms by (simp add: dropWhile_eq_self_iff hd_append hd_rev)
  then show ?thesis by (auto simp: Trim_def q)
qed

text \<open>The default build ID ends in the short hash of the pod template.\<close>

lemma default_build_id_suffix:
  assumes "safe_encoding tp" and "ps_Containers (pt_Spec t) = c # cs" and "ctr_Image c \<noteq> []"
  shows "\<exists>p. default_build_id tp t = p @ ComputeHash tp t None True"
proof -
  let ?h = "ComputeHash tp t None True"
  let ?p = "computeImagePrefix tp (ctr_Image c) (MaxBuildIdLen - int (length (ResourceNameSeparator @ ?h)))"
  have h: "\<And>x. x \<in> set ?h \<Longrightarrow> alnum x" "?h \<noteq> []"
    using ComputeHash_alnum [OF assms(1)] length_ComputeHash [OF assms(1), of t None True] by auto
  have "build_id_char x" if "x \<in> set (ResourceNameSeparator @ ?h)" for x
    using that h(1) by (auto simp: ResourceNameSeparator_def build_id_char_def)
  then have r: "replace_runs build_id_char (?p @ ResourceNameSeparator @ ?h)
      = (replace_runs build_id_char ?p @ ResourceNameSeparator) @ ?h"
    by (simp only: bid.clean_append_ok append_assoc)
  have "\<exists>q. cleanBuildID (?p @ ResourceNameSeparator @ ?h) = q @ ?h"
    unfolding cleanBuildID_def r
    using h alnum_not_separator by (intro Trim_append_keep) blast+
  then show ?thesis using assms by (simp add: default_build_id_def Let_def)
qed

lemma computeImagePrefix_length: "0 < n \<Longrightarrow> int (length (computeImagePrefix tp s n)) \<le> n"
  by (simp add: computeImagePrefix_def Let_def TruncateString_length)

lemma alnum_valid_label: "(\<And>c. c \<in> set s \<Longrightarrow> alnum c) \<Longrightarrow> length s \<le> 63 \<Longrightarrow> valid_label s"
  by (auto simp: valid_label_def label_syntax_def build_id_char_def)

lemma default_build_id_valid:
  assumes "safe_encoding tp"
  shows "valid_label (default_build_id tp t) \<and> default_build_id tp t \<noteq> []"
proof (cases "\<exists>c cs. ps_Containers (pt_Spec t) = c # cs \<and> ctr_Image c \<noteq> []")
  case True
  then obtain c cs where c: "ps_Containers (pt_Spec t) = c # cs" "ctr_Image c \<noteq> []" by blast
  let ?h = "ComputeHash tp t None True"
  let ?s = "ResourceNameSeparator @ ?h"
  let ?p = "computeImagePrefix tp (ctr_Image c) (MaxBuildIdLen - int (length ?s))"
  have len: "length ?h = 4" using length_ComputeHash [OF assms] by simp
  have id: "default_build_id tp t = cleanBuildID (?p @ ?s)"
    using c by (simp add: default_build_id_def Let_def)
  have "int (length ?p) \<le> 58"
    using computeImagePrefix_length [of 58 tp "ctr_Image c"]
    by (simp add: len MaxBuildIdLen_def ResourceNameSeparator_def)
  then have "length (?p @ ?s) \<le> 63" by (simp add: len ResourceNameSeparator_def)
  then have "length (default_build_id tp t) \<le> 63"
    using cleanBuildID_length [of "?p @ ?s"] id by simp
  moreover have "default_build_id tp t \<noteq> []"
    using default_build_id_suffix [OF assms c] len by auto
  ultimately show ?thesis
    using cleanBuildID_label_syntax [of "?p @ ?s"] id by (simp add: valid_label_def)
next
  case False
  then have "default_build_id tp t = ComputeHash tp t None False"
    by (auto simp: default_build_id_def split: list.splits)
  moreover have "length (ComputeHash tp t None False) = 10"
    using length_ComputeHash [OF assms] by simp
  ultimately show ?thesis
    using alnum_valid_label ComputeHash_alnum [OF assms] by auto
qed

lemma ComputeBuildID_custom:
  assumes "cleanBuildID (wo_UnsafeCustomBuildID (spec_WorkerOptions (twd_Spec w))) \<noteq> []"
  shows "ComputeBuildID tp w
    = TruncateString (cleanBuildID (wo_UnsafeCustomBuildID (spec_WorkerOptions (twd_Spec w)))) 63"
proof -
  have "cleanBuildID [] = []" by (simp add: cleanBuildID_def Trim_def)
  with assms show ?thesis by (auto simp: ComputeBuildID_def Let_def MaxBuildIdLen_def)
qed

lemma ComputeBuildID_default:
  assumes "cleanBuildID (wo_UnsafeCustomBuildID (spec_WorkerOptions (twd_Spec w))) = []"
  shows "ComputeBuildID tp w = default_build_id tp (spec_Template (twd_Spec w))"
  using assms by (simp add: ComputeBuildID_def Let_def)

section \<open>Lemmas: the pod spec and the new Deployment\<close>

definition controller_env ::
  "TemporalConnectionSpec \<Rightarrow> string \<Rightarrow> string \<Rightarrow> string \<Rightarrow> EnvVar list" where
  "controller_env connection ns name buildID =
     base_env connection ns name buildID
     @ (case (tc_MutualTLSSecretRef connection, tc_APIKeySecretRef connection) of
          (Some _, _) \<Rightarrow> tls_env
        | (None, Some sel) \<Rightarrow> [api_key_env sel]
        | (None, None) \<Rightarrow> [])"

definition controller_mounts :: "TemporalConnectionSpec \<Rightarrow> VolumeMount list" where
  "controller_mounts connection = (case tc_MutualTLSSecretRef connection of Some _ \<Rightarrow> [tls_mount] | None \<Rightarrow> [])"

definition controller_volumes :: "TemporalConnectionSpec \<Rightarrow> Volume list" where
  "controller_volumes connection =
     (case tc_MutualTLSSecretRef connection of Some r \<Rightarrow> [tls_volume (sr_Name r)] | None \<Rightarrow> [])"

lemma ApplyController_eq:
  "ApplyControllerPodSpecModifications ps connection ns name buildID =
     ps\<lparr>ps_Containers :=
          map (\<lambda>c. c\<lparr>ctr_Env := ctr_Env c @ controller_env connection ns name buildID,
                        ctr_VolumeMounts := ctr_VolumeMounts c @ controller_mounts connection\<rparr>) (ps_Containers ps),
        ps_Volumes := ps_Volumes ps @ controller_volumes connection\<rparr>"
  by (auto simp: ApplyControllerPodSpecModifications_def map_containers_def append_env_def append_mount_def
      controller_env_def controller_mounts_def controller_volumes_def Let_def split: option.splits)

lemma pod_annotations_index:
  "str_index (pod_annotations tp t c) ConnectionSpecHashAnnotation = ComputeConnectionSpecHash c"
  "str_index (pod_annotations tp t c) PodTemplateSpecHashAnnotation = ComputePodTemplateSpecHash tp t"
  by (simp_all add: pod_annotations_def)

lemma selector_labels_get:
  "map_get (selector_labels name b) BuildIDLabel = Some (TruncateString b 63)"
  "map_get (selector_labels name b) twdNameLabel = Some (TruncateString (CleanStringForDNS name) 63)"
  by (simp_all add: selector_labels_def)

lemma selector_labels_wf: "map_wf (selector_labels name b)"
  by (simp add: selector_labels_def)

section \<open>Properties\<close>

text \<open>A third-party instance for the witnesses: the encoding alphabet documented for the package.\<close>

definition sample_third_party :: third_party where
  "sample_third_party =
     \<lparr>tp_spew = (\<lambda>t. concat (map ctr_Image (ps_Containers (pt_Spec t)))),
      tp_SafeEncodeString = map (\<lambda>c. ''bcdfghjklmnpqrstvwxz2456789'' ! (of_char c mod 27)),
      tp_ParseReference = (\<lambda>_. None),
      tp_GroupVersionString = (\<lambda>s. s)\<rparr>"

lemma sample_alphabet: "list_all alnum ''bcdfghjklmnpqrstvwxz2456789''"
  by (simp add: alnum_def)

lemma sample_safe_encoding: "safe_encoding sample_third_party"
proof -
  have "alnum (''bcdfghjklmnpqrstvwxz2456789'' ! (of_char c mod 27))" for c
  proof -
    have "of_char c mod 27 < length ''bcdfghjklmnpqrstvwxz2456789''" by simp
    then show ?thesis using sample_alphabet by (metis list_all_length)
  qed
  then show ?thesis by (auto simp: safe_encoding_def sample_third_party_def)
qed

text \<open>
  C40 (bounds). The build ID is never empty and is a valid Kubernetes label value (at most 63
  characters, alphanumeric at both ends, only letters, digits, dashes, dots and underscores),
  whatever the image and the custom build ID are, provided a custom build ID has at most 63
  characters once cleaned.
\<close>

theorem ComputeBuildID_valid_label:
  assumes "safe_encoding tp"
    and "length (cleanBuildID (wo_UnsafeCustomBuildID (spec_WorkerOptions (twd_Spec w)))) \<le> 63"
  shows "valid_label (ComputeBuildID tp w) \<and> ComputeBuildID tp w \<noteq> []"
proof (cases "cleanBuildID (wo_UnsafeCustomBuildID (spec_WorkerOptions (twd_Spec w))) = []")
  case True
  then show ?thesis using default_build_id_valid [OF assms(1)] by (simp add: ComputeBuildID_default)
next
  case False
  with assms(2) show ?thesis
    by (simp add: ComputeBuildID_custom TruncateString_id valid_label_def cleanBuildID_label_syntax)
qed

theorem ComputeBuildID_valid_label_witness:
  "valid_label (ComputeBuildID sample_third_party sample_twd)
   \<and> ComputeBuildID sample_third_party sample_twd \<noteq> []"
  by (rule ComputeBuildID_valid_label [OF sample_safe_encoding])
     (simp add: sample_defs cleanBuildID_def Trim_def)

text \<open>
  The length guard is needed: the code truncates a custom build ID after trimming
  its separators, so one of 64 characters can be cut right after a separator, and the result
  is not a valid label value.
\<close>

theorem ComputeBuildID_truncation_invalid:
  "\<exists>w. \<not> valid_label (ComputeBuildID tp w)"
proof -
  let ?id = "replicate 62 (CHR ''a'') @ ''-b''"
  let ?w = "sample_twd\<lparr>twd_Spec := sample_spec\<lparr>spec_WorkerOptions :=
             \<lparr>wo_TemporalConnectionRef = \<lparr>tcr_Name = ''c''\<rparr>, wo_TemporalNamespace = ''n'',
              wo_UnsafeCustomBuildID = ?id\<rparr>\<rparr>\<rparr>"
  have "label_syntax ?id"
    by (simp add: label_syntax_def build_id_char_def alnum_def)
  then have clean: "cleanBuildID ?id = ?id" by (simp only: cleanBuildID_id_iff)
  have "ComputeBuildID tp ?w = TruncateString ?id 63"
    using ComputeBuildID_custom [of ?w tp] clean by simp
  moreover have "TruncateString ?id 63 = replicate 62 (CHR ''a'') @ ''-''"
    by (simp add: TruncateString_def)
  ultimately have "ComputeBuildID tp ?w = replicate 62 (CHR ''a'') @ ''-''" by simp
  then have "\<not> valid_label (ComputeBuildID tp ?w)"
    by (simp add: valid_label_def label_syntax_def alnum_def)
  then show ?thesis by blast
qed

text \<open>
  A generated build ID tells pod templates apart as far as the template hash
  does: two resources without a custom build ID, each with an image, whose templates have
  different short hashes, get different build IDs.
\<close>

theorem ComputeBuildID_separates:
  assumes "safe_encoding tp"
    and "wo_UnsafeCustomBuildID (spec_WorkerOptions (twd_Spec w)) = []"
    and "wo_UnsafeCustomBuildID (spec_WorkerOptions (twd_Spec w')) = []"
    and "ps_Containers (pt_Spec (spec_Template (twd_Spec w))) = c # cs" and "ctr_Image c \<noteq> []"
    and "ps_Containers (pt_Spec (spec_Template (twd_Spec w'))) = c' # cs'" and "ctr_Image c' \<noteq> []"
    and "ComputeHash tp (spec_Template (twd_Spec w)) None True \<noteq> ComputeHash tp (spec_Template (twd_Spec w')) None True"
  shows "ComputeBuildID tp w \<noteq> ComputeBuildID tp w'"
proof -
  have "cleanBuildID [] = []" by (simp add: cleanBuildID_def Trim_def)
  with assms(2,3) have d: "ComputeBuildID tp w = default_build_id tp (spec_Template (twd_Spec w))"
    "ComputeBuildID tp w' = default_build_id tp (spec_Template (twd_Spec w'))"
    by (simp_all add: ComputeBuildID_default)
  from default_build_id_suffix [OF assms(1,4,5)] default_build_id_suffix [OF assms(1,6,7)]
  obtain p p' where "ComputeBuildID tp w = p @ ComputeHash tp (spec_Template (twd_Spec w)) None True"
    and "ComputeBuildID tp w' = p' @ ComputeHash tp (spec_Template (twd_Spec w')) None True"
    unfolding d by blast
  then show ?thesis using assms(8) length_ComputeHash [OF assms(1)] by (metis append_eq_append_conv)
qed

definition sample_twd2 :: TemporalWorkerDeployment where
  "sample_twd2 = sample_twd\<lparr>twd_Spec := sample_spec\<lparr>spec_Template := sample_template
     \<lparr>pt_Spec := \<lparr>ps_Containers = [sample_container\<lparr>ctr_Image := ''app:v2''\<rparr>], ps_Volumes = [], ps_rest = []\<rparr>\<rparr>\<rparr>\<rparr>"

lemma sample_hashes:
  "unat (fnv32a_Write ''app:v1'' fnv32a_init) mod 10000 = 7703"
  "unat (fnv32a_Write ''app:v2'' fnv32a_init) mod 10000 = 5322"
  by (simp_all add: fnv32a_Write_def fnv32a_step_def fnv32a_init_def)

theorem ComputeBuildID_separates_witness:
  "ComputeBuildID sample_third_party sample_twd \<noteq> ComputeBuildID sample_third_party sample_twd2"
proof (rule ComputeBuildID_separates [OF sample_safe_encoding, where c = sample_container and cs = "[]"
        and c' = "sample_container\<lparr>ctr_Image := ''app:v2''\<rparr>" and cs' = "[]"])
  show "ComputeHash sample_third_party (spec_Template (twd_Spec sample_twd)) None True
      \<noteq> ComputeHash sample_third_party (spec_Template (twd_Spec sample_twd2)) None True"
    by (simp add: ComputeHash_def deepHashObject_def sample_third_party_def sample_defs sample_twd2_def
                  sample_hashes pad_decimal_def digits.simps)
qed (simp_all add: sample_defs sample_twd2_def)

text \<open>
  C39 (functional). Reading the cluster: the state maps each build ID to the most recently
  created of the listed Deployments that carry it in their label (ties by list order), with
  its reference under the same key; Deployments without the label are ignored; the list by
  time has exactly the labelled ones, in the order of creation.
\<close>

theorem GetDeploymentState_spec:
  assumes "GetDeploymentState tp (Inr items) = Inr st"
  shows "(\<forall>b. map_get (ks_Deployments st) b
               = find (\<lambda>d. deployment_build_id d = Some b) (rev (sort_key creation_time items)))
    \<and> (\<forall>b. map_option snd (map_get (ks_DeploymentRefs st) b)
               = map_option (NewObjectRef tp) (map_get (ks_Deployments st) b))
    \<and> ks_DeploymentsByTime st = sort_key creation_time (filter (\<lambda>d. deployment_build_id d \<noteq> None) items)"
proof (intro conjI allI)
  let ?L = "enumerate 0 (sort_key creation_time items)"
  have st: "st = fold (track_deployment tp) ?L empty_DeploymentState"
    using assms by (simp add: GetDeploymentState_def Let_def)
  note T = track_all [of tp ?L, folded st]
  show "map_get (ks_Deployments st) b
      = find (\<lambda>d. deployment_build_id d = Some b) (rev (sort_key creation_time items))" for b
    by (simp add: T map_snd_latest_for)
  show "map_option snd (map_get (ks_DeploymentRefs st) b)
      = map_option (NewObjectRef tp) (map_get (ks_Deployments st) b)" for b
    by (cases "latest_for b ?L") (auto simp: T)
  show "ks_DeploymentsByTime st = sort_key creation_time (filter (\<lambda>d. deployment_build_id d \<noteq> None) items)"
    by (simp add: T filter_sort)
qed

theorem GetDeploymentState_spec_witness:
  "\<exists>st. GetDeploymentState sample_third_party (Inr [sample_deployment ''v1'' (Some 3)]) = Inr st
        \<and> map_get (ks_Deployments st) ''v1'' = Some (sample_deployment ''v1'' (Some 3))"
proof -
  let ?items = "[sample_deployment ''v1'' (Some 3)]"
  obtain st where st: "GetDeploymentState sample_third_party (Inr ?items) = Inr st"
    by (simp add: GetDeploymentState_def)
  have "deployment_build_id (sample_deployment ''v1'' (Some 3)) = Some ''v1''"
    by (simp add: deployment_build_id_def sample_defs BuildIDLabel_def)
  with GetDeploymentState_spec [OF st] st show ?thesis by simp
qed

text \<open>
  A Deployment built for a build ID of at most 63 characters is read back
  under that build ID: the label written on creation is the key the state is indexed by.
\<close>

theorem NewDeployment_build_id_roundtrip:
  assumes "length buildID \<le> 63"
    and "GetDeploymentState tp (Inr [NewDeploymentWithOwnerRef tp tm om spec name buildID connection]) = Inr st"
  shows "map_get (ks_Deployments st) buildID
         = Some (NewDeploymentWithOwnerRef tp tm om spec name buildID connection)"
proof -
  let ?d = "NewDeploymentWithOwnerRef tp tm om spec name buildID connection"
  have "deployment_build_id ?d = Some buildID"
    using assms(1)
    by (simp add: deployment_build_id_def NewDeploymentWithOwnerRef_def Let_def selector_labels_get TruncateString_id)
  moreover have "st = fold (track_deployment tp) (enumerate 0 [?d]) empty_DeploymentState"
    using assms(2) by (simp add: GetDeploymentState_def Let_def)
  ultimately show ?thesis by (simp add: track_deployment_def)
qed

theorem NewDeployment_build_id_roundtrip_witness:
  "\<exists>st. GetDeploymentState sample_third_party
          (Inr [NewDeploymentWithOwnerRef sample_third_party (twd_TypeMeta sample_twd) sample_meta sample_spec
                  ''ns/foo'' ''v2'' sample_connection]) = Inr st
        \<and> map_get (ks_Deployments st) ''v2''
            = Some (NewDeploymentWithOwnerRef sample_third_party (twd_TypeMeta sample_twd) sample_meta sample_spec
                      ''ns/foo'' ''v2'' sample_connection)"
proof -
  let ?items = "[NewDeploymentWithOwnerRef sample_third_party (twd_TypeMeta sample_twd) sample_meta sample_spec
                  ''ns/foo'' ''v2'' sample_connection]"
  obtain st where st: "GetDeploymentState sample_third_party (Inr ?items) = Inr st"
    by (simp add: GetDeploymentState_def)
  then show ?thesis using NewDeployment_build_id_roundtrip [OF _ st] by simp
qed

text \<open>
  A new Deployment is well formed for the API server and for drift detection:
  every selector label is a label of its pods, so the selector matches them; the labels of the
  object are the selector's; the pod annotations carry the hashes of the connection and of the
  user's template; each container keeps its name, image, and other fields, and its environment
  is the user's followed by the controller's variables.
\<close>

theorem NewDeployment_wf:
  fixes tp tm om spec name buildID connection
  defines "d \<equiv> NewDeploymentWithOwnerRef tp tm om spec name buildID connection"
  defines "t \<equiv> ds_Template (d_Spec d)"
  shows "(\<exists>sel lbls. ds_Selector (d_Spec d) = Some (Some sel) \<and> pt_Labels t = Some lbls
            \<and> om_Labels (d_ObjectMeta d) = Some sel \<and> map_of sel \<subseteq>\<^sub>m map_of lbls)
    \<and> str_index (nil_map (pt_Annotations t)) ConnectionSpecHashAnnotation = ComputeConnectionSpecHash connection
    \<and> str_index (nil_map (pt_Annotations t)) PodTemplateSpecHashAnnotation
           = ComputePodTemplateSpecHash tp (spec_Template spec)
    \<and> ps_Containers (pt_Spec t) =
           map (\<lambda>c. c\<lparr>ctr_Env := ctr_Env c @ controller_env connection
                                     (wo_TemporalNamespace (spec_WorkerOptions spec)) name buildID,
                         ctr_VolumeMounts := ctr_VolumeMounts c @ controller_mounts connection\<rparr>)
             (ps_Containers (pt_Spec (spec_Template spec)))"
proof (intro conjI)
  have "map_get (map_copy (selector_labels (om_Name om) buildID) m) k = Some v"
    if "map_get (selector_labels (om_Name om) buildID) k = Some v" for m k v
    using that by (simp add: map_get_copy selector_labels_wf map_add_def)
  then show "\<exists>sel lbls. ds_Selector (d_Spec d) = Some (Some sel) \<and> pt_Labels t = Some lbls
           \<and> om_Labels (d_ObjectMeta d) = Some sel \<and> map_of sel \<subseteq>\<^sub>m map_of lbls"
    by (auto simp: d_def t_def NewDeploymentWithOwnerRef_def Let_def map_le_def)
qed (simp_all add: d_def t_def NewDeploymentWithOwnerRef_def Let_def pod_annotations_index ApplyController_eq)

text \<open>
  Names of versioned Deployments do not separate build IDs: the separator that
  replaces dots and underscores is itself allowed, so different build IDs of one worker, all
  valid label values, are given the same Deployment name.
\<close>

theorem ComputeVersionedDeploymentName_collision:
  "valid_label ''1.0'' \<and> valid_label ''1_0'' \<and> valid_label ''1-0''
   \<and> ComputeVersionedDeploymentName base ''1.0'' = ComputeVersionedDeploymentName base ''1-0''
   \<and> ComputeVersionedDeploymentName base ''1_0'' = ComputeVersionedDeploymentName base ''1-0''"
proof -
  have "replace_runs dns_char (s @ ''-'' @ ''1.0'') = replace_runs dns_char (s @ ''-'' @ ''1-0'')
      \<and> replace_runs dns_char (s @ ''-'' @ ''1_0'') = replace_runs dns_char (s @ ''-'' @ ''1-0'')" for s
  proof (induction s rule: length_induct)
    case (1 s)
    show ?case
    proof (cases s)
      case Nil
      then show ?thesis by (simp add: dns_char_def alnum_def)
    next
      case (Cons c cs)
      let ?d = "dropWhile (\<lambda>x. \<not> dns_char x)"
      have d: "?d (cs @ CHR ''-'' # t) = ?d cs @ CHR ''-'' # t" for t
        by (induction cs) (simp_all add: dns_char_def)
      have "length (?d cs) < length s" using Cons length_dropWhile_le [of _ cs] by (simp add: less_Suc_eq_le)
      with 1 have "replace_runs dns_char (?d cs @ ''-'' @ ''1.0'') = replace_runs dns_char (?d cs @ ''-'' @ ''1-0'')"
        "replace_runs dns_char (?d cs @ ''-'' @ ''1_0'') = replace_runs dns_char (?d cs @ ''-'' @ ''1-0'')"
        by blast+
      moreover have "replace_runs dns_char (cs @ ''-'' @ ''1.0'') = replace_runs dns_char (cs @ ''-'' @ ''1-0'')"
        "replace_runs dns_char (cs @ ''-'' @ ''1_0'') = replace_runs dns_char (cs @ ''-'' @ ''1-0'')"
        using 1 Cons by simp_all
      ultimately show ?thesis using Cons by (simp add: d)
    qed
  qed
  then show ?thesis
    by (simp add: ComputeVersionedDeploymentName_def CleanStringForDNS_def ResourceNameSeparator_def
        valid_label_def label_syntax_def build_id_char_def alnum_def)
qed

end
