(* ===== verification/Sunset.thy ===== *)
theory Sunset
  imports Webhook K8s_Deployments
begin

text \<open>
  Deleting and scaling the Deployments of a worker (\<^verbatim>\<open>internal/planner/planner.go\<close>,
  \<open>getDeleteDeployments\<close>, \<open>getScaleDeployments\<close>, \<open>shouldCreateDeployment\<close>), at the instant \<open>now\<close>
  that \<open>time.Since\<close> reads. A nil pointer the code dereferences is a panic; the dereferences are
  in the order of the source. A Deployment to delete is named by its address in the cluster
  state, its build ID; the Deployments to scale are keyed by the pointers to their references.
\<close>

section \<open>Deleting\<close>

text \<open>One turn of the loop of \<open>getDeleteDeployments\<close>: is this version's Deployment appended?\<close>

definition delete_version ::
  "go_time \<Rightarrow> DeploymentState \<Rightarrow> TemporalWorkerDeploymentStatus \<Rightarrow> TemporalWorkerDeploymentSpec \<Rightarrow> bool
   \<Rightarrow> DeprecatedWorkerDeploymentVersion \<Rightarrow> go_panic + bool" where
  "delete_version now k8sState status spec foundDeploymentInTemporal version =
     (if v_Deployment version = None then Inr False
      else case map_get (ks_Deployments k8sState) (v_BuildID version) of
             None \<Rightarrow> Inr False
           | Some d \<Rightarrow>
               (case v_Status version of
                  VersionStatusDrained \<Rightarrow>
                    bindE (deref (v_DrainedSince version)) (\<lambda>since.
                    bindE (deref (ss_DeleteDelay (spec_SunsetStrategy spec))) (\<lambda>deleteDelay.
                    bindE (deref (ss_ScaledownDelay (spec_SunsetStrategy spec))) (\<lambda>scaledownDelay.
                    if time_Since now since > wrap64 (deleteDelay + scaledownDelay)
                    then bindE (deref (d_Replicas d)) (\<lambda>n. Inr (n = 0))
                    else Inr False)))
                | VersionStatusNotRegistered \<Rightarrow>
                    Inr (foundDeploymentInTemporal \<and> v_BuildID (st_TargetVersion status) \<noteq> v_BuildID version)
                | _ \<Rightarrow> Inr False))"

definition getDeleteDeployments ::
  "go_time \<Rightarrow> DeploymentState \<Rightarrow> TemporalWorkerDeploymentStatus \<Rightarrow> TemporalWorkerDeploymentSpec \<Rightarrow> bool
   \<Rightarrow> go_panic + dep_ptr list" where
  "getDeleteDeployments now k8sState status spec foundDeploymentInTemporal =
     foldE (appendIfE (delete_version now k8sState status spec foundDeploymentInTemporal) v_BuildID)
       (st_DeprecatedVersions status) []"

section \<open>Scaling\<close>

type_synonym scale_map = "(ref_ptr, uint32) go_map"

definition scale_current ::
  "DeploymentState \<Rightarrow> TemporalWorkerDeploymentStatus \<Rightarrow> int32 \<Rightarrow> scale_map \<Rightarrow> scale_map" where
  "scale_current k8sState status replicas m =
     (case st_CurrentVersion status of
        None \<Rightarrow> m
      | Some c \<Rightarrow>
          (case v_Deployment c of
             None \<Rightarrow> m
           | Some ref \<Rightarrow>
               (case map_get (ks_Deployments k8sState) (v_BuildID c) of
                  None \<Rightarrow> m
                | Some d \<Rightarrow> if d_Replicas d \<noteq> None \<and> d_Replicas d \<noteq> Some replicas then map_put ref replicas m else m)))"

definition scale_target ::
  "DeploymentState \<Rightarrow> TemporalWorkerDeploymentStatus \<Rightarrow> int32 \<Rightarrow> scale_map \<Rightarrow> scale_map" where
  "scale_target k8sState status replicas m =
     (if (case st_CurrentVersion status of
            None \<Rightarrow> True | Some c \<Rightarrow> v_BuildID c \<noteq> v_BuildID (st_TargetVersion status))
      then (case v_Deployment (st_TargetVersion status) of
              None \<Rightarrow> m
            | Some ref \<Rightarrow>
                (case map_get (ks_Deployments k8sState) (v_BuildID (st_TargetVersion status)) of
                   None \<Rightarrow> m
                 | Some d \<Rightarrow> if d_Replicas d = None \<or> d_Replicas d \<noteq> Some replicas then map_put ref replicas m else m))
      else m)"

text \<open>One turn of the loop over the deprecated versions.\<close>

definition scale_version ::
  "go_time \<Rightarrow> DeploymentState \<Rightarrow> TemporalWorkerDeploymentStatus \<Rightarrow> TemporalWorkerDeploymentSpec \<Rightarrow> int32
   \<Rightarrow> DeprecatedWorkerDeploymentVersion \<Rightarrow> scale_map \<Rightarrow> go_panic + scale_map" where
  "scale_version now k8sState status spec replicas version m =
     (case v_Deployment version of
        None \<Rightarrow> Inr m
      | Some ref \<Rightarrow>
          (case map_get (ks_Deployments k8sState) (v_BuildID version) of
             None \<Rightarrow> Inr m
           | Some d \<Rightarrow>
               (case v_Status version of
                  VersionStatusInactive \<Rightarrow>
                    Inr (if v_BuildID (st_TargetVersion status) = v_BuildID version
                         then if d_Replicas d \<noteq> None \<and> d_Replicas d \<noteq> Some replicas then map_put ref replicas m else m
                         else if d_Replicas d \<noteq> None \<and> d_Replicas d \<noteq> Some 0 then map_put ref 0 m else m)
                | VersionStatusRamping \<Rightarrow>
                    Inr (if d_Replicas d \<noteq> None \<and> d_Replicas d \<noteq> Some replicas then map_put ref replicas m else m)
                | VersionStatusCurrent \<Rightarrow>
                    Inr (if d_Replicas d \<noteq> None \<and> d_Replicas d \<noteq> Some replicas then map_put ref replicas m else m)
                | VersionStatusDrained \<Rightarrow>
                    bindE (deref (v_DrainedSince version)) (\<lambda>since.
                    bindE (deref (ss_ScaledownDelay (spec_SunsetStrategy spec))) (\<lambda>scaledownDelay.
                    Inr (if time_Since now since > scaledownDelay
                         then if d_Replicas d \<noteq> None \<and> d_Replicas d \<noteq> Some 0 then map_put ref 0 m else m
                         else m)))
                | _ \<Rightarrow> Inr m)))"

definition getScaleDeployments ::
  "go_time \<Rightarrow> DeploymentState \<Rightarrow> TemporalWorkerDeploymentStatus \<Rightarrow> TemporalWorkerDeploymentSpec
   \<Rightarrow> go_panic + scale_map" where
  "getScaleDeployments now k8sState status spec =
     bindE (deref (spec_Replicas spec)) (\<lambda>replicas.
       foldE (scale_version now k8sState status spec replicas) (st_DeprecatedVersions status)
         (scale_target k8sState status replicas (scale_current k8sState status replicas [])))"

section \<open>Creating\<close>

definition count_ineligible :: "DeprecatedWorkerDeploymentVersion list \<Rightarrow> int32" where
  "count_ineligible vs = fold (\<lambda>v n. if \<not> v_EligibleForDeletion v then n + 1 else n) vs 0"

definition shouldCreateDeployment :: "TemporalWorkerDeploymentStatus \<Rightarrow> int32 \<Rightarrow> bool" where
  "shouldCreateDeployment status maxVersionsIneligibleForDeletion =
     (if v_Deployment (st_TargetVersion status) \<noteq> None then False
      else if sint (count_ineligible (st_DeprecatedVersions status)) \<ge> sint maxVersionsIneligibleForDeletion then False
      else True)"

section \<open>What is deleted\<close>

text \<open>The sunset delays as the defaulting leaves them, in a range where their sum does not wrap.\<close>

definition delays :: "TemporalWorkerDeploymentSpec \<Rightarrow> duration \<Rightarrow> duration \<Rightarrow> bool" where
  "delays spec scaledown del \<longleftrightarrow>
     ss_ScaledownDelay (spec_SunsetStrategy spec) = Some scaledown \<and> ss_DeleteDelay (spec_SunsetStrategy spec) = Some del
     \<and> 0 \<le> scaledown \<and> 0 \<le> del \<and> scaledown + del < maxDuration"

text \<open>When a Deployment may go.\<close>

definition deletable ::
  "go_time \<Rightarrow> DeploymentState \<Rightarrow> TemporalWorkerDeploymentStatus \<Rightarrow> duration \<Rightarrow> bool \<Rightarrow> DeprecatedWorkerDeploymentVersion \<Rightarrow> bool" where
  "deletable now k8sState status wait found v \<longleftrightarrow>
     v_Deployment v \<noteq> None
     \<and> (\<exists>d. map_get (ks_Deployments k8sState) (v_BuildID v) = Some d
          \<and> (v_Status v = VersionStatusDrained \<and> (\<exists>t. v_DrainedSince v = Some t \<and> time_Since now t > wait) \<and> d_Replicas d = Some 0
             \<or> v_Status v = VersionStatusNotRegistered \<and> found \<and> v_BuildID (st_TargetVersion status) \<noteq> v_BuildID v))"

lemma delays_sum: "delays spec a b \<Longrightarrow> wrap64 (b + a) = a + b"
  by (simp add: delays_def wrap64_id add.commute maxDuration_def)

lemma delete_version_True:
  assumes "delays spec a b"
  shows "delete_version now ks status spec found v = Inr True \<longleftrightarrow> deletable now ks status (a + b) found v"
  using assms delays_sum [OF assms]
  by (auto simp: delete_version_def deletable_def delays_def bindE_eq_Inr split: option.splits VersionStatus.splits)

lemma getDeleteDeployments_eq:
  assumes "getDeleteDeployments now ks status spec found = Inr ds" and "delays spec a b"
  shows "ds = map v_BuildID (filter (deletable now ks status (a + b) found) (st_DeprecatedVersions status))"
  using foldE_appendIf_Inr [OF assms(1) [unfolded getDeleteDeployments_def]]
  by (simp add: delete_version_True [OF assms(2)])

section \<open>What is scaled\<close>

text \<open>Why a reference is in the map of Deployments to scale, and with which size.\<close>

definition scaled_up ::
  "DeploymentState \<Rightarrow> int32 \<Rightarrow> ('a) BaseWorkerDeploymentVersion_scheme \<Rightarrow> ref_ptr \<Rightarrow> bool" where
  "scaled_up ks replicas v ref \<longleftrightarrow>
     v_Deployment v = Some ref \<and> (\<exists>d. map_get (ks_Deployments ks) (v_BuildID v) = Some d \<and> d_Replicas d \<noteq> Some replicas)"

definition scaled_down ::
  "go_time \<Rightarrow> DeploymentState \<Rightarrow> TemporalWorkerDeploymentStatus \<Rightarrow> duration \<Rightarrow> DeprecatedWorkerDeploymentVersion \<Rightarrow> ref_ptr \<Rightarrow> bool" where
  "scaled_down now ks status wait v ref \<longleftrightarrow>
     v_Deployment v = Some ref
     \<and> (\<exists>d n. map_get (ks_Deployments ks) (v_BuildID v) = Some d \<and> d_Replicas d = Some n \<and> n \<noteq> 0)
     \<and> (v_Status v = VersionStatusInactive \<and> v_BuildID (st_TargetVersion status) \<noteq> v_BuildID v
        \<or> v_Status v = VersionStatusDrained \<and> (\<exists>t. v_DrainedSince v = Some t \<and> time_Since now t > wait))"

definition scale_reason ::
  "go_time \<Rightarrow> DeploymentState \<Rightarrow> TemporalWorkerDeploymentStatus \<Rightarrow> duration \<Rightarrow> int32 \<Rightarrow> ref_ptr \<Rightarrow> uint32 \<Rightarrow> bool" where
  "scale_reason now ks status wait replicas ref n \<longleftrightarrow>
     n = replicas \<and>
       ((\<exists>c. st_CurrentVersion status = Some c \<and> scaled_up ks replicas c ref)
        \<or> scaled_up ks replicas (st_TargetVersion status) ref
        \<or> (\<exists>v \<in> set (st_DeprecatedVersions status). scaled_up ks replicas v ref
             \<and> (v_Status v \<in> {VersionStatusRamping, VersionStatusCurrent}
                \<or> v_Status v = VersionStatusInactive \<and> v_BuildID (st_TargetVersion status) = v_BuildID v)))
     \<or> n = 0 \<and> (\<exists>v \<in> set (st_DeprecatedVersions status). scaled_down now ks status wait v ref)"

text \<open>A map all of whose entries have a reason; every write of the code keeps it so.\<close>

definition reasoned ::
  "go_time \<Rightarrow> DeploymentState \<Rightarrow> TemporalWorkerDeploymentStatus \<Rightarrow> duration \<Rightarrow> int32 \<Rightarrow> scale_map \<Rightarrow> bool" where
  "reasoned now ks status wait replicas m \<longleftrightarrow>
     (\<forall>ref n. map_get m ref = Some n \<longrightarrow> scale_reason now ks status wait replicas ref n)"

lemma reasoned_put:
  "reasoned now ks status wait replicas m \<Longrightarrow> scale_reason now ks status wait replicas ref n
   \<Longrightarrow> reasoned now ks status wait replicas (map_put ref n m)"
  by (simp add: reasoned_def)

lemma scale_reason_up:
  "st_CurrentVersion status = Some c \<Longrightarrow> scaled_up ks replicas c ref \<Longrightarrow> scale_reason now ks status wait replicas ref replicas"
  "scaled_up ks replicas (st_TargetVersion status) ref \<Longrightarrow> scale_reason now ks status wait replicas ref replicas"
  "v \<in> set (st_DeprecatedVersions status) \<Longrightarrow> scaled_up ks replicas v ref \<Longrightarrow>
     v_Status v = VersionStatusRamping \<or> v_Status v = VersionStatusCurrent
     \<or> v_Status v = VersionStatusInactive \<and> v_BuildID (st_TargetVersion status) = v_BuildID v \<Longrightarrow>
     scale_reason now ks status wait replicas ref replicas"
  unfolding scale_reason_def by blast+

lemma scale_reason_down:
  "v \<in> set (st_DeprecatedVersions status) \<Longrightarrow> scaled_down now ks status wait v ref \<Longrightarrow>
   scale_reason now ks status wait replicas ref 0"
  unfolding scale_reason_def by blast

lemma reasoned_current:
  "reasoned now ks status wait replicas m \<Longrightarrow> reasoned now ks status wait replicas (scale_current ks status replicas m)"
  by (auto simp: scale_current_def scaled_up_def intro!: reasoned_put scale_reason_up(1) split: option.splits)

lemma reasoned_target:
  "reasoned now ks status wait replicas m \<Longrightarrow> reasoned now ks status wait replicas (scale_target ks status replicas m)"
  by (auto simp: scale_target_def scaled_up_def intro!: reasoned_put scale_reason_up(2) split: option.splits)

lemma reasoned_version:
  assumes "v \<in> set (st_DeprecatedVersions status)" and "reasoned now ks status wait replicas m"
    and "ss_ScaledownDelay (spec_SunsetStrategy spec) = Some wait"
    and "scale_version now ks status spec replicas v m = Inr m'"
  shows "reasoned now ks status wait replicas m'"
proof (cases "m' = m")
  case False
  then obtain ref d where d: "v_Deployment v = Some ref" "map_get (ks_Deployments ks) (v_BuildID v) = Some d"
    using assms(4) by (auto simp: scale_version_def split: option.splits)
  note up = reasoned_put [OF assms(2) scale_reason_up(3) [OF assms(1)]]
  note down = reasoned_put [OF assms(2) scale_reason_down [OF assms(1)]]
  show ?thesis
    using assms(3,4) False d
    by (cases "v_Status v")
       (auto simp: scale_version_def scaled_up_def scaled_down_def bindE_eq_Inr intro!: up down split: if_splits)
qed (use assms(2) in simp)

lemma getScaleDeployments_reason:
  assumes "getScaleDeployments now ks status spec = Inr m" and "spec_Replicas spec = Some replicas"
    and "ss_ScaledownDelay (spec_SunsetStrategy spec) = Some wait"
  shows "reasoned now ks status wait replicas m"
proof -
  have "foldE (scale_version now ks status spec replicas) (st_DeprecatedVersions status)
      (scale_target ks status replicas (scale_current ks status replicas [])) = Inr m"
    using assms(1,2) by (simp add: getScaleDeployments_def)
  then show ?thesis
  proof (rule foldE_invariant)
    show "reasoned now ks status wait replicas (scale_target ks status replicas (scale_current ks status replicas []))"
      by (intro reasoned_target reasoned_current) (simp add: reasoned_def)
  qed (rule reasoned_version [OF _ _ assms(3)])
qed

section \<open>Panics\<close>

lemma delete_version_total:
  assumes "ss_ScaledownDelay (spec_SunsetStrategy spec) \<noteq> None" and "ss_DeleteDelay (spec_SunsetStrategy spec) \<noteq> None"
    and "v_Status v = VersionStatusDrained \<Longrightarrow> v_DrainedSince v \<noteq> None"
    and "\<And>d. map_get (ks_Deployments ks) (v_BuildID v) = Some d \<Longrightarrow> d_Replicas d \<noteq> None"
  shows "\<exists>b. delete_version now ks status spec found v = Inr b"
  using assms by (cases "v_Status v") (auto simp: delete_version_def intro: exI [of _ False] split: option.splits)

lemma scale_version_total:
  assumes "ss_ScaledownDelay (spec_SunsetStrategy spec) \<noteq> None"
    and "v_Status v = VersionStatusDrained \<Longrightarrow> v_DrainedSince v \<noteq> None"
  shows "\<exists>m'. scale_version now ks status spec replicas v m = Inr m'"
  using assms by (auto simp: scale_version_def split: option.splits VersionStatus.splits)

lemma foldE_returns:
  assumes "\<And>x s. x \<in> set xs \<Longrightarrow> \<exists>s'. f x s = Inr s'"
  shows "\<exists>s'. foldE f xs s = Inr s'"
  using assms
proof (induction xs arbitrary: s)
  case (Cons x xs)
  then obtain s1 where "f x s = Inr s1" by fastforce
  with Cons show ?case by simp
qed simp

lemma delete_version_error: "delete_version now ks status spec found v = Inl e \<Longrightarrow> e = NilPointer"
  by (auto simp: delete_version_def bindE_eq_Inl split: option.splits VersionStatus.splits if_splits)

text \<open>A drained version of a Deployment in the cluster without a drain time makes deletion planning panic.\<close>

lemma getDeleteDeployments_nil:
  assumes "\<exists>v \<in> set (st_DeprecatedVersions status).
         v_Status v = VersionStatusDrained \<and> v_DrainedSince v = None
         \<and> v_Deployment v \<noteq> None \<and> map_get (ks_Deployments ks) (v_BuildID v) \<noteq> None"
  shows "getDeleteDeployments now ks status spec found = Inl NilPointer"
proof -
  from assms obtain v where v: "v \<in> set (st_DeprecatedVersions status)" "delete_version now ks status spec found v = Inl NilPointer"
    by (auto simp: delete_version_def)
  show "getDeleteDeployments now ks status spec found = Inl NilPointer"
  proof (cases "getDeleteDeployments now ks status spec found")
    case (Inl e)
    then obtain x acc where "appendIfE (delete_version now ks status spec found) v_BuildID x acc = Inl e"
      using foldE_Inl_witness unfolding getDeleteDeployments_def by fastforce
    then have "e = NilPointer" by (auto simp: appendIfE_def bindE_eq_Inl intro: delete_version_error)
    with Inl show ?thesis by simp
  next
    case (Inr ds)
    with foldE_appendIf_Inr v show ?thesis unfolding getDeleteDeployments_def by fastforce
  qed
qed

text \<open>
  Planning the sunset does not panic when the spec has its delays and a replica count,
  Deployments have a replica count, and every Drained version has a drain time; a single
  Drained version of a Deployment in the cluster without a drain time makes it panic.
\<close>

theorem getDeleteDeployments_panics:
  "(ss_ScaledownDelay (spec_SunsetStrategy spec) \<noteq> None \<and> ss_DeleteDelay (spec_SunsetStrategy spec) \<noteq> None
     \<and> (\<forall>b d. map_get (ks_Deployments ks) b = Some d \<longrightarrow> d_Replicas d \<noteq> None)
     \<and> (\<forall>v \<in> set (st_DeprecatedVersions status). v_Status v = VersionStatusDrained \<longrightarrow> v_DrainedSince v \<noteq> None)
    \<longrightarrow> (\<exists>ds. getDeleteDeployments now ks status spec found = Inr ds))
   \<and> ((\<exists>v \<in> set (st_DeprecatedVersions status).
         v_Status v = VersionStatusDrained \<and> v_DrainedSince v = None
         \<and> v_Deployment v \<noteq> None \<and> map_get (ks_Deployments ks) (v_BuildID v) \<noteq> None)
    \<longrightarrow> getDeleteDeployments now ks status spec found = Inl NilPointer)"
proof (intro conjI impI)
  assume a: "ss_ScaledownDelay (spec_SunsetStrategy spec) \<noteq> None \<and> ss_DeleteDelay (spec_SunsetStrategy spec) \<noteq> None
     \<and> (\<forall>b d. map_get (ks_Deployments ks) b = Some d \<longrightarrow> d_Replicas d \<noteq> None)
     \<and> (\<forall>v \<in> set (st_DeprecatedVersions status). v_Status v = VersionStatusDrained \<longrightarrow> v_DrainedSince v \<noteq> None)"
  have "\<forall>v \<in> set (st_DeprecatedVersions status). \<exists>b. delete_version now ks status spec found v = Inr b"
    by (intro ballI delete_version_total) (use a in blast)+
  then show "\<exists>ds. getDeleteDeployments now ks status spec found = Inr ds"
    unfolding getDeleteDeployments_def by (simp add: foldE_appendIf_total)
next
  assume "\<exists>v \<in> set (st_DeprecatedVersions status).
         v_Status v = VersionStatusDrained \<and> v_DrainedSince v = None
         \<and> v_Deployment v \<noteq> None \<and> map_get (ks_Deployments ks) (v_BuildID v) \<noteq> None"
  then show "getDeleteDeployments now ks status spec found = Inl NilPointer" by (rule getDeleteDeployments_nil)
qed

definition sample_deprecated :: "VersionStatus \<Rightarrow> go_time option \<Rightarrow> DeprecatedWorkerDeploymentVersion" where
  "sample_deprecated s t =
     \<lparr>v_BuildID = ''v0'', v_Status = s, v_HealthySince = None, v_Deployment = Some (sample_ref 7), v_TaskQueues = [],
      v_ManagedBy = [], v_DrainedSince = t, v_EligibleForDeletion = False\<rparr>"

definition sample_sunset :: "VersionStatus \<Rightarrow> go_time option \<Rightarrow> TemporalWorkerDeploymentStatus" where
  "sample_sunset s t = sample_status\<lparr>st_DeprecatedVersions := [sample_deprecated s t]\<rparr>"

definition sample_cluster :: "int32 \<Rightarrow> DeploymentState" where
  "sample_cluster n =
     \<lparr>ks_Deployments = [(''v0'', sample_deployment ''v0'' (Some n))],
      ks_DeploymentsByTime = [sample_deployment ''v0'' (Some n)], ks_DeploymentRefs = [(''v0'', sample_ref 7)]\<rparr>"

lemmas sunset_samples = sample_deprecated_def sample_sunset_def sample_cluster_def

theorem getDeleteDeployments_panics_witness:
  "getDeleteDeployments 5 (sample_cluster 0) (sample_sunset VersionStatusDrained None) sample_spec True = Inl NilPointer"
  using getDeleteDeployments_panics [of sample_spec "sample_cluster 0" "sample_sunset VersionStatusDrained None" 5 True]
  by (simp add: sunset_samples)

section \<open>What a status promises to the planner\<close>

definition version_refs :: "TemporalWorkerDeploymentStatus \<Rightarrow> (string \<times> ref_ptr) set" where
  "version_refs status =
     {(v_BuildID (st_TargetVersion status), r) | r. v_Deployment (st_TargetVersion status) = Some r}
     \<union> {(v_BuildID c, r) | c r. st_CurrentVersion status = Some c \<and> v_Deployment c = Some r}
     \<union> {(v_BuildID v, r) | v r. v \<in> set (st_DeprecatedVersions status) \<and> v_Deployment v = Some r}"

lemma version_refsI:
  "v_Deployment (st_TargetVersion s) = Some r \<Longrightarrow> (v_BuildID (st_TargetVersion s), r) \<in> version_refs s"
  "st_CurrentVersion s = Some c \<Longrightarrow> v_Deployment c = Some r \<Longrightarrow> (v_BuildID c, r) \<in> version_refs s"
  "v \<in> set (st_DeprecatedVersions s) \<Longrightarrow> v_Deployment v = Some r \<Longrightarrow> (v_BuildID v, r) \<in> version_refs s"
  unfolding version_refs_def by blast+

lemma scaled_ref: "scaled_up ks n v r \<Longrightarrow> v_Deployment v = Some r" "scaled_down now ks s wait d r \<Longrightarrow> v_Deployment d = Some r"
  by (simp_all add: scaled_up_def scaled_down_def)

text \<open>
  The interface between the component that produces a status and the planner that acts on it:
  the deprecated versions are distinct and neither current nor target, and no two versions
  share a pointer. Under it, no step of the planner interferes with another.
\<close>

locale status_provider =
  fixes provides :: "TemporalWorkerDeploymentStatus \<Rightarrow> bool"
  assumes deprecated_distinct: "provides s \<Longrightarrow> distinct (map v_BuildID (st_DeprecatedVersions s))"
    and deprecated_not_target: "provides s \<Longrightarrow> v \<in> set (st_DeprecatedVersions s) \<Longrightarrow> v_BuildID v \<noteq> v_BuildID (st_TargetVersion s)"
    and deprecated_not_current: "provides s \<Longrightarrow> v \<in> set (st_DeprecatedVersions s) \<Longrightarrow> st_CurrentVersion s = Some c \<Longrightarrow> v_BuildID v \<noteq> v_BuildID c"
    and refs_injective: "provides s \<Longrightarrow> (b, r) \<in> version_refs s \<Longrightarrow> (b', r) \<in> version_refs s \<Longrightarrow> b = b'"
begin

lemma deprecated_unique:
  "provides s \<Longrightarrow> v \<in> set (st_DeprecatedVersions s) \<Longrightarrow> v' \<in> set (st_DeprecatedVersions s) \<Longrightarrow> v_BuildID v = v_BuildID v' \<Longrightarrow> v = v'"
  using deprecated_distinct by (auto simp: distinct_map dest: inj_onD)

lemma ref_of_deprecated:
  assumes "provides s" and "v \<in> set (st_DeprecatedVersions s)" and "v_Deployment v = Some r" and "(b, r) \<in> version_refs s"
  shows "b = v_BuildID v"
  by (rule refs_injective [OF assms(1,4) version_refsI(3) [OF assms(2,3)]])

lemma reason_of_deprecated:
  assumes "provides s" and "v \<in> set (st_DeprecatedVersions s)" and "v_Deployment v = Some r"
    and "scale_reason now ks s wait replicas r n"
  shows "n = replicas \<and> v_Status v \<in> {VersionStatusRamping, VersionStatusCurrent}
         \<or> n = 0 \<and> scaled_down now ks s wait v r"
proof -
  have own: "v' = v" if "v' \<in> set (st_DeprecatedVersions s)" "v_Deployment v' = Some r" for v'
    using ref_of_deprecated [OF assms(1-3) version_refsI(3) [OF that]] deprecated_unique [OF assms(1) that(1) assms(2)]
    by blast
  have "\<not> scaled_up ks replicas (st_TargetVersion s) r"
    using ref_of_deprecated [OF assms(1-3) version_refsI(1)] deprecated_not_target [OF assms(1,2)] scaled_ref(1) by metis
  moreover have "\<not> scaled_up ks replicas c r" if "st_CurrentVersion s = Some c" for c
    using ref_of_deprecated [OF assms(1-3) version_refsI(2) [OF that]] deprecated_not_current [OF assms(1,2) that] scaled_ref(1)
    by metis
  ultimately show ?thesis
    using assms(4) own scaled_ref deprecated_not_target [OF assms(1,2)]
    unfolding scale_reason_def by (metis insertCI)
qed

lemma reason_of_serving:
  assumes "provides s" and "scale_reason now ks s wait replicas r n"
    and "(v_BuildID (st_TargetVersion s), r) \<in> version_refs s
         \<or> (\<exists>c. st_CurrentVersion s = Some c \<and> (v_BuildID c, r) \<in> version_refs s)"
  shows "n = replicas"
proof -
  have "\<not> scaled_down now ks s wait v r" if "v \<in> set (st_DeprecatedVersions s)" for v
    using ref_of_deprecated [OF assms(1) that] assms(3) deprecated_not_target [OF assms(1) that]
      deprecated_not_current [OF assms(1) that] scaled_ref(2) by metis
  with assms(2) show ?thesis unfolding scale_reason_def by blast
qed

end

context status_provider
begin

lemma deleted_version:
  assumes "getDeleteDeployments now ks s spec found = Inr ds" and "delays spec a b" and "x \<in> set ds"
  shows "\<exists>v \<in> set (st_DeprecatedVersions s). v_BuildID v = x \<and> deletable now ks s (a + b) found v"
  using getDeleteDeployments_eq [OF assms(1,2)] assms(3) by auto

lemma serving_kept:
  assumes "provides s" and "getDeleteDeployments now ks s spec found = Inr ds"
    and "getScaleDeployments now ks s spec = Inr m" and "delays spec a b" and "spec_Replicas spec = Some replicas"
  shows "v_BuildID (st_TargetVersion s) \<notin> set ds"
    and "st_CurrentVersion s = Some c \<Longrightarrow> v_BuildID c \<notin> set ds"
    and "v_Deployment (st_TargetVersion s) = Some r \<Longrightarrow> map_get m r \<in> {None, Some replicas}"
    and "st_CurrentVersion s = Some c \<Longrightarrow> v_Deployment c = Some r \<Longrightarrow> map_get m r \<in> {None, Some replicas}"
proof -
  show "v_BuildID (st_TargetVersion s) \<notin> set ds"
    using deleted_version [OF assms(2,4)] deprecated_not_target [OF assms(1)] by metis
  show "v_BuildID c \<notin> set ds" if "st_CurrentVersion s = Some c"
    using deleted_version [OF assms(2,4)] deprecated_not_current [OF assms(1) _ that] by metis
  have "ss_ScaledownDelay (spec_SunsetStrategy spec) = Some a" using assms(4) by (simp add: delays_def)
  from getScaleDeployments_reason [OF assms(3,5) this]
  have reason: "scale_reason now ks s a replicas r n" if "map_get m r = Some n" for n
    using that unfolding reasoned_def by blast
  show "map_get m r \<in> {None, Some replicas}" if "v_Deployment (st_TargetVersion s) = Some r"
    using reason reason_of_serving [OF assms(1)] version_refsI(1) [OF that] by (cases "map_get m r") blast+
  show "map_get m r \<in> {None, Some replicas}" if "st_CurrentVersion s = Some c" "v_Deployment c = Some r"
    using reason reason_of_serving [OF assms(1)] version_refsI(2) [OF that] that(1) by (cases "map_get m r") blast+
qed

lemma deprecated_handled:
  assumes "provides s" and "getDeleteDeployments now ks s spec found = Inr ds"
    and "getScaleDeployments now ks s spec = Inr m" and "delays spec a b" and "spec_Replicas spec = Some replicas"
    and "v \<in> set (st_DeprecatedVersions s)" and "v_Deployment v = Some r"
  shows "v_Status v = VersionStatusDraining \<Longrightarrow> v_BuildID v \<notin> set ds \<and> map_get m r = None"
    and "v_BuildID v \<in> set ds \<Longrightarrow> map_get m r = None"
proof -
  have "ss_ScaledownDelay (spec_SunsetStrategy spec) = Some a" using assms(4) by (simp add: delays_def)
  from getScaleDeployments_reason [OF assms(3,5) this]
  have reason: "n = replicas \<and> v_Status v \<in> {VersionStatusRamping, VersionStatusCurrent}
       \<or> n = 0 \<and> scaled_down now ks s a v r" if "map_get m r = Some n" for n
    using reason_of_deprecated [OF assms(1,6,7)] that unfolding reasoned_def by blast
  have del: "deletable now ks s (a + b) found v" if "v_BuildID v \<in> set ds"
    using deleted_version [OF assms(2,4) that] deprecated_unique [OF assms(1) _ assms(6)] by metis
  show "v_BuildID v \<notin> set ds \<and> map_get m r = None" if "v_Status v = VersionStatusDraining"
    using reason del that by (cases "map_get m r") (auto simp: deletable_def scaled_down_def)
  show "map_get m r = None" if "v_BuildID v \<in> set ds"
    using reason del [OF that] by (cases "map_get m r") (auto simp: deletable_def scaled_down_def)
qed

end

section \<open>Properties\<close>

text \<open>
  C10 (functional). When the delays are set and in range, the Deployments to delete are exactly
  those of deprecated versions, present in the cluster, that are drained for longer than the
  scale-down and delete delays together and have zero replicas, or that the server does not
  know while it knows the worker deployment, the target excepted. In particular nothing of a
  draining, inactive, ramping or current version is deleted. The comment of \<open>DeleteDelay\<close> in the API types
  and the documentation (\<^verbatim>\<open>docs/concepts.md\<close>, \<^verbatim>\<open>docs/configuration.md\<close>) promise deletion after the delete delay
  alone; the code waits for the sum, as its own comment says, and this is what is stated.
\<close>

theorem getDeleteDeployments_iff:
  assumes "getDeleteDeployments now ks status spec found = Inr ds" and "delays spec scaledown del"
  shows "x \<in> set ds \<longleftrightarrow>
     (\<exists>v \<in> set (st_DeprecatedVersions status). \<exists>d. v_BuildID v = x \<and> v_Deployment v \<noteq> None
        \<and> map_get (ks_Deployments ks) x = Some d
        \<and> (v_Status v = VersionStatusDrained
             \<and> (\<exists>t. v_DrainedSince v = Some t \<and> now - t > scaledown + del) \<and> d_Replicas d = Some 0
           \<or> v_Status v = VersionStatusNotRegistered \<and> found \<and> v_BuildID (st_TargetVersion status) \<noteq> x))"
proof -
  have "time_Since now t > scaledown + del \<longleftrightarrow> now - t > scaledown + del" for t
    using assms(2) time_Since_gt [of "scaledown + del" now t] time_Since_gtI [of "scaledown + del" now t]
    by (auto simp: delays_def)
  then show ?thesis
    unfolding getDeleteDeployments_eq [OF assms] by (auto simp: deletable_def)
qed

lemma sample_delays: "delays sample_spec Hour (24 * Hour)"
  by (simp add: delays_def sample_spec_def duration_units maxDuration_def)

theorem getDeleteDeployments_iff_witness:
  "getDeleteDeployments (26 * Hour) (sample_cluster 0) (sample_sunset VersionStatusDrained (Some 0)) sample_spec True
     = Inr [''v0''] \<and> ''v0'' \<in> set [''v0'']"
proof -
  have g: "getDeleteDeployments (26 * Hour) (sample_cluster 0) (sample_sunset VersionStatusDrained (Some 0)) sample_spec True
      = Inr [''v0'']"
    by (simp add: getDeleteDeployments_def appendIfE_def delete_version_def sunset_samples sample_defs
        time_Since_def maxDuration_def minDuration_def wrap64_def duration_units)
  from getDeleteDeployments_iff [OF g sample_delays, of "''v0''"] g show ?thesis
    by (auto simp: sunset_samples sample_defs)
qed

text \<open>
  C33 (safety). Every Deployment to be scaled is scaled for a reason: to the desired replicas when
  it is that of the current, target or a ramping version and has another size; to zero only
  when it belongs to an inactive version other than the target, or to a version drained for
  longer than the scale-down delay, and has replicas. Draining and unregistered deprecated
  versions give no reason.
\<close>

theorem getScaleDeployments_reasons:
  assumes "getScaleDeployments now ks status spec = Inr m" and "spec_Replicas spec = Some replicas"
    and "ss_ScaledownDelay (spec_SunsetStrategy spec) = Some wait" and "map_get m ref = Some n"
  shows "scale_reason now ks status wait replicas ref n"
  using getScaleDeployments_reason [OF assms(1-3)] assms(4) unfolding reasoned_def by blast

theorem getScaleDeployments_reasons_witness:
  "getScaleDeployments (2 * Hour) (sample_cluster 3) (sample_sunset VersionStatusDrained (Some 0)) sample_spec
     = Inr [(sample_ref 7, 0)]
   \<and> scale_reason (2 * Hour) (sample_cluster 3) (sample_sunset VersionStatusDrained (Some 0)) Hour 3 (sample_ref 7) 0"
proof -
  have g: "getScaleDeployments (2 * Hour) (sample_cluster 3) (sample_sunset VersionStatusDrained (Some 0)) sample_spec
      = Inr [(sample_ref 7, 0)]"
    by (simp add: getScaleDeployments_def scale_current_def scale_target_def scale_version_def sunset_samples
        sample_defs time_Since_def maxDuration_def minDuration_def duration_units)
  show ?thesis
    using g getScaleDeployments_reasons [OF g, of 3 Hour "sample_ref 7" 0] by (simp add: sample_spec_def)
qed

lemma count_ineligible_eq:
  "count_ineligible vs = of_nat (length (filter (\<lambda>v. \<not> v_EligibleForDeletion v) vs))"
proof -
  have "fold (\<lambda>v n. if \<not> v_EligibleForDeletion v then n + 1 else n) vs n
      = n + of_nat (length (filter (\<lambda>v. \<not> v_EligibleForDeletion v) vs))" for n :: int32
    by (induction vs arbitrary: n) (simp_all add: add.assoc)
  then show ?thesis by (simp add: count_ineligible_def)
qed

lemma sint_count_ineligible:
  assumes "length vs < 2 ^ 31"
  shows "sint (count_ineligible vs) = int (length (filter (\<lambda>v. \<not> v_EligibleForDeletion v) vs))"
proof -
  let ?n = "length (filter (\<lambda>v. \<not> v_EligibleForDeletion v) vs)"
  have "?n < 2 ^ 31" using assms length_filter_le le_less_trans by blast
  then have "int ?n < 2 ^ 31" by (metis of_nat_less_iff of_nat_numeral of_nat_power)
  then have "sint (word_of_int (int ?n) :: int32) = int ?n" by (intro sint_word_of_int32) simp_all
  then show ?thesis by (simp add: count_ineligible_eq)
qed

text \<open>
  A Deployment is created exactly when the target has none and fewer deprecated
  versions than the limit are ineligible for deletion; the 32-bit count is exact for fewer
  than two to the 31 deprecated versions.
\<close>

theorem shouldCreateDeployment_iff:
  assumes "length (st_DeprecatedVersions status) < 2 ^ 31"
  shows "shouldCreateDeployment status limit \<longleftrightarrow>
     v_Deployment (st_TargetVersion status) = None
     \<and> int (length (filter (\<lambda>v. \<not> v_EligibleForDeletion v) (st_DeprecatedVersions status))) < sint limit"
  by (cases "v_Deployment (st_TargetVersion status)")
     (simp_all add: shouldCreateDeployment_def sint_count_ineligible [OF assms] not_le)

theorem shouldCreateDeployment_iff_witness:
  "shouldCreateDeployment (sample_sunset VersionStatusDraining None) 2
   \<and> \<not> shouldCreateDeployment (sample_sunset VersionStatusDraining None) 1"
  using shouldCreateDeployment_iff [of "sample_sunset VersionStatusDraining None" 2]
    shouldCreateDeployment_iff [of "sample_sunset VersionStatusDraining None" 1]
  by (simp add: sunset_samples sample_status_def sample_target_def)

end
