(* ===== verification/Temporal_State.thy ===== *)
theory Temporal_State
  imports Go_IO "HOL-Library.Sublist"
begin

text \<open>
  The state of a worker deployment in Temporal (\<^verbatim>\<open>internal/temporal/worker_deployment.go\<close>): how
  the controller reads it, with retries, how it classifies versions, the pollers of their task
  queues, the ownership metadata and the test workflows. The Temporal SDK client is a
  parameter (\<open>temporal_client\<close>).
\<close>

section \<open>What the Temporal SDK returns\<close>

record WorkerDeploymentVersion =
  wdv_DeploymentName :: string
  wdv_BuildId :: string

record WorkerDeploymentRoutingConfig =
  rc_CurrentVersion :: "WorkerDeploymentVersion option"
  rc_RampingVersion :: "WorkerDeploymentVersion option"
  rc_RampingVersionPercentage :: float32
  rc_RampingVersionChangedTime :: go_time
  rc_RampingVersionPercentageChangedTime :: go_time

datatype drainage_status = DrainageUnspecified | DrainageDraining | DrainageDrained

record WorkerDeploymentVersionSummary =
  vs_Version :: WorkerDeploymentVersion
  vs_DrainageStatus :: drainage_status

record WorkerDeploymentDescribeResponse =
  dd_ConflictToken :: string
  dd_RoutingConfig :: WorkerDeploymentRoutingConfig
  dd_LastModifierIdentity :: string
  dd_VersionSummaries :: "WorkerDeploymentVersionSummary list"

record WorkerDeploymentVersionDrainageInfo =
  dr_DrainageStatus :: drainage_status
  dr_LastChangedTime :: go_time

datatype TaskQueueType = TaskQueueTypeWorkflow | TaskQueueTypeActivity | TaskQueueTypeOther

record WorkerDeploymentTaskQueueInfo =
  tqi_Name :: string
  tqi_Type :: TaskQueueType

record WorkerDeploymentVersionDescription =
  vd_TaskQueuesInfos :: "WorkerDeploymentTaskQueueInfo list"
  vd_DrainageInfo :: "WorkerDeploymentVersionDrainageInfo option"
  vd_Metadata :: "(string, string) go_map"      \<comment> \<open>encoded payloads\<close>

datatype WorkerVersioningMode = ModeUnspecified | ModeUnversioned | ModeVersioned | ModeOther

datatype workflow_status_pb =
  PB_UNSPECIFIED | PB_RUNNING | PB_COMPLETED | PB_FAILED | PB_CANCELED | PB_TERMINATED
  | PB_CONTINUED_AS_NEW | PB_TIMED_OUT | PB_OTHER

record workflow_description =
  wd_WorkflowId :: string
  wd_RunId :: string
  wd_TaskQueue :: string
  wd_Status :: workflow_status_pb

text \<open>
  The client: its read-only calls, the default data converter, and by how much \<open>time.Sleep\<close>
  overshoots.
\<close>

record temporal_client =
  cl_Describe :: "string \<Rightarrow> WorkerDeploymentDescribeResponse remote"
  cl_DescribeVersion :: "string \<Rightarrow> string \<Rightarrow> WorkerDeploymentVersionDescription remote"
  cl_DescribeWorkflowExecution :: "string \<Rightarrow> workflow_description remote"
  cl_DescribeTaskQueue :: "string \<Rightarrow> TaskQueueType \<Rightarrow> WorkerVersioningMode list remote"
  cl_FromPayload :: "string \<Rightarrow> api_error + string"
  cl_oversleep :: "world \<Rightarrow> nat"

section \<open>The controller's view\<close>

definition IgnoreLastModifierKey :: string where
  "IgnoreLastModifierKey = ''temporal.io/ignore-last-modifier''"

record VersionInfo =
  vi_DeploymentName :: string
  vi_BuildID :: string
  vi_Status :: VersionStatus
  vi_DrainedSince :: "go_time option"
  vi_TaskQueues :: "TaskQueue list"
  vi_TestWorkflows :: "WorkflowExecution list"
  vi_AllTaskQueuesHaveUnversionedPoller :: bool
  vi_NoTaskQueuesHaveVersionedPoller :: bool

record TemporalWorkerState =
  ts_CurrentBuildID :: string
  ts_VersionConflictToken :: string
  ts_RampingBuildID :: string
  ts_RampPercentage :: float32
  ts_RampingSince :: "go_time option"
  ts_RampLastModifiedAt :: "go_time option"
  ts_Versions :: "(string, VersionInfo) go_map"
  ts_LastModifierIdentity :: string
  ts_IgnoreLastModifier :: bool

definition empty_TemporalWorkerState :: TemporalWorkerState where
  "empty_TemporalWorkerState =
     \<lparr>ts_CurrentBuildID = [], ts_VersionConflictToken = [], ts_RampingBuildID = [], ts_RampPercentage = 0,
      ts_RampingSince = None, ts_RampLastModifiedAt = None, ts_Versions = [],
      ts_LastModifierIdentity = [], ts_IgnoreLastModifier = False\<rparr>"

section \<open>Retries\<close>

text \<open>
  \<open>withBackoff\<close>. The closure's captured result is the value of its successful attempt; a loop
  that makes no attempt reports success with no value (\<open>Inr None\<close>).
\<close>

definition io_Sleep :: "(world \<Rightarrow> nat) \<Rightarrow> duration \<Rightarrow> world \<Rightarrow> world" where
  "io_Sleep oversleep d w = w\<lparr>w_now := w_now w + max 0 d + int (oversleep w)\<rparr>"

partial_function (option) backoff_loop ::
  "(world \<Rightarrow> nat) \<Rightarrow> go_time \<Rightarrow> duration \<Rightarrow> (world \<Rightarrow> (api_error + 'a) \<times> world) \<Rightarrow> api_error option
   \<Rightarrow> world \<Rightarrow> ((api_error + 'a option) \<times> world) option"
where
  "backoff_loop oversleep deadline tick fn lastErr w =
     (if w_now w < deadline
      then (case fn w of
              (Inr x, w') \<Rightarrow> Some (Inr (Some x), w')
            | (Inl e, w') \<Rightarrow> backoff_loop oversleep deadline tick fn (Some e) (io_Sleep oversleep tick w'))
      else Some (case lastErr of None \<Rightarrow> Inr None | Some e \<Rightarrow> Inl e, w))"

definition withBackoff ::
  "(world \<Rightarrow> nat) \<Rightarrow> duration \<Rightarrow> duration \<Rightarrow> (world \<Rightarrow> (api_error + 'a) \<times> world) \<Rightarrow> (api_error + 'a option) io"
where
  "withBackoff oversleep timeout tick fn w =
     (case backoff_loop oversleep (w_now w + timeout) tick fn None w of
        None \<Rightarrow> None
      | Some (r, w') \<Rightarrow> Some (Ok r, w'))"

text \<open>A remote call as the closure of a retry.\<close>

definition attempt :: "'a remote \<Rightarrow> ('a \<Rightarrow> api_error + 'b) \<Rightarrow> world \<Rightarrow> (api_error + 'b) \<times> world" where
  "attempt f check w =
     (case fst (f w) of Inl e \<Rightarrow> Inl e | Inr x \<Rightarrow> check x,
      w\<lparr>w_now := w_now w + int (snd (f w))\<rparr>)"

section \<open>Pollers\<close>

definition getPollers :: "temporal_client \<Rightarrow> WorkerDeploymentTaskQueueInfo \<Rightarrow> (api_error + WorkerVersioningMode list) io" where
  "getPollers client info =
     (case tqi_Type info of
        TaskQueueTypeWorkflow \<Rightarrow>
          io_bind (io_read (cl_DescribeTaskQueue client (tqi_Name info) TaskQueueTypeWorkflow))
            (\<lambda>r. io_return (map_error (''unable to describe task queue '' @ tqi_Name info) r))
      | TaskQueueTypeActivity \<Rightarrow>
          io_bind (io_read (cl_DescribeTaskQueue client (tqi_Name info) TaskQueueTypeActivity))
            (\<lambda>r. io_return (map_error (''unable to describe task queue '' @ tqi_Name info) r))
      | TaskQueueTypeOther \<Rightarrow> io_return (Inr []))"

fun first_unversioned :: "WorkerVersioningMode list \<Rightarrow> bool" where
  "first_unversioned [] = False"
| "first_unversioned (p # ps) =
     (case p of ModeUnversioned \<Rightarrow> True | ModeUnspecified \<Rightarrow> True | _ \<Rightarrow> first_unversioned ps)"

fun none_versioned :: "WorkerVersioningMode list \<Rightarrow> bool" where
  "none_versioned [] = True"
| "none_versioned (p # ps) = (case p of ModeVersioned \<Rightarrow> False | _ \<Rightarrow> none_versioned ps)"

definition HasUnversionedPoller :: "temporal_client \<Rightarrow> WorkerDeploymentTaskQueueInfo \<Rightarrow> (api_error + bool) io" where
  "HasUnversionedPoller client info =
     io_bind (getPollers client info) (\<lambda>r. io_return
       (case r of
          Inl e \<Rightarrow> Inl (wrap_error ''unable to confirm presence of unversioned pollers'' e)
        | Inr pollers \<Rightarrow> Inr (first_unversioned pollers)))"

definition HasNoVersionedPollers :: "temporal_client \<Rightarrow> WorkerDeploymentTaskQueueInfo \<Rightarrow> (api_error + bool) io" where
  "HasNoVersionedPollers client info =
     io_bind (getPollers client info) (\<lambda>r. io_return
       (case r of
          Inl e \<Rightarrow> Inl (wrap_error ''unable to confirm absence of versioned pollers'' e)
        | Inr pollers \<Rightarrow> Inr (none_versioned pollers)))"

text \<open>The counting loops: an error counts as false.\<close>

definition count_queues ::
  "(WorkerDeploymentTaskQueueInfo \<Rightarrow> (api_error + bool) io) \<Rightarrow> WorkerDeploymentTaskQueueInfo list \<Rightarrow> nat io" where
  "count_queues check tqs =
     io_fold (\<lambda>info n. io_bind (check info)
                (\<lambda>r. io_return (if r = Inr True then Suc n else n))) tqs 0"

definition noTaskQueuesHaveVersionedPollers :: "temporal_client \<Rightarrow> WorkerDeploymentTaskQueueInfo list \<Rightarrow> bool io" where
  "noTaskQueuesHaveVersionedPollers client tqs =
     io_bind (count_queues (HasNoVersionedPollers client) tqs) (\<lambda>n. io_return (n = length tqs))"

definition allTaskQueuesHaveUnversionedPoller :: "temporal_client \<Rightarrow> WorkerDeploymentTaskQueueInfo list \<Rightarrow> bool io" where
  "allTaskQueuesHaveUnversionedPoller client tqs =
     io_bind (count_queues (HasUnversionedPoller client) tqs) (\<lambda>n. io_return (n = length tqs))"

section \<open>Ownership metadata\<close>

text \<open>
  The loop over the metadata looks for one key, so the first entry with it decides and the
  iteration order of the map does not matter.
\<close>

definition getShouldIgnoreLastModifier :: "temporal_client \<Rightarrow> string \<Rightarrow> string \<Rightarrow> bool io" where
  "getShouldIgnoreLastModifier client deploymentName buildId =
     io_bind (io_read (cl_DescribeVersion client deploymentName buildId)) (\<lambda>r.
       case r of
         Inl e \<Rightarrow> io_fail (wrap_error ''unable to describe version'' e)
       | Inr desc \<Rightarrow>
           (case map_get (vd_Metadata desc) IgnoreLastModifierKey of
              None \<Rightarrow> io_return False
            | Some v \<Rightarrow>
                (case cl_FromPayload client v of
                   Inl e \<Rightarrow> io_fail (wrap_error (''unable to decode metadata payload for key ''
                                                   @ IgnoreLastModifierKey) e)
                 | Inr s \<Rightarrow> io_return (s = ''true''))))"

definition DeploymentShouldIgnoreLastModifier ::
  "temporal_client \<Rightarrow> string \<Rightarrow> WorkerDeploymentRoutingConfig \<Rightarrow> bool io" where
  "DeploymentShouldIgnoreLastModifier client deploymentName routingConfig =
     io_bind
       (case rc_CurrentVersion routingConfig of
          None \<Rightarrow> io_return False
        | Some v \<Rightarrow> getShouldIgnoreLastModifier client deploymentName (wdv_BuildId v))
       (\<lambda>shouldIgnore.
          if \<not> shouldIgnore \<and> rc_RampingVersion routingConfig \<noteq> None
          then (case rc_CurrentVersion routingConfig of
                  None \<Rightarrow> io_panic NilPointer
                | Some v \<Rightarrow> getShouldIgnoreLastModifier client deploymentName (wdv_BuildId v))
          else io_return shouldIgnore)"

section \<open>Reading the worker deployment\<close>

text \<open>\<open>describeVersionUntilDrainTime\<close>, on the description it got.\<close>

definition check_drained ::
  "string \<Rightarrow> WorkerDeploymentVersionDescription \<Rightarrow> api_error + WorkerDeploymentVersionDescription" where
  "check_drained buildId desc =
     (case vd_DrainageInfo desc of
        None \<Rightarrow> Inl (new_error (''drainage info nil for build '' @ buildId))
      | Some info \<Rightarrow>
          if dr_DrainageStatus info \<noteq> DrainageDrained
          then Inl (new_error (''version info does not say that build '' @ buildId @ '' is drained''))
          else Inr desc)"

definition zero_VersionInfo :: "WorkerDeploymentVersion \<Rightarrow> VersionStatus \<Rightarrow> VersionInfo" where
  "zero_VersionInfo v s =
     \<lparr>vi_DeploymentName = wdv_DeploymentName v, vi_BuildID = wdv_BuildId v, vi_Status = s,
      vi_DrainedSince = None, vi_TaskQueues = [], vi_TestWorkflows = [],
      vi_AllTaskQueuesHaveUnversionedPoller = False, vi_NoTaskQueuesHaveVersionedPoller = False\<rparr>"

text \<open>The branch of a drained version, and the one of a version that is none of the others.\<close>

definition drained_version ::
  "temporal_client \<Rightarrow> string \<Rightarrow> (string, Deployment) go_map \<Rightarrow> WorkerDeploymentVersion \<Rightarrow> VersionInfo io" where
  "drained_version client deploymentName k8sDeployments v =
     io_bind (withBackoff (cl_oversleep client) (10 * Second) (1 * Second)
                (attempt (cl_DescribeVersion client deploymentName (wdv_BuildId v)) (check_drained (wdv_BuildId v))))
       (\<lambda>r. case r of
          Inl e \<Rightarrow>
            io_return (zero_VersionInfo v
              (if err_kind e = ErrNotFound then VersionStatusNotRegistered else VersionStatusDrained))
        | Inr None \<Rightarrow> io_panic NilPointer
        | Inr (Some desc) \<Rightarrow>
            (case vd_DrainageInfo desc of
               None \<Rightarrow> io_panic NilPointer
             | Some info \<Rightarrow>
                 let vi = (zero_VersionInfo v VersionStatusDrained)\<lparr>vi_DrainedSince := Some (dr_LastChangedTime info)\<rparr>
                 in if (case map_get k8sDeployments (wdv_BuildId v) of
                          None \<Rightarrow> True | Some d \<Rightarrow> dst_Replicas (d_Status d) = 0)
                    then io_bind (noTaskQueuesHaveVersionedPollers client (vd_TaskQueuesInfos desc))
                           (\<lambda>b. io_return (vi\<lparr>vi_NoTaskQueuesHaveVersionedPoller := b\<rparr>))
                    else io_return vi))"

definition inactive_version ::
  "temporal_client \<Rightarrow> string \<Rightarrow> WorkerDeploymentRoutingConfig \<Rightarrow> string \<Rightarrow> DefaultVersionUpdateStrategy
   \<Rightarrow> WorkerDeploymentVersion \<Rightarrow> VersionInfo io" where
  "inactive_version client deploymentName routingConfig targetBuildId strategy v =
     (let vi = zero_VersionInfo v VersionStatusInactive
      in if wdv_BuildId v = targetBuildId \<and> rc_CurrentVersion routingConfig = None \<and> strategy = UpdateProgressive
         then io_bind (withBackoff (cl_oversleep client) (10 * Second) (1 * Second)
                         (attempt (cl_DescribeVersion client deploymentName (wdv_BuildId v)) Inr))
                (\<lambda>r. case r of
                   Inl e \<Rightarrow> io_return vi
                 | Inr desc \<Rightarrow>
                     io_bind (allTaskQueuesHaveUnversionedPoller client
                                (case desc of None \<Rightarrow> [] | Some d \<Rightarrow> vd_TaskQueuesInfos d))
                       (\<lambda>b. io_return (vi\<lparr>vi_AllTaskQueuesHaveUnversionedPoller := b\<rparr>)))
         else io_return vi)"

definition version_info ::
  "temporal_client \<Rightarrow> string \<Rightarrow> (string, Deployment) go_map \<Rightarrow> WorkerDeploymentRoutingConfig \<Rightarrow> string
   \<Rightarrow> DefaultVersionUpdateStrategy \<Rightarrow> WorkerDeploymentVersionSummary \<Rightarrow> VersionInfo io" where
  "version_info client deploymentName k8sDeployments routingConfig targetBuildId strategy s =
     (let v = vs_Version s
      in if rc_CurrentVersion routingConfig = Some v
         then io_return (zero_VersionInfo v VersionStatusCurrent)
         else if rc_RampingVersion routingConfig = Some v
         then io_return (zero_VersionInfo v VersionStatusRamping)
         else if vs_DrainageStatus s = DrainageDraining
         then io_return (zero_VersionInfo v VersionStatusDraining)
         else if vs_DrainageStatus s = DrainageDrained
         then drained_version client deploymentName k8sDeployments v
         else inactive_version client deploymentName routingConfig targetBuildId strategy v)"

definition routing_state :: "WorkerDeploymentDescribeResponse \<Rightarrow> bool \<Rightarrow> TemporalWorkerState" where
  "routing_state resp ignore =
     (let rc = dd_RoutingConfig resp
      in \<lparr>ts_CurrentBuildID = (case rc_CurrentVersion rc of None \<Rightarrow> [] | Some v \<Rightarrow> wdv_BuildId v),
          ts_VersionConflictToken = dd_ConflictToken resp,
          ts_RampingBuildID = (case rc_RampingVersion rc of None \<Rightarrow> [] | Some v \<Rightarrow> wdv_BuildId v),
          ts_RampPercentage = rc_RampingVersionPercentage rc,
          ts_RampingSince = (case rc_RampingVersion rc of
              None \<Rightarrow> None | Some _ \<Rightarrow> Some (rc_RampingVersionChangedTime rc)),
          ts_RampLastModifiedAt = (case rc_RampingVersion rc of
              None \<Rightarrow> None | Some _ \<Rightarrow> Some (rc_RampingVersionPercentageChangedTime rc)),
          ts_Versions = [],
          ts_LastModifierIdentity = dd_LastModifierIdentity resp,
          ts_IgnoreLastModifier = ignore\<rparr>)"

text \<open>The loop over the version summaries.\<close>

definition read_versions ::
  "temporal_client \<Rightarrow> string \<Rightarrow> (string, Deployment) go_map \<Rightarrow> WorkerDeploymentRoutingConfig \<Rightarrow> string
   \<Rightarrow> DefaultVersionUpdateStrategy \<Rightarrow> WorkerDeploymentVersionSummary list \<Rightarrow> TemporalWorkerState \<Rightarrow> TemporalWorkerState io" where
  "read_versions client deploymentName k8sDeployments routingConfig targetBuildId strategy =
     io_fold (\<lambda>s st.
       io_bind (version_info client deploymentName k8sDeployments routingConfig targetBuildId strategy s)
         (\<lambda>vi. io_return (st\<lparr>ts_Versions := map_put (wdv_BuildId (vs_Version s)) vi (ts_Versions st)\<rparr>)))"

definition GetWorkerDeploymentState ::
  "temporal_client \<Rightarrow> string \<Rightarrow> (string, Deployment) go_map \<Rightarrow> string \<Rightarrow> DefaultVersionUpdateStrategy
   \<Rightarrow> string \<Rightarrow> TemporalWorkerState io" where
  "GetWorkerDeploymentState client workerDeploymentName k8sDeployments targetBuildId strategy controllerIdentity =
     io_bind (io_read (cl_Describe client workerDeploymentName)) (\<lambda>r.
       case r of
         Inl e \<Rightarrow>
           if err_kind e = ErrNotFound then io_return empty_TemporalWorkerState
           else io_fail (wrap_error (''unable to describe worker deployment '' @ workerDeploymentName) e)
       | Inr resp \<Rightarrow>
           io_bind
             (if dd_LastModifierIdentity resp \<noteq> controllerIdentity \<and> dd_LastModifierIdentity resp \<noteq> []
              then DeploymentShouldIgnoreLastModifier client workerDeploymentName (dd_RoutingConfig resp)
              else io_return False)
             (\<lambda>ignore.
                read_versions client workerDeploymentName k8sDeployments (dd_RoutingConfig resp)
                  targetBuildId strategy (dd_VersionSummaries resp) (routing_state resp ignore)))"

section \<open>Test workflows\<close>

fun mapWorkflowStatus :: "workflow_status_pb \<Rightarrow> WorkflowExecutionStatus" where
  "mapWorkflowStatus PB_RUNNING = WorkflowExecutionStatusRunning"
| "mapWorkflowStatus PB_CONTINUED_AS_NEW = WorkflowExecutionStatusRunning"
| "mapWorkflowStatus PB_COMPLETED = WorkflowExecutionStatusCompleted"
| "mapWorkflowStatus PB_FAILED = WorkflowExecutionStatusFailed"
| "mapWorkflowStatus PB_CANCELED = WorkflowExecutionStatusCanceled"
| "mapWorkflowStatus PB_TERMINATED = WorkflowExecutionStatusTerminated"
| "mapWorkflowStatus PB_TIMED_OUT = WorkflowExecutionStatusTimedOut"
| "mapWorkflowStatus _ = WorkflowExecutionStatusRunning"

definition GetTestWorkflowID :: "string \<Rightarrow> string \<Rightarrow> string \<Rightarrow> string" where
  "GetTestWorkflowID deploymentName buildID taskQueue =
     ''test-'' @ deploymentName @ '':'' @ buildID @ ''-'' @ taskQueue"

text \<open>
  \<open>GetTestWorkflowStatus\<close> appends to the task queues of the version in the shared state as it
  goes, also when it later fails; the caller logs the error and continues. The state after the
  call and the result (or the error) are the value. A description that is not found has no
  task queues (the SDK returns the zero description with the error).
\<close>

fun test_workflows_loop ::
  "temporal_client \<Rightarrow> VersionInfo \<Rightarrow> WorkerDeploymentTaskQueueInfo list \<Rightarrow> TaskQueue list \<Rightarrow> WorkflowExecution list
   \<Rightarrow> (TaskQueue list \<times> (api_error + WorkflowExecution list)) io" where
  "test_workflows_loop client info [] tqs results = io_return (tqs, Inr results)"
| "test_workflows_loop client info (q # qs) tqs results =
     (if tqi_Type q \<noteq> TaskQueueTypeWorkflow
      then test_workflows_loop client info qs tqs results
      else io_bind (io_read (cl_DescribeWorkflowExecution client
                               (GetTestWorkflowID (vi_DeploymentName info) (vi_BuildID info) (tqi_Name q))))
             (\<lambda>r. let tqs' = tqs @ [\<lparr>tq_Name = tqi_Name q\<rparr>]
                  in case r of
                       Inl e \<Rightarrow>
                         if \<not> sublist ''workflow not found'' (err_text e)
                         then io_return (tqs', Inl (wrap_error ''unable to describe test workflow'' e))
                         else test_workflows_loop client info qs tqs' results
                     | Inr wd \<Rightarrow>
                         test_workflows_loop client info qs tqs'
                           (results @ [\<lparr>wf_WorkflowID = wd_WorkflowId wd, wf_RunID = wd_RunId wd,
                                        wf_Status = mapWorkflowStatus (wd_Status wd),
                                        wf_TaskQueue = wd_TaskQueue wd\<rparr>])))"

definition GetTestWorkflowStatus ::
  "temporal_client \<Rightarrow> string \<Rightarrow> string \<Rightarrow> TemporalWorkerState
   \<Rightarrow> (TemporalWorkerState \<times> (api_error + WorkflowExecution list)) io" where
  "GetTestWorkflowStatus client workerDeploymentName buildID st =
     (case map_get (ts_Versions st) buildID of
        None \<Rightarrow> io_return (st, Inr [])
      | Some info \<Rightarrow>
          io_bind (io_read (cl_DescribeVersion client workerDeploymentName (vi_BuildID info))) (\<lambda>r.
            let loop = (\<lambda>infos. io_bind (test_workflows_loop client info infos (vi_TaskQueues info) [])
                  (\<lambda>(tqs, res). io_return
                     (st\<lparr>ts_Versions := map_put buildID (info\<lparr>vi_TaskQueues := tqs\<rparr>) (ts_Versions st)\<rparr>, res)))
            in case r of
                 Inl e \<Rightarrow>
                   if err_kind e = ErrNotFound then loop []
                   else io_return (st, Inl (wrap_error (''unable to describe worker deployment version for buildID ''
                                              @ buildID) e))
               | Inr desc \<Rightarrow> loop (vd_TaskQueuesInfos desc)))"

section \<open>Retries return\<close>

definition forward :: "(world \<Rightarrow> 'a \<times> world) \<Rightarrow> bool" where
  "forward fn \<longleftrightarrow> (\<forall>w. w_now w \<le> w_now (snd (fn w)) \<and> w_calls (snd (fn w)) = w_calls w)"

lemma forward_attempt: "forward (attempt f check)"
  by (simp add: forward_def attempt_def)

text \<open>What the retry loop did: the last attempt succeeded, or all did fail up to the deadline.\<close>

definition backoff_result ::
  "(world \<Rightarrow> (api_error + 'a) \<times> world) \<Rightarrow> go_time \<Rightarrow> go_time \<Rightarrow> api_error + 'a option \<Rightarrow> world \<Rightarrow> bool" where
  "backoff_result fn start deadline r w' \<longleftrightarrow>
     (\<exists>w0. start \<le> w_now w0 \<and> w_now w0 < deadline
        \<and> (case r of
             Inl e \<Rightarrow> fst (fn w0) = Inl e \<and> deadline \<le> w_now w'
           | Inr None \<Rightarrow> False
           | Inr (Some x) \<Rightarrow> fn w0 = (Inr x, w')))"

lemma backoff_result_mono:
  assumes "backoff_result fn start deadline r w'" and "start' \<le> start"
  shows "backoff_result fn start' deadline r w'"
proof -
  from assms(1) obtain w0 where "start \<le> w_now w0" and "w_now w0 < deadline"
    and "case r of Inl e \<Rightarrow> fst (fn w0) = Inl e \<and> deadline \<le> w_now w' | Inr None \<Rightarrow> False | Inr (Some x) \<Rightarrow> fn w0 = (Inr x, w')"
    unfolding backoff_result_def by blast
  with assms(2) show ?thesis unfolding backoff_result_def by (intro exI [of _ w0]) simp
qed

lemma backoff_loop_spec:
  assumes "0 < tick" and "forward fn"
  shows "\<exists>r w'. backoff_loop ov deadline tick fn lastErr w = Some (r, w') \<and> w_calls w' = w_calls w \<and> w_now w \<le> w_now w'
     \<and> (backoff_result fn (w_now w) deadline r w'
        \<or> deadline \<le> w_now w \<and> w' = w \<and> r = (case lastErr of None \<Rightarrow> Inr None | Some e \<Rightarrow> Inl e))"
proof (induction "nat (deadline - w_now w)" arbitrary: w lastErr rule: less_induct)
  case less
  show ?case
  proof (cases "w_now w < deadline")
    case False
    then show ?thesis by (subst backoff_loop.simps) auto
  next
    case True
    obtain r1 w1 where fn: "fn w = (r1, w1)" by (cases "fn w")
    have w1: "w_now w \<le> w_now w1" "w_calls w1 = w_calls w"
      using assms(2) fn by (metis forward_def snd_conv)+
    show ?thesis
    proof (cases r1)
      case (Inr x)
      with True fn w1 show ?thesis
        by (subst backoff_loop.simps) (auto simp: backoff_result_def)
    next
      case (Inl e)
      let ?w2 = "io_Sleep ov tick w1"
      have w2: "w_now w < w_now ?w2" "w_calls ?w2 = w_calls w"
        using w1 assms(1) by (auto simp: io_Sleep_def)
      have "nat (deadline - w_now ?w2) < nat (deadline - w_now w)" using w2(1) True by simp
      from less.hyps [OF this, of "Some e"] obtain r w' where
        loop: "backoff_loop ov deadline tick fn (Some e) ?w2 = Some (r, w')" "w_calls w' = w_calls ?w2" "w_now ?w2 \<le> w_now w'"
        and res: "backoff_result fn (w_now ?w2) deadline r w' \<or> deadline \<le> w_now ?w2 \<and> w' = ?w2 \<and> r = Inl e"
        by auto
      have "backoff_result fn (w_now w) deadline r w'"
        using res
      proof
        assume "backoff_result fn (w_now ?w2) deadline r w'"
        then show ?thesis by (rule backoff_result_mono) (simp add: w2(1) less_imp_le)
      next
        assume "deadline \<le> w_now ?w2 \<and> w' = ?w2 \<and> r = Inl e"
        then show ?thesis using True fn Inl by (auto simp: backoff_result_def intro!: exI [of _ w])
      qed
      moreover have "backoff_loop ov deadline tick fn lastErr w = Some (r, w')"
        using True fn Inl loop(1) by (subst backoff_loop.simps) simp
      ultimately show ?thesis using loop w2 by auto
    qed
  qed
qed

lemma withBackoff_spec:
  assumes "0 < tick" and "0 < timeout" and "forward fn"
  shows "\<exists>r w'. withBackoff ov timeout tick fn w = Some (Ok r, w') \<and> w_calls w' = w_calls w \<and> w_now w \<le> w_now w'
           \<and> backoff_result fn (w_now w) (w_now w + timeout) r w'"
  using backoff_loop_spec [OF assms(1,3), of ov "w_now w + timeout" None w] assms(2)
  by (fastforce simp: withBackoff_def)

text \<open>
  C27 (termination). A remote call retried with a positive tick and timeout returns, whatever the
  service answers and however long it takes: either with the value of an attempt made before
  the deadline, or, once the deadline has passed, with the error of an attempt made before it.
  It never reports success without an attempt that succeeded.
\<close>

theorem withBackoff_returns:
  assumes "0 < tick" and "0 < timeout"
  shows "\<exists>r w'. withBackoff ov timeout tick (attempt f check) w = Some (Ok r, w')
           \<and> backoff_result (attempt f check) (w_now w) (w_now w + timeout) r w' \<and> r \<noteq> Inr None"
proof -
  obtain r w' where r: "withBackoff ov timeout tick (attempt f check) w = Some (Ok r, w')"
    "backoff_result (attempt f check) (w_now w) (w_now w + timeout) r w'"
    using withBackoff_spec [OF assms forward_attempt] by blast
  moreover have "r \<noteq> Inr None" using r(2) by (auto simp: backoff_result_def)
  ultimately show ?thesis by blast
qed

definition failing :: "WorkerDeploymentVersionDescription remote" where
  "failing w = (Inl (new_error ''down''), 5)"

theorem withBackoff_returns_witness:
  "\<exists>w'. withBackoff (\<lambda>w. 0) (10 * Second) Second (attempt failing Inr) \<lparr>w_now = 0, w_calls = []\<rparr>
          = Some (Ok (Inl (new_error ''down'')), w') \<and> 10 * Second \<le> w_now w'"
proof -
  have "0 < Second" "0 < 10 * Second" by (simp_all add: Second_def)
  from withBackoff_returns [OF this, of "\<lambda>w. 0" failing Inr "\<lparr>w_now = 0, w_calls = []\<rparr>"]
  obtain r w' where r: "withBackoff (\<lambda>w. 0) (10 * Second) Second (attempt failing Inr) \<lparr>w_now = 0, w_calls = []\<rparr> = Some (Ok r, w')"
    "backoff_result (attempt failing Inr) 0 (10 * Second) r w'" by auto
  from r(2) have "r = Inl (new_error ''down'') \<and> 10 * Second \<le> w_now w'"
    by (cases r) (auto simp: backoff_result_def attempt_def failing_def split: option.splits)
  with r(1) show ?thesis by blast
qed

text \<open>Counting the queues that pass a check is checking them all.\<close>

lemma count_queues_static:
  assumes "\<And>q w. \<exists>w' r. check q w = Some (Ok r, w') \<and> (r = Inr True \<longleftrightarrow> P q)"
  shows "\<exists>w'. count_queues check tqs w = Some (Ok (length (filter P tqs)), w')"
proof -
  have "\<exists>w'. io_fold (\<lambda>info n. io_bind (check info) (\<lambda>r. io_return (if r = Inr True then Suc n else n))) tqs n w
      = Some (Ok (n + length (filter P tqs)), w')" for n
  proof (induction tqs arbitrary: n w)
    case Nil
    then show ?case by (simp add: io_run)
  next
    case (Cons q qs)
    obtain w1 r where w1: "check q w = Some (Ok r, w1)" and r: "r = Inr True \<longleftrightarrow> P q" using assms by blast
    from Cons.IH [of "if P q then Suc n else n" w1] show ?case
      by (cases "P q") (simp_all add: io_bind_assoc io_bind_simps(1) [of "check q" w, OF w1] r)
  qed
  from this [of 0] show ?thesis by (simp add: count_queues_def)
qed

lemma count_all: "length (filter P xs) = length xs \<longleftrightarrow> list_all P xs"
  by (simp add: length_filter_eq_length list_all_iff)

lemma first_unversioned_iff: "first_unversioned ps \<longleftrightarrow> ModeUnversioned \<in> set ps \<or> ModeUnspecified \<in> set ps"
  by (induction ps) (auto split: WorkerVersioningMode.splits)

lemma none_versioned_iff: "none_versioned ps \<longleftrightarrow> ModeVersioned \<notin> set ps"
  by (induction ps) (auto split: WorkerVersioningMode.splits)

text \<open>The pollers of a queue when the service gives the same answer throughout.\<close>

definition queue_pollers ::
  "(string \<Rightarrow> TaskQueueType \<Rightarrow> api_error + WorkerVersioningMode list) \<Rightarrow> WorkerDeploymentTaskQueueInfo
   \<Rightarrow> WorkerVersioningMode list option" where
  "queue_pollers ans q =
     (if tqi_Type q = TaskQueueTypeOther then Some []
      else case ans (tqi_Name q) (tqi_Type q) of Inl e \<Rightarrow> None | Inr ps \<Rightarrow> Some ps)"

lemma getPollers_static:
  assumes "\<And>n ty w. fst (cl_DescribeTaskQueue client n ty w) = ans n ty"
  shows "\<exists>w' r. getPollers client q w = Some (Ok r, w')
           \<and> queue_pollers ans q = (case r of Inl e \<Rightarrow> None | Inr ps \<Rightarrow> Some ps)"
  using assms
  by (cases "tqi_Type q")
     (auto simp: getPollers_def io_bind_def io_read_def io_run queue_pollers_def map_error_def split: sum.splits)

lemma HasUnversionedPoller_static:
  assumes "\<And>n ty w. fst (cl_DescribeTaskQueue client n ty w) = ans n ty"
  shows "\<exists>w' r. HasUnversionedPoller client q w = Some (Ok r, w')
           \<and> (r = Inr True \<longleftrightarrow> (\<exists>ps. queue_pollers ans q = Some ps \<and> first_unversioned ps))"
proof -
  obtain w1 r where "getPollers client q w = Some (Ok r, w1)"
    "queue_pollers ans q = (case r of Inl e \<Rightarrow> None | Inr ps \<Rightarrow> Some ps)"
    using getPollers_static [OF assms] by blast
  then show ?thesis by (cases r) (simp_all add: HasUnversionedPoller_def io_bind_simps(1) io_run)
qed

lemma HasNoVersionedPollers_static:
  assumes "\<And>n ty w. fst (cl_DescribeTaskQueue client n ty w) = ans n ty"
  shows "\<exists>w' r. HasNoVersionedPollers client q w = Some (Ok r, w')
           \<and> (r = Inr True \<longleftrightarrow> (\<exists>ps. queue_pollers ans q = Some ps \<and> none_versioned ps))"
proof -
  obtain w1 r where "getPollers client q w = Some (Ok r, w1)"
    "queue_pollers ans q = (case r of Inl e \<Rightarrow> None | Inr ps \<Rightarrow> Some ps)"
    using getPollers_static [OF assms] by blast
  then show ?thesis by (cases r) (simp_all add: HasNoVersionedPollers_def io_bind_simps(1) io_run)
qed

text \<open>
  While the service answers the same, the counting loops compute what their
  names say: no queue has a versioned poller, respectively every queue has an unversioned one,
  and each queue's pollers could be read. A queue that cannot be described makes both false,
  and queues of another type count as having no pollers.
\<close>

theorem task_queue_checks_spec:
  assumes "\<And>n ty w. fst (cl_DescribeTaskQueue client n ty w) = ans n ty"
  shows "\<exists>w1 w2.
     noTaskQueuesHaveVersionedPollers client tqs w
       = Some (Ok (list_all (\<lambda>q. \<exists>ps. queue_pollers ans q = Some ps \<and> ModeVersioned \<notin> set ps) tqs), w1)
   \<and> allTaskQueuesHaveUnversionedPoller client tqs w
       = Some (Ok (list_all (\<lambda>q. \<exists>ps. queue_pollers ans q = Some ps
                      \<and> (ModeUnversioned \<in> set ps \<or> ModeUnspecified \<in> set ps)) tqs), w2)"
proof -
  obtain w1 where "count_queues (HasNoVersionedPollers client) tqs w
      = Some (Ok (length (filter (\<lambda>q. \<exists>ps. queue_pollers ans q = Some ps \<and> none_versioned ps) tqs)), w1)"
    using count_queues_static [of "HasNoVersionedPollers client" "\<lambda>q. \<exists>ps. queue_pollers ans q = Some ps \<and> none_versioned ps"]
      HasNoVersionedPollers_static [OF assms] by blast
  moreover obtain w2 where "count_queues (HasUnversionedPoller client) tqs w
      = Some (Ok (length (filter (\<lambda>q. \<exists>ps. queue_pollers ans q = Some ps \<and> first_unversioned ps) tqs)), w2)"
    using count_queues_static [of "HasUnversionedPoller client" "\<lambda>q. \<exists>ps. queue_pollers ans q = Some ps \<and> first_unversioned ps"]
      HasUnversionedPoller_static [OF assms] by blast
  ultimately show ?thesis
    by (simp add: noTaskQueuesHaveVersionedPollers_def allTaskQueuesHaveUnversionedPoller_def io_bind_simps(1)
        io_run count_all first_unversioned_iff none_versioned_iff)
qed

text \<open>A client for the witnesses: one versioned poller everywhere, nothing else to describe.\<close>

definition sample_version :: "string \<Rightarrow> WorkerDeploymentVersion" where
  "sample_version b = \<lparr>wdv_DeploymentName = ''ns/foo'', wdv_BuildId = b\<rparr>"

definition sample_routing :: WorkerDeploymentRoutingConfig where
  "sample_routing =
     \<lparr>rc_CurrentVersion = Some (sample_version ''v1''), rc_RampingVersion = None,
      rc_RampingVersionPercentage = 0, rc_RampingVersionChangedTime = 0, rc_RampingVersionPercentageChangedTime = 0\<rparr>"

definition sample_response :: WorkerDeploymentDescribeResponse where
  "sample_response =
     \<lparr>dd_ConflictToken = ''tok'', dd_RoutingConfig = sample_routing, dd_LastModifierIdentity = [],
      dd_VersionSummaries =
        [\<lparr>vs_Version = sample_version ''v0'', vs_DrainageStatus = DrainageDrained\<rparr>,
         \<lparr>vs_Version = sample_version ''v1'', vs_DrainageStatus = DrainageUnspecified\<rparr>]\<rparr>"

definition sample_client :: temporal_client where
  "sample_client =
     \<lparr>cl_Describe = (\<lambda>_ _. (Inr sample_response, 1)),
      cl_DescribeVersion = (\<lambda>_ _ _. (Inl (new_error ''unavailable''), 1)),
      cl_DescribeWorkflowExecution = (\<lambda>_ _. (Inl (new_error ''workflow not found''), 1)),
      cl_DescribeTaskQueue = (\<lambda>_ _ _. (Inr [ModeVersioned], 1)),
      cl_FromPayload = Inr, cl_oversleep = (\<lambda>_. 0)\<rparr>"

theorem task_queue_checks_spec_witness:
  "\<exists>w1. noTaskQueuesHaveVersionedPollers sample_client [\<lparr>tqi_Name = ''q'', tqi_Type = TaskQueueTypeWorkflow\<rparr>]
          \<lparr>w_now = 0, w_calls = []\<rparr> = Some (Ok False, w1)"
proof -
  have "fst (cl_DescribeTaskQueue sample_client n ty w) = Inr [ModeVersioned]" for n ty w
    by (simp add: sample_client_def)
  from task_queue_checks_spec [OF this, of "[\<lparr>tqi_Name = ''q'', tqi_Type = TaskQueueTypeWorkflow\<rparr>]" "\<lparr>w_now = 0, w_calls = []\<rparr>"]
  show ?thesis by (auto simp: queue_pollers_def)
qed

section \<open>Reading the state returns, and panics in one case only\<close>

lemma io_ok_getPollers [io_intros]: "io_ok (getPollers client q)"
  by (auto simp: getPollers_def split: TaskQueueType.split intro!: io_intros)

lemma io_ok_checks [io_intros]:
  "io_ok (noTaskQueuesHaveVersionedPollers client tqs)" "io_ok (allTaskQueuesHaveUnversionedPoller client tqs)"
  by (auto simp: noTaskQueuesHaveVersionedPollers_def allTaskQueuesHaveUnversionedPoller_def count_queues_def
      HasNoVersionedPollers_def HasUnversionedPoller_def intro!: io_intros)

lemma Second_pos [simp]: "0 < Second" by (simp add: Second_def)

text \<open>How a version is classified, given the routing configuration and its drainage status.\<close>

definition classified :: "WorkerDeploymentRoutingConfig \<Rightarrow> WorkerDeploymentVersionSummary \<Rightarrow> VersionInfo \<Rightarrow> bool" where
  "classified rc s vi \<longleftrightarrow>
     (let v = vs_Version s;
          current = (rc_CurrentVersion rc = Some v);
          ramping = (\<not> current \<and> rc_RampingVersion rc = Some v);
          other = (\<not> current \<and> \<not> ramping)
      in vi_BuildID vi = wdv_BuildId v \<and> vi_DeploymentName vi = wdv_DeploymentName v
       \<and> (vi_Status vi = VersionStatusCurrent) = current
       \<and> (vi_Status vi = VersionStatusRamping) = ramping
       \<and> (vi_Status vi = VersionStatusDraining) = (other \<and> vs_DrainageStatus s = DrainageDraining)
       \<and> (vi_Status vi = VersionStatusInactive) = (other \<and> vs_DrainageStatus s = DrainageUnspecified)
       \<and> (vi_Status vi = VersionStatusDrained \<or> vi_Status vi = VersionStatusNotRegistered)
           = (other \<and> vs_DrainageStatus s = DrainageDrained)
       \<and> (vi_DrainedSince vi \<noteq> None \<longrightarrow> vi_Status vi = VersionStatusDrained)
       \<and> (vi_NoTaskQueuesHaveVersionedPoller vi \<longrightarrow> vi_DrainedSince vi \<noteq> None)
       \<and> (vi_AllTaskQueuesHaveUnversionedPoller vi \<longrightarrow>
            vi_Status vi = VersionStatusInactive \<and> rc_CurrentVersion rc = None)
       \<and> vi_TaskQueues vi = [] \<and> vi_TestWorkflows vi = [])"

lemma io_gives_backoff:
  assumes "0 < tick" and "0 < timeout"
  shows "io_gives (withBackoff ov timeout tick (attempt f check))
           (\<lambda>r. \<forall>x. r = Inr x \<longrightarrow> (\<exists>y d. x = Some y \<and> check d = Inr y))"
  unfolding io_gives_def
proof
  fix w
  from withBackoff_spec [OF assms forward_attempt [of f check], of ov w]
  obtain r w' where r: "withBackoff ov timeout tick (attempt f check) w = Some (Ok r, w')"
    "w_calls w' = w_calls w" and b: "backoff_result (attempt f check) (w_now w) (w_now w + timeout) r w'"
    by blast
  have "\<exists>y d. x = Some y \<and> check d = Inr y" if "r = Inr x" for x
    using b that by (auto simp: backoff_result_def attempt_def split: option.splits sum.splits)
  with r show "\<exists>r w'. withBackoff ov timeout tick (attempt f check) w = Some (Ok r, w')
      \<and> w_calls w' = w_calls w \<and> (\<forall>x. r = Inr x \<longrightarrow> (\<exists>y d. x = Some y \<and> check d = Inr y))"
    by blast
qed

lemma check_drained_info: "check_drained b d = Inr y \<Longrightarrow> vd_DrainageInfo y \<noteq> None"
  by (auto simp: check_drained_def split: option.splits if_splits)

lemmas classify_simps = classified_def zero_VersionInfo_def Let_def

lemma drained_version_gives:
  assumes "rc_CurrentVersion rc \<noteq> Some (vs_Version s)" and "rc_RampingVersion rc \<noteq> Some (vs_Version s)"
    and "vs_DrainageStatus s = DrainageDrained"
  shows "io_gives (drained_version client n deps (vs_Version s)) (classified rc s)"
  unfolding drained_version_def
  by (rule io_gives_bind [OF io_gives_backoff])
     (use assms in \<open>auto intro!: io_intros simp: classify_simps dest: check_drained_info\<close>)

lemma inactive_version_gives:
  assumes "rc_CurrentVersion rc \<noteq> Some (vs_Version s)" and "rc_RampingVersion rc \<noteq> Some (vs_Version s)"
    and "vs_DrainageStatus s = DrainageUnspecified"
  shows "io_gives (inactive_version client n rc target strategy (vs_Version s)) (classified rc s)"
  unfolding inactive_version_def Let_def
  by (intro io_gives_if io_gives_bind [OF io_gives_backoff] io_intros)
     (use assms in \<open>auto simp: classify_simps\<close>)

lemma version_info_gives: "io_gives (version_info client n deps rc target strategy s) (classified rc s)"
  unfolding version_info_def Let_def
  by (intro io_gives_if drained_version_gives inactive_version_gives io_gives_return;
      cases "vs_DrainageStatus s") (auto simp: classify_simps)

definition versions_from ::
  "WorkerDeploymentRoutingConfig \<Rightarrow> TemporalWorkerState \<Rightarrow> WorkerDeploymentVersionSummary list \<Rightarrow> TemporalWorkerState \<Rightarrow> bool" where
  "versions_from rc st0 ss st \<longleftrightarrow>
     dom (map_get (ts_Versions st)) = (\<lambda>s. wdv_BuildId (vs_Version s)) ` set ss
   \<and> (\<forall>b vi. map_get (ts_Versions st) b = Some vi \<longrightarrow> (\<exists>s \<in> set ss. wdv_BuildId (vs_Version s) = b \<and> classified rc s vi))
   \<and> map_wf (ts_Versions st)
   \<and> st\<lparr>ts_Versions := []\<rparr> = st0\<lparr>ts_Versions := []\<rparr>"

lemma read_versions_gives:
  "versions_from rc st0 seen st \<Longrightarrow>
     io_gives (read_versions client n deps rc target strategy ss st) (versions_from rc st0 (seen @ ss))"
proof (induction ss arbitrary: seen st)
  case Nil
  then show ?case by (simp add: read_versions_def io_gives_return)
next
  case (Cons s ss)
  let ?b = "wdv_BuildId (vs_Version s)"
  have step: "versions_from rc st0 (seen @ [s]) (st\<lparr>ts_Versions := map_put ?b vi (ts_Versions st)\<rparr>)"
    if "classified rc s vi" for vi
    using Cons.prems that
    unfolding versions_from_def
    by (intro conjI allI impI) (auto simp: distinct_update update_conv' split: if_splits)
  have "io_gives (io_bind (version_info client n deps rc target strategy s)
       (\<lambda>vi. io_return (st\<lparr>ts_Versions := map_put ?b vi (ts_Versions st)\<rparr>)))
       (versions_from rc st0 (seen @ [s]))"
    by (rule io_gives_bind [OF version_info_gives]) (intro io_gives_return step)
  from io_gives_bind [OF this, of "read_versions client n deps rc target strategy ss" "versions_from rc st0 (seen @ s # ss)"]
    Cons.IH [of "seen @ [s]"]
  show ?case by (simp add: read_versions_def)
qed

lemma read_versions_run:
  obtains st w' where "read_versions client n deps rc target strategy ss (routing_state resp ig) w = Some (Ok st, w')"
    and "w_calls w' = w_calls w" and "versions_from rc (routing_state resp ig) ss st"
proof -
  have "versions_from rc (routing_state resp ig) [] (routing_state resp ig)"
    by (simp add: versions_from_def routing_state_def Let_def)
  from read_versions_gives [OF this] show ?thesis
    by (metis append_Nil io_givesE that)
qed

text \<open>
  C24 (functional). When the worker deployment is described and the read succeeds, the state has one
  entry per build ID the server lists and each is classified from the routing configuration
  and the drainage status: Current and Ramping are exactly the versions routed to, a version
  is Drained or NotRegistered exactly when the server says it is drained and nothing routes to
  it; a drain time is known only for Drained versions, and a version counts as free of
  versioned pollers only when its drain time is known. The routing fields are those of the
  response.
\<close>

theorem GetWorkerDeploymentState_classifies:
  assumes "GetWorkerDeploymentState client n deps target strategy ident w = Some (Ok st, w')"
    and "fst (cl_Describe client n w) = Inr resp"
  shows "dom (map_get (ts_Versions st)) = (\<lambda>s. wdv_BuildId (vs_Version s)) ` set (dd_VersionSummaries resp)
    \<and> (\<forall>b vi. map_get (ts_Versions st) b = Some vi \<longrightarrow>
         (\<exists>s \<in> set (dd_VersionSummaries resp). wdv_BuildId (vs_Version s) = b
             \<and> classified (dd_RoutingConfig resp) s vi))
    \<and> (\<exists>ignore. st = (routing_state resp ignore)\<lparr>ts_Versions := ts_Versions st\<rparr>)"
proof -
  from assms obtain ignore w1 where
    "read_versions client n deps (dd_RoutingConfig resp) target strategy
                (dd_VersionSummaries resp) (routing_state resp ignore) w1 = Some (Ok st, w')"
    by (auto simp: GetWorkerDeploymentState_def io_read_def elim!: io_bind_OkE)
  then have v: "versions_from (dd_RoutingConfig resp) (routing_state resp ignore) (dd_VersionSummaries resp) st"
    by (metis Pair_inject option.inject outcome.inject(1) read_versions_run)
  then have "st\<lparr>ts_Versions := []\<rparr>\<lparr>ts_Versions := ts_Versions st\<rparr> = (routing_state resp ignore)\<lparr>ts_Versions := ts_Versions st\<rparr>"
    by (simp add: versions_from_def)
  then have "st = (routing_state resp ignore)\<lparr>ts_Versions := ts_Versions st\<rparr>" by simp
  with v show ?thesis unfolding versions_from_def by blast
qed

lemma ignore_run:
  "DeploymentShouldIgnoreLastModifier client n rc w \<noteq> None
   \<and> ((\<exists>p w'. DeploymentShouldIgnoreLastModifier client n rc w = Some (Panic p, w'))
      \<longleftrightarrow> rc_CurrentVersion rc = None \<and> rc_RampingVersion rc \<noteq> None)"
  by (auto simp: DeploymentShouldIgnoreLastModifier_def getShouldIgnoreLastModifier_def io_bind_def io_read_def io_run
      split: option.splits sum.splits)

lemma io_bind_panics:
  assumes "m w \<noteq> None" and "\<And>x w. \<exists>y w'. f x w = Some (Ok y, w')"
  shows "io_bind m f w \<noteq> None
    \<and> ((\<exists>p w'. io_bind m f w = Some (Panic p, w')) \<longleftrightarrow> (\<exists>p w'. m w = Some (Panic p, w')))"
proof -
  obtain r w2 where m: "m w = Some (r, w2)" using assms(1) by (metis not_None_eq surj_pair)
  show ?thesis
  proof (cases r)
    case (Ok x)
    obtain y w' where "f x w2 = Some (Ok y, w')" using assms(2) by blast
    with m Ok show ?thesis by (simp add: io_bind_def)
  qed (use m in \<open>simp_all add: io_bind_def\<close>)
qed

text \<open>
  C25 (error). Reading the state always returns, and it panics in exactly one situation: somebody
  else modified the deployment last, it has a ramping version and no current version. The
  code then dereferences the nil current version where it means the ramping one.
\<close>

theorem GetWorkerDeploymentState_panics:
  "GetWorkerDeploymentState client n deps target strategy ident w \<noteq> None
   \<and> ((\<exists>p w'. GetWorkerDeploymentState client n deps target strategy ident w = Some (Panic p, w'))
      \<longleftrightarrow> (\<exists>resp. fst (cl_Describe client n w) = Inr resp
              \<and> dd_LastModifierIdentity resp \<noteq> ident \<and> dd_LastModifierIdentity resp \<noteq> []
              \<and> rc_CurrentVersion (dd_RoutingConfig resp) = None
              \<and> rc_RampingVersion (dd_RoutingConfig resp) \<noteq> None))"
proof (cases "fst (cl_Describe client n w)")
  case (Inl e)
  then show ?thesis by (simp add: GetWorkerDeploymentState_def io_bind_def io_read_def io_run)
next
  case (Inr resp)
  let ?w1 = "w\<lparr>w_now := w_now w + int (snd (cl_Describe client n w))\<rparr>"
  let ?rc = "dd_RoutingConfig resp"
  let ?tail = "\<lambda>ig. read_versions client n deps ?rc target strategy (dd_VersionSummaries resp) (routing_state resp ig)"
  have tail: "\<exists>st w'. ?tail ig w2 = Some (Ok st, w')" for ig w2
    by (rule read_versions_run [of client n deps ?rc target strategy "dd_VersionSummaries resp" resp ig w2]) blast
  note bind = io_bind_panics [of _ ?w1 ?tail, OF _ tail]
  have eq: "GetWorkerDeploymentState client n deps target strategy ident w =
      io_bind (if dd_LastModifierIdentity resp \<noteq> ident \<and> dd_LastModifierIdentity resp \<noteq> []
               then DeploymentShouldIgnoreLastModifier client n ?rc else io_return False) ?tail ?w1"
    using Inr by (simp add: GetWorkerDeploymentState_def io_bind_def io_read_def)
  show ?thesis
  proof (cases "dd_LastModifierIdentity resp \<noteq> ident \<and> dd_LastModifierIdentity resp \<noteq> []")
    case True
    then show ?thesis
      using bind [of "DeploymentShouldIgnoreLastModifier client n ?rc"] ignore_run [of client n ?rc ?w1] Inr
      unfolding eq by auto
  next
    case False
    then show ?thesis using bind [of "io_return False"] Inr unfolding eq by (auto simp: io_run)
  qed
qed

theorem GetWorkerDeploymentState_classifies_witness:
  "\<exists>st w' vi. GetWorkerDeploymentState sample_client ''ns/foo'' [] ''v2'' UpdateProgressive ''me''
            \<lparr>w_now = 0, w_calls = []\<rparr> = Some (Ok st, w')
       \<and> map_get (ts_Versions st) ''v1'' = Some vi \<and> vi_Status vi = VersionStatusCurrent"
proof -
  let ?w = "\<lparr>w_now = 0, w_calls = []\<rparr>"
  let ?m = "GetWorkerDeploymentState sample_client ''ns/foo'' [] ''v2'' UpdateProgressive ''me''"
  have d: "cl_Describe sample_client ''ns/foo'' ?w = (Inr sample_response, 1)" by (simp add: sample_client_def)
  obtain st w' where st: "?m ?w = Some (Ok st, w')"
    unfolding GetWorkerDeploymentState_def
    by (rule read_versions_run [of sample_client "''ns/foo''" "[]" sample_routing "''v2''" UpdateProgressive
          "dd_VersionSummaries sample_response" sample_response False "?w\<lparr>w_now := 1\<rparr>"])
       (simp add: io_bind_def io_read_def io_run d sample_response_def)
  have "fst (cl_Describe sample_client ''ns/foo'' ?w) = Inr sample_response" using d by simp
  note C = GetWorkerDeploymentState_classifies [OF st this]
  have "''v1'' \<in> dom (map_get (ts_Versions st))"
    unfolding C [THEN conjunct1] by (simp add: sample_response_def sample_version_def)
  then obtain vi where vi: "map_get (ts_Versions st) ''v1'' = Some vi" by blast
  then obtain s where "s \<in> set (dd_VersionSummaries sample_response)" "wdv_BuildId (vs_Version s) = ''v1''"
    "classified (dd_RoutingConfig sample_response) s vi"
    using C by blast
  then have "vi_Status vi = VersionStatusCurrent"
    by (auto simp: sample_response_def sample_version_def sample_routing_def classified_def Let_def)
  with st vi show ?thesis by blast
qed

section \<open>Test workflows\<close>

definition workflow_queues :: "WorkerDeploymentTaskQueueInfo list \<Rightarrow> TaskQueue list" where
  "workflow_queues qs = map (\<lambda>q. \<lparr>tq_Name = tqi_Name q\<rparr>) (filter (\<lambda>q. tqi_Type q = TaskQueueTypeWorkflow) qs)"

text \<open>What the loop leaves: some workflow queues appended, all of them and few results on success.\<close>

definition queues_read ::
  "TaskQueue list \<Rightarrow> nat \<Rightarrow> WorkerDeploymentTaskQueueInfo list
   \<Rightarrow> TaskQueue list \<times> (api_error + WorkflowExecution list) \<Rightarrow> bool" where
  "queues_read tqs n qs x \<longleftrightarrow>
     (\<exists>names. fst x = tqs @ names \<and> prefix names (workflow_queues qs)
        \<and> (\<forall>wfs. snd x = Inr wfs \<longrightarrow> names = workflow_queues qs \<and> length wfs \<le> n + length names))"

lemma queues_read_Cons:
  assumes "tqi_Type q = TaskQueueTypeWorkflow" and "k \<le> Suc n"
    and "queues_read (tqs @ [\<lparr>tq_Name = tqi_Name q\<rparr>]) k qs x"
  shows "queues_read tqs n (q # qs) x"
proof -
  from assms(3) obtain names where "fst x = (tqs @ [\<lparr>tq_Name = tqi_Name q\<rparr>]) @ names"
    and "prefix names (workflow_queues qs)"
    and "\<forall>wfs. snd x = Inr wfs \<longrightarrow> names = workflow_queues qs \<and> length wfs \<le> k + length names"
    unfolding queues_read_def by blast
  with assms(1,2) show ?thesis unfolding queues_read_def
    by (intro exI [of _ "\<lparr>tq_Name = tqi_Name q\<rparr> # names"]) (auto simp: workflow_queues_def)
qed

lemma queues_read_fail:
  "tqi_Type q = TaskQueueTypeWorkflow \<Longrightarrow> queues_read tqs n (q # qs) (tqs @ [\<lparr>tq_Name = tqi_Name q\<rparr>], Inl e)"
  unfolding queues_read_def by (simp add: workflow_queues_def)

lemma queues_read_skip:
  "tqi_Type q \<noteq> TaskQueueTypeWorkflow \<Longrightarrow> queues_read tqs n (q # qs) = queues_read tqs n qs"
  by (simp add: queues_read_def workflow_queues_def fun_eq_iff)

lemma test_workflows_loop_gives:
  "io_gives (test_workflows_loop client info qs tqs results) (queues_read tqs (length results) qs)"
proof (induction qs arbitrary: tqs results)
  case Nil
  then show ?case by (simp add: io_gives_return queues_read_def workflow_queues_def)
next
  case (Cons q qs)
  show ?case
  proof (cases "tqi_Type q = TaskQueueTypeWorkflow")
    case False
    then show ?thesis using Cons.IH by (simp add: queues_read_skip)
  next
    case True
    have more: "io_gives (test_workflows_loop client info qs (tqs @ [\<lparr>tq_Name = tqi_Name q\<rparr>]) results')
        (queues_read tqs (length results) (q # qs))" if "length results' \<le> Suc (length results)" for results'
      by (rule io_gives_mono [OF Cons.IH queues_read_Cons [OF True that]])
    show ?thesis
      unfolding test_workflows_loop.simps Let_def
      by (intro io_gives_if io_gives_ok_bind io_gives_read io_gives_sum io_gives_return more queues_read_fail)
         (simp_all add: True)
  qed
qed

text \<open>
  Looking up the test workflows of a registered version returns, changes nothing
  remotely, and touches only that version in the state: it appends workflow task queues to
  the version's list. When it succeeds there are at most as many results as appended queues,
  so on a version that had none, as many results as queues means that every queue has one.
\<close>

theorem GetTestWorkflowStatus_spec:
  assumes "map_get (ts_Versions st) b = Some info"
  shows "\<exists>st' out w' names. GetTestWorkflowStatus client n b st w = Some (Ok (st', out), w')
     \<and> w_calls w' = w_calls w
     \<and> st' = st\<lparr>ts_Versions := map_put b (info\<lparr>vi_TaskQueues := vi_TaskQueues info @ names\<rparr>) (ts_Versions st)\<rparr>
     \<and> (\<forall>wfs. out = Inr wfs \<longrightarrow> length wfs \<le> length names)"
proof -
  let ?st = "\<lambda>tqs. st\<lparr>ts_Versions := map_put b (info\<lparr>vi_TaskQueues := tqs\<rparr>) (ts_Versions st)\<rparr>"
  let ?Q = "\<lambda>x. \<exists>names. fst x = ?st (vi_TaskQueues info @ names) \<and> (\<forall>wfs. snd x = Inr wfs \<longrightarrow> length wfs \<le> length names)"
  have loop: "io_gives (io_bind (test_workflows_loop client info qs (vi_TaskQueues info) [])
      (\<lambda>(tqs, res). io_return (?st tqs, res))) ?Q" for qs
    by (rule io_gives_bind [OF test_workflows_loop_gives])
       (auto simp: queues_read_def case_prod_unfold intro!: io_gives_return)
  have fail: "?Q (st, Inl e)" for e
    using assms by (intro exI [of _ "[]"]) (simp add: update_triv)
  have "io_gives (GetTestWorkflowStatus client n b st) ?Q"
    using assms fail unfolding GetTestWorkflowStatus_def Let_def
    by (simp only: option.case, intro io_gives_ok_bind io_gives_read io_gives_sum io_gives_if io_gives_return loop fail)
  then obtain x w' where "GetTestWorkflowStatus client n b st w = Some (Ok x, w')" "w_calls w' = w_calls w" "?Q x"
    by (rule io_givesE)
  then show ?thesis by (cases x) auto
qed

theorem GetTestWorkflowStatus_spec_witness:
  "\<exists>st' out w' names. GetTestWorkflowStatus sample_client ''ns/foo'' ''v1''
       (empty_TemporalWorkerState\<lparr>ts_Versions := [(''v1'', zero_VersionInfo (sample_version ''v1'') VersionStatusInactive)]\<rparr>)
       \<lparr>w_now = 0, w_calls = []\<rparr> = Some (Ok (st', out), w')
     \<and> w_calls w' = []
     \<and> ts_Versions st' = [(''v1'', (zero_VersionInfo (sample_version ''v1'') VersionStatusInactive)\<lparr>vi_TaskQueues := names\<rparr>)]"
  using GetTestWorkflowStatus_spec
    [of "empty_TemporalWorkerState\<lparr>ts_Versions := [(''v1'', zero_VersionInfo (sample_version ''v1'') VersionStatusInactive)]\<rparr>"
        "''v1''" "zero_VersionInfo (sample_version ''v1'') VersionStatusInactive" sample_client "''ns/foo''"
        "\<lparr>w_now = 0, w_calls = []\<rparr>"]
  by (fastforce simp: zero_VersionInfo_def)

text \<open>
  Test workflow IDs identify the task queue within a version, but not the version: the
  separator between build ID and task queue is a dash, which both may contain, so the gate
  workflows of two versions can share an ID.
\<close>

theorem GetTestWorkflowID_injective:
  "(GetTestWorkflowID d b t = GetTestWorkflowID d b t') = (t = t')
   \<and> (\<exists>b1 t1 b2 t2. b1 \<noteq> b2 \<and> GetTestWorkflowID d b1 t1 = GetTestWorkflowID d b2 t2)"
proof
  show "(GetTestWorkflowID d b t = GetTestWorkflowID d b t') = (t = t')" by (simp add: GetTestWorkflowID_def)
  have "GetTestWorkflowID d ''1'' ''0-q'' = GetTestWorkflowID d ''1-0'' ''q''" by (simp add: GetTestWorkflowID_def)
  moreover have "''1'' \<noteq> ''1-0''" by simp
  ultimately show "\<exists>b1 t1 b2 t2. b1 \<noteq> b2 \<and> GetTestWorkflowID d b1 t1 = GetTestWorkflowID d b2 t2" by blast
qed

text \<open>
  When the service keeps failing to describe a drained version, with an error other than not
  found, the version is reported Drained and its drain time is missing.
\<close>

lemma drained_version_outage:
  assumes "\<And>w. fst (cl_DescribeVersion client n (wdv_BuildId v) w) = Inl e" and "err_kind e \<noteq> ErrNotFound"
  shows "\<exists>w'. drained_version client n deps v w = Some (Ok (zero_VersionInfo v VersionStatusDrained), w')
           \<and> w_calls w' = w_calls w"
proof -
  let ?f = "attempt (cl_DescribeVersion client n (wdv_BuildId v)) (check_drained (wdv_BuildId v))"
  have "0 < 1 * Second" "0 < 10 * Second" by simp_all
  from withBackoff_spec [OF this forward_attempt] obtain r w' where
    r: "withBackoff (cl_oversleep client) (10 * Second) (1 * Second) ?f w = Some (Ok r, w')" "w_calls w' = w_calls w"
    and b: "backoff_result ?f (w_now w) (w_now w + 10 * Second) r w'" by blast
  from b have "r = Inl e"
    by (cases r) (auto simp: backoff_result_def attempt_def assms(1) split: option.splits)
  with r show ?thesis
    unfolding drained_version_def using assms(2) by (simp add: io_bind_simps(1) io_run)
qed

end
