(* ===== verification/Rollout.thy ===== *)
theory Rollout
  imports Webhook Temporal_State
begin

text \<open>
  The decision to route traffic (\<^verbatim>\<open>internal/planner/planner.go\<close>, \<open>getVersionConfigDiff\<close>,
  \<open>handleProgressiveRollout\<close>, \<open>getCurrentStepIndex\<close>), and the progressive rollout it drives as a
  state machine: the controller reconciles, Temporal applies the version configuration, time
  passes.
\<close>

section \<open>Version configuration\<close>

record VersionConfig =
  vc_ConflictToken :: string
  vc_BuildID :: string
  vc_SetCurrent :: bool
  vc_RampPercentage :: int32

record Config =
  cfg_RolloutStrategy :: RolloutStrategy

text \<open>The loop of \<open>getCurrentStepIndex\<close>: position, steps left, last index that was not beyond the ramp.\<close>

fun step_index_loop :: "float32 \<Rightarrow> nat \<Rightarrow> RolloutStep list \<Rightarrow> nat \<Rightarrow> nat" where
  "step_index_loop r i [] result = result"
| "step_index_loop r i (s # ss) result =
     (if float32_of_int (step_RampPercentage s) > r then result
      else step_index_loop r (Suc i) ss i)"

definition getCurrentStepIndex :: "RolloutStep list \<Rightarrow> float32 option \<Rightarrow> nat" where
  "getCurrentStepIndex steps targetRampPercentage =
     (case targetRampPercentage of None \<Rightarrow> 0 | Some r \<Rightarrow> step_index_loop r 0 steps 0)"

definition handleProgressiveRollout ::
  "RolloutStep list \<Rightarrow> go_time \<Rightarrow> go_time option \<Rightarrow> float32 option \<Rightarrow> VersionConfig \<Rightarrow> VersionConfig option" where
  "handleProgressiveRollout steps currentTime rampLastModifiedAt targetRampPercentage vcfg =
     (if length steps = 0 then None
      else let i = getCurrentStepIndex steps targetRampPercentage; currentStep = steps ! i
           in case targetRampPercentage of
                None \<Rightarrow> Some (vcfg\<lparr>vc_RampPercentage := word_of_int (step_RampPercentage currentStep)\<rparr>)
              | Some r \<Rightarrow>
                  if r \<noteq> float32_of_int (step_RampPercentage currentStep)
                  then Some (vcfg\<lparr>vc_RampPercentage := word_of_int (step_RampPercentage currentStep)\<rparr>)
                  else case rampLastModifiedAt of
                         None \<Rightarrow> None
                       | Some t \<Rightarrow>
                           if t + step_PauseDuration currentStep < currentTime
                           then if int i < int (length steps) - 1
                                then Some (vcfg\<lparr>vc_RampPercentage := word_of_int (step_RampPercentage (steps ! (i + 1)))\<rparr>)
                                else Some (vcfg\<lparr>vc_SetCurrent := True\<rparr>)
                           else None)"

text \<open>
  \<open>getVersionConfigDiff\<close> at the instant \<open>now\<close>. The Temporal state may be nil; its \<open>Versions\<close> map
  holds pointers, so reading a field of a version that is not in it panics.
\<close>

definition gate_passed :: "RolloutStrategy \<Rightarrow> TargetWorkerDeploymentVersion \<Rightarrow> bool" where
  "gate_passed strategy target \<longleftrightarrow>
     (case rs_Gate strategy of
        None \<Rightarrow> True
      | Some _ \<Rightarrow>
          \<not> length (v_TaskQueues target) = 0
          \<and> \<not> length (v_TestWorkflows target) < length (v_TaskQueues target)
          \<and> list_all (\<lambda>wf. wf_Status wf = WorkflowExecutionStatusCompleted) (v_TestWorkflows target))"

definition getVersionConfigDiff ::
  "go_time \<Rightarrow> TemporalWorkerDeploymentStatus \<Rightarrow> TemporalWorkerState option \<Rightarrow> Config \<Rightarrow> go_panic + VersionConfig option" where
  "getVersionConfigDiff now status temporalState config =
     (let strategy = cfg_RolloutStrategy config;
          conflictToken = st_VersionConflictToken status;
          target = st_TargetVersion status
      in if rs_Strategy strategy = UpdateManual then Inr None
         else if v_HealthySince target = None \<or> v_Status target = VersionStatusNotRegistered then Inr None
         else if \<not> gate_passed strategy target then Inr None
         else let vcfg = \<lparr>vc_ConflictToken = conflictToken, vc_BuildID = v_BuildID target,
                          vc_SetCurrent = False, vc_RampPercentage = 0\<rparr>
              in bindE (if st_CurrentVersion status = None \<and> v_Status target = VersionStatusInactive
                        then bindE (deref temporalState) (\<lambda>ts.
                             bindE (deref (map_get (ts_Versions ts) (v_BuildID target))) (\<lambda>vi.
                             Inr (\<not> vi_AllTaskQueuesHaveUnversionedPoller vi)))
                        else Inr False)
                   (\<lambda>fastTrack.
                      if fastTrack then Inr (Some (vcfg\<lparr>vc_SetCurrent := True\<rparr>))
                      else if (case st_CurrentVersion status of
                                 None \<Rightarrow> False | Some c \<Rightarrow> v_BuildID c = v_BuildID target)
                      then bindE (deref temporalState) (\<lambda>ts.
                             if ts_RampingBuildID ts \<noteq> []
                             then Inr (Some (vcfg\<lparr>vc_BuildID := [], vc_RampPercentage := 0\<rparr>))
                             else Inr None)
                      else case rs_Strategy strategy of
                             UpdateManual \<Rightarrow> Inr None
                           | UpdateAllAtOnce \<Rightarrow> Inr (Some (vcfg\<lparr>vc_SetCurrent := True\<rparr>))
                           | UpdateProgressive \<Rightarrow>
                               Inr (handleProgressiveRollout (rs_Steps strategy) now
                                      (v_RampLastModifiedAt target) (v_RampPercentage target) vcfg)
                           | OtherStrategy _ \<Rightarrow> Inr None))"

section \<open>The step a ramp belongs to\<close>

lemma step_index_loop_bounds:
  "result \<le> i \<Longrightarrow> step_index_loop r i ss result \<le> (if ss = [] then result else i + length ss - 1)
   \<and> result \<le> step_index_loop r i ss result"
proof (induction r i ss result rule: step_index_loop.induct)
  case (2 r i s ss result)
  then show ?case by (cases ss) auto
qed simp

lemma getCurrentStepIndex_less: "steps \<noteq> [] \<Longrightarrow> getCurrentStepIndex steps r < length steps"
  using step_index_loop_bounds [of 0 0 _ steps]
  by (cases steps) (auto simp: getCurrentStepIndex_def less_Suc_eq_le split: option.split)

text \<open>The ramp of a step, in the range the resource's schema allows.\<close>

definition ramp :: "RolloutStep list \<Rightarrow> nat \<Rightarrow> int" where
  "ramp steps i = step_RampPercentage (steps ! i)"

definition schema_ramps :: "RolloutStep list \<Rightarrow> bool" where
  "schema_ramps steps \<longleftrightarrow> (\<forall>s \<in> set steps. step_RampPercentage s \<le> 99)"

lemma step_index_loop_spec:
  assumes "sorted_wrt (<) (ramps ss)" and "\<forall>s \<in> set ss. \<bar>step_RampPercentage s\<bar> < 2 ^ 24"
  shows "step_index_loop r i ss result =
     (let n = length (takeWhile (\<lambda>s. of_int (step_RampPercentage s) \<le> r) ss) in if n = 0 then result else i + n - 1)"
  using assms by (induction r i ss result rule: step_index_loop.induct) (auto simp: Let_def)

lemma ramps_nth: "i < length steps \<Longrightarrow> ramps steps ! i = ramp steps i"
  by (simp add: ramps_def ramp_def)

lemma ramp_mono:
  assumes "steps_ok 0 steps" and "i < j" and "j < length steps"
  shows "ramp steps i < ramp steps j"
  using assms sorted_wrt_nth_less [of "(<)" "ramps steps" i j]
  by (auto simp: steps_ok_def ramps_nth)

lemma ramp_range:
  assumes "steps_ok 0 steps" and "schema_ramps steps" and "i < length steps"
  shows "0 < ramp steps i" and "ramp steps i \<le> 99"
proof -
  have "ramp steps i \<in> set (ramps steps)" using assms(3) by (metis nth_mem ramps_nth ramps_simps(3))
  then show "0 < ramp steps i" using assms(1) by (simp add: steps_ok_def)
  show "ramp steps i \<le> 99" using assms(2,3) by (simp add: schema_ramps_def ramp_def)
qed

lemma ramp_float:
  assumes "steps_ok 0 steps" and "schema_ramps steps" and "i < length steps"
  shows "float32_of_int (step_RampPercentage (steps ! i)) = of_int (ramp steps i)"
    and "sint (word_of_int (step_RampPercentage (steps ! i)) :: int32) = ramp steps i"
  using ramp_range [OF assms] by (simp_all add: ramp_def sint_word_of_int32)

lemma takeWhile_ramps:
  assumes "steps_ok 0 steps" and "j < length steps"
  shows "j < length (takeWhile (\<lambda>s. of_int (step_RampPercentage s) \<le> (r::rat)) steps)
           \<longleftrightarrow> of_int (ramp steps j) \<le> r"
    (is "j < ?n \<longleftrightarrow> _")
proof
  assume "j < ?n"
  then have "takeWhile (\<lambda>s. of_int (step_RampPercentage s) \<le> r) steps ! j = steps ! j" by (rule takeWhile_nth)
  with \<open>j < ?n\<close> show "of_int (ramp steps j) \<le> r" by (metis nth_mem ramp_def set_takeWhileD)
next
  assume le: "of_int (ramp steps j) \<le> r"
  show "j < ?n"
  proof (rule ccontr)
    assume "\<not> j < ?n"
    then have n: "?n \<le> j" "?n < length steps" using assms(2) by auto
    then have "\<not> of_int (ramp steps ?n) \<le> r" unfolding ramp_def by (metis nth_length_takeWhile)
    moreover have "ramp steps ?n \<le> ramp steps j"
      using ramp_mono [OF assms(1), of ?n j] n assms(2) by (cases "?n = j") auto
    ultimately show False using le by (meson of_int_le_iff order_trans)
  qed
qed

lemma getCurrentStepIndex_iff:
  assumes "steps_ok 0 steps" and "schema_ramps steps" and "0 < j" and "j < length steps"
  shows "of_int (ramp steps j) \<le> r \<longleftrightarrow> j \<le> getCurrentStepIndex steps (Some r)"
proof -
  have "\<forall>s \<in> set steps. \<bar>step_RampPercentage s\<bar> < 2 ^ 24"
    using ramp_range [OF assms(1,2)] by (fastforce simp: in_set_conv_nth ramp_def)
  then have "getCurrentStepIndex steps (Some r) = (let n = length (takeWhile (\<lambda>s. of_int (step_RampPercentage s) \<le> r) steps)
      in if n = 0 then 0 else n - 1)"
    using assms(1) by (simp add: getCurrentStepIndex_def step_index_loop_spec steps_ok_def)
  then show ?thesis using takeWhile_ramps [OF assms(1,4), of r] assms(3) by (auto simp: Let_def split: if_splits)
qed

lemma getCurrentStepIndex_exact:
  assumes "steps_ok 0 steps" and "schema_ramps steps" and "i < length steps"
  shows "getCurrentStepIndex steps (Some (of_int (ramp steps i))) = i"
proof (rule antisym)
  let ?k = "getCurrentStepIndex steps (Some (of_int (ramp steps i)))"
  have k: "?k < length steps" using assms(3) by (intro getCurrentStepIndex_less) auto
  show "?k \<le> i"
  proof (rule ccontr)
    assume "\<not> ?k \<le> i"
    then have "of_int (ramp steps ?k) \<le> (of_int (ramp steps i) :: rat)"
      using getCurrentStepIndex_iff [OF assms(1,2) _ k, of "of_int (ramp steps i)"] by auto
    moreover have "ramp steps i < ramp steps ?k" using ramp_mono [OF assms(1)] \<open>\<not> ?k \<le> i\<close> k by simp
    ultimately show False by simp
  qed
  show "i \<le> ?k"
    using getCurrentStepIndex_iff [OF assms(1,2) _ assms(3), of "of_int (ramp steps i)"] by (cases "i = 0") auto
qed

text \<open>What the handler decides, in terms of step numbers.\<close>

datatype decision = Wait | RampTo nat | Promote

definition decide :: "RolloutStep list \<Rightarrow> go_time \<Rightarrow> go_time option \<Rightarrow> float32 option \<Rightarrow> decision" where
  "decide steps now since r =
     (let i = getCurrentStepIndex steps r
      in if steps = [] then Wait
         else if r \<noteq> Some (of_int (ramp steps i)) then RampTo i
         else case since of
                None \<Rightarrow> Wait
              | Some t \<Rightarrow>
                  if \<not> t + step_PauseDuration (steps ! i) < now then Wait
                  else if Suc i < length steps then RampTo (Suc i) else Promote)"

fun enact :: "RolloutStep list \<Rightarrow> decision \<Rightarrow> VersionConfig \<Rightarrow> VersionConfig option" where
  "enact steps Wait vcfg = None"
| "enact steps (RampTo i) vcfg = Some (vcfg\<lparr>vc_RampPercentage := word_of_int (ramp steps i)\<rparr>)"
| "enact steps Promote vcfg = Some (vcfg\<lparr>vc_SetCurrent := True\<rparr>)"

lemma handleProgressiveRollout_decide:
  assumes "steps_ok 0 steps" and "schema_ramps steps"
  shows "handleProgressiveRollout steps now since r vcfg = enact steps (decide steps now since r) vcfg"
proof (cases "steps = []")
  case False
  then have "getCurrentStepIndex steps r < length steps" by (rule getCurrentStepIndex_less)
  note f = ramp_float(1) [OF assms this]
  show ?thesis
    using False f
    by (auto simp: handleProgressiveRollout_def decide_def Let_def ramp_def less_diff_conv split: option.splits)
qed (simp add: handleProgressiveRollout_def decide_def Let_def)

lemma decide_cases:
  assumes "steps_ok 0 steps" and "schema_ramps steps"
  shows "decide steps now since r = RampTo k \<Longrightarrow> k < length steps"
    and "decide steps now since r = Promote \<Longrightarrow>
           steps \<noteq> [] \<and> r = Some (of_int (step_RampPercentage (last steps)))
           \<and> (\<exists>t. since = Some t \<and> t + step_PauseDuration (last steps) < now)"
proof -
  assume "decide steps now since r = RampTo k"
  then show "k < length steps"
    using getCurrentStepIndex_less [of steps r] by (auto simp: decide_def Let_def split: if_splits option.splits)
next
  assume p: "decide steps now since r = Promote"
  let ?i = "getCurrentStepIndex steps r"
  from p have "steps \<noteq> []" "r = Some (of_int (ramp steps ?i))" "\<not> Suc ?i < length steps"
    "\<exists>t. since = Some t \<and> t + step_PauseDuration (steps ! ?i) < now"
    by (auto simp: decide_def Let_def split: if_splits option.splits)
  moreover have "?i = length steps - 1" using getCurrentStepIndex_less [of steps r] calculation by auto
  ultimately show "steps \<noteq> [] \<and> r = Some (of_int (step_RampPercentage (last steps)))
      \<and> (\<exists>t. since = Some t \<and> t + step_PauseDuration (last steps) < now)"
    by (metis last_conv_nth ramp_def)
qed

lemma decide_at_step:
  assumes "steps_ok 0 steps" and "schema_ramps steps" and "i < length steps"
  shows "decide steps now (Some t) (Some (of_int (ramp steps i))) =
     (if \<not> t + step_PauseDuration (steps ! i) < now then Wait
      else if Suc i < length steps then RampTo (Suc i) else Promote)"
  using assms getCurrentStepIndex_exact [OF assms] by (auto simp: decide_def)

lemma decide_initial: "steps \<noteq> [] \<Longrightarrow> decide steps now since None = RampTo 0"
  by (simp add: decide_def getCurrentStepIndex_def)

section \<open>The rollout as a state machine\<close>

text \<open>
  One target version under a progressive rollout: the clock, the ramp Temporal reports with
  the time of its last change, the ramps applied so far, and when the version became current.
  A reconciliation applies what \<open>handleProgressiveRollout\<close> returns, the way \<open>executePlan\<close> does:
  \<open>SetRampingVersion\<close> with the percentage converted to float32, or \<open>SetCurrentVersion\<close>.
\<close>

record rollout_state =
  ro_now :: go_time
  ro_ramp :: "float32 option"
  ro_since :: "go_time option"
  ro_history :: "(float32 \<times> go_time) list"
  ro_promoted :: "go_time option"

definition rollout_start :: "go_time \<Rightarrow> rollout_state" where
  "rollout_start t = \<lparr>ro_now = t, ro_ramp = None, ro_since = None, ro_history = [], ro_promoted = None\<rparr>"

definition applied_ramp :: "VersionConfig \<Rightarrow> float32" where
  "applied_ramp c = float32_of_int (sint (vc_RampPercentage c))"

inductive rollout_step :: "RolloutStep list \<Rightarrow> VersionConfig \<Rightarrow> rollout_state \<Rightarrow> rollout_state \<Rightarrow> bool"
  for steps vcfg
where
  time_passes: "0 \<le> d \<Longrightarrow> rollout_step steps vcfg s (s\<lparr>ro_now := ro_now s + d\<rparr>)"
| set_ramping:
    "ro_promoted s = None \<Longrightarrow>
     handleProgressiveRollout steps (ro_now s) (ro_since s) (ro_ramp s) vcfg = Some c \<Longrightarrow> \<not> vc_SetCurrent c \<Longrightarrow>
     rollout_step steps vcfg s
       (s\<lparr>ro_ramp := Some (applied_ramp c), ro_since := Some (ro_now s),
          ro_history := ro_history s @ [(applied_ramp c, ro_now s)]\<rparr>)"
| set_current:
    "ro_promoted s = None \<Longrightarrow>
     handleProgressiveRollout steps (ro_now s) (ro_since s) (ro_ramp s) vcfg = Some c \<Longrightarrow> vc_SetCurrent c \<Longrightarrow>
     rollout_step steps vcfg s (s\<lparr>ro_promoted := Some (ro_now s)\<rparr>)"

text \<open>Every step applied so far in order, each held for longer than its pause.\<close>

definition held :: "RolloutStep list \<Rightarrow> (float32 \<times> go_time) list \<Rightarrow> nat \<Rightarrow> go_time \<Rightarrow> bool" where
  "held steps hist i t \<longleftrightarrow> snd (hist ! i) + step_PauseDuration (steps ! i) < t"

definition staged :: "RolloutStep list \<Rightarrow> rollout_state \<Rightarrow> bool" where
  "staged steps s \<longleftrightarrow>
     (let h = ro_history s
      in length h \<le> length steps
       \<and> (\<forall>i < length h. fst (h ! i) = of_int (ramp steps i))
       \<and> (\<forall>i. Suc i < length h \<longrightarrow> held steps h i (snd (h ! Suc i)))
       \<and> ro_ramp s = (if h = [] then None else Some (fst (last h)))
       \<and> ro_since s = (if h = [] then None else Some (snd (last h)))
       \<and> (\<forall>t. ro_promoted s = Some t \<longrightarrow> h \<noteq> [] \<and> length h = length steps \<and> held steps h (length h - 1) t))"

lemma enact_config:
  assumes "steps_ok 0 steps" and "schema_ramps steps" and "\<not> vc_SetCurrent vcfg"
    and "handleProgressiveRollout steps now since r vcfg = Some c"
  shows "if vc_SetCurrent c then decide steps now since r = Promote
         else \<exists>i < length steps. decide steps now since r = RampTo i \<and> applied_ramp c = of_int (ramp steps i)"
proof (cases "decide steps now since r")
  case Wait
  with assms show ?thesis by (simp add: handleProgressiveRollout_decide)
next
  case (RampTo i)
  then have i: "i < length steps" using decide_cases(1) [OF assms(1,2)] by blast
  moreover have "applied_ramp c = of_int (ramp steps i) \<and> \<not> vc_SetCurrent c"
    using assms RampTo ramp_float(2) [OF assms(1,2) i] ramp_range [OF assms(1,2) i]
    by (auto simp: handleProgressiveRollout_decide applied_ramp_def ramp_def)
  ultimately show ?thesis using RampTo by simp
next
  case Promote
  with assms show ?thesis by (auto simp: handleProgressiveRollout_decide)
qed

lemma staged_decide:
  assumes "steps_ok 0 steps" and "schema_ramps steps" and "staged steps s" and "steps \<noteq> []"
  shows "decide steps (ro_now s) (ro_since s) (ro_ramp s) =
     (let n = length (ro_history s)
      in if n = 0 then RampTo 0
         else if \<not> held steps (ro_history s) (n - 1) (ro_now s) then Wait
         else if n < length steps then RampTo n else Promote)"
proof (cases "ro_history s = []")
  case True
  then show ?thesis using assms by (simp add: staged_def decide_initial)
next
  case False
  let ?h = "ro_history s" and ?i = "length (ro_history s) - 1"
  have i: "?i < length steps" using assms(3) False by (cases "ro_history s") (auto simp: staged_def Let_def)
  have "ro_ramp s = Some (of_int (ramp steps ?i))" "ro_since s = Some (snd (?h ! ?i))"
    using assms(3) False by (auto simp: staged_def Let_def last_conv_nth)
  then show ?thesis
    using decide_at_step [OF assms(1,2) i] False by (auto simp: held_def Let_def)
qed

lemma staged_step:
  assumes ok: "steps_ok 0 steps" "schema_ramps steps" "steps \<noteq> []" "\<not> vc_SetCurrent vcfg"
    and "rollout_step steps vcfg s s'" and st: "staged steps s"
  shows "staged steps s'"
  using assms(5)
proof cases
  case (time_passes d)
  then show ?thesis using st by (simp add: staged_def)
next
  case (set_ramping c)
  let ?n = "length (ro_history s)"
  from enact_config [OF ok(1,2,4) set_ramping(3)] set_ramping(4)
  obtain i where i: "i < length steps" "applied_ramp c = of_int (ramp steps i)"
    and d: "decide steps (ro_now s) (ro_since s) (ro_ramp s) = RampTo i" by auto
  have "i = ?n" "?n < length steps" "\<And>j. Suc j = ?n \<Longrightarrow> held steps (ro_history s) j (ro_now s)"
    using d i(1) unfolding staged_decide [OF ok(1,2) st ok(3)] by (auto simp: Let_def split: if_splits)
  then show ?thesis
    using st set_ramping(1,2) i
    by (auto simp: staged_def Let_def nth_append held_def less_Suc_eq)
next
  case (set_current c)
  let ?n = "length (ro_history s)"
  from enact_config [OF ok(1,2,4) set_current(3)] set_current(4)
  have "decide steps (ro_now s) (ro_since s) (ro_ramp s) = Promote" by simp
  then have "?n \<noteq> 0" "held steps (ro_history s) (?n - 1) (ro_now s)" "\<not> ?n < length steps"
    unfolding staged_decide [OF ok(1,2) st ok(3)] by (auto simp: Let_def split: if_splits)
  then show ?thesis using st set_current(1) by (auto simp: staged_def Let_def)
qed

lemma staged_reachable:
  assumes ok: "steps_ok 0 steps" "schema_ramps steps" "steps \<noteq> []" "\<not> vc_SetCurrent vcfg"
    and "(rollout_step steps vcfg)\<^sup>*\<^sup>* (rollout_start t0) s"
  shows "staged steps s"
  using assms(5)
proof induction
  case base
  then show ?case by (simp add: staged_def rollout_start_def)
next
  case (step s s')
  then show ?case using staged_step [OF ok] by blast
qed

text \<open>From any stage the rollout can be completed: wait for the pause, reconcile.\<close>

lemma staged_advance:
  assumes ok: "steps_ok 0 steps" "schema_ramps steps" "steps \<noteq> []" "\<not> vc_SetCurrent vcfg"
    and st: "staged steps s" and "ro_promoted s = None"
  shows "\<exists>s'. (rollout_step steps vcfg)\<^sup>*\<^sup>* s s' \<and> staged steps s'
           \<and> (ro_promoted s' \<noteq> None \<or> length (ro_history s') = Suc (length (ro_history s)))"
proof -
  let ?n = "length (ro_history s)"
  define d where "d = max 0 (snd (ro_history s ! (?n - 1)) + step_PauseDuration (steps ! (?n - 1)) - ro_now s + 1)"
  define w where "w = s\<lparr>ro_now := ro_now s + d\<rparr>"
  have sw: "rollout_step steps vcfg s w" unfolding w_def by (rule time_passes) (simp add: d_def)
  then have stw: "staged steps w" using staged_step [OF ok] st by blast
  have "held steps (ro_history w) (?n - 1) (ro_now w)" by (simp add: w_def d_def held_def)
  then consider (p) "decide steps (ro_now w) (ro_since w) (ro_ramp w) = Promote"
    | (r) i where "decide steps (ro_now w) (ro_since w) (ro_ramp w) = RampTo i"
    using staged_decide [OF ok(1,2) stw ok(3)] by (auto simp: Let_def w_def split: if_splits)
  then obtain s' where s': "rollout_step steps vcfg w s'"
    "ro_promoted s' \<noteq> None \<or> length (ro_history s') = Suc (length (ro_history w))"
  proof cases
    case p
    then show ?thesis
      using that rollout_step.set_current [of w steps vcfg "vcfg\<lparr>vc_SetCurrent := True\<rparr>"] assms(6)
      by (simp add: handleProgressiveRollout_decide [OF ok(1,2)] w_def)
  next
    case r
    then show ?thesis
      using that rollout_step.set_ramping [of w steps vcfg "vcfg\<lparr>vc_RampPercentage := word_of_int (ramp steps i)\<rparr>"]
        assms(6) ok(4)
      by (simp add: handleProgressiveRollout_decide [OF ok(1,2)] w_def)
  qed
  moreover have "(rollout_step steps vcfg)\<^sup>*\<^sup>* s s'" using sw s'(1) by (meson r_into_rtranclp rtranclp.rtrancl_into_rtrancl)
  moreover have "staged steps s'" using staged_step [OF ok s'(1) stw] .
  ultimately show ?thesis by (auto simp: w_def)
qed

lemma staged_progress:
  assumes ok: "steps_ok 0 steps" "schema_ramps steps" "steps \<noteq> []" "\<not> vc_SetCurrent vcfg"
    and "staged steps s"
  shows "\<exists>s'. (rollout_step steps vcfg)\<^sup>*\<^sup>* s s' \<and> ro_promoted s' \<noteq> None"
  using assms(5)
proof (induction "length steps - length (ro_history s)" arbitrary: s rule: less_induct)
  case less
  show ?case
  proof (cases "ro_promoted s = None")
    case True
    from staged_advance [OF ok less.prems True] obtain s1 where s1: "(rollout_step steps vcfg)\<^sup>*\<^sup>* s s1" "staged steps s1"
      "ro_promoted s1 \<noteq> None \<or> length (ro_history s1) = Suc (length (ro_history s))" by blast
    show ?thesis
    proof (cases "ro_promoted s1 = None")
      case True
      then have "length (ro_history s1) = Suc (length (ro_history s))" using s1(3) by simp
      moreover have "length (ro_history s1) \<le> length steps" using s1(2) by (simp add: staged_def Let_def)
      ultimately have "length steps - length (ro_history s1) < length steps - length (ro_history s)" by simp
      from less.hyps [OF this s1(2)] s1(1) show ?thesis by (meson rtranclp_trans)
    qed (use s1 in blast)
  qed blast
qed

text \<open>The validator's contract is what the rollout relies on.\<close>

context rollout_validator
begin

lemma rollout_staged:
  assumes "accepts r" and "rs_Strategy r = UpdateProgressive" and "schema_ramps (rs_Steps r)"
    and "\<not> vc_SetCurrent vcfg" and "(rollout_step (rs_Steps r) vcfg)\<^sup>*\<^sup>* (rollout_start t0) s"
  shows "staged (rs_Steps r) s"
  using accepts_steps [OF assms(1,2)] assms(3-5) staged_reachable by blast

lemma rollout_completes:
  assumes "accepts r" and "rs_Strategy r = UpdateProgressive" and "schema_ramps (rs_Steps r)"
    and "\<not> vc_SetCurrent vcfg" and "(rollout_step (rs_Steps r) vcfg)\<^sup>*\<^sup>* (rollout_start t0) s"
  shows "\<exists>s'. (rollout_step (rs_Steps r) vcfg)\<^sup>*\<^sup>* s s' \<and> ro_promoted s' \<noteq> None"
  using accepts_steps [OF assms(1,2)] assms(3,4) rollout_staged [OF assms] staged_progress by blast

lemma handler_decides:
  assumes "accepts r" and "rs_Strategy r = UpdateProgressive" and "schema_ramps (rs_Steps r)"
  shows "handleProgressiveRollout (rs_Steps r) now since p vcfg = enact (rs_Steps r) (decide (rs_Steps r) now since p) vcfg"
  using accepts_steps [OF assms(1,2)] assms(3) handleProgressiveRollout_decide by blast

end

section \<open>Properties\<close>

text \<open>
  C1 (invariant). In every run of a validated progressive rollout, at any moment, the ramps
  applied so far are the first steps in order, and each was held for longer than its pause
  before the next was applied. When the version has become current, every step was applied
  and the last one's pause had passed too.
\<close>

theorem progressive_rollout_staged:
  assumes "validateRolloutStrategy r = []" and "rs_Strategy r = UpdateProgressive" and "schema_ramps (rs_Steps r)"
    and "\<not> vc_SetCurrent vcfg" and "(rollout_step (rs_Steps r) vcfg)\<^sup>*\<^sup>* (rollout_start t0) s"
  shows "(let h = ro_history s in
       length h \<le> length (rs_Steps r)
     \<and> (\<forall>i < length h. fst (h ! i) = of_int (step_RampPercentage (rs_Steps r ! i)))
     \<and> (\<forall>i. Suc i < length h \<longrightarrow> snd (h ! i) + step_PauseDuration (rs_Steps r ! i) < snd (h ! Suc i))
     \<and> (\<forall>t. ro_promoted s = Some t \<longrightarrow>
          length h = length (rs_Steps r) \<and> snd (last h) + step_PauseDuration (last (rs_Steps r)) < t))"
proof -
  have "staged (rs_Steps r) s" by (rule wh.rollout_staged [OF assms])
  then show ?thesis
    unfolding staged_def Let_def held_def ramp_def
    by (metis last_conv_nth length_0_conv)
qed

definition sample_vcfg :: VersionConfig where
  "sample_vcfg = \<lparr>vc_ConflictToken = ''tok'', vc_BuildID = ''v2'', vc_SetCurrent = False, vc_RampPercentage = 0\<rparr>"

lemma sample_rollout_valid:
  "validateRolloutStrategy sample_rollout = []" "rs_Strategy sample_rollout = UpdateProgressive"
  "schema_ramps (rs_Steps sample_rollout)" "\<not> vc_SetCurrent sample_vcfg"
  by (simp_all add: validateRolloutStrategy_def validateGate_def sample_defs duration_units schema_ramps_def sample_vcfg_def)

theorem progressive_rollout_staged_witness:
  "\<exists>s. (rollout_step sample_steps sample_vcfg)\<^sup>*\<^sup>* (rollout_start 0) s \<and> ro_history s = [(10, 0)]"
proof -
  let ?c = "sample_vcfg\<lparr>vc_RampPercentage := 10\<rparr>"
  let ?s = "(rollout_start 0)\<lparr>ro_ramp := Some (applied_ramp ?c), ro_since := Some 0, ro_history := [(applied_ramp ?c, 0)]\<rparr>"
  have "handleProgressiveRollout sample_steps 0 None None sample_vcfg = Some ?c"
    by (simp add: handleProgressiveRollout_def getCurrentStepIndex_def sample_steps_def Let_def)
  then have "rollout_step sample_steps sample_vcfg (rollout_start 0) ?s"
    using rollout_step.set_ramping [of "rollout_start 0" sample_steps sample_vcfg ?c]
    by (simp add: rollout_start_def sample_vcfg_def)
  then have reach: "(rollout_step (rs_Steps sample_rollout) sample_vcfg)\<^sup>*\<^sup>* (rollout_start 0) ?s"
    by (simp add: sample_rollout_def r_into_rtranclp)
  from progressive_rollout_staged [OF sample_rollout_valid this]
  have "fst (ro_history ?s ! 0) = 10" by (simp add: Let_def sample_rollout_def sample_steps_def)
  then have "ro_history ?s = [(10, 0)]" by simp
  with reach show ?thesis by (auto simp: sample_rollout_def)
qed

text \<open>
  C21 (liveness). A validated progressive rollout is never stuck: from every state a run can
  reach, waiting and reconciling leads to the version being made current.
\<close>

theorem progressive_rollout_completes:
  assumes "validateRolloutStrategy r = []" and "rs_Strategy r = UpdateProgressive" and "schema_ramps (rs_Steps r)"
    and "\<not> vc_SetCurrent vcfg" and "(rollout_step (rs_Steps r) vcfg)\<^sup>*\<^sup>* (rollout_start t0) s"
  shows "\<exists>s'. (rollout_step (rs_Steps r) vcfg)\<^sup>*\<^sup>* s s' \<and> ro_promoted s' \<noteq> None"
  by (rule wh.rollout_completes [OF assms])

theorem progressive_rollout_completes_witness:
  "\<exists>s'. (rollout_step (rs_Steps sample_rollout) sample_vcfg)\<^sup>*\<^sup>* (rollout_start 0) s' \<and> ro_promoted s' \<noteq> None"
  by (rule progressive_rollout_completes [OF sample_rollout_valid rtranclp.rtrancl_refl])

text \<open>
  Whatever ramp Temporal reports, a single decision never skips ahead: the target
  becomes current only at exactly the last step's ramp and after its pause, and the ramp is
  raised only to the first step, or from exactly one step to the next after the pause of the
  former. Otherwise it is set back to the step it is in.
\<close>

theorem handleProgressiveRollout_no_skip:
  assumes "validateRolloutStrategy r = []" and "rs_Strategy r = UpdateProgressive" and "schema_ramps (rs_Steps r)"
    and "\<not> vc_SetCurrent vcfg"
    and "handleProgressiveRollout (rs_Steps r) now since p vcfg = Some c"
  shows "if vc_SetCurrent c
         then p = Some (of_int (step_RampPercentage (last (rs_Steps r))))
              \<and> (\<exists>t. since = Some t \<and> t + step_PauseDuration (last (rs_Steps r)) < now)
         else \<exists>i < length (rs_Steps r). sint (vc_RampPercentage c) = step_RampPercentage (rs_Steps r ! i)
              \<and> (\<forall>q. p = Some q \<longrightarrow> q < of_int (step_RampPercentage (rs_Steps r ! i)) \<longrightarrow> i = 0
                     \<or> q = of_int (step_RampPercentage (rs_Steps r ! (i - 1)))
                       \<and> (\<exists>t. since = Some t \<and> t + step_PauseDuration (rs_Steps r ! (i - 1)) < now))"
proof -
  let ?steps = "rs_Steps r" and ?k = "getCurrentStepIndex (rs_Steps r) p"
  have ok: "steps_ok 0 ?steps" "?steps \<noteq> []" using wh.accepts_steps [OF assms(1,2)] by simp_all
  have k: "?k < length ?steps" using ok(2) by (rule getCurrentStepIndex_less)
  show ?thesis
  proof (cases "decide ?steps now since p")
    case Wait
    then show ?thesis using assms(5) by (simp add: wh.handler_decides [OF assms(1-3)])
  next
    case Promote
    then have "vc_SetCurrent c" using assms(5) by (auto simp: wh.handler_decides [OF assms(1-3)])
    with decide_cases(2) [OF ok(1) assms(3) Promote] show ?thesis by simp
  next
    case (RampTo i)
    then have c: "c = vcfg\<lparr>vc_RampPercentage := word_of_int (ramp ?steps i)\<rparr>"
      using assms(5) by (simp add: wh.handler_decides [OF assms(1-3)])
    have i: "i < length ?steps" by (rule decide_cases(1) [OF ok(1) assms(3) RampTo])
    from RampTo consider (same) "i = ?k"
      | (succ) t where "i = Suc ?k" "p = Some (of_int (ramp ?steps ?k))" "since = Some t"
          "t + step_PauseDuration (?steps ! ?k) < now"
      by (auto simp: decide_def Let_def split: if_splits option.splits)
    then have "i = 0 \<or> q = of_int (ramp ?steps (i - 1)) \<and> (\<exists>t. since = Some t \<and> t + step_PauseDuration (?steps ! (i - 1)) < now)"
      if "p = Some q" "q < of_int (ramp ?steps i)" for q
    proof cases
      case same
      then show ?thesis using getCurrentStepIndex_iff [OF ok(1) assms(3) _ i, of q] that by (cases "i = 0") auto
    next
      case succ
      then show ?thesis using that by simp
    qed
    with c i show ?thesis using ramp_float(2) [OF ok(1) assms(3) i] assms(4)
      by (auto simp: ramp_def)
  qed
qed

theorem handleProgressiveRollout_no_skip_witness:
  "handleProgressiveRollout sample_steps (100 * Second) (Some 0) (Some 10) sample_vcfg
     = Some (sample_vcfg\<lparr>vc_RampPercentage := 50\<rparr>)
   \<and> (\<exists>i < length sample_steps. step_RampPercentage (sample_steps ! i) = 50)"
proof -
  have h: "handleProgressiveRollout (rs_Steps sample_rollout) (100 * Second) (Some 0) (Some 10) sample_vcfg
     = Some (sample_vcfg\<lparr>vc_RampPercentage := 50\<rparr>)"
    by (simp add: handleProgressiveRollout_def getCurrentStepIndex_def sample_rollout_def sample_steps_def Let_def duration_units)
  from handleProgressiveRollout_no_skip [OF sample_rollout_valid h]
  have "\<exists>i < length sample_steps. step_RampPercentage (sample_steps ! i) = 50"
    by (auto simp: sample_vcfg_def sample_rollout_def)
  with h show ?thesis by (simp add: sample_rollout_def)
qed


text \<open>
  The version configuration is changed only for a target that is healthy and
  registered, under a strategy other than Manual, and, when a gate is configured, only when
  there are task queues, at least as many test workflows as task queues, and all of them
  completed. It carries the conflict token of the status. It never combines making the target
  current with a ramp: it makes the target current, or ramps it by 1 to 99 percent, or, when
  the target already is current and another version is ramping, removes that ramp.
\<close>

theorem getVersionConfigDiff_safe:
  assumes "getVersionConfigDiff now status ts config = Inr (Some c)"
    and "validateRolloutStrategy (cfg_RolloutStrategy config) = []"
    and "schema_ramps (rs_Steps (cfg_RolloutStrategy config))"
  shows "rs_Strategy (cfg_RolloutStrategy config) \<noteq> UpdateManual
    \<and> v_HealthySince (st_TargetVersion status) \<noteq> None
    \<and> v_Status (st_TargetVersion status) \<noteq> VersionStatusNotRegistered
    \<and> (rs_Gate (cfg_RolloutStrategy config) \<noteq> None \<longrightarrow>
         v_TaskQueues (st_TargetVersion status) \<noteq> []
         \<and> length (v_TaskQueues (st_TargetVersion status)) \<le> length (v_TestWorkflows (st_TargetVersion status))
         \<and> (\<forall>wf \<in> set (v_TestWorkflows (st_TargetVersion status)). wf_Status wf = WorkflowExecutionStatusCompleted))
    \<and> vc_ConflictToken c = st_VersionConflictToken status
    \<and> (if vc_SetCurrent c
        then vc_RampPercentage c = 0 \<and> vc_BuildID c = v_BuildID (st_TargetVersion status)
        else if vc_RampPercentage c = 0
        then vc_BuildID c = [] \<and> (\<exists>cur. st_CurrentVersion status = Some cur \<and> v_BuildID cur = v_BuildID (st_TargetVersion status))
             \<and> (\<exists>s. ts = Some s \<and> ts_RampingBuildID s \<noteq> [])
        else vc_BuildID c = v_BuildID (st_TargetVersion status)
             \<and> 1 \<le> sint (vc_RampPercentage c) \<and> sint (vc_RampPercentage c) \<le> 99)"
proof -
  let ?r = "cfg_RolloutStrategy config" and ?t = "st_TargetVersion status"
  have guards: "rs_Strategy ?r \<noteq> UpdateManual" "v_HealthySince ?t \<noteq> None" "v_Status ?t \<noteq> VersionStatusNotRegistered"
    "gate_passed ?r ?t"
    using assms(1) by (auto simp: getVersionConfigDiff_def Let_def split: if_splits)
  have gate: "rs_Gate ?r \<noteq> None \<longrightarrow> v_TaskQueues ?t \<noteq> [] \<and> length (v_TaskQueues ?t) \<le> length (v_TestWorkflows ?t)
      \<and> (\<forall>wf \<in> set (v_TestWorkflows ?t). wf_Status wf = WorkflowExecutionStatusCompleted)"
    using guards(4) by (auto simp: gate_passed_def list_all_iff not_less split: option.splits)
  let ?v = "\<lparr>vc_ConflictToken = st_VersionConflictToken status, vc_BuildID = v_BuildID ?t, vc_SetCurrent = False, vc_RampPercentage = 0\<rparr>"
  from assms(1) guards consider (cur) "c = ?v\<lparr>vc_SetCurrent := True\<rparr>"
    | (undo) s cur where "c = ?v\<lparr>vc_BuildID := [], vc_RampPercentage := 0\<rparr>" "st_CurrentVersion status = Some cur"
        "v_BuildID cur = v_BuildID ?t" "ts = Some s" "ts_RampingBuildID s \<noteq> []"
    | (prog) "rs_Strategy ?r = UpdateProgressive"
        "handleProgressiveRollout (rs_Steps ?r) now (v_RampLastModifiedAt ?t) (v_RampPercentage ?t) ?v = Some c"
    by (auto simp: getVersionConfigDiff_def Let_def bindE_eq_Inr
        split: if_splits DefaultVersionUpdateStrategy.splits option.splits)
  then show ?thesis
  proof cases
    case prog
    have ok: "steps_ok 0 (rs_Steps ?r)" using wh.accepts_steps [OF assms(2) prog(1)] by simp
    show ?thesis
    proof (cases "decide (rs_Steps ?r) now (v_RampLastModifiedAt ?t) (v_RampPercentage ?t)")
      case (RampTo i)
      have i: "i < length (rs_Steps ?r)" by (rule decide_cases(1) [OF ok assms(3) RampTo])
      have s: "sint (word_of_int (ramp (rs_Steps ?r) i) :: int32) = ramp (rs_Steps ?r) i"
        using ramp_float(2) [OF ok assms(3) i] by (simp add: ramp_def)
      have "word_of_int (ramp (rs_Steps ?r) i) \<noteq> (0 :: int32)"
        using s ramp_range(1) [OF ok assms(3) i] by (metis less_irrefl sint_0)
      then show ?thesis
        using prog RampTo guards gate s ramp_range [OF ok assms(3) i]
        by (auto simp: wh.handler_decides [OF assms(2) prog(1) assms(3)])
    qed (use prog guards gate in \<open>auto simp: wh.handler_decides [OF assms(2) prog(1) assms(3)]\<close>)
  qed (use guards gate in auto)
qed

definition sample_healthy_status :: TemporalWorkerDeploymentStatus where
  "sample_healthy_status = sample_status\<lparr>st_TargetVersion := sample_target\<lparr>v_HealthySince := Some 0\<rparr>\<rparr>"

theorem getVersionConfigDiff_safe_witness:
  "\<exists>c. getVersionConfigDiff 5 sample_healthy_status (Some empty_TemporalWorkerState) \<lparr>cfg_RolloutStrategy = sample_rollout\<rparr>
         = Inr (Some c)
     \<and> vc_BuildID c = ''v2'' \<and> sint (vc_RampPercentage c) \<le> 99 \<and> vc_RampPercentage c = 10"
proof -
  let ?c = "\<lparr>vc_ConflictToken = ''tok'', vc_BuildID = ''v2'', vc_SetCurrent = False, vc_RampPercentage = (10 :: int32)\<rparr>"
  have "getVersionConfigDiff 5 sample_healthy_status (Some empty_TemporalWorkerState) \<lparr>cfg_RolloutStrategy = sample_rollout\<rparr>
      = Inr (Some ?c)"
    by (simp add: getVersionConfigDiff_def gate_passed_def sample_healthy_status_def sample_defs
        handleProgressiveRollout_def getCurrentStepIndex_def Let_def)
  from getVersionConfigDiff_safe [OF this] this sample_rollout_valid show ?thesis by simp
qed

text \<open>The decision panics only on a target that is missing from the Temporal state.\<close>

lemma getVersionConfigDiff_no_panic:
  assumes "v_Status (st_TargetVersion status) = VersionStatusInactive \<Longrightarrow>
             map_get (ts_Versions s) (v_BuildID (st_TargetVersion status)) \<noteq> None"
  shows "\<exists>r. getVersionConfigDiff now status (Some s) config = Inr r"
  using assms
  by (auto simp: getVersionConfigDiff_def Let_def split: option.splits DefaultVersionUpdateStrategy.splits)

end
