(* ===== verification/State_Mapper.thy ===== *)
theory State_Mapper
  imports Sunset Rollout "HOL-Library.Multiset"
begin

text \<open>
  From the states of the cluster and of Temporal to the status of the resource
  (\<^verbatim>\<open>internal/controller/state_mapper.go\<close>), and \<open>generateStatus\<close> (\<^verbatim>\<open>internal/controller/genstatus.go\<close>).
  The loop over the Deployments ranges over a Go map, in an order that is not fixed: the order
  is an argument, any enumeration of the keys.
\<close>

section \<open>The mapper\<close>

record stateMapper =
  sm_k8sState :: DeploymentState
  sm_temporalState :: TemporalWorkerState
  sm_workerDeploymentName :: string

definition newStateMapper :: "DeploymentState \<Rightarrow> TemporalWorkerState \<Rightarrow> string \<Rightarrow> stateMapper" where
  "newStateMapper k8sState temporalState workerDeploymentName =
     \<lparr>sm_k8sState = k8sState, sm_temporalState = temporalState, sm_workerDeploymentName = workerDeploymentName\<rparr>"

definition healthy_since :: "Deployment \<Rightarrow> go_time option" where
  "healthy_since d = (case IsDeploymentHealthy d of (healthy, since) \<Rightarrow> if healthy then since else None)"

definition mapCurrentWorkerDeploymentVersionByBuildID ::
  "stateMapper \<Rightarrow> string \<Rightarrow> CurrentWorkerDeploymentVersion option" where
  "mapCurrentWorkerDeploymentVersionByBuildID m buildID =
     (if buildID = [] then None
      else let version = \<lparr>v_BuildID = buildID, v_Status = VersionStatusNotRegistered, v_HealthySince = None,
                          v_Deployment = None, v_TaskQueues = [], v_ManagedBy = []\<rparr>;
               version = (case map_get (ks_Deployments (sm_k8sState m)) buildID of
                  None \<Rightarrow> version
                | Some d \<Rightarrow> version\<lparr>v_Deployment := map_get (ks_DeploymentRefs (sm_k8sState m)) buildID,
                                    v_HealthySince := healthy_since d\<rparr>)
           in Some (case map_get (ts_Versions (sm_temporalState m)) buildID of
                      None \<Rightarrow> version
                    | Some tv \<Rightarrow> version\<lparr>v_Status := vi_Status tv,
                                         v_TaskQueues := v_TaskQueues version @ vi_TaskQueues tv\<rparr>))"

definition mapTargetWorkerDeploymentVersionByBuildID ::
  "stateMapper \<Rightarrow> string \<Rightarrow> TargetWorkerDeploymentVersion" where
  "mapTargetWorkerDeploymentVersionByBuildID m buildID =
     (let version = \<lparr>v_BuildID = buildID, v_Status = VersionStatusNotRegistered, v_HealthySince = None,
                     v_Deployment = None, v_TaskQueues = [], v_ManagedBy = [],
                     v_TestWorkflows = [], v_RampPercentage = None, v_RampingSince = None, v_RampLastModifiedAt = None\<rparr>
      in if buildID = [] then version
         else let version = (case map_get (ks_Deployments (sm_k8sState m)) buildID of
                     None \<Rightarrow> version
                   | Some d \<Rightarrow> version\<lparr>v_Deployment := map_get (ks_DeploymentRefs (sm_k8sState m)) buildID,
                                       v_HealthySince := healthy_since d\<rparr>)
              in case map_get (ts_Versions (sm_temporalState m)) buildID of
                   None \<Rightarrow> version
                 | Some tv \<Rightarrow>
                     let version = version\<lparr>v_Status := vi_Status tv\<rparr>;
                         version = (if vi_Status tv = VersionStatusRamping \<and> ts_RampPercentage (sm_temporalState m) > 0
                                    then version\<lparr>v_RampPercentage := Some (ts_RampPercentage (sm_temporalState m))\<rparr>
                                    else version)
                     in version\<lparr>v_TaskQueues := v_TaskQueues version @ vi_TaskQueues tv,
                                v_TestWorkflows := v_TestWorkflows version @ vi_TestWorkflows tv\<rparr>)"

definition mapDeprecatedWorkerDeploymentVersionByBuildID ::
  "stateMapper \<Rightarrow> string \<Rightarrow> DeprecatedWorkerDeploymentVersion option" where
  "mapDeprecatedWorkerDeploymentVersionByBuildID m buildID =
     (if buildID = [] then None
      else let eligibleForDeletion = (case map_get (ts_Versions (sm_temporalState m)) buildID of
                   None \<Rightarrow> False
                 | Some vi \<Rightarrow> vi_Status vi = VersionStatusDrained \<and> vi_NoTaskQueuesHaveVersionedPoller vi);
               version = \<lparr>v_BuildID = buildID, v_Status = VersionStatusNotRegistered, v_HealthySince = None,
                          v_Deployment = None, v_TaskQueues = [], v_ManagedBy = [],
                          v_DrainedSince = None, v_EligibleForDeletion = eligibleForDeletion\<rparr>;
               version = (case map_get (ks_Deployments (sm_k8sState m)) buildID of
                  None \<Rightarrow> version
                | Some d \<Rightarrow> version\<lparr>v_Deployment := map_get (ks_DeploymentRefs (sm_k8sState m)) buildID,
                                    v_HealthySince := healthy_since d\<rparr>)
           in Some (case map_get (ts_Versions (sm_temporalState m)) buildID of
                      None \<Rightarrow> version
                    | Some tv \<Rightarrow>
                        let version = version\<lparr>v_Status := vi_Status tv\<rparr>;
                            version = (case vi_DrainedSince tv of
                               None \<Rightarrow> version | Some t \<Rightarrow> version\<lparr>v_DrainedSince := Some t\<rparr>)
                        in version\<lparr>v_TaskQueues := v_TaskQueues version @ vi_TaskQueues tv\<rparr>))"

text \<open>The body of the loop over the Deployments.\<close>

definition add_deprecated ::
  "stateMapper \<Rightarrow> string \<Rightarrow> string \<Rightarrow> string \<Rightarrow> DeprecatedWorkerDeploymentVersion list
   \<Rightarrow> DeprecatedWorkerDeploymentVersion list" where
  "add_deprecated m currentBuildID targetBuildID buildID acc =
     (if buildID = currentBuildID \<or> buildID = targetBuildID then acc
      else case mapDeprecatedWorkerDeploymentVersionByBuildID m buildID of
             None \<Rightarrow> acc
           | Some v \<Rightarrow> acc @ [v])"

definition mapToStatus :: "string list \<Rightarrow> stateMapper \<Rightarrow> string \<Rightarrow> TemporalWorkerDeploymentStatus" where
  "mapToStatus order m targetBuildID =
     (let ts = sm_temporalState m;
          currentBuildID = ts_CurrentBuildID ts;
          rampingBuildID = ts_RampingBuildID ts;
          target = mapTargetWorkerDeploymentVersionByBuildID m targetBuildID;
          target = (if rampingBuildID = targetBuildID
                    then target\<lparr>v_RampingSince := ts_RampingSince ts,
                                v_RampLastModifiedAt := ts_RampLastModifiedAt ts,
                                v_RampPercentage := Some (ts_RampPercentage ts)\<rparr>
                    else target)
      in \<lparr>st_TargetVersion = target,
          st_CurrentVersion = mapCurrentWorkerDeploymentVersionByBuildID m currentBuildID,
          st_DeprecatedVersions = fold (add_deprecated m currentBuildID targetBuildID) order [],
          st_VersionConflictToken = ts_VersionConflictToken ts,
          st_LastModifierIdentity = ts_LastModifierIdentity ts,
          st_VersionCount = word_of_int (int (length (ts_Versions ts)))\<rparr>)"

section \<open>Status generation\<close>

text \<open>
  \<open>generateStatus\<close>: an error of the test workflow lookup is logged and dropped, while the task
  queues it recorded stay. The updated Temporal state goes on to the planner.
\<close>

definition append_test_workflows :: "string \<Rightarrow> WorkflowExecution list \<Rightarrow> TemporalWorkerState \<Rightarrow> TemporalWorkerState" where
  "append_test_workflows b wfs st =
     (case map_get (ts_Versions st) b of
        None \<Rightarrow> st
      | Some vi \<Rightarrow>
          st\<lparr>ts_Versions := map_put b (vi\<lparr>vi_TestWorkflows := vi_TestWorkflows vi @ wfs\<rparr>) (ts_Versions st)\<rparr>)"

definition generateStatus ::
  "third_party \<Rightarrow> temporal_client \<Rightarrow> string list \<Rightarrow> TemporalWorkerDeployment \<Rightarrow> TemporalWorkerState \<Rightarrow> DeploymentState
   \<Rightarrow> (TemporalWorkerDeploymentStatus \<times> TemporalWorkerState) io" where
  "generateStatus tp client order workerDeploy temporalState k8sState =
     (let workerDeploymentName = ComputeWorkerDeploymentName workerDeploy;
          targetBuildID = ComputeBuildID tp workerDeploy
      in io_bind
           (if targetBuildID \<noteq> ts_CurrentBuildID temporalState
            then io_bind (GetTestWorkflowStatus client workerDeploymentName targetBuildID temporalState)
                   (\<lambda>(st, res). io_return (append_test_workflows targetBuildID
                      (case res of Inl e \<Rightarrow> [] | Inr wfs \<Rightarrow> wfs) st))
            else io_return temporalState)
           (\<lambda>st. io_return (mapToStatus order (newStateMapper k8sState st workerDeploymentName) targetBuildID, st)))"

section \<open>Lemmas\<close>

lemmas map_version_defs = mapCurrentWorkerDeploymentVersionByBuildID_def
  mapTargetWorkerDeploymentVersionByBuildID_def mapDeprecatedWorkerDeploymentVersionByBuildID_def

lemma mapCurrent_fields:
  "mapCurrentWorkerDeploymentVersionByBuildID m b = Some c \<Longrightarrow>
     b \<noteq> [] \<and> v_BuildID c = b
     \<and> v_Deployment c = (if map_get (ks_Deployments (sm_k8sState m)) b = None then None
                         else map_get (ks_DeploymentRefs (sm_k8sState m)) b)"
  by (auto simp: mapCurrentWorkerDeploymentVersionByBuildID_def Let_def split: if_splits option.splits)

lemma mapTarget_fields:
  "v_BuildID (mapTargetWorkerDeploymentVersionByBuildID m b) = b
   \<and> v_Deployment (mapTargetWorkerDeploymentVersionByBuildID m b)
       = (if b = [] \<or> map_get (ks_Deployments (sm_k8sState m)) b = None then None
          else map_get (ks_DeploymentRefs (sm_k8sState m)) b)
   \<and> v_Status (mapTargetWorkerDeploymentVersionByBuildID m b)
       = (if b = [] then VersionStatusNotRegistered
          else case map_get (ts_Versions (sm_temporalState m)) b of
                 None \<Rightarrow> VersionStatusNotRegistered | Some tv \<Rightarrow> vi_Status tv)"
  by (auto simp: mapTargetWorkerDeploymentVersionByBuildID_def Let_def split: option.splits)

lemma mapDeprecated_fields:
  "mapDeprecatedWorkerDeploymentVersionByBuildID m b = Some v \<Longrightarrow>
     b \<noteq> [] \<and> v_BuildID v = b
     \<and> v_Deployment v = (if map_get (ks_Deployments (sm_k8sState m)) b = None then None
                         else map_get (ks_DeploymentRefs (sm_k8sState m)) b)
     \<and> v_Status v = (case map_get (ts_Versions (sm_temporalState m)) b of
                       None \<Rightarrow> VersionStatusNotRegistered | Some tv \<Rightarrow> vi_Status tv)
     \<and> v_DrainedSince v = (case map_get (ts_Versions (sm_temporalState m)) b of
                       None \<Rightarrow> None | Some tv \<Rightarrow> vi_DrainedSince tv)
     \<and> v_EligibleForDeletion v = (case map_get (ts_Versions (sm_temporalState m)) b of
                       None \<Rightarrow> False
                     | Some tv \<Rightarrow> vi_Status tv = VersionStatusDrained \<and> vi_NoTaskQueuesHaveVersionedPoller tv)"
  by (auto simp: mapDeprecatedWorkerDeploymentVersionByBuildID_def Let_def split: if_splits option.splits)

lemma mapDeprecated_Some: "b \<noteq> [] \<Longrightarrow> \<exists>v. mapDeprecatedWorkerDeploymentVersionByBuildID m b = Some v"
  by (simp add: mapDeprecatedWorkerDeploymentVersionByBuildID_def Let_def)

text \<open>Which build IDs are deprecated.\<close>

definition deprecated_ids :: "stateMapper \<Rightarrow> string \<Rightarrow> string list \<Rightarrow> string list" where
  "deprecated_ids m target order =
     filter (\<lambda>b. b \<noteq> ts_CurrentBuildID (sm_temporalState m) \<and> b \<noteq> target \<and> b \<noteq> []) order"

lemma deprecated_versions_eq:
  "st_DeprecatedVersions (mapToStatus order m target)
     = map (\<lambda>b. the (mapDeprecatedWorkerDeploymentVersionByBuildID m b)) (deprecated_ids m target order)"
proof -
  have "fold (add_deprecated m (ts_CurrentBuildID (sm_temporalState m)) target) order acc
      = acc @ map (\<lambda>b. the (mapDeprecatedWorkerDeploymentVersionByBuildID m b)) (deprecated_ids m target order)" for acc
  proof (induction order arbitrary: acc)
    case (Cons b order)
    show ?case
    proof (cases "b = []")
      case True
      then show ?thesis using Cons.IH
        by (simp add: add_deprecated_def deprecated_ids_def mapDeprecatedWorkerDeploymentVersionByBuildID_def)
    next
      case False
      then obtain v where "mapDeprecatedWorkerDeploymentVersionByBuildID m b = Some v" using mapDeprecated_Some by blast
      then show ?thesis using Cons.IH False by (simp add: add_deprecated_def deprecated_ids_def)
    qed
  qed (simp add: deprecated_ids_def)
  then show ?thesis by (simp add: mapToStatus_def Let_def)
qed

lemma deprecated_build_ids:
  "map v_BuildID (st_DeprecatedVersions (mapToStatus order m target)) = deprecated_ids m target order"
proof -
  have "v_BuildID (the (mapDeprecatedWorkerDeploymentVersionByBuildID m b)) = b" if "b \<in> set (deprecated_ids m target order)" for b
    using that mapDeprecated_Some [of b m] mapDeprecated_fields [of m b] by (auto simp: deprecated_ids_def)
  then show ?thesis by (simp add: deprecated_versions_eq map_idI)
qed

lemma deprecated_in_status:
  assumes "v \<in> set (st_DeprecatedVersions (mapToStatus order m target))"
  shows "mapDeprecatedWorkerDeploymentVersionByBuildID m (v_BuildID v) = Some v"
    and "v_BuildID v \<in> set (deprecated_ids m target order)"
proof -
  from assms obtain b where b: "b \<in> set (deprecated_ids m target order)"
    "v = the (mapDeprecatedWorkerDeploymentVersionByBuildID m b)"
    by (auto simp: deprecated_versions_eq)
  then obtain v' where v': "mapDeprecatedWorkerDeploymentVersionByBuildID m b = Some v'"
    using mapDeprecated_Some by (auto simp: deprecated_ids_def)
  with b mapDeprecated_fields [OF v'] show "mapDeprecatedWorkerDeploymentVersionByBuildID m (v_BuildID v) = Some v"
    "v_BuildID v \<in> set (deprecated_ids m target order)" by auto
qed

lemma target_in_status:
  "v_BuildID (st_TargetVersion (mapToStatus order m target)) = target"
  "v_Deployment (st_TargetVersion (mapToStatus order m target))
     = v_Deployment (mapTargetWorkerDeploymentVersionByBuildID m target)"
  "v_Status (st_TargetVersion (mapToStatus order m target))
     = v_Status (mapTargetWorkerDeploymentVersionByBuildID m target)"
  by (simp_all add: mapToStatus_def Let_def mapTarget_fields [THEN conjunct1])

lemma current_in_status:
  "st_CurrentVersion (mapToStatus order m target)
     = mapCurrentWorkerDeploymentVersionByBuildID m (ts_CurrentBuildID (sm_temporalState m))"
  by (simp add: mapToStatus_def Let_def)


section \<open>The contract with the planner\<close>

lemma version_refs_mapped:
  assumes "(b, r) \<in> version_refs (mapToStatus order m target)"
  shows "map_get (ks_DeploymentRefs (sm_k8sState m)) b = Some r"
proof -
  from assms consider
      (t) "b = target" "v_Deployment (mapTargetWorkerDeploymentVersionByBuildID m target) = Some r"
    | (c) c where "mapCurrentWorkerDeploymentVersionByBuildID m (ts_CurrentBuildID (sm_temporalState m)) = Some c"
        "b = v_BuildID c" "v_Deployment c = Some r"
    | (d) v where "v \<in> set (st_DeprecatedVersions (mapToStatus order m target))" "b = v_BuildID v" "v_Deployment v = Some r"
    unfolding version_refs_def by (fastforce simp: target_in_status current_in_status)
  then show ?thesis
  proof cases
    case t
    then show ?thesis using mapTarget_fields [of m target] by (auto split: if_splits)
  next
    case c
    then show ?thesis using mapCurrent_fields [OF c(1)] by (auto split: if_splits)
  next
    case d
    then show ?thesis using mapDeprecated_fields [OF deprecated_in_status(1) [OF d(1)]] by (auto split: if_splits)
  qed
qed

text \<open>A status mapped from a state of the cluster that was read by \<open>GetDeploymentState\<close>.\<close>

definition mapped :: "TemporalWorkerDeploymentStatus \<Rightarrow> bool" where
  "mapped s \<longleftrightarrow> (\<exists>tp order m target. deployments_wf tp (sm_k8sState m) \<and> distinct order \<and> s = mapToStatus order m target)"

interpretation sm: status_provider mapped
proof
  fix s v c b b' r
  assume "mapped s"
  then obtain tp order m target where wf: "deployments_wf tp (sm_k8sState m)" "distinct order"
    and s: "s = mapToStatus order m target" by (auto simp: mapped_def)
  show "distinct (map v_BuildID (st_DeprecatedVersions s))"
    using wf by (simp add: s deprecated_build_ids deprecated_ids_def)
  show "b = b'" if "(b, r) \<in> version_refs s" "(b', r) \<in> version_refs s"
    using version_refs_mapped that wf(1) unfolding s deployments_wf_def by blast
  assume v: "v \<in> set (st_DeprecatedVersions s)"
  then have "v_BuildID v \<in> set (deprecated_ids m target order)" using deprecated_in_status(2) by (simp add: s)
  then show "v_BuildID v \<noteq> v_BuildID (st_TargetVersion s)"
    and "st_CurrentVersion s = Some c \<Longrightarrow> v_BuildID v \<noteq> v_BuildID c"
    using mapCurrent_fields by (auto simp: s target_in_status current_in_status deprecated_ids_def)
qed

lemma mapped_read:
  assumes "GetDeploymentState tp (Inr items) = Inr ks" and "distinct order"
  shows "mapped (mapToStatus order (newStateMapper ks ts n) target)"
  unfolding mapped_def
  using GetDeploymentState_wf [OF assms(1)] assms(2)
  by (intro exI [of _ tp] exI [of _ order] exI [of _ "newStateMapper ks ts n"] exI [of _ target])
     (simp add: newStateMapper_def)

section \<open>Properties\<close>

text \<open>
  C32 (functional). The status mapped from the two states: the target is the desired build ID with
  the status Temporal gives it, or NotRegistered; the current version is Temporal's; the
  deprecated versions are exactly the labelled Deployments of the cluster that are neither,
  each once, whatever the iteration order of the map, and one is eligible for deletion only if
  Temporal says Drained and no versioned poller is left.
\<close>

theorem mapToStatus_spec:
  fixes tp items ks order ts n target
  assumes "GetDeploymentState tp (Inr items) = Inr ks" and "distinct order" and "set order = dom (map_get (ks_Deployments ks))"
  defines "s \<equiv> mapToStatus order (newStateMapper ks ts n) target"
  shows "v_BuildID (st_TargetVersion s) = target
    \<and> (st_CurrentVersion s = None \<longleftrightarrow> ts_CurrentBuildID ts = [])
    \<and> (\<forall>c. st_CurrentVersion s = Some c \<longrightarrow> v_BuildID c = ts_CurrentBuildID ts)
    \<and> mset (map v_BuildID (st_DeprecatedVersions s))
        = mset_set (dom (map_get (ks_Deployments ks)) - {ts_CurrentBuildID ts, target, []})
    \<and> (\<forall>v \<in> set (st_DeprecatedVersions s). v_EligibleForDeletion v \<longleftrightarrow>
         (\<exists>vi. map_get (ts_Versions ts) (v_BuildID v) = Some vi \<and> vi_Status vi = VersionStatusDrained
            \<and> vi_NoTaskQueuesHaveVersionedPoller vi))"
proof (intro conjI)
  let ?m = "newStateMapper ks ts n"
  have m: "sm_temporalState ?m = ts" "sm_k8sState ?m = ks" by (simp_all add: newStateMapper_def)
  show "v_BuildID (st_TargetVersion s) = target" by (simp add: s_def target_in_status)
  show "st_CurrentVersion s = None \<longleftrightarrow> ts_CurrentBuildID ts = []"
    by (simp add: s_def current_in_status m mapCurrentWorkerDeploymentVersionByBuildID_def Let_def)
  show "\<forall>c. st_CurrentVersion s = Some c \<longrightarrow> v_BuildID c = ts_CurrentBuildID ts"
    using mapCurrent_fields by (auto simp: s_def current_in_status m)
  have "set (deprecated_ids ?m target order) = dom (map_get (ks_Deployments ks)) - {ts_CurrentBuildID ts, target, []}"
    using assms(3) by (auto simp: deprecated_ids_def m)
  moreover have "distinct (deprecated_ids ?m target order)" using assms(2) by (simp add: deprecated_ids_def)
  ultimately show "mset (map v_BuildID (st_DeprecatedVersions s))
      = mset_set (dom (map_get (ks_Deployments ks)) - {ts_CurrentBuildID ts, target, []})"
    by (metis s_def deprecated_build_ids mset_set_set)
  show "\<forall>v \<in> set (st_DeprecatedVersions s). v_EligibleForDeletion v \<longleftrightarrow>
         (\<exists>vi. map_get (ts_Versions ts) (v_BuildID v) = Some vi \<and> vi_Status vi = VersionStatusDrained
            \<and> vi_NoTaskQueuesHaveVersionedPoller vi)"
    using mapDeprecated_fields [OF deprecated_in_status(1)] by (auto simp: s_def m split: option.splits)
qed

definition sample_ks :: DeploymentState where
  "sample_ks = fold (track_deployment sample_third_party) [(0, sample_deployment ''v0'' (Some 3))] empty_DeploymentState"

definition sample_ts :: TemporalWorkerState where
  "sample_ts = empty_TemporalWorkerState\<lparr>ts_CurrentBuildID := ''v1'',
     ts_Versions := [(''v0'', zero_VersionInfo (sample_version ''v0'') VersionStatusDraining)]\<rparr>"

definition sample_mapped :: TemporalWorkerDeploymentStatus where
  "sample_mapped = mapToStatus [''v0''] (newStateMapper sample_ks sample_ts ''ns/foo'') ''v2''"

lemma sample_ks_read: "GetDeploymentState sample_third_party (Inr [sample_deployment ''v0'' (Some 3)]) = Inr sample_ks"
  by (simp add: GetDeploymentState_def sample_ks_def)

lemma sample_ks_eq:
  "sample_ks = \<lparr>ks_Deployments = [(''v0'', sample_deployment ''v0'' (Some 3))],
     ks_DeploymentsByTime = [sample_deployment ''v0'' (Some 3)],
     ks_DeploymentRefs = [(''v0'', (0, NewObjectRef sample_third_party (sample_deployment ''v0'' (Some 3))))]\<rparr>"
  by (simp add: sample_ks_def track_deployment_def empty_DeploymentState_def deployment_build_id_def BuildIDLabel_def
      sample_deployment_def)

lemma sample_mapped: "mapped sample_mapped"
  unfolding sample_mapped_def by (rule mapped_read [OF sample_ks_read]) simp

theorem mapToStatus_spec_witness:
  "mset (map v_BuildID (st_DeprecatedVersions sample_mapped)) = {#''v0''#}"
proof -
  have "set [''v0''] = dom (map_get (ks_Deployments sample_ks))" by (simp add: sample_ks_eq)
  from mapToStatus_spec [OF sample_ks_read _ this, of sample_ts "''ns/foo''" "''v2''"]
  have "mset (map v_BuildID (st_DeprecatedVersions sample_mapped))
      = mset_set (dom (map_get (ks_Deployments sample_ks)) - {''v1'', ''v2'', []})"
    by (simp add: sample_mapped_def sample_ts_def)
  also have "dom (map_get (ks_Deployments sample_ks)) - {''v1'', ''v2'', []} = {''v0''}"
    by (auto simp: sample_ks_eq)
  finally show ?thesis by simp
qed

lemma sample_deprecated_versions:
  "\<exists>v. st_DeprecatedVersions sample_mapped = [v] \<and> v_BuildID v = ''v0'' \<and> v_Status v = VersionStatusDraining
       \<and> v_Deployment v = Some (0, NewObjectRef sample_third_party (sample_deployment ''v0'' (Some 3)))"
  by (simp add: sample_mapped_def mapToStatus_def Let_def add_deprecated_def newStateMapper_def sample_ts_def
      mapDeprecatedWorkerDeploymentVersionByBuildID_def sample_ks_eq zero_VersionInfo_def)

lemma sample_plan:
  "getDeleteDeployments 5 sample_ks sample_mapped sample_spec True = Inr []"
  "getScaleDeployments 5 sample_ks sample_mapped sample_spec = Inr []"
proof -
  obtain v where v: "st_DeprecatedVersions sample_mapped = [v]" "v_BuildID v = ''v0''" "v_Status v = VersionStatusDraining"
    "v_Deployment v = Some (0, NewObjectRef sample_third_party (sample_deployment ''v0'' (Some 3)))"
    using sample_deprecated_versions by blast
  show "getDeleteDeployments 5 sample_ks sample_mapped sample_spec True = Inr []"
    by (simp add: getDeleteDeployments_def v appendIfE_def delete_version_def sample_ks_eq)
  have "scale_target sample_ks sample_mapped 3 (scale_current sample_ks sample_mapped 3 []) = []"
    by (simp add: sample_ks_eq scale_current_def scale_target_def
        sample_mapped_def target_in_status current_in_status mapTarget_fields newStateMapper_def sample_ts_def
        mapCurrentWorkerDeploymentVersionByBuildID_def Let_def)
  then show "getScaleDeployments 5 sample_ks sample_mapped sample_spec = Inr []"
    by (simp add: getScaleDeployments_def v scale_version_def sample_spec_def sample_ks_eq)
qed

lemma sample_replicas: "spec_Replicas sample_spec = Some 3"
  by (simp add: sample_spec_def)

text \<open>
  C6 (safety). On a status mapped from the cluster, sunsetting never touches what serves traffic:
  the Deployments of the target and of the current version are not deleted, and they are
  scaled, if at all, to the desired number of replicas.
\<close>

theorem sunset_spares_serving:
  assumes "mapped s" and "getDeleteDeployments now ks s spec found = Inr ds"
    and "getScaleDeployments now ks s spec = Inr m" and "delays spec a b" and "spec_Replicas spec = Some replicas"
  shows "v_BuildID (st_TargetVersion s) \<notin> set ds
    \<and> (\<forall>r. v_Deployment (st_TargetVersion s) = Some r \<longrightarrow> map_get m r \<in> {None, Some replicas})
    \<and> (\<forall>c. st_CurrentVersion s = Some c \<longrightarrow> v_BuildID c \<notin> set ds
         \<and> (\<forall>r. v_Deployment c = Some r \<longrightarrow> map_get m r \<in> {None, Some replicas}))"
  using sm.serving_kept [OF assms] by blast

theorem sunset_spares_serving_witness:
  "mapped sample_mapped \<and> getDeleteDeployments 5 sample_ks sample_mapped sample_spec True = Inr []
   \<and> v_BuildID (st_TargetVersion sample_mapped) \<notin> set []"
  using sunset_spares_serving [OF sample_mapped sample_plan sample_delays sample_replicas] sample_mapped sample_plan(1)
  by blast



text \<open>
  Deciding the version configuration for a status mapped from the Temporal state it
  is decided with never panics.
\<close>

theorem getVersionConfigDiff_mapped_no_panic:
  "\<exists>r. getVersionConfigDiff now (mapToStatus order (newStateMapper ks ts n) target) (Some ts) config = Inr r"
proof (rule getVersionConfigDiff_no_panic)
  assume "v_Status (st_TargetVersion (mapToStatus order (newStateMapper ks ts n) target)) = VersionStatusInactive"
  then show "map_get (ts_Versions ts) (v_BuildID (st_TargetVersion (mapToStatus order (newStateMapper ks ts n) target))) \<noteq> None"
    using mapTarget_fields [of "newStateMapper ks ts n" target]
    by (auto simp: target_in_status newStateMapper_def split: if_splits option.splits)
qed

end
