(* ===== verification/Updates.thy ===== *)
theory Updates
  imports K8s_Deployments
begin

text \<open>
  Rolling updates of existing Deployments (\<^verbatim>\<open>internal/planner/planner.go\<close>): the drift of the
  connection and of the pod template, detected by the hashes in the pod annotations. The code
  updates the objects of the cluster state in place, through the pointers of its map: the map
  from build IDs is the store, and the result of planning names the updated objects by their
  build IDs.
\<close>

type_synonym deployment_store = "(string, Deployment) go_map"

section \<open>Connection drift\<close>

text \<open>The loop over the volumes stops at the first TLS volume with a secret.\<close>

fun set_tls_secret :: "string \<Rightarrow> Volume list \<Rightarrow> Volume list" where
  "set_tls_secret n [] = []"
| "set_tls_secret n (v # vs) =
     (case vol_Secret v of
        Some sec \<Rightarrow>
          if vol_Name v = ''temporal-tls'' then v\<lparr>vol_Secret := Some (sec\<lparr>sv_SecretName := n\<rparr>)\<rparr> # vs
          else v # set_tls_secret n vs
      | None \<Rightarrow> v # set_tls_secret n vs)"

definition set_address :: "string \<Rightarrow> Container \<Rightarrow> Container" where
  "set_address hostPort c =
     c\<lparr>ctr_Env := map (\<lambda>e. if ev_Name e = ''TEMPORAL_ADDRESS'' then e\<lparr>ev_Value := hostPort\<rparr> else e) (ctr_Env c)\<rparr>"

definition updateDeploymentWithConnection ::
  "Deployment \<Rightarrow> TemporalConnectionSpec \<Rightarrow> go_panic + Deployment" where
  "updateDeploymentWithConnection d connection =
     bindE (map_assign ConnectionSpecHashAnnotation (ComputeConnectionSpecHash connection)
              (pt_Annotations (ds_Template (d_Spec d)))) (\<lambda>ann.
       let t = ds_Template (d_Spec d);
           volumes = (case tc_MutualTLSSecretRef connection of
                        None \<Rightarrow> ps_Volumes (pt_Spec t)
                      | Some r \<Rightarrow> set_tls_secret (sr_Name r) (ps_Volumes (pt_Spec t)));
           containers = map (set_address (tc_HostPort connection)) (ps_Containers (pt_Spec t))
       in Inr (d\<lparr>d_Spec := (d_Spec d)\<lparr>ds_Template :=
                 t\<lparr>pt_Annotations := Some ann,
                    pt_Spec := (pt_Spec t)\<lparr>ps_Volumes := volumes, ps_Containers := containers\<rparr>\<rparr>\<rparr>\<rparr>))"

text \<open>The result: the store after the call, and the pointer that is returned or nil.\<close>

definition checkAndUpdateDeploymentConnectionSpec ::
  "string \<Rightarrow> TemporalConnectionSpec \<Rightarrow> deployment_store \<Rightarrow> go_panic + (deployment_store \<times> dep_ptr option)" where
  "checkAndUpdateDeploymentConnectionSpec buildID connection store =
     (case map_get store buildID of
        None \<Rightarrow> Inr (store, None)
      | Some d \<Rightarrow>
          if ComputeConnectionSpecHash connection
               \<noteq> str_index (nil_map (pt_Annotations (ds_Template (d_Spec d)))) ConnectionSpecHashAnnotation
          then bindE (updateDeploymentWithConnection d connection)
                 (\<lambda>d'. Inr (map_put buildID d' store, Some buildID))
          else Inr (store, None))"

section \<open>Pod template drift\<close>

text \<open>The worker deployment name, from the first container whose variable is set.\<close>

fun find_deployment_name :: "Container list \<Rightarrow> string" where
  "find_deployment_name [] = []"
| "find_deployment_name (c # cs) =
     (case find (\<lambda>e. ev_Name e = ''TEMPORAL_DEPLOYMENT_NAME'') (ctr_Env c) of
        None \<Rightarrow> find_deployment_name cs
      | Some e \<Rightarrow> if ev_Value e \<noteq> [] then ev_Value e else find_deployment_name cs)"

definition updateDeploymentWithPodTemplateSpec ::
  "third_party \<Rightarrow> Deployment \<Rightarrow> TemporalWorkerDeploymentSpec \<Rightarrow> TemporalConnectionSpec \<Rightarrow> go_panic + Deployment" where
  "updateDeploymentWithPodTemplateSpec tp d spec connection =
     (let buildID = str_index (nil_map (om_Labels (d_ObjectMeta d))) BuildIDLabel;
          workerDeploymentName = find_deployment_name (ps_Containers (pt_Spec (ds_Template (d_Spec d))));
          podSpec = ApplyControllerPodSpecModifications (pt_Spec (spec_Template spec)) connection
                      (wo_TemporalNamespace (spec_WorkerOptions spec)) workerDeploymentName buildID;
          podAnnotations =
            map_put PodTemplateSpecHashAnnotation (ComputePodTemplateSpecHash tp (spec_Template spec))
              (map_put ConnectionSpecHashAnnotation (ComputeConnectionSpecHash connection)
                (map_copy (nil_map (pt_Annotations (spec_Template spec))) []));
          podLabels = map_copy (nil_map (pt_Labels (spec_Template spec))) []
      in bindE (deref (ds_Selector (d_Spec d))) (\<lambda>matchLabels.
           Inr (d\<lparr>d_Spec := (d_Spec d)
              \<lparr>ds_Template := (ds_Template (d_Spec d))
                 \<lparr>pt_Labels := Some (map_copy (nil_map matchLabels) podLabels),
                   pt_Annotations := Some podAnnotations,
                   pt_Spec := podSpec\<rparr>,
               ds_Replicas := spec_Replicas spec,
               ds_MinReadySeconds := spec_MinReadySeconds spec\<rparr>\<rparr>)))"

definition checkAndUpdateDeploymentPodTemplateSpec ::
  "third_party \<Rightarrow> string \<Rightarrow> TemporalWorkerDeploymentSpec \<Rightarrow> TemporalConnectionSpec \<Rightarrow> deployment_store
   \<Rightarrow> go_panic + (deployment_store \<times> dep_ptr option)" where
  "checkAndUpdateDeploymentPodTemplateSpec tp buildID spec connection store =
     (case map_get store buildID of
        None \<Rightarrow> Inr (store, None)
      | Some d \<Rightarrow>
          if wo_UnsafeCustomBuildID (spec_WorkerOptions spec) = [] then Inr (store, None)
          else let storedHash = str_index (nil_map (pt_Annotations (ds_Template (d_Spec d)))) PodTemplateSpecHashAnnotation
               in if storedHash = [] then Inr (store, None)
                  else if storedHash = ComputePodTemplateSpecHash tp (spec_Template spec) then Inr (store, None)
                  else bindE (updateDeploymentWithPodTemplateSpec tp d spec connection)
                         (\<lambda>d'. Inr (map_put buildID d' store, Some buildID)))"

section \<open>All updates of a plan\<close>

text \<open>
  The state of \<open>getUpdateDeployments\<close>: the store and the list of updated Deployments. Its map
  \<open>updatedBuildIDs\<close> has exactly the build IDs in that list.
\<close>

type_synonym update_state = "deployment_store \<times> dep_ptr list"

text \<open>\<open>if deployment := check(...); deployment != nil { append; mark }\<close>\<close>

definition note_update ::
  "(deployment_store \<Rightarrow> go_panic + (deployment_store \<times> dep_ptr option)) \<Rightarrow> update_state \<Rightarrow> go_panic + update_state" where
  "note_update check st =
     bindE (check (fst st)) (\<lambda>(store, r). Inr (store, snd st @ (case r of None \<Rightarrow> [] | Some p \<Rightarrow> [p])))"

definition update_connection_once :: "TemporalConnectionSpec \<Rightarrow> string \<Rightarrow> update_state \<Rightarrow> go_panic + update_state" where
  "update_connection_once connection buildID st =
     (if buildID \<in> set (snd st) then Inr st
      else note_update (checkAndUpdateDeploymentConnectionSpec buildID connection) st)"

definition getUpdateDeployments ::
  "third_party \<Rightarrow> deployment_store \<Rightarrow> TemporalWorkerDeploymentStatus \<Rightarrow> TemporalWorkerDeploymentSpec
   \<Rightarrow> TemporalConnectionSpec \<Rightarrow> go_panic + update_state" where
  "getUpdateDeployments tp store status spec connection =
     (let target = v_BuildID (st_TargetVersion status)
      in bindE (if target \<noteq> []
                then note_update (checkAndUpdateDeploymentPodTemplateSpec tp target spec connection) (store, [])
                else Inr (store, [])) (\<lambda>st1.
         bindE (if target \<noteq> [] then update_connection_once connection target st1 else Inr st1) (\<lambda>st2.
         bindE (case st_CurrentVersion status of
                  None \<Rightarrow> Inr st2
                | Some c \<Rightarrow> if v_BuildID c \<noteq> [] then update_connection_once connection (v_BuildID c) st2 else Inr st2)
           (foldE (\<lambda>v. update_connection_once connection (v_BuildID v)) (st_DeprecatedVersions status)))))"

section \<open>Drift, and what an update leaves\<close>

definition annotation :: "Deployment \<Rightarrow> string \<Rightarrow> string" where
  "annotation d k = str_index (nil_map (pt_Annotations (ds_Template (d_Spec d)))) k"

definition conn_fresh :: "TemporalConnectionSpec \<Rightarrow> deployment_store \<Rightarrow> string \<Rightarrow> bool" where
  "conn_fresh connection store b \<longleftrightarrow>
     (\<forall>d. map_get store b = Some d \<longrightarrow> annotation d ConnectionSpecHashAnnotation = ComputeConnectionSpecHash connection)"

definition pod_fresh :: "third_party \<Rightarrow> TemporalWorkerDeploymentSpec \<Rightarrow> deployment_store \<Rightarrow> string \<Rightarrow> bool" where
  "pod_fresh tp spec store b \<longleftrightarrow>
     (\<forall>d. map_get store b = Some d \<longrightarrow> wo_UnsafeCustomBuildID (spec_WorkerOptions spec) = []
        \<or> annotation d PodTemplateSpecHashAnnotation \<in> {[], ComputePodTemplateSpecHash tp (spec_Template spec)})"

lemma updateDeploymentWithConnection_annotation:
  assumes "updateDeploymentWithConnection d connection = Inr d'"
  shows "annotation d' ConnectionSpecHashAnnotation = ComputeConnectionSpecHash connection"
    and "annotation d' PodTemplateSpecHashAnnotation = annotation d PodTemplateSpecHashAnnotation"
  using assms
  by (auto simp: updateDeploymentWithConnection_def bindE_eq_Inr annotation_def Let_def map_assign_def
      ConnectionSpecHashAnnotation_def PodTemplateSpecHashAnnotation_def split: option.splits)

lemma updateDeploymentWithPodTemplateSpec_annotation:
  assumes "updateDeploymentWithPodTemplateSpec tp d spec connection = Inr d'"
  shows "annotation d' ConnectionSpecHashAnnotation = ComputeConnectionSpecHash connection"
    and "annotation d' PodTemplateSpecHashAnnotation = ComputePodTemplateSpecHash tp (spec_Template spec)"
  using assms
  by (auto simp: updateDeploymentWithPodTemplateSpec_def bindE_eq_Inr annotation_def Let_def
      ConnectionSpecHashAnnotation_def PodTemplateSpecHashAnnotation_def)

text \<open>One in-place update: of the Deployment it names only.\<close>

definition updates_one ::
  "(Deployment \<Rightarrow> Deployment \<Rightarrow> bool) \<Rightarrow> string \<Rightarrow> deployment_store \<Rightarrow> deployment_store \<Rightarrow> dep_ptr option \<Rightarrow> bool" where
  "updates_one rel b store store' r \<longleftrightarrow>
     (r = None \<and> store' = store)
     \<or> (r = Some b \<and> (\<exists>d d'. map_get store b = Some d \<and> store' = map_put b d' store \<and> rel d d'))"

lemma check_connection_spec:
  assumes "checkAndUpdateDeploymentConnectionSpec b connection store = Inr (store', r)"
  shows "updates_one (\<lambda>d d'. updateDeploymentWithConnection d connection = Inr d') b store store' r"
    and "conn_fresh connection store' b"
    and "r = None \<longleftrightarrow> conn_fresh connection store b"
  using assms updateDeploymentWithConnection_annotation(1)
  by (auto simp: checkAndUpdateDeploymentConnectionSpec_def updates_one_def conn_fresh_def annotation_def bindE_eq_Inr
      split: option.splits if_splits)

lemma check_pod_spec:
  assumes "checkAndUpdateDeploymentPodTemplateSpec tp b spec connection store = Inr (store', r)"
  shows "updates_one (\<lambda>d d'. updateDeploymentWithPodTemplateSpec tp d spec connection = Inr d') b store store' r"
    and "pod_fresh tp spec store' b"
    and "r = None \<longleftrightarrow> pod_fresh tp spec store b"
  using assms updateDeploymentWithPodTemplateSpec_annotation(2)
  by (auto simp: checkAndUpdateDeploymentPodTemplateSpec_def updates_one_def pod_fresh_def annotation_def bindE_eq_Inr Let_def
      split: option.splits if_splits)

lemma check_connection_fresh:
  "conn_fresh connection store b \<Longrightarrow> checkAndUpdateDeploymentConnectionSpec b connection store = Inr (store, None)"
  by (auto simp: checkAndUpdateDeploymentConnectionSpec_def conn_fresh_def annotation_def split: option.splits)

lemma check_pod_fresh:
  "pod_fresh tp spec store b \<Longrightarrow> checkAndUpdateDeploymentPodTemplateSpec tp b spec connection store = Inr (store, None)"
  by (auto simp: checkAndUpdateDeploymentPodTemplateSpec_def pod_fresh_def annotation_def Let_def split: option.splits)

text \<open>What the loop over the versions keeps: updated Deployments are listed once and are up to date.\<close>

definition update_inv ::
  "third_party \<Rightarrow> TemporalWorkerDeploymentSpec \<Rightarrow> TemporalConnectionSpec \<Rightarrow> deployment_store \<Rightarrow> string set
   \<Rightarrow> string set \<Rightarrow> update_state \<Rightarrow> bool" where
  "update_inv tp spec connection store0 pods conns st \<longleftrightarrow>
     (case st of (store, ups) \<Rightarrow>
        distinct ups \<and> set ups \<subseteq> dom (map_get store0) \<and> dom (map_get store) = dom (map_get store0)
      \<and> (\<forall>b. b \<notin> set ups \<longrightarrow> map_get store b = map_get store0 b)
      \<and> (\<forall>b \<in> conns \<union> set ups. conn_fresh connection store b) \<and> (\<forall>b \<in> pods. pod_fresh tp spec store b))"

lemma conn_fresh_put:
  "conn_fresh connection (map_put b d store) b' \<longleftrightarrow>
     (if b' = b then annotation d ConnectionSpecHashAnnotation = ComputeConnectionSpecHash connection
      else conn_fresh connection store b')"
  by (simp add: conn_fresh_def)

lemma pod_fresh_put:
  "map_get store b = Some d \<Longrightarrow> annotation d' PodTemplateSpecHashAnnotation = annotation d PodTemplateSpecHashAnnotation \<Longrightarrow>
   pod_fresh tp spec (map_put b d' store) b' \<longleftrightarrow> pod_fresh tp spec store b'"
  by (simp add: pod_fresh_def)

lemma update_connection_once_inv:
  assumes "update_connection_once connection b st = Inr st'" and "update_inv tp spec connection store0 pods conns st"
  shows "update_inv tp spec connection store0 pods (insert b conns) st'"
proof -
  obtain store ups where st: "st = (store, ups)" by (cases st)
  show ?thesis
  proof (cases "b \<in> set ups")
    case True
    then show ?thesis using assms by (auto simp: st update_connection_once_def update_inv_def)
  next
    case False
    with assms(1) obtain store' r where c: "checkAndUpdateDeploymentConnectionSpec b connection store = Inr (store', r)"
      and st': "st' = (store', ups @ (case r of None \<Rightarrow> [] | Some p \<Rightarrow> [p]))"
      by (auto simp: st update_connection_once_def note_update_def bindE_eq_Inr)
    note spec = check_connection_spec [OF c]
    from spec(1) consider (same) "r = None" "store' = store"
      | (upd) d d' where "r = Some b" "map_get store b = Some d" "store' = map_put b d' store"
          "updateDeploymentWithConnection d connection = Inr d'"
      by (auto simp: updates_one_def)
    then show ?thesis
    proof cases
      case same
      then show ?thesis using assms(2) spec(2) by (auto simp: st st' update_inv_def)
    next
      case upd
      note ann = updateDeploymentWithConnection_annotation [OF upd(4)]
      have "b \<in> dom (map_get store0)" using assms(2) upd(2) by (auto simp: st update_inv_def)
      then show ?thesis
        using assms(2) False upd ann
        by (auto simp: st st' update_inv_def conn_fresh_put pod_fresh_put [OF upd(2) ann(2)] update_conv' insert_absorb)
    qed
  qed
qed

lemma update_pod_inv:
  assumes "note_update (checkAndUpdateDeploymentPodTemplateSpec tp b spec connection) (store0, []) = Inr st'"
  shows "update_inv tp spec connection store0 {b} {} st'"
proof -
  from assms obtain store' r where c: "checkAndUpdateDeploymentPodTemplateSpec tp b spec connection store0 = Inr (store', r)"
    and st': "st' = (store', case r of None \<Rightarrow> [] | Some p \<Rightarrow> [p])"
    by (auto simp: note_update_def bindE_eq_Inr)
  note spec = check_pod_spec [OF c]
  from spec(1) consider (same) "r = None" "store' = store0"
    | (upd) d d' where "r = Some b" "map_get store0 b = Some d" "store' = map_put b d' store0"
        "updateDeploymentWithPodTemplateSpec tp d spec connection = Inr d'"
    by (auto simp: updates_one_def)
  then show ?thesis
  proof cases
    case same
    then show ?thesis using spec(2) by (simp add: st' update_inv_def)
  next
    case upd
    then have "b \<in> dom (map_get store0)" by auto
    with upd spec(2) updateDeploymentWithPodTemplateSpec_annotation [OF upd(4)] show ?thesis
      by (auto simp: st' update_inv_def conn_fresh_put update_conv' insert_absorb)
  qed
qed

text \<open>The versions whose Deployments are watched for connection drift.\<close>

definition watched :: "TemporalWorkerDeploymentStatus \<Rightarrow> string set" where
  "watched status =
     ({v_BuildID (st_TargetVersion status)} - {[]})
     \<union> ({b. \<exists>c. st_CurrentVersion status = Some c \<and> b = v_BuildID c} - {[]})
     \<union> v_BuildID ` set (st_DeprecatedVersions status)"

lemma update_deprecated_inv:
  assumes "foldE (\<lambda>v. update_connection_once connection (v_BuildID v)) vs st = Inr st'"
    and "update_inv tp spec connection store0 pods conns st"
  shows "update_inv tp spec connection store0 pods (v_BuildID ` set vs \<union> conns) st'"
  using assms
proof (induction vs arbitrary: st conns)
  case (Cons v vs)
  from Cons.prems(1) obtain st1 where "update_connection_once connection (v_BuildID v) st = Inr st1"
    and rest: "foldE (\<lambda>v. update_connection_once connection (v_BuildID v)) vs st1 = Inr st'"
    by (auto simp: bindE_eq_Inr)
  with Cons.prems(2) have "update_inv tp spec connection store0 pods (insert (v_BuildID v) conns) st1"
    using update_connection_once_inv by blast
  from Cons.IH [OF rest this] show ?case by (simp add: insert_commute Un_insert_right)
qed simp

lemma getUpdateDeployments_inv:
  assumes "getUpdateDeployments tp store status spec connection = Inr st"
  shows "update_inv tp spec connection store ({v_BuildID (st_TargetVersion status)} - {[]}) (watched status) st"
proof -
  let ?t = "v_BuildID (st_TargetVersion status)"
  let ?cur = "{b. \<exists>c. st_CurrentVersion status = Some c \<and> b = v_BuildID c} - {[]}"
  let ?inv = "update_inv tp spec connection store ({?t} - {[]})"
  from assms obtain st1 st2 st3 where
      1: "(if ?t \<noteq> [] then note_update (checkAndUpdateDeploymentPodTemplateSpec tp ?t spec connection) (store, [])
           else Inr (store, [])) = Inr st1"
    and 2: "(if ?t \<noteq> [] then update_connection_once connection ?t st1 else Inr st1) = Inr st2"
    and 3: "(case st_CurrentVersion status of None \<Rightarrow> Inr st2
             | Some c \<Rightarrow> if v_BuildID c \<noteq> [] then update_connection_once connection (v_BuildID c) st2 else Inr st2) = Inr st3"
    and 4: "foldE (\<lambda>v. update_connection_once connection (v_BuildID v)) (st_DeprecatedVersions status) st3 = Inr st"
    by (auto simp: getUpdateDeployments_def Let_def bindE_eq_Inr)
  have "?inv {} st1"
    using 1 update_pod_inv by (cases "?t = []") (auto simp: update_inv_def)
  with 2 have "?inv ({?t} - {[]}) st2"
    using update_connection_once_inv by (cases "?t = []") auto
  with 3 have "?inv (?cur \<union> ({?t} - {[]})) st3"
  proof (cases "st_CurrentVersion status")
    case (Some c)
    with 3 \<open>?inv ({?t} - {[]}) st2\<close> update_connection_once_inv show ?thesis
      by (cases "v_BuildID c = []") auto
  qed simp
  from update_deprecated_inv [OF 4 this] show ?thesis by (simp add: watched_def ac_simps)
qed

section \<open>Properties\<close>

text \<open>
  Planning updates lists each Deployment at most once, only Deployments of the
  cluster, and changes no other; afterwards every Deployment of the target, the current and
  the deprecated versions carries the hash of the present connection.
\<close>

theorem getUpdateDeployments_spec:
  assumes "getUpdateDeployments tp store status spec connection = Inr (store', ups)"
  shows "distinct ups \<and> set ups \<subseteq> dom (map_get store) \<and> dom (map_get store') = dom (map_get store)
    \<and> (\<forall>b. b \<notin> set ups \<longrightarrow> map_get store' b = map_get store b)
    \<and> (\<forall>b \<in> watched status. conn_fresh connection store' b)"
  using getUpdateDeployments_inv [OF assms] unfolding update_inv_def by auto

definition sample_store :: deployment_store where
  "sample_store = [(''v2'', sample_deployment ''v2'' (Some 3))]"

lemma sample_update:
  "\<exists>store'. getUpdateDeployments sample_third_party sample_store sample_status sample_spec sample_connection = Inr (store', [''v2''])"
proof -
  have h: "ComputeConnectionSpecHash sample_connection \<noteq> []"
    by (simp add: ComputeConnectionSpecHash_Nil_iff sample_connection_def)
  have "\<exists>store'. checkAndUpdateDeploymentConnectionSpec ''v2'' sample_connection sample_store = Inr (store', Some ''v2'')
      \<and> map_get store' ''v1'' = None"
    using h by (auto simp: checkAndUpdateDeploymentConnectionSpec_def updateDeploymentWithConnection_def sample_store_def
        sample_deployment_def sample_template_def Let_def)
  then show ?thesis
    by (auto simp: getUpdateDeployments_def note_update_def update_connection_once_def sample_status_def sample_target_def
        sample_current_def sample_spec_def checkAndUpdateDeploymentPodTemplateSpec_def Let_def sample_store_def
        checkAndUpdateDeploymentConnectionSpec_def [of "''v1''"])
qed

theorem getUpdateDeployments_spec_witness:
  "\<exists>store'. getUpdateDeployments sample_third_party sample_store sample_status sample_spec sample_connection = Inr (store', [''v2''])
     \<and> conn_fresh sample_connection store' ''v2''"
proof -
  obtain store' where s: "getUpdateDeployments sample_third_party sample_store sample_status sample_spec sample_connection
      = Inr (store', [''v2''])" using sample_update by blast
  have "''v2'' \<in> watched sample_status" by (simp add: watched_def sample_status_def sample_target_def)
  with getUpdateDeployments_spec [OF s] s show ?thesis by blast
qed

lemma update_connection_once_fresh:
  "conn_fresh connection store b \<Longrightarrow> update_connection_once connection b (store, []) = Inr (store, [])"
  by (simp add: update_connection_once_def note_update_def check_connection_fresh)

lemma getUpdateDeployments_fresh:
  assumes "v_BuildID (st_TargetVersion status) \<noteq> [] \<Longrightarrow> pod_fresh tp spec store (v_BuildID (st_TargetVersion status))"
    and "\<forall>b \<in> watched status. conn_fresh connection store b"
  shows "getUpdateDeployments tp store status spec connection = Inr (store, [])"
proof -
  let ?t = "v_BuildID (st_TargetVersion status)"
  have dep: "foldE (\<lambda>v. update_connection_once connection (v_BuildID v)) vs (store, []) = Inr (store, [])"
    if "v_BuildID ` set vs \<subseteq> watched status" for vs :: "DeprecatedWorkerDeploymentVersion list"
    using that assms(2) by (induction vs) (auto simp: update_connection_once_fresh)
  have pod: "note_update (checkAndUpdateDeploymentPodTemplateSpec tp ?t spec connection) (store, []) = Inr (store, [])"
    if "?t \<noteq> []"
    using assms(1) [OF that] by (simp add: note_update_def check_pod_fresh)
  have con: "update_connection_once connection b (store, []) = Inr (store, [])" if "b \<in> watched status" for b
    using assms(2) that update_connection_once_fresh by blast
  have "(case st_CurrentVersion status of None \<Rightarrow> Inr (store, [])
       | Some c \<Rightarrow> if v_BuildID c \<noteq> [] then update_connection_once connection (v_BuildID c) (store, []) else Inr (store, []))
      = Inr (store, [])"
    using con by (auto simp: watched_def split: option.splits)
  moreover have "foldE (\<lambda>v. update_connection_once connection (v_BuildID v)) (st_DeprecatedVersions status) (store, [])
      = Inr (store, [])"
    by (rule dep) (auto simp: watched_def)
  moreover have "?t \<noteq> [] \<Longrightarrow> ?t \<in> watched status" by (simp add: watched_def)
  ultimately show ?thesis
    using pod con [of ?t] by (cases "?t = []") (simp_all add: getUpdateDeployments_def Let_def)
qed

text \<open>
  C20 (invariant). Updating is idempotent: planning again on the updated Deployments, with the same
  status, spec and connection, finds no drift and changes nothing.
\<close>

theorem getUpdateDeployments_idempotent:
  assumes "getUpdateDeployments tp store status spec connection = Inr (store', ups)"
  shows "getUpdateDeployments tp store' status spec connection = Inr (store', [])"
  using getUpdateDeployments_inv [OF assms] unfolding update_inv_def
  by (intro getUpdateDeployments_fresh) auto

theorem getUpdateDeployments_idempotent_witness:
  "\<exists>store'. getUpdateDeployments sample_third_party sample_store sample_status sample_spec sample_connection = Inr (store', [''v2''])
     \<and> getUpdateDeployments sample_third_party store' sample_status sample_spec sample_connection = Inr (store', [])"
  using sample_update getUpdateDeployments_idempotent by blast

text \<open>A Deployment built with a spec and a connection has no drift with respect to them.\<close>

lemma NewDeployment_annotations:
  "annotation (NewDeploymentWithOwnerRef tp tm om spec name b connection) ConnectionSpecHashAnnotation
     = ComputeConnectionSpecHash connection"
  "annotation (NewDeploymentWithOwnerRef tp tm om spec name b connection) PodTemplateSpecHashAnnotation
     = ComputePodTemplateSpecHash tp (spec_Template spec)"
  by (simp_all add: annotation_def NewDeploymentWithOwnerRef_def Let_def pod_annotations_index)

text \<open>
  Deployments the controller builds are not updated right after: when every
  Deployment of the cluster was built from the present spec and connection, there is nothing
  to update.
\<close>

theorem getUpdateDeployments_new_stable:
  assumes "\<forall>b d. map_get store b = Some d \<longrightarrow>
             (\<exists>name. d = NewDeploymentWithOwnerRef tp tm om spec name b connection)"
  shows "getUpdateDeployments tp store status spec connection = Inr (store, [])"
proof (rule getUpdateDeployments_fresh)
  show "pod_fresh tp spec store (v_BuildID (st_TargetVersion status))"
    using assms NewDeployment_annotations(2) by (fastforce simp: pod_fresh_def)
  show "\<forall>b \<in> watched status. conn_fresh connection store b"
    using assms NewDeployment_annotations(1) by (fastforce simp: conn_fresh_def)
qed

theorem getUpdateDeployments_new_stable_witness:
  "getUpdateDeployments sample_third_party
     [(''v2'', NewDeploymentWithOwnerRef sample_third_party (twd_TypeMeta sample_twd) sample_meta sample_spec ''ns/foo'' ''v2'' sample_connection)]
     sample_status sample_spec sample_connection
   = Inr ([(''v2'', NewDeploymentWithOwnerRef sample_third_party (twd_TypeMeta sample_twd) sample_meta sample_spec ''ns/foo'' ''v2'' sample_connection)], [])"
  by (rule getUpdateDeployments_new_stable [where tm = "twd_TypeMeta sample_twd" and om = sample_meta]) auto

lemma find_deployment_name_controller:
  assumes "name \<noteq> []" and "\<forall>e \<in> set (ctr_Env c). ev_Name e \<noteq> ''TEMPORAL_DEPLOYMENT_NAME''"
  shows "find_deployment_name (c\<lparr>ctr_Env := ctr_Env c @ controller_env connection ns name b, ctr_VolumeMounts := vm\<rparr> # cs) = name"
proof -
  have "find (\<lambda>e. ev_Name e = ''TEMPORAL_DEPLOYMENT_NAME'') (es @ xs) = find (\<lambda>e. ev_Name e = ''TEMPORAL_DEPLOYMENT_NAME'') xs"
    if "\<forall>e \<in> set es. ev_Name e \<noteq> ''TEMPORAL_DEPLOYMENT_NAME''" for es xs
    using that by (induction es) auto
  from this [OF assms(2)] assms(1) show ?thesis
    by (simp add: controller_env_def base_env_def env_value_def)
qed

text \<open>
  C23 (equivalence). The in-place update of a Deployment the controller built to a new pod template gives the selector, pod
  template, replicas, readiness delay and name a Deployment built anew for that version would have,
  provided the user's first container does not set the variable the controller reads its worker
  deployment name from, the worker deployment has a name and the build ID is at most 63 bytes long. The metadata of the Deployment stays
  as it was: its annotations are still those of the old template, where a new Deployment would have those of the new one.
\<close>

theorem updateDeployment_rebuilds:
  assumes "ps_Containers (pt_Spec (spec_Template spec)) = c # cs"
    and "\<forall>e \<in> set (ctr_Env c). ev_Name e \<noteq> ''TEMPORAL_DEPLOYMENT_NAME''"
    and "name \<noteq> []" and "length b \<le> 63"
  shows "\<exists>d'. updateDeploymentWithPodTemplateSpec tp (NewDeploymentWithOwnerRef tp tm om spec name b connection) spec' connection' = Inr d'
     \<and> (let new = NewDeploymentWithOwnerRef tp tm om spec' name b connection'
        in ds_Template (d_Spec d') = ds_Template (d_Spec new) \<and> ds_Selector (d_Spec d') = ds_Selector (d_Spec new)
         \<and> d_Replicas d' = d_Replicas new \<and> ds_MinReadySeconds (d_Spec d') = ds_MinReadySeconds (d_Spec new)
         \<and> d_Name d' = d_Name new
         \<and> om_Annotations (d_ObjectMeta d') = pt_Annotations (spec_Template spec)
         \<and> om_Annotations (d_ObjectMeta new) = pt_Annotations (spec_Template spec'))
     \<and> d_ObjectMeta d' = d_ObjectMeta (NewDeploymentWithOwnerRef tp tm om spec name b connection)"
proof -
  let ?d = "NewDeploymentWithOwnerRef tp tm om spec name b connection"
  have "find_deployment_name (ps_Containers (pt_Spec (ds_Template (d_Spec ?d)))) = name"
    using find_deployment_name_controller [OF assms(3,2)] assms(1)
    by (simp add: NewDeploymentWithOwnerRef_def Let_def ApplyController_eq)
  moreover have "str_index (nil_map (om_Labels (d_ObjectMeta ?d))) BuildIDLabel = b"
    using assms(4) by (simp add: NewDeploymentWithOwnerRef_def Let_def str_index_def selector_labels_get TruncateString_id)
  ultimately show ?thesis
    unfolding updateDeploymentWithPodTemplateSpec_def Let_def
    by (simp add: NewDeploymentWithOwnerRef_def Let_def pod_annotations_def)
qed

theorem updateDeployment_rebuilds_witness:
  "\<exists>d'. updateDeploymentWithPodTemplateSpec sample_third_party
        (NewDeploymentWithOwnerRef sample_third_party (twd_TypeMeta sample_twd) sample_meta sample_spec ''ns/foo'' ''v2'' sample_connection)
        (sample_spec\<lparr>spec_Replicas := Some 5\<rparr>) sample_connection = Inr d' \<and> d_Replicas d' = Some 5"
  using updateDeployment_rebuilds [of sample_spec sample_container "[]" "''ns/foo''" "''v2''" sample_third_party
      "twd_TypeMeta sample_twd" sample_meta sample_connection "sample_spec\<lparr>spec_Replicas := Some 5\<rparr>" sample_connection]
  by (auto simp: sample_spec_def sample_template_def sample_container_def NewDeploymentWithOwnerRef_def Let_def)

text \<open>
  Updating a Deployment to a connection does not make it what a new one would be: when
  the connection gets a TLS secret, the Deployment is stamped with the new connection's hash,
  so no later plan touches it, but it has neither the TLS volume nor the variables. And a
  Deployment without pod annotations makes the update panic.
\<close>

theorem connection_update_incomplete:
  fixes tp tm om spec name b r connection
  assumes "tc_MutualTLSSecretRef connection = Some r" and "tc_HostPort connection \<noteq> []"
    and "ps_Volumes (pt_Spec (spec_Template spec)) = []"
  defines "old \<equiv> connection\<lparr>tc_MutualTLSSecretRef := None, tc_APIKeySecretRef := None\<rparr>"
  shows "(\<exists>d'. updateDeploymentWithConnection (NewDeploymentWithOwnerRef tp tm om spec name b old) connection = Inr d'
      \<and> annotation d' ConnectionSpecHashAnnotation = ComputeConnectionSpecHash connection
      \<and> ps_Volumes (pt_Spec (ds_Template (d_Spec d'))) = []
      \<and> ps_Volumes (pt_Spec (ds_Template (d_Spec (NewDeploymentWithOwnerRef tp tm om spec name b connection)))) \<noteq> [])
    \<and> (\<forall>d. map_get store b = Some d \<and> pt_Annotations (ds_Template (d_Spec d)) = None
         \<longrightarrow> checkAndUpdateDeploymentConnectionSpec b connection store = Inl NilMapWrite)"
proof (intro conjI allI impI)
  let ?d = "NewDeploymentWithOwnerRef tp tm om spec name b old"
  obtain d' where d': "updateDeploymentWithConnection ?d connection = Inr d'"
    by (simp add: updateDeploymentWithConnection_def NewDeploymentWithOwnerRef_def Let_def)
  moreover have "ps_Volumes (pt_Spec (ds_Template (d_Spec d'))) = []"
    using d' assms(1,3)
    by (auto simp: updateDeploymentWithConnection_def NewDeploymentWithOwnerRef_def Let_def ApplyController_eq
        controller_volumes_def old_def)
  moreover have "ps_Volumes (pt_Spec (ds_Template (d_Spec (NewDeploymentWithOwnerRef tp tm om spec name b connection)))) \<noteq> []"
    using assms(1) by (simp add: NewDeploymentWithOwnerRef_def Let_def ApplyController_eq controller_volumes_def)
  ultimately show "\<exists>d'. updateDeploymentWithConnection ?d connection = Inr d'
      \<and> annotation d' ConnectionSpecHashAnnotation = ComputeConnectionSpecHash connection
      \<and> ps_Volumes (pt_Spec (ds_Template (d_Spec d'))) = []
      \<and> ps_Volumes (pt_Spec (ds_Template (d_Spec (NewDeploymentWithOwnerRef tp tm om spec name b connection)))) \<noteq> []"
    using updateDeploymentWithConnection_annotation(1) by blast
next
  fix d
  assume "map_get store b = Some d \<and> pt_Annotations (ds_Template (d_Spec d)) = None"
  then show "checkAndUpdateDeploymentConnectionSpec b connection store = Inl NilMapWrite"
    using assms(2) by (simp add: checkAndUpdateDeploymentConnectionSpec_def updateDeploymentWithConnection_def
        ComputeConnectionSpecHash_Nil_iff)
qed

theorem connection_update_incomplete_witness:
  "\<exists>d'. updateDeploymentWithConnection
        (NewDeploymentWithOwnerRef sample_third_party (twd_TypeMeta sample_twd) sample_meta sample_spec ''ns/foo'' ''v2''
           (sample_connection\<lparr>tc_MutualTLSSecretRef := None, tc_APIKeySecretRef := None\<rparr>)) sample_connection = Inr d'
     \<and> ps_Volumes (pt_Spec (ds_Template (d_Spec d'))) = []"
  using connection_update_incomplete [of sample_connection "\<lparr>sr_Name = ''tls''\<rparr>" sample_spec sample_third_party
      "twd_TypeMeta sample_twd" sample_meta "''ns/foo''" "''v2''" "[]"]
  by (auto simp: sample_connection_def sample_spec_def sample_template_def)

text \<open>
  The connection hash does not tell apart connections that differ in how they
  authenticate: a TLS secret and an API key secret of the same name, or two keys of one
  secret, hash alike, so such a change of the connection updates no Deployment.
\<close>

theorem connection_hash_blind:
  "ComputeConnectionSpecHash \<lparr>tc_HostPort = h, tc_MutualTLSSecretRef = Some \<lparr>sr_Name = n\<rparr>, tc_APIKeySecretRef = None\<rparr>
     = ComputeConnectionSpecHash \<lparr>tc_HostPort = h, tc_MutualTLSSecretRef = None, tc_APIKeySecretRef = Some \<lparr>sk_Name = n, sk_Key = k, sk_Optional = opt\<rparr>\<rparr>
   \<and> ComputeConnectionSpecHash \<lparr>tc_HostPort = h, tc_MutualTLSSecretRef = None, tc_APIKeySecretRef = Some \<lparr>sk_Name = n, sk_Key = k, sk_Optional = opt\<rparr>\<rparr>
     = ComputeConnectionSpecHash \<lparr>tc_HostPort = h, tc_MutualTLSSecretRef = None, tc_APIKeySecretRef = Some \<lparr>sk_Name = n, sk_Key = k', sk_Optional = opt'\<rparr>\<rparr>"
  by (simp add: ComputeConnectionSpecHash_def connection_bytes_def)

end
