(* ===== verification/Planner.thy ===== *)
theory Planner
  imports State_Mapper Updates
begin

text \<open>
  The planner's entry point (\<^verbatim>\<open>internal/planner/planner.go\<close>): the gate workflows to start, the
  gate's input, and \<open>GeneratePlan\<close>, which puts together what to delete, scale, update, create,
  start and route. A plan names Deployments by their addresses; the store with the Deployments
  after the in-place updates is returned with it.
\<close>

section \<open>Gate workflows\<close>

record WorkflowConfig =
  wc_WorkflowType :: string
  wc_WorkflowID :: string
  wc_BuildID :: string
  wc_TaskQueue :: string
  wc_GateInput :: string
  wc_IsInputSecret :: bool

definition getTestWorkflows ::
  "TemporalWorkerDeploymentStatus \<Rightarrow> Config \<Rightarrow> string \<Rightarrow> string \<Rightarrow> bool \<Rightarrow> WorkflowConfig list" where
  "getTestWorkflows status config workerDeploymentName gateInput isGateInputSecret =
     (case rs_Gate (cfg_RolloutStrategy config) of
        None \<Rightarrow> []
      | Some gate \<Rightarrow>
          if (case st_CurrentVersion status of
                None \<Rightarrow> False | Some c \<Rightarrow> v_BuildID c = v_BuildID (st_TargetVersion status))
             \<or> v_Status (st_TargetVersion status) = VersionStatusNotRegistered
          then []
          else let target = st_TargetVersion status;
                   taskQueuesWithWorkflows = set (map wf_TaskQueue (v_TestWorkflows target))
               in map (\<lambda>tq. \<lparr>wc_WorkflowType = gate_WorkflowType gate,
                             wc_WorkflowID = GetTestWorkflowID workerDeploymentName (v_BuildID target) (tq_Name tq),
                             wc_BuildID = v_BuildID target,
                             wc_TaskQueue = tq_Name tq,
                             wc_GateInput = gateInput,
                             wc_IsInputSecret = isGateInputSecret\<rparr>)
                    (filter (\<lambda>tq. tq_Name tq \<notin> taskQueuesWithWorkflows) (v_TaskQueues target)))"

definition validateGateInputConfig :: "GateWorkflowConfig option \<Rightarrow> api_error + unit" where
  "validateGateInputConfig gate =
     (case gate of
        None \<Rightarrow> Inr ()
      | Some g \<Rightarrow>
          if gate_Input g \<noteq> None \<and> gate_InputFrom g \<noteq> None
          then Inl (new_error ''both spec.rollout.gate.input and spec.rollout.gate.inputFrom are set'')
          else case gate_InputFrom g of
                 None \<Rightarrow> Inr ()
               | Some src \<Rightarrow>
                   let cmSet = gi_ConfigMapKeyRef src \<noteq> None; secSet = gi_SecretKeyRef src \<noteq> None
                   in if cmSet \<and> secSet \<or> \<not> cmSet \<and> \<not> secSet
                      then Inl (new_error ''spec.rollout.gate.inputFrom must set exactly one of configMapKeyRef or secretKeyRef'')
                      else Inr ())"

text \<open>The bytes of the input (none is the empty string) and whether they come from a Secret.\<close>

definition ResolveGateInput ::
  "GateWorkflowConfig option \<Rightarrow> string \<Rightarrow> (string, string) go_map option \<Rightarrow> (string, string) go_map option
   \<Rightarrow> (string, string) go_map option \<Rightarrow> api_error + (string \<times> bool)" where
  "ResolveGateInput gate namespace configMapData configMapBinaryData secretData =
     (case gate of
        None \<Rightarrow> Inr ([], False)
      | Some g \<Rightarrow>
          bindE (validateGateInputConfig gate) (\<lambda>_.
            case gate_Input g of
              Some raw \<Rightarrow> Inr (raw, False)
            | None \<Rightarrow>
                (case gate_InputFrom g of
                   None \<Rightarrow> Inr ([], False)
                 | Some src \<Rightarrow>
                     (case gi_ConfigMapKeyRef src of
                        Some ref \<Rightarrow>
                          (case map_get (nil_map configMapData) (ck_Key ref) of
                             Some val \<Rightarrow> Inr (val, False)
                           | None \<Rightarrow>
                               (case map_get (nil_map configMapBinaryData) (ck_Key ref) of
                                  Some bval \<Rightarrow> Inr (bval, False)
                                | None \<Rightarrow> Inl (new_error (''key '' @ ck_Key ref @ '' not found in ConfigMap ''
                                                  @ namespace @ ''/'' @ ck_Name ref))))
                      | None \<Rightarrow>
                          (case gi_SecretKeyRef src of
                             Some ref \<Rightarrow>
                               (case map_get (nil_map secretData) (sk_Key ref) of
                                  Some bval \<Rightarrow> Inr (bval, True)
                                | None \<Rightarrow> Inl (new_error (''key '' @ sk_Key ref @ '' not found in Secret ''
                                                  @ namespace @ ''/'' @ sk_Name ref)))
                           | None \<Rightarrow> Inr ([], False))))))"

section \<open>The plan\<close>

record Plan =
  plan_DeleteDeployments :: "dep_ptr list"
  plan_ScaleDeployments :: scale_map
  plan_UpdateDeployments :: "dep_ptr list"
  plan_ShouldCreateDeployment :: bool
  plan_VersionConfig :: "VersionConfig option"
  plan_TestWorkflows :: "WorkflowConfig list"
  plan_RemoveIgnoreLastModifierBuilds :: "string list"

definition remove_ignore_builds :: "TemporalWorkerState option \<Rightarrow> VersionConfig option \<Rightarrow> string list" where
  "remove_ignore_builds temporalState versionConfig =
     (case temporalState of
        None \<Rightarrow> []
      | Some ts \<Rightarrow>
          if ts_IgnoreLastModifier ts \<and> versionConfig \<noteq> None
          then (if ts_RampingBuildID ts \<noteq> [] then [ts_RampingBuildID ts] else [])
               @ (if ts_CurrentBuildID ts \<noteq> [] then [ts_CurrentBuildID ts] else [])
          else [])"

definition GeneratePlan ::
  "third_party \<Rightarrow> go_time \<Rightarrow> DeploymentState \<Rightarrow> TemporalWorkerDeploymentStatus \<Rightarrow> TemporalWorkerDeploymentSpec
   \<Rightarrow> TemporalWorkerState option \<Rightarrow> TemporalConnectionSpec \<Rightarrow> Config \<Rightarrow> string \<Rightarrow> int32 \<Rightarrow> string \<Rightarrow> bool
   \<Rightarrow> go_panic + (Plan \<times> deployment_store)" where
  "GeneratePlan tp now k8sState status spec temporalState connection config workerDeploymentName
       maxVersionsIneligibleForDeletion gateInput isGateInputSecret =
     (let foundDeploymentInTemporal =
            (case temporalState of None \<Rightarrow> False | Some ts \<Rightarrow> length (ts_Versions ts) > 0)
      in bindE (getDeleteDeployments now k8sState status spec foundDeploymentInTemporal) (\<lambda>dels.
         bindE (getScaleDeployments now k8sState status spec) (\<lambda>scales.
         bindE (getUpdateDeployments tp (ks_Deployments k8sState) status spec connection) (\<lambda>(store, ups).
         bindE (getVersionConfigDiff now status temporalState config) (\<lambda>vcfg.
         Inr (\<lparr>plan_DeleteDeployments = dels,
               plan_ScaleDeployments = scales,
               plan_UpdateDeployments = ups,
               plan_ShouldCreateDeployment = shouldCreateDeployment status maxVersionsIneligibleForDeletion,
               plan_VersionConfig = vcfg,
               plan_TestWorkflows =
                 getTestWorkflows status config workerDeploymentName gateInput isGateInputSecret,
               plan_RemoveIgnoreLastModifierBuilds = remove_ignore_builds temporalState vcfg\<rparr>,
              store))))))"

section \<open>Lemmas\<close>

lemma validateGateInputConfig_ok: "validateGateInputConfig g = Inr () \<longleftrightarrow> (\<forall>gate. g = Some gate \<longrightarrow> gate_ok gate)"
  by (auto simp: validateGateInputConfig_def gate_ok_def Let_def split: option.splits)

section \<open>Properties\<close>

text \<open>
  The planner's own check of the gate input agrees with the admission webhook's:
  it accepts exactly the gates the webhook accepts.
\<close>

theorem gate_validation_agrees:
  "(validateGateInputConfig g = Inr ()) = (validateGate g = [])"
  by (simp add: validateGateInputConfig_ok validateGate_Nil_iff)

text \<open>
  C36 (functional). The gate input of an accepted gate: inline input is passed on as it is; a
  ConfigMap key is looked up in the data, then in the binary data; a Secret key in the secret's
  data. The input counts as secret exactly when a Secret provided it, and a missing key is an
  error, never an empty input.
\<close>

theorem ResolveGateInput_spec:
  assumes "validateGate (Some g) = []"
  shows "(case (gate_Input g, gate_InputFrom g) of
       (Some raw, _) \<Rightarrow> ResolveGateInput (Some g) ns cm bin sec = Inr (raw, False)
     | (None, None) \<Rightarrow> ResolveGateInput (Some g) ns cm bin sec = Inr ([], False)
     | (None, Some src) \<Rightarrow>
         (\<exists>ref. gi_ConfigMapKeyRef src = Some ref \<and> gi_SecretKeyRef src = None
            \<and> (\<forall>r. ResolveGateInput (Some g) ns cm bin sec = Inr r \<longleftrightarrow>
                 (map_get (nil_map bin) ++ map_get (nil_map cm)) (ck_Key ref) = Some (fst r) \<and> \<not> snd r))
         \<or> (\<exists>ref. gi_SecretKeyRef src = Some ref \<and> gi_ConfigMapKeyRef src = None
            \<and> (\<forall>r. ResolveGateInput (Some g) ns cm bin sec = Inr r \<longleftrightarrow>
                 map_get (nil_map sec) (sk_Key ref) = Some (fst r) \<and> snd r)))"
proof -
  have ok: "gate_ok g" using assms validateGate_Nil_iff [of "Some g"] by simp
  then have v: "validateGateInputConfig (Some g) = Inr ()" by (simp add: validateGateInputConfig_ok)
  show ?thesis
    using ok by (auto simp: ResolveGateInput_def v gate_ok_def map_add_def split: option.splits)
qed

definition sample_gate :: GateWorkflowConfig where
  "sample_gate =
     \<lparr>gate_WorkflowType = ''gate'', gate_Input = None,
      gate_InputFrom = Some \<lparr>gi_ConfigMapKeyRef = None, gi_SecretKeyRef = Some \<lparr>sk_Name = ''s'', sk_Key = ''k'', sk_Optional = None\<rparr>\<rparr>\<rparr>"

theorem ResolveGateInput_spec_witness:
  "ResolveGateInput (Some sample_gate) ''ns'' None None (Some [(''k'', ''v'')]) = Inr (''v'', True)"
proof -
  have "validateGate (Some sample_gate) = []" by (simp add: validateGate_def sample_gate_def Let_def)
  from ResolveGateInput_spec [OF this, of "''ns''" None None "Some [(''k'', ''v'')]"] show ?thesis
    by (simp add: sample_gate_def)
qed

text \<open>
  Gate workflows are started exactly for the task queues of the target that have
  none yet, once per queue, with IDs that differ between queues, pinned to the target's build;
  none is started without a gate, for a target that is current, or for one Temporal does not
  know.
\<close>

theorem getTestWorkflows_spec:
  assumes "distinct (map tq_Name (v_TaskQueues (st_TargetVersion status)))"
  shows "map wc_TaskQueue (getTestWorkflows status config name input secret) =
       (if rs_Gate (cfg_RolloutStrategy config) = None
           \<or> (\<exists>c. st_CurrentVersion status = Some c \<and> v_BuildID c = v_BuildID (st_TargetVersion status))
           \<or> v_Status (st_TargetVersion status) = VersionStatusNotRegistered
        then []
        else filter (\<lambda>q. q \<notin> wf_TaskQueue ` set (v_TestWorkflows (st_TargetVersion status)))
               (map tq_Name (v_TaskQueues (st_TargetVersion status))))
    \<and> distinct (map wc_WorkflowID (getTestWorkflows status config name input secret))
    \<and> (\<forall>w \<in> set (getTestWorkflows status config name input secret).
         wc_BuildID w = v_BuildID (st_TargetVersion status)
         \<and> wc_WorkflowID w = GetTestWorkflowID name (v_BuildID (st_TargetVersion status)) (wc_TaskQueue w)
         \<and> wc_GateInput w = input \<and> wc_IsInputSecret w = secret)"
proof (intro conjI)
  let ?t = "st_TargetVersion status" and ?ws = "getTestWorkflows status config name input secret"
  let ?id = "GetTestWorkflowID name (v_BuildID ?t)"
  show queues: "map wc_TaskQueue ?ws =
       (if rs_Gate (cfg_RolloutStrategy config) = None
           \<or> (\<exists>c. st_CurrentVersion status = Some c \<and> v_BuildID c = v_BuildID ?t)
           \<or> v_Status ?t = VersionStatusNotRegistered
        then []
        else filter (\<lambda>q. q \<notin> wf_TaskQueue ` set (v_TestWorkflows ?t)) (map tq_Name (v_TaskQueues ?t)))"
    by (auto simp: getTestWorkflows_def Let_def filter_map comp_def split: option.splits)
  show all: "\<forall>w \<in> set ?ws. wc_BuildID w = v_BuildID ?t \<and> wc_WorkflowID w = ?id (wc_TaskQueue w)
      \<and> wc_GateInput w = input \<and> wc_IsInputSecret w = secret"
    by (auto simp: getTestWorkflows_def Let_def split: option.splits if_splits)
  then have "map wc_WorkflowID ?ws = map ?id (map wc_TaskQueue ?ws)" by simp
  moreover have "distinct (map wc_TaskQueue ?ws)" unfolding queues using assms by (simp add: distinct_map_filter)
  moreover have "inj_on ?id A" for A by (simp add: inj_on_def GetTestWorkflowID_def)
  ultimately show "distinct (map wc_WorkflowID ?ws)" by (metis distinct_map)
qed

theorem getTestWorkflows_spec_witness:
  "map wc_TaskQueue (getTestWorkflows
     (sample_status\<lparr>st_TargetVersion := sample_target\<lparr>v_TaskQueues := [\<lparr>tq_Name = ''q''\<rparr>]\<rparr>\<rparr>)
     \<lparr>cfg_RolloutStrategy = sample_rollout\<lparr>rs_Gate := Some sample_gate\<rparr>\<rparr> ''ns/foo'' ''x'' False) = [''q'']"
  using getTestWorkflows_spec [of "sample_status\<lparr>st_TargetVersion := sample_target\<lparr>v_TaskQueues := [\<lparr>tq_Name = ''q''\<rparr>]\<rparr>\<rparr>"
     "\<lparr>cfg_RolloutStrategy = sample_rollout\<lparr>rs_Gate := Some sample_gate\<rparr>\<rparr>" "''ns/foo''" "''x''" False]
  by (simp add: sample_status_def sample_target_def sample_current_def)

section \<open>Planning does not panic\<close>

text \<open>What the API server guarantees of the objects: set replicas, selectors, and annotations of the controller's pods.\<close>

definition served_deployment :: "Deployment \<Rightarrow> bool" where
  "served_deployment d \<longleftrightarrow>
     d_Replicas d \<noteq> None \<and> ds_Selector (d_Spec d) \<noteq> None \<and> pt_Annotations (ds_Template (d_Spec d)) \<noteq> None"

definition served :: "deployment_store \<Rightarrow> bool" where
  "served store \<longleftrightarrow> (\<forall>b d. map_get store b = Some d \<longrightarrow> served_deployment d)"

lemma NewDeployment_served:
  "spec_Replicas spec \<noteq> None \<Longrightarrow> served_deployment (NewDeploymentWithOwnerRef tp tm om spec name b connection)"
  by (simp add: served_deployment_def NewDeploymentWithOwnerRef_def Let_def)

lemma updateDeploymentWithConnection_served:
  assumes "served_deployment d"
  shows "\<exists>d'. updateDeploymentWithConnection d connection = Inr d' \<and> served_deployment d'"
  using assms by (auto simp: served_deployment_def updateDeploymentWithConnection_def Let_def)

lemma updateDeploymentWithPodTemplateSpec_served:
  assumes "served_deployment d" and "spec_Replicas spec \<noteq> None"
  shows "\<exists>d'. updateDeploymentWithPodTemplateSpec tp d spec connection = Inr d' \<and> served_deployment d'"
  using assms by (auto simp: served_deployment_def updateDeploymentWithPodTemplateSpec_def Let_def)

lemma served_put: "served store \<Longrightarrow> served_deployment d \<Longrightarrow> served (map_put b d store)"
  by (simp add: served_def)

lemma check_connection_served:
  assumes "served store"
  shows "\<exists>store' r. checkAndUpdateDeploymentConnectionSpec b connection store = Inr (store', r) \<and> served store'"
proof (cases "map_get store b")
  case (Some d)
  then obtain d' where "updateDeploymentWithConnection d connection = Inr d'" "served_deployment d'"
    using assms updateDeploymentWithConnection_served unfolding served_def by blast
  with Some assms served_put show ?thesis by (simp add: checkAndUpdateDeploymentConnectionSpec_def)
qed (use assms in \<open>simp add: checkAndUpdateDeploymentConnectionSpec_def\<close>)

lemma check_pod_served:
  assumes "served store" and "spec_Replicas spec \<noteq> None"
  shows "\<exists>store' r. checkAndUpdateDeploymentPodTemplateSpec tp b spec connection store = Inr (store', r) \<and> served store'"
proof (cases "map_get store b")
  case (Some d)
  then obtain d' where "updateDeploymentWithPodTemplateSpec tp d spec connection = Inr d'" "served_deployment d'"
    using assms updateDeploymentWithPodTemplateSpec_served unfolding served_def by blast
  with Some assms served_put show ?thesis by (simp add: checkAndUpdateDeploymentPodTemplateSpec_def Let_def)
qed (use assms in \<open>simp add: checkAndUpdateDeploymentPodTemplateSpec_def\<close>)

lemma update_connection_once_served:
  assumes "served (fst st)"
  shows "\<exists>st'. update_connection_once connection b st = Inr st' \<and> served (fst st')"
proof -
  obtain store' r where "checkAndUpdateDeploymentConnectionSpec b connection (fst st) = Inr (store', r)" "served store'"
    using check_connection_served [OF assms] by blast
  with assms show ?thesis by (cases st) (simp add: update_connection_once_def note_update_def)
qed

lemma update_deprecated_served:
  "served (fst st) \<Longrightarrow> \<exists>st'. foldE (\<lambda>v. update_connection_once connection (v_BuildID v)) vs st = Inr st' \<and> served (fst st')"
proof (induction vs arbitrary: st)
  case (Cons v vs)
  obtain st1 where "update_connection_once connection (v_BuildID v) st = Inr st1" "served (fst st1)"
    using update_connection_once_served [OF Cons.prems] by blast
  with Cons.IH show ?case by simp
qed simp

lemma getUpdateDeployments_served:
  assumes "served store" and "spec_Replicas spec \<noteq> None"
  shows "\<exists>st. getUpdateDeployments tp store status spec connection = Inr st \<and> served (fst st)"
proof -
  let ?t = "v_BuildID (st_TargetVersion status)"
  obtain store1 r where c: "checkAndUpdateDeploymentPodTemplateSpec tp ?t spec connection store = Inr (store1, r)" "served store1"
    using check_pod_served [OF assms] by blast
  obtain st1 where 1: "(if ?t \<noteq> [] then note_update (checkAndUpdateDeploymentPodTemplateSpec tp ?t spec connection) (store, [])
           else Inr (store, [])) = Inr st1" "served (fst st1)"
    using c assms(1) by (cases "?t = []") (simp_all add: note_update_def)
  obtain st2 where 2: "(if ?t \<noteq> [] then update_connection_once connection ?t st1 else Inr st1) = Inr st2" "served (fst st2)"
    using update_connection_once_served [OF 1(2)] 1(2) by metis
  obtain st3 where 3: "(case st_CurrentVersion status of None \<Rightarrow> Inr st2
             | Some c \<Rightarrow> if v_BuildID c \<noteq> [] then update_connection_once connection (v_BuildID c) st2 else Inr st2) = Inr st3" "served (fst st3)"
  proof (cases "st_CurrentVersion status")
    case None
    then show ?thesis using that [of st2] 2(2) by simp
  next
    case (Some c)
    obtain st' where "update_connection_once connection (v_BuildID c) st2 = Inr st'" "served (fst st')"
      using update_connection_once_served [OF 2(2)] by blast
    then show ?thesis using Some that [of st2] that [of st'] 2(2) by (cases "v_BuildID c = []") simp_all
  qed
  from update_deprecated_served [OF 3(2)] show ?thesis
    unfolding getUpdateDeployments_def Let_def 1(1) bindE_simps 2(1) 3(1) .
qed


text \<open>What the states must satisfy for a plan to be generated.\<close>

lemma GeneratePlan_runs:
  assumes "\<exists>ds. getDeleteDeployments now ks status spec (case ts of None \<Rightarrow> False | Some ts \<Rightarrow> length (ts_Versions ts) > 0) = Inr ds"
    and "\<exists>m. getScaleDeployments now ks status spec = Inr m"
    and "\<exists>st. getUpdateDeployments tp (ks_Deployments ks) status spec connection = Inr st"
    and "\<exists>r. getVersionConfigDiff now status ts config = Inr r"
  shows "\<exists>p store. GeneratePlan tp now ks status spec ts connection config name limit input secret = Inr (p, store)"
  using assms unfolding GeneratePlan_def Let_def by (elim exE) (simp add: case_prod_unfold)

lemma mapped_drained:
  assumes "v \<in> set (st_DeprecatedVersions (mapToStatus order (newStateMapper ks ts n) target))"
    and "v_Status v = VersionStatusDrained"
  shows "\<exists>vi. map_get (ts_Versions ts) (v_BuildID v) = Some vi \<and> vi_Status vi = VersionStatusDrained
           \<and> v_DrainedSince v = vi_DrainedSince vi"
  using mapDeprecated_fields [OF deprecated_in_status(1) [OF assms(1)]] assms(2)
  by (auto simp: newStateMapper_def split: option.splits)

text \<open>
  C12 (safety). A plan is generated without a panic whenever the spec has been defaulted and has
  its replica count, the Deployments are as the API server serves those the controller built,
  the status is mapped from the same states, and every version Temporal reports as Drained has
  its drain time. The last hypothesis is the one an outage of Temporal can break.
\<close>

theorem GeneratePlan_no_panic:
  assumes "spec_Replicas spec \<noteq> None" and "served (ks_Deployments ks)"
    and "\<forall>b vi. map_get (ts_Versions ts) b = Some vi \<longrightarrow> vi_Status vi = VersionStatusDrained \<longrightarrow> vi_DrainedSince vi \<noteq> None"
  shows "\<exists>p store. GeneratePlan tp now ks (mapToStatus order (newStateMapper ks ts n) target) (Spec_Default spec)
           (Some ts) connection config name limit input secret = Inr (p, store)"
proof (rule GeneratePlan_runs)
  let ?s = "mapToStatus order (newStateMapper ks ts n) target" and ?spec = "Spec_Default spec"
  have spec: "spec_Replicas ?spec \<noteq> None" "ss_ScaledownDelay (spec_SunsetStrategy ?spec) \<noteq> None"
    "ss_DeleteDelay (spec_SunsetStrategy ?spec) \<noteq> None"
    using assms(1) by (simp_all add: Spec_Default_def Let_def)
  have drained: "v_DrainedSince v \<noteq> None"
    if "v \<in> set (st_DeprecatedVersions ?s)" "v_Status v = VersionStatusDrained" for v
    using mapped_drained [OF that] assms(3) by force
  have "\<forall>v \<in> set (st_DeprecatedVersions ?s). \<exists>b. delete_version now ks ?s ?spec found v = Inr b" for found
    using drained spec assms(2) by (intro ballI delete_version_total) (auto simp: served_def served_deployment_def)
  then show "\<exists>ds. getDeleteDeployments now ks ?s ?spec
      (case Some ts of None \<Rightarrow> False | Some ts \<Rightarrow> length (ts_Versions ts) > 0) = Inr ds"
    unfolding getDeleteDeployments_def by (meson foldE_appendIf_total)
  show "\<exists>m. getScaleDeployments now ks ?s ?spec = Inr m"
  proof -
    obtain n' where "spec_Replicas ?spec = Some n'" using spec(1) by blast
    moreover have "\<exists>m. foldE (scale_version now ks ?s ?spec n') (st_DeprecatedVersions ?s) m0 = Inr m" for m0
      by (rule foldE_returns) (rule scale_version_total [OF spec(2) drained])
    ultimately show ?thesis by (simp add: getScaleDeployments_def)
  qed
  show "\<exists>st. getUpdateDeployments tp (ks_Deployments ks) ?s ?spec connection = Inr st"
    using getUpdateDeployments_served [OF assms(2) spec(1)] by blast
  show "\<exists>r. getVersionConfigDiff now ?s (Some ts) config = Inr r"
    by (rule getVersionConfigDiff_no_panic)
       (use mapTarget_fields [of "newStateMapper ks ts n" target] in
         \<open>auto simp: target_in_status newStateMapper_def split: if_splits option.splits\<close>)
qed


theorem GeneratePlan_no_panic_witness:
  "\<exists>p store. GeneratePlan sample_third_party 5 sample_ks (mapToStatus [''v0''] (newStateMapper sample_ks sample_ts ''ns/foo'') ''v2'')
     (Spec_Default sample_spec) (Some sample_ts) sample_connection \<lparr>cfg_RolloutStrategy = sample_rollout\<rparr> ''ns/foo'' 75 [] False
     = Inr (p, store)"
proof (rule GeneratePlan_no_panic)
  show "spec_Replicas sample_spec \<noteq> None" by (simp add: sample_spec_def)
  show "served (ks_Deployments sample_ks)"
    by (simp add: served_def served_deployment_def sample_ks_eq sample_deployment_def sample_template_def)
  show "\<forall>b vi. map_get (ts_Versions sample_ts) b = Some vi \<longrightarrow> vi_Status vi = VersionStatusDrained \<longrightarrow> vi_DrainedSince vi \<noteq> None"
    by (simp add: sample_ts_def zero_VersionInfo_def)
qed

text \<open>
  A plan can contain conflicting actions: when the connection has changed, a drained
  Deployment that is due for deletion is also listed for an update, and the update, executed
  after the deletion, is sent for an object that is gone.
\<close>

theorem plan_deletes_and_updates:
  "\<exists>now ks status spec ts connection config p store.
     GeneratePlan tp now ks status spec (Some ts) connection config name limit input secret = Inr (p, store)
     \<and> set (plan_DeleteDeployments p) \<inter> set (plan_UpdateDeployments p) \<noteq> {}"
proof -
  let ?ks = "sample_cluster 0" and ?s = "sample_sunset VersionStatusDrained (Some 0)"
  let ?cfg = "\<lparr>cfg_RolloutStrategy = sample_rollout\<lparr>rs_Strategy := UpdateManual\<rparr>\<rparr>"
  have del: "getDeleteDeployments (26 * Hour) ?ks ?s sample_spec False = Inr [''v0'']"
    by (simp add: getDeleteDeployments_def appendIfE_def delete_version_def sunset_samples sample_defs
        time_Since_def maxDuration_def minDuration_def wrap64_def duration_units)
  have scale: "getScaleDeployments (26 * Hour) ?ks ?s sample_spec = Inr []"
    by (simp add: getScaleDeployments_def scale_current_def scale_target_def scale_version_def sunset_samples
        sample_defs time_Since_def maxDuration_def minDuration_def duration_units)
  have "ComputeConnectionSpecHash sample_connection \<noteq> []"
    by (simp add: ComputeConnectionSpecHash_Nil_iff sample_connection_def)
  then obtain store' where "checkAndUpdateDeploymentConnectionSpec ''v0'' sample_connection (ks_Deployments ?ks) = Inr (store', Some ''v0'')"
    by (simp add: checkAndUpdateDeploymentConnectionSpec_def updateDeploymentWithConnection_def sunset_samples
        sample_deployment_def sample_template_def Let_def)
  then have ups: "getUpdateDeployments tp (ks_Deployments ?ks) ?s sample_spec sample_connection = Inr (store', [''v0''])"
    by (simp add: getUpdateDeployments_def note_update_def update_connection_once_def sunset_samples sample_status_def
        sample_target_def sample_current_def sample_spec_def checkAndUpdateDeploymentPodTemplateSpec_def Let_def
        checkAndUpdateDeploymentConnectionSpec_def [of "''v2''"] checkAndUpdateDeploymentConnectionSpec_def [of "''v1''"])
  have "getVersionConfigDiff (26 * Hour) ?s (Some empty_TemporalWorkerState) ?cfg = Inr None"
    by (simp add: getVersionConfigDiff_def)
  with del scale ups obtain p where
    "GeneratePlan tp (26 * Hour) ?ks ?s sample_spec (Some empty_TemporalWorkerState) sample_connection ?cfg name limit input secret = Inr (p, store')"
    "plan_DeleteDeployments p = [''v0'']" "plan_UpdateDeployments p = [''v0'']"
    by (simp add: GeneratePlan_def Let_def empty_TemporalWorkerState_def)
  then show ?thesis by fastforce
qed

end
