(* ===== verification/Exec_Plan.thy ===== *)
theory Exec_Plan
  imports Planner
begin

text \<open>
  Executing a plan (\<^verbatim>\<open>internal/controller/execplan.go\<close>) and the controller's identity and limits
  from its environment (\<^verbatim>\<open>internal/controller/util.go\<close>). The calls to the API server and to
  Temporal are a parameter, \<open>api\<close>; the environment variables are a parameter, \<open>getenv\<close>. The plan
  is executed call by call and stops at the first error; the calls made are in the world's
  record. The loop over the Deployments to scale ranges over a Go map: its entries are given
  in the order of iteration.
\<close>

section \<open>The controller's environment\<close>

definition controllerIdentityMetadataKey :: string where
  "controllerIdentityMetadataKey = ''temporal.io/controller''"
definition controllerVersionMetadataKey :: string where
  "controllerVersionMetadataKey = ''temporal.io/controller-version''"
definition controllerVersionEnvKey :: string where
  "controllerVersionEnvKey = ''CONTROLLER_VERSION''"
definition controllerIdentityEnvKey :: string where
  "controllerIdentityEnvKey = ''CONTROLLER_IDENTITY''"
definition ControllerMaxDeploymentVersionsIneligibleForDeletionEnvKey :: string where
  "ControllerMaxDeploymentVersionsIneligibleForDeletionEnvKey =
     ''CONTROLLER_MAX_DEPLOYMENT_VERSIONS_INELIGIBLE_FOR_DELETION''"
definition serverDeleteVersionIdentity :: string where
  "serverDeleteVersionIdentity = ''try-delete-for-add-version''"

text \<open>\<open>Version\<close> is the variable the linker may set; \<open>getenv\<close> gives the empty string for an unset variable.\<close>

definition getControllerVersion :: "string \<Rightarrow> (string \<Rightarrow> string) \<Rightarrow> string" where
  "getControllerVersion Version getenv =
     (if Version \<noteq> [] \<and> Version \<noteq> ''unknown'' then Version
      else if getenv controllerVersionEnvKey \<noteq> [] then getenv controllerVersionEnvKey
      else ''unknown'')"

definition getControllerIdentity :: "(string \<Rightarrow> string) \<Rightarrow> string" where
  "getControllerIdentity getenv =
     (if getenv controllerIdentityEnvKey \<noteq> [] then getenv controllerIdentityEnvKey
      else defaults_ControllerIdentity)"

text \<open>\<open>strconv.Atoi\<close>: an optional sign, decimal digits, within int64.\<close>

definition digit_char :: "char \<Rightarrow> bool" where
  "digit_char c \<longleftrightarrow> 48 \<le> (of_char c :: nat) \<and> (of_char c :: nat) \<le> 57"

definition digits_value :: "string \<Rightarrow> int" where
  "digits_value ds = foldl (\<lambda>n c. 10 * n + (of_char c - 48)) 0 ds"

definition Atoi :: "string \<Rightarrow> int option" where
  "Atoi s =
     (let neg = (s \<noteq> [] \<and> hd s = CHR ''-'');
          ds = (if s \<noteq> [] \<and> (hd s = CHR ''-'' \<or> hd s = CHR ''+'') then tl s else s)
      in if ds = [] \<or> \<not> list_all digit_char ds then None
         else let n = (if neg then - digits_value ds else digits_value ds)
              in if - (2 ^ 63) \<le> n \<and> n < 2 ^ 63 then Some n else None)"

definition GetControllerMaxDeploymentVersionsIneligibleForDeletion :: "(string \<Rightarrow> string) \<Rightarrow> int32" where
  "GetControllerMaxDeploymentVersionsIneligibleForDeletion getenv =
     (let maxStr = getenv ControllerMaxDeploymentVersionsIneligibleForDeletionEnvKey
      in if maxStr \<noteq> []
         then case Atoi maxStr of Some i \<Rightarrow> word_of_int i | None \<Rightarrow> defaults_MaxVersionsIneligibleForDeletion
         else defaults_MaxVersionsIneligibleForDeletion)"

section \<open>The controller's plan\<close>

record startWorkflowConfig =
  sc_workflowType :: string
  sc_workflowID :: string
  sc_buildID :: string
  sc_taskQueue :: string
  sc_input :: string
  sc_isInputSecret :: bool

record cplan =
  cp_TemporalNamespace :: string
  cp_WorkerDeploymentName :: string
  cp_DeleteDeployments :: "dep_ptr list"
  cp_CreateDeployment :: "Deployment option"
  cp_ScaleDeployments :: scale_map
  cp_UpdateDeployments :: "dep_ptr list"
  cp_UpdateVersionConfig :: "VersionConfig option"
  cp_startTestWorkflows :: "startWorkflowConfig list"
  cp_RemoveIgnoreLastModifierBuilds :: "string list"

section \<open>Execution\<close>

type_synonym api = "api_call \<Rightarrow> unit remote"

text \<open>One call; on error the phase returns it, wrapped or as it is.\<close>

definition do_call :: "api \<Rightarrow> (api_error \<Rightarrow> api_error) \<Rightarrow> api_call \<Rightarrow> unit io" where
  "do_call api wrap c =
     io_bind (io_write api c) (\<lambda>r. case r of Inl e \<Rightarrow> io_fail (wrap e) | Inr _ \<Rightarrow> io_return ())"

text \<open>The object a pointer of the plan refers to.\<close>

definition with_deployment :: "deployment_store \<Rightarrow> dep_ptr \<Rightarrow> (Deployment \<Rightarrow> unit io) \<Rightarrow> unit io" where
  "with_deployment store p f = (case map_get store p of None \<Rightarrow> io_panic NilPointer | Some d \<Rightarrow> f d)"

definition scale_meta :: "ObjectReference \<Rightarrow> ObjectMeta" where
  "scale_meta ref =
     \<lparr>om_Name = ref_Name ref, om_Namespace = ref_Namespace ref, om_UID = ref_UID ref, om_Labels = None,
      om_Annotations = None, om_OwnerReferences = [], om_CreationTimestamp = zero_time,
      om_ResourceVersion = ref_ResourceVersion ref\<rparr>"

definition start_request :: "string \<Rightarrow> startWorkflowConfig \<Rightarrow> start_workflow_request" where
  "start_request deploymentName sc =
     \<lparr>sw_ID = sc_workflowID sc, sw_TaskQueue = sc_taskQueue sc, sw_PinnedDeployment = deploymentName,
      sw_PinnedBuildId = sc_buildID sc, sw_WorkflowType = sc_workflowType sc,
      sw_Input = (if length (sc_input sc) > 0 then Some (sc_input sc) else None)\<rparr>"

definition version_config_call :: "string \<Rightarrow> string \<Rightarrow> VersionConfig \<Rightarrow> api_call" where
  "version_config_call deploymentName identity vcfg =
     (if vc_SetCurrent vcfg
      then SetCurrentVersion deploymentName (vc_BuildID vcfg) (vc_ConflictToken vcfg) identity
      else SetRampingVersion deploymentName (vc_BuildID vcfg) (float32_of_int (sint (vc_RampPercentage vcfg)))
             (vc_ConflictToken vcfg) identity)"

definition version_config_error :: "VersionConfig \<Rightarrow> api_error \<Rightarrow> api_error" where
  "version_config_error vcfg =
     wrap_error (if vc_SetCurrent vcfg then ''unable to set current deployment version''
                 else ''unable to set ramping deployment version'')"

definition for_each :: "('a \<Rightarrow> unit io) \<Rightarrow> 'a list \<Rightarrow> unit io" where
  "for_each f xs = io_fold (\<lambda>x _. f x) xs ()"

text \<open>Routing traffic, and recording the controller as the author of the change.\<close>

definition route_versions :: "api \<Rightarrow> string \<Rightarrow> string \<Rightarrow> cplan \<Rightarrow> unit io" where
  "route_versions api identity version p =
     (case cp_UpdateVersionConfig p of
        None \<Rightarrow> io_return ()
      | Some vcfg \<Rightarrow>
          io_bind (do_call api (version_config_error vcfg)
                     (version_config_call (cp_WorkerDeploymentName p) identity vcfg)) (\<lambda>_.
          do_call api (wrap_error ''unable to update metadata after setting current deployment'')
            (UpsertVersionMetadata (cp_WorkerDeploymentName p) (vc_BuildID vcfg)
               [(controllerIdentityMetadataKey, identity), (controllerVersionMetadataKey, version)])))"

definition remove_override :: "api \<Rightarrow> cplan \<Rightarrow> unit io" where
  "remove_override api p =
     for_each (\<lambda>buildId. do_call api
                  (wrap_error (''unable to update metadata to remove '' @ IgnoreLastModifierKey @ '' deployment''))
                  (RemoveVersionMetadata (cp_WorkerDeploymentName p) buildId [IgnoreLastModifierKey]))
       (cp_RemoveIgnoreLastModifierBuilds p)"

definition executePlan ::
  "api \<Rightarrow> string \<Rightarrow> string \<Rightarrow> deployment_store \<Rightarrow> (ref_ptr \<times> uint32) list \<Rightarrow> cplan \<Rightarrow> unit io" where
  "executePlan api identity version store scale_order p =
     io_bind (case cp_CreateDeployment p of
                None \<Rightarrow> io_return ()
              | Some d \<Rightarrow> do_call api (\<lambda>e. e) (CreateDeployment d)) (\<lambda>_.
     io_bind (for_each (\<lambda>ptr. with_deployment store ptr (\<lambda>d. do_call api (\<lambda>e. e) (DeleteDeployment d)))
                (cp_DeleteDeployments p)) (\<lambda>_.
     io_bind (for_each (\<lambda>(ref, replicas). do_call api (wrap_error ''unable to scale deployment'')
                          (ScaleDeployment (scale_meta (snd ref)) replicas)) scale_order) (\<lambda>_.
     io_bind (for_each (\<lambda>ptr. with_deployment store ptr
                          (\<lambda>d. do_call api (wrap_error ''unable to update deployment'') (UpdateDeployment d)))
                (cp_UpdateDeployments p)) (\<lambda>_.
     io_bind (for_each (\<lambda>wf. do_call api (wrap_error ''unable to start test workflow execution'')
                          (ExecuteWorkflow (start_request (cp_WorkerDeploymentName p) wf)))
                (cp_startTestWorkflows p)) (\<lambda>_.
     io_bind (route_versions api identity version p) (\<lambda>_. remove_override api p))))))"

section \<open>The plan as a list of calls\<close>

text \<open>What the execution of a plan is meant to do: these calls, in this order.\<close>

definition stored :: "deployment_store \<Rightarrow> dep_ptr list \<Rightarrow> Deployment list" where
  "stored store ps = map (\<lambda>p. the (map_get store p)) ps"

definition planned_calls ::
  "string \<Rightarrow> string \<Rightarrow> deployment_store \<Rightarrow> (ref_ptr \<times> uint32) list \<Rightarrow> cplan \<Rightarrow> api_call list" where
  "planned_calls identity version store scale_order p =
     (case cp_CreateDeployment p of None \<Rightarrow> [] | Some d \<Rightarrow> [CreateDeployment d])
     @ map DeleteDeployment (stored store (cp_DeleteDeployments p))
     @ map (\<lambda>(ref, n). ScaleDeployment (scale_meta (snd ref)) n) scale_order
     @ map UpdateDeployment (stored store (cp_UpdateDeployments p))
     @ map (\<lambda>wf. ExecuteWorkflow (start_request (cp_WorkerDeploymentName p) wf)) (cp_startTestWorkflows p)
     @ (case cp_UpdateVersionConfig p of
          None \<Rightarrow> []
        | Some vcfg \<Rightarrow>
            [version_config_call (cp_WorkerDeploymentName p) identity vcfg,
             UpsertVersionMetadata (cp_WorkerDeploymentName p) (vc_BuildID vcfg)
               [(controllerIdentityMetadataKey, identity), (controllerVersionMetadataKey, version)]])
     @ map (\<lambda>b. RemoveVersionMetadata (cp_WorkerDeploymentName p) b [IgnoreLastModifierKey])
         (cp_RemoveIgnoreLastModifierBuilds p)"

text \<open>
  An execution of a list of calls: it returns after all of them succeeded, or fails with the
  first that fails, and records what it did.
\<close>

definition executes :: "unit io \<Rightarrow> api_call list \<Rightarrow> bool" where
  "executes m cs \<longleftrightarrow>
     (\<forall>w. (\<exists>w'. m w = Some (Ok (), w') \<and> w_calls w' = w_calls w @ map (\<lambda>c. (c, None)) cs)
        \<or> (\<exists>e e' w' cs1 c cs2. m w = Some (Err e', w') \<and> cs = cs1 @ c # cs2 \<and> err_kind e' = err_kind e
             \<and> w_calls w' = w_calls w @ map (\<lambda>c. (c, None)) cs1 @ [(c, Some e)]))"

lemma executes_return: "executes (io_return ()) []"
  by (simp add: executes_def io_run)

lemma executes_call:
  assumes "\<And>e. err_kind (wrap e) = err_kind e"
  shows "executes (do_call api wrap c) [c]"
  unfolding executes_def
proof
  fix w
  show "(\<exists>w'. do_call api wrap c w = Some (Ok (), w') \<and> w_calls w' = w_calls w @ map (\<lambda>c. (c, None)) [c])
      \<or> (\<exists>e e' w' cs1 c' cs2. do_call api wrap c w = Some (Err e', w') \<and> [c] = cs1 @ c' # cs2 \<and> err_kind e' = err_kind e
            \<and> w_calls w' = w_calls w @ map (\<lambda>c. (c, None)) cs1 @ [(c', Some e)])"
  proof (cases "fst (api c w)")
    case (Inl e)
    then show ?thesis
      using assms
      by (intro disjI2) (auto simp: do_call_def io_bind_def io_write_def io_run intro!: exI [of _ e] exI [of _ "[]"])
  next
    case (Inr u)
    then show ?thesis by (simp add: do_call_def io_bind_def io_write_def io_run)
  qed
qed

lemma executes_bind:
  assumes "executes m cs" and "executes (f ()) ds"
  shows "executes (io_bind m f) (cs @ ds)"
  unfolding executes_def
proof
  fix w
  let ?ok = "\<lambda>m cs w. \<exists>w'. m w = Some (Ok (), w') \<and> w_calls w' = w_calls w @ map (\<lambda>c. (c, None)) cs"
  let ?err = "\<lambda>m cs w. \<exists>e e' w' cs1 c cs2. m w = Some (Err e', w') \<and> cs = cs1 @ c # cs2 \<and> err_kind e' = err_kind e
      \<and> w_calls w' = w_calls w @ map (\<lambda>c. (c, None)) cs1 @ [(c, Some e)]"
  from assms(1) have "?ok m cs w \<or> ?err m cs w" unfolding executes_def by blast
  then show "?ok (io_bind m f) (cs @ ds) w \<or> ?err (io_bind m f) (cs @ ds) w"
  proof
    assume "?ok m cs w"
    then obtain w1 where 1: "m w = Some (Ok (), w1)" "w_calls w1 = w_calls w @ map (\<lambda>c. (c, None)) cs" by blast
    from assms(2) have "?ok (f ()) ds w1 \<or> ?err (f ()) ds w1" unfolding executes_def by blast
    then show ?thesis
    proof
      assume "?ok (f ()) ds w1"
      with 1 show ?thesis by (auto simp: io_bind_def)
    next
      assume "?err (f ()) ds w1"
      then obtain e e' w' cs1 c cs2 where 2: "f () w1 = Some (Err e', w')" "ds = cs1 @ c # cs2" "err_kind e' = err_kind e"
        "w_calls w' = w_calls w1 @ map (\<lambda>c. (c, None)) cs1 @ [(c, Some e)]" by blast
      have "io_bind m f w = Some (Err e', w')" "cs @ ds = (cs @ cs1) @ c # cs2"
        "w_calls w' = w_calls w @ map (\<lambda>c. (c, None)) (cs @ cs1) @ [(c, Some e)]"
        using 1 2 by (simp_all add: io_bind_def)
      with 2(3) show ?thesis by blast
    qed
  next
    assume "?err m cs w"
    then obtain e e' w' cs1 c cs2 where "m w = Some (Err e', w')" "cs = cs1 @ c # cs2" "err_kind e' = err_kind e"
      "w_calls w' = w_calls w @ map (\<lambda>c. (c, None)) cs1 @ [(c, Some e)]" by blast
    then have "io_bind m f w = Some (Err e', w')" "cs @ ds = cs1 @ c # (cs2 @ ds)" by (simp_all add: io_bind_def)
    with \<open>err_kind e' = err_kind e\<close> \<open>w_calls w' = _\<close> show ?thesis by blast
  qed
qed

lemma executes_two_calls:
  assumes "\<And>e. err_kind (wrap1 e) = err_kind e" and "\<And>e. err_kind (wrap2 e) = err_kind e"
  shows "executes (io_bind (do_call api wrap1 c1) (\<lambda>_. do_call api wrap2 c2)) [c1, c2]"
  using executes_bind [of "do_call api wrap1 c1" "[c1]" "\<lambda>_. do_call api wrap2 c2" "[c2]"]
    executes_call [of wrap1, OF assms(1)] executes_call [of wrap2, OF assms(2)] by simp

lemma executes_for_each:
  assumes "\<And>x. x \<in> set xs \<Longrightarrow> executes (f x) [g x]"
  shows "executes (for_each f xs) (map g xs)"
  using assms
proof (induction xs)
  case Nil
  then show ?case by (simp add: for_each_def executes_return)
next
  case (Cons x xs)
  have "executes (io_bind (f x) (\<lambda>_. for_each f xs)) ([g x] @ map g xs)"
    by (rule executes_bind) (use Cons in auto)
  moreover have "for_each f (x # xs) = io_bind (f x) (\<lambda>_. for_each f xs)"
    by (simp add: for_each_def)
  ultimately show ?case by simp
qed


lemma executes_with_deployment:
  assumes "p \<in> dom (map_get store)" and "\<And>e. err_kind (wrap e) = err_kind e"
  shows "executes (with_deployment store p (\<lambda>d. do_call api wrap (C d))) [C (the (map_get store p))]"
  using assms executes_call by (auto simp: with_deployment_def)

text \<open>The pointers of a plan refer to objects of the store.\<close>

definition plan_wf :: "deployment_store \<Rightarrow> cplan \<Rightarrow> bool" where
  "plan_wf store p \<longleftrightarrow> set (cp_DeleteDeployments p) \<union> set (cp_UpdateDeployments p) \<subseteq> dom (map_get store)"

lemma err_kind_version_config [simp]: "err_kind (version_config_error vcfg e) = err_kind e"
  by (simp add: version_config_error_def)

lemma executePlan_executes:
  assumes "plan_wf store p"
  shows "executes (executePlan api identity version store scale_order p)
           (planned_calls identity version store scale_order p)"
proof -
  have create: "executes (case cp_CreateDeployment p of None \<Rightarrow> io_return () | Some d \<Rightarrow> do_call api (\<lambda>e. e) (CreateDeployment d))
      (case cp_CreateDeployment p of None \<Rightarrow> [] | Some d \<Rightarrow> [CreateDeployment d])"
    by (simp add: executes_return executes_call split: option.split)
  have stored: "map C (stored store ps) = map (\<lambda>q. C (the (map_get store q))) ps" for C :: "Deployment \<Rightarrow> api_call" and ps
    by (simp add: stored_def)
  have del: "executes (for_each (\<lambda>ptr. with_deployment store ptr (\<lambda>d. do_call api (\<lambda>e. e) (DeleteDeployment d)))
                (cp_DeleteDeployments p)) (map DeleteDeployment (stored store (cp_DeleteDeployments p)))"
    unfolding stored
    by (intro executes_for_each executes_with_deployment) (use assms in \<open>auto simp: plan_wf_def\<close>)
  have scale: "executes (for_each (\<lambda>(ref, replicas). do_call api (wrap_error ''unable to scale deployment'')
                          (ScaleDeployment (scale_meta (snd ref)) replicas)) scale_order)
      (map (\<lambda>(ref, n). ScaleDeployment (scale_meta (snd ref)) n) scale_order)"
    by (intro executes_for_each) (auto simp: case_prod_unfold intro: executes_call)
  have upd: "executes (for_each (\<lambda>ptr. with_deployment store ptr
                          (\<lambda>d. do_call api (wrap_error ''unable to update deployment'') (UpdateDeployment d)))
                (cp_UpdateDeployments p)) (map UpdateDeployment (stored store (cp_UpdateDeployments p)))"
    unfolding stored
    by (intro executes_for_each executes_with_deployment) (use assms in \<open>auto simp: plan_wf_def\<close>)
  have vcfg: "executes (case cp_UpdateVersionConfig p of
                None \<Rightarrow> io_return ()
              | Some vcfg \<Rightarrow>
                  io_bind (do_call api (version_config_error vcfg)
                             (version_config_call (cp_WorkerDeploymentName p) identity vcfg)) (\<lambda>_.
                  do_call api (wrap_error ''unable to update metadata after setting current deployment'')
                    (UpsertVersionMetadata (cp_WorkerDeploymentName p) (vc_BuildID vcfg)
                       [(controllerIdentityMetadataKey, identity), (controllerVersionMetadataKey, version)])))
     (case cp_UpdateVersionConfig p of
          None \<Rightarrow> []
        | Some vcfg \<Rightarrow>
            [version_config_call (cp_WorkerDeploymentName p) identity vcfg,
             UpsertVersionMetadata (cp_WorkerDeploymentName p) (vc_BuildID vcfg)
               [(controllerIdentityMetadataKey, identity), (controllerVersionMetadataKey, version)]])"
    by (simp add: executes_return executes_two_calls split: option.split)
  show ?thesis
    unfolding executePlan_def route_versions_def remove_override_def planned_calls_def
    by (intro executes_bind create del scale upd vcfg executes_for_each executes_call err_kind_wrap)
qed

section \<open>Properties\<close>

text \<open>
  C7 (refinement). Executing a plan carries out exactly its calls, in a fixed order: create, delete,
  scale, update, start gate workflows, route traffic and record the controller as its author,
  remove the override metadata. Either all succeed, or execution stops at the first that
  fails and returns its error: no call after it is made, so traffic is never routed after a
  failed change of a Deployment or a gate workflow that could not be started.
\<close>

theorem executePlan_calls:
  assumes "set (cp_DeleteDeployments p) \<union> set (cp_UpdateDeployments p) \<subseteq> dom (map_get store)"
  shows "(\<exists>w'. executePlan api identity version store scale_order p w = Some (Ok (), w')
       \<and> w_calls w' = w_calls w @ map (\<lambda>c. (c, None)) (planned_calls identity version store scale_order p))
    \<or> (\<exists>e e' w' before c after. executePlan api identity version store scale_order p w = Some (Err e', w')
       \<and> planned_calls identity version store scale_order p = before @ c # after \<and> err_kind e' = err_kind e
       \<and> w_calls w' = w_calls w @ map (\<lambda>c. (c, None)) before @ [(c, Some e)])"
  using executePlan_executes [of store p api identity version scale_order] assms
  unfolding executes_def plan_wf_def by blast

definition sample_cplan :: cplan where
  "sample_cplan =
     \<lparr>cp_TemporalNamespace = ''tns'', cp_WorkerDeploymentName = ''ns/foo'', cp_DeleteDeployments = [''v0''],
      cp_CreateDeployment = None, cp_ScaleDeployments = [], cp_UpdateDeployments = [],
      cp_UpdateVersionConfig = Some sample_vcfg, cp_startTestWorkflows = [], cp_RemoveIgnoreLastModifierBuilds = []\<rparr>"

definition sample_api :: api where
  "sample_api c w = (case c of DeleteDeployment _ \<Rightarrow> (Inl (new_error ''denied''), 1) | _ \<Rightarrow> (Inr (), 1))"

theorem executePlan_calls_witness:
  "\<exists>e w'. executePlan sample_api ''me'' ''1'' [(''v0'', sample_deployment ''v0'' (Some 0))] [] sample_cplan
        \<lparr>w_now = 0, w_calls = []\<rparr> = Some (Err e, w') \<and> length (w_calls w') = 1"
proof -
  let ?store = "[(''v0'', sample_deployment ''v0'' (Some 0))]" and ?w = "\<lparr>w_now = 0, w_calls = []\<rparr>"
  let ?m = "executePlan sample_api ''me'' ''1'' ?store [] sample_cplan"
  have "set (cp_DeleteDeployments sample_cplan) \<union> set (cp_UpdateDeployments sample_cplan) \<subseteq> dom (map_get ?store)"
    by (simp add: sample_cplan_def)
  note C = executePlan_calls [OF this, of sample_api "''me''" "''1''" "[]" ?w]
  have "\<exists>w'. ?m ?w = Some (Err (new_error ''denied''), w') \<and> length (w_calls w') = 1"
    by (simp add: executePlan_def sample_cplan_def for_each_def with_deployment_def do_call_def io_bind_def io_write_def
        io_run sample_api_def)
  with C show ?thesis by blast
qed

text \<open>
  The limit from the environment is truncated to 32 bits: a value of two to the 32 becomes
  zero, and no Deployment is created any more.
\<close>

theorem max_versions_truncated:
  assumes "getenv ControllerMaxDeploymentVersionsIneligibleForDeletionEnvKey = ''4294967296''"
    and "length (st_DeprecatedVersions status) < 2 ^ 31"
  shows "\<not> shouldCreateDeployment status (GetControllerMaxDeploymentVersionsIneligibleForDeletion getenv)"
proof -
  have "Atoi ''4294967296'' = Some 4294967296"
    by (simp add: Atoi_def Let_def digit_char_def digits_value_def)
  then have "GetControllerMaxDeploymentVersionsIneligibleForDeletion getenv = 0"
    using assms(1) by (simp add: GetControllerMaxDeploymentVersionsIneligibleForDeletion_def)
  moreover have "0 \<le> sint (count_ineligible (st_DeprecatedVersions status))"
    using sint_count_ineligible [OF assms(2)] by simp
  ultimately show ?thesis by (simp add: shouldCreateDeployment_def)
qed

end
