(* ===== verification/Client_Pool.thy ===== *)
theory Client_Pool
  imports Go_IO
begin

text \<open>
  The pool of Temporal clients (\<^verbatim>\<open>internal/controller/clientpool/clientpool.go\<close>): a map from
  connection keys to clients, behind a read-write lock, with expiry of client certificates.
  The SDK (dialling, health checks), the secrets of the cluster, and the parsing of PEM blocks,
  X.509 certificates and key pairs are a parameter, \<open>pool_env\<close>, as of the moment of the call.
  Operations run to completion one at a time; what they do with the lock and the map is
  recorded as a sequence of events, so that the locking discipline can be stated.
\<close>

section \<open>Data\<close>

datatype AuthMode = AuthModeTLS | AuthModeAPIKey | AuthModeNoCredentials | AuthModeOther string

record ClientPoolKey =
  key_HostPort :: string
  key_Namespace :: string
  key_SecretName :: string
  key_AuthMode :: AuthMode

record MTLSAuth =
  mtls_tlsConfig :: string
  mtls_expiryTime :: go_time

record ClientAuth =
  auth_mode :: AuthMode
  auth_mTLS :: "MTLSAuth option"

record 'c ClientInfo =
  ci_client :: 'c
  ci_auth :: ClientAuth

datatype lock_event = Lock | Unlock | RLock | RUnlock | ReadMap | WriteMap

record 'c ClientPool =
  cp_clients :: "(ClientPoolKey, 'c ClientInfo) go_map"
  cp_events :: "lock_event list"

record Secret =
  sec_Name :: string
  sec_Type :: string
  sec_Data :: "(string, string) go_map"

record NewClientOptions =
  nco_TemporalNamespace :: string
  nco_K8sNamespace :: string
  nco_Spec :: TemporalConnectionSpec

text \<open>What the client is dialled with: no TLS, TLS without certificate, or a key pair; an API key.\<close>

datatype tls_option = NoTLS | PlainTLS | KeyPairTLS string

record dial_options =
  dial_HostPort :: string
  dial_Namespace :: string
  dial_TLS :: tls_option
  dial_APIKey :: "string outcome option"                          \<comment> \<open>what the credentials callback gives when called\<close>

record 'c pool_env =
  pe_GetSecret :: "string \<Rightarrow> string \<Rightarrow> api_error + Secret"      \<comment> \<open>namespace, name\<close>
  pe_Dial :: "dial_options \<Rightarrow> 'c outcome"                       \<comment> \<open>runs the callback, so it may panic\<close>
  pe_CheckHealth :: "'c \<Rightarrow> api_error option"
  pe_pem_Decode :: "string \<Rightarrow> string option"
  pe_ParseCertificate :: "string \<Rightarrow> string + go_time"             \<comment> \<open>error text, or NotAfter\<close>
  pe_X509KeyPair :: "string \<Rightarrow> string \<Rightarrow> api_error + string"

definition New :: "'c ClientPool" where
  "New = \<lparr>cp_clients = [], cp_events = []\<rparr>"

section \<open>Certificates\<close>

definition calculateCertificateExpirationTime :: "'c pool_env \<Rightarrow> string \<Rightarrow> duration \<Rightarrow> string + go_time" where
  "calculateCertificateExpirationTime env certBytes bufferTime =
     (if length certBytes = 0 then Inl ''no certificate bytes provided''
      else case pe_pem_Decode env certBytes of
             None \<Rightarrow> Inl ''failed to decode PEM block''
           | Some block \<Rightarrow>
               (case pe_ParseCertificate env block of
                  Inl e \<Rightarrow> Inl (''failed to parse certificate: '' @ e)
                | Inr notAfter \<Rightarrow> Inr (notAfter - bufferTime)))"

definition isCertificateExpired :: "go_time \<Rightarrow> go_time \<Rightarrow> bool" where
  "isCertificateExpired now expiryTime \<longleftrightarrow> now > expiryTime"

section \<open>Operations\<close>

definition log_events :: "lock_event list \<Rightarrow> 'c ClientPool \<Rightarrow> 'c ClientPool" where
  "log_events es cp = cp\<lparr>cp_events := cp_events cp @ es\<rparr>"

text \<open>\<open>GetSDKClient\<close>: the client, none, or a panic on a TLS entry without certificate data.\<close>

definition GetSDKClient :: "go_time \<Rightarrow> ClientPoolKey \<Rightarrow> 'c ClientPool \<Rightarrow> 'c option outcome \<times> 'c ClientPool" where
  "GetSDKClient now key cp =
     (case map_get (cp_clients cp) key of
        None \<Rightarrow> Ok None
      | Some info \<Rightarrow>
          if key_AuthMode key = AuthModeTLS
          then (case auth_mTLS (ci_auth info) of
                  None \<Rightarrow> Panic NilPointer
                | Some m \<Rightarrow>
                    if isCertificateExpired now (mtls_expiryTime m) then Ok None else Ok (Some (ci_client info)))
          else Ok (Some (ci_client info)),
      log_events [RLock, ReadMap, RUnlock] cp)"

definition put_client :: "ClientPoolKey \<Rightarrow> 'c ClientInfo \<Rightarrow> 'c ClientPool \<Rightarrow> 'c ClientPool" where
  "put_client key info cp = cp\<lparr>cp_clients := map_put key info (cp_clients cp)\<rparr>"

definition fetchClientUsingMTLSSecret ::
  "'c pool_env \<Rightarrow> go_time \<Rightarrow> Secret \<Rightarrow> NewClientOptions \<Rightarrow> 'c ClientPool \<Rightarrow> 'c outcome \<times> 'c ClientPool" where
  "fetchClientUsingMTLSSecret env now secret opts cp =
     (let pemCert = str_index (sec_Data secret) ''tls.crt''
      in case calculateCertificateExpirationTime env pemCert (5 * Minute) of
           Inl e \<Rightarrow> (Err (new_error (''failed to check certificate expiration: '' @ e)), cp)
         | Inr expiryTime \<Rightarrow>
             if isCertificateExpired now expiryTime
             then (Err (new_error ''certificate is expired or is going to expire soon''), cp)
             else (case pe_X509KeyPair env pemCert (str_index (sec_Data secret) ''tls.key'') of
                     Inl e \<Rightarrow> (Err e, cp)
                   | Inr tlsConfig \<Rightarrow>
                       (case pe_Dial env \<lparr>dial_HostPort = tc_HostPort (nco_Spec opts),
                                          dial_Namespace = nco_TemporalNamespace opts,
                                          dial_TLS = KeyPairTLS tlsConfig, dial_APIKey = None\<rparr> of
                          Err e \<Rightarrow> (Err e, cp)
                        | Panic p \<Rightarrow> (Panic p, cp)
                        | Ok c \<Rightarrow>
                            (case pe_CheckHealth env c of
                               Some e \<Rightarrow> (Panic (PanicValue (err_text e)), cp)
                             | None \<Rightarrow>
                                 (case tc_MutualTLSSecretRef (nco_Spec opts) of
                                    None \<Rightarrow> (Panic NilPointer, log_events [Lock, Unlock] cp)
                                  | Some ref \<Rightarrow>
                                      let key = \<lparr>key_HostPort = tc_HostPort (nco_Spec opts),
                                                 key_Namespace = nco_TemporalNamespace opts,
                                                 key_SecretName = sr_Name ref, key_AuthMode = AuthModeTLS\<rparr>;
                                          info = \<lparr>ci_client = c,
                                                  ci_auth = \<lparr>auth_mode = AuthModeTLS,
                                                             auth_mTLS = Some \<lparr>mtls_tlsConfig = tlsConfig,
                                                                               mtls_expiryTime = expiryTime\<rparr>\<rparr>\<rparr>
                                      in (Ok c, log_events [Lock, WriteMap, Unlock] (put_client key info cp)))))))"

definition fetchClientUsingAPIKeySecret ::
  "'c pool_env \<Rightarrow> Secret \<Rightarrow> NewClientOptions \<Rightarrow> 'c ClientPool \<Rightarrow> 'c outcome \<times> 'c ClientPool" where
  "fetchClientUsingAPIKeySecret env secret opts cp =
     (case pe_Dial env \<lparr>dial_HostPort = tc_HostPort (nco_Spec opts),
                        dial_Namespace = nco_TemporalNamespace opts, dial_TLS = PlainTLS,
                        dial_APIKey = Some (case tc_APIKeySecretRef (nco_Spec opts) of
                                              None \<Rightarrow> Panic NilPointer
                                            | Some sel \<Rightarrow> Ok (str_index (sec_Data secret) (sk_Key sel)))\<rparr> of
        Err e \<Rightarrow> (Err e, cp)
      | Panic p \<Rightarrow> (Panic p, cp)
      | Ok c \<Rightarrow>
          (case tc_APIKeySecretRef (nco_Spec opts) of
             None \<Rightarrow> (Panic NilPointer, log_events [Lock, Unlock] cp)
           | Some sel \<Rightarrow>
               let key = \<lparr>key_HostPort = tc_HostPort (nco_Spec opts), key_Namespace = nco_TemporalNamespace opts,
                          key_SecretName = sk_Name sel, key_AuthMode = AuthModeAPIKey\<rparr>;
                   info = \<lparr>ci_client = c, ci_auth = \<lparr>auth_mode = AuthModeAPIKey, auth_mTLS = None\<rparr>\<rparr>
               in (Ok c, log_events [Lock, WriteMap, Unlock] (put_client key info cp))))"

text \<open>The path without credentials writes the map without taking the lock.\<close>

definition fetchClientUsingNoCredentials ::
  "'c pool_env \<Rightarrow> NewClientOptions \<Rightarrow> 'c ClientPool \<Rightarrow> 'c outcome \<times> 'c ClientPool" where
  "fetchClientUsingNoCredentials env opts cp =
     (case pe_Dial env \<lparr>dial_HostPort = tc_HostPort (nco_Spec opts),
                        dial_Namespace = nco_TemporalNamespace opts, dial_TLS = NoTLS, dial_APIKey = None\<rparr> of
        Err e \<Rightarrow> (Err e, cp)
      | Panic p \<Rightarrow> (Panic p, cp)
      | Ok c \<Rightarrow>
          let key = \<lparr>key_HostPort = tc_HostPort (nco_Spec opts), key_Namespace = nco_TemporalNamespace opts,
                     key_SecretName = [], key_AuthMode = AuthModeNoCredentials\<rparr>;
              info = \<lparr>ci_client = c, ci_auth = \<lparr>auth_mode = AuthModeNoCredentials, auth_mTLS = None\<rparr>\<rparr>
          in (Ok c, log_events [WriteMap] (put_client key info cp)))"

definition zero_Secret :: Secret where
  "zero_Secret = \<lparr>sec_Name = [], sec_Type = [], sec_Data = []\<rparr>"

definition UpsertClient ::
  "'c pool_env \<Rightarrow> go_time \<Rightarrow> string \<Rightarrow> AuthMode \<Rightarrow> NewClientOptions \<Rightarrow> 'c ClientPool \<Rightarrow> 'c outcome \<times> 'c ClientPool" where
  "UpsertClient env now secretName authMode opts cp =
     (case (if secretName \<noteq> [] then pe_GetSecret env (nco_K8sNamespace opts) secretName else Inr zero_Secret) of
        Inl e \<Rightarrow> (Err e, cp)
      | Inr secret \<Rightarrow>
          (case authMode of
             AuthModeTLS \<Rightarrow>
               if sec_Type secret \<noteq> ''kubernetes.io/tls''
               then (Err (new_error (''secret '' @ sec_Name secret @ '' must be of type kubernetes.io/tls'')), cp)
               else fetchClientUsingMTLSSecret env now secret opts cp
           | AuthModeAPIKey \<Rightarrow>
               if sec_Type secret \<noteq> ''Opaque''
               then (Err (new_error (''secret '' @ sec_Name secret @ '' must be of type kubernetes.io/opaque'')), cp)
               else fetchClientUsingAPIKeySecret env secret opts cp
           | AuthModeNoCredentials \<Rightarrow> fetchClientUsingNoCredentials env opts cp
           | AuthModeOther m \<Rightarrow> (Err (new_error (''invalid auth mode: '' @ m)), cp)))"

text \<open>\<open>Close\<close>: the clients that are closed, and the emptied pool.\<close>

definition Close :: "'c ClientPool \<Rightarrow> 'c list \<times> 'c ClientPool" where
  "Close cp =
     (map (\<lambda>(k, info). ci_client info) (cp_clients cp),
      log_events [Lock, ReadMap, WriteMap, Unlock] (cp\<lparr>cp_clients := []\<rparr>))"

section \<open>The pool invariant\<close>

text \<open>
  Every entry has the mode of its key, TLS entries have their certificate data, and only they.
\<close>

definition pool_wf :: "'c ClientPool \<Rightarrow> bool" where
  "pool_wf cp \<longleftrightarrow>
     map_wf (cp_clients cp)
     \<and> (\<forall>key info. map_get (cp_clients cp) key = Some info \<longrightarrow>
          auth_mode (ci_auth info) = key_AuthMode key
          \<and> (auth_mTLS (ci_auth info) \<noteq> None \<longleftrightarrow> key_AuthMode key = AuthModeTLS))"

lemma pool_wf_log [simp]: "pool_wf (log_events es cp) \<longleftrightarrow> pool_wf cp"
  by (simp add: pool_wf_def log_events_def)

lemma pool_wf_put:
  assumes "pool_wf cp" and "auth_mode (ci_auth info) = key_AuthMode key"
    and "auth_mTLS (ci_auth info) \<noteq> None \<longleftrightarrow> key_AuthMode key = AuthModeTLS"
  shows "pool_wf (put_client key info cp)"
  using assms by (auto simp: pool_wf_def put_client_def distinct_update)

lemma pool_wf_New: "pool_wf New"
  by (simp add: pool_wf_def New_def)

text \<open>The key under which a client for these options is kept, if the connection has the secret of the mode.\<close>

definition pool_key :: "AuthMode \<Rightarrow> NewClientOptions \<Rightarrow> ClientPoolKey option" where
  "pool_key authMode opts =
     map_option (\<lambda>n. \<lparr>key_HostPort = tc_HostPort (nco_Spec opts), key_Namespace = nco_TemporalNamespace opts,
                      key_SecretName = n, key_AuthMode = authMode\<rparr>)
       (case authMode of
          AuthModeTLS \<Rightarrow> map_option sr_Name (tc_MutualTLSSecretRef (nco_Spec opts))
        | AuthModeAPIKey \<Rightarrow> map_option sk_Name (tc_APIKeySecretRef (nco_Spec opts))
        | AuthModeNoCredentials \<Rightarrow> Some []
        | AuthModeOther _ \<Rightarrow> None)"

text \<open>An entry the pool may hold from now on: of its key's mode, with a certificate good now where TLS is used.\<close>

definition good_info :: "go_time \<Rightarrow> AuthMode \<Rightarrow> 'c \<Rightarrow> 'c ClientInfo \<Rightarrow> bool" where
  "good_info now mode c info \<longleftrightarrow>
     ci_client info = c \<and> auth_mode (ci_auth info) = mode
     \<and> (auth_mTLS (ci_auth info) \<noteq> None \<longleftrightarrow> mode = AuthModeTLS)
     \<and> (\<forall>m. auth_mTLS (ci_auth info) = Some m \<longrightarrow> now \<le> mtls_expiryTime m)"

text \<open>
  What an upsert leaves: on success exactly one new entry, under the key of its options;
  otherwise the clients are as before.
\<close>

definition upserted ::
  "go_time \<Rightarrow> AuthMode \<Rightarrow> NewClientOptions \<Rightarrow> 'c ClientPool \<Rightarrow> 'c outcome \<times> 'c ClientPool \<Rightarrow> bool" where
  "upserted now mode opts cp res \<longleftrightarrow>
     (case fst res of
        Ok c \<Rightarrow> (\<exists>key info. pool_key mode opts = Some key \<and> good_info now mode c info
                   \<and> cp_clients (snd res) = map_put key info (cp_clients cp))
      | _ \<Rightarrow> cp_clients (snd res) = cp_clients cp)"

lemma cp_clients_simps [simp]:
  "cp_clients (log_events es cp) = cp_clients cp"
  "cp_clients (put_client key info cp) = map_put key info (cp_clients cp)"
  by (simp_all add: log_events_def put_client_def)

lemma upserted_fail:
  "cp_clients cp' = cp_clients cp \<Longrightarrow> upserted now mode opts cp (Err e, cp')"
  "cp_clients cp' = cp_clients cp \<Longrightarrow> upserted now mode opts cp (Panic p, cp')"
  by (simp_all add: upserted_def)

lemma upserted_put:
  "pool_key mode opts = Some key \<Longrightarrow> good_info now mode c info
   \<Longrightarrow> upserted now mode opts cp (Ok c, log_events es (put_client key info cp))"
  by (auto simp: upserted_def)

lemma fetch_mtls_upserted: "upserted now AuthModeTLS opts cp (fetchClientUsingMTLSSecret env now secret opts cp)"
  unfolding fetchClientUsingMTLSSecret_def Let_def
  by (auto simp: pool_key_def good_info_def isCertificateExpired_def
      intro!: upserted_put upserted_fail split: sum.split option.split outcome.split)

lemma fetch_apikey_upserted: "upserted now AuthModeAPIKey opts cp (fetchClientUsingAPIKeySecret env secret opts cp)"
  unfolding fetchClientUsingAPIKeySecret_def Let_def
  by (auto simp: pool_key_def good_info_def intro!: upserted_put upserted_fail split: option.split outcome.split)

lemma fetch_nocred_upserted: "upserted now AuthModeNoCredentials opts cp (fetchClientUsingNoCredentials env opts cp)"
  unfolding fetchClientUsingNoCredentials_def Let_def
  by (auto simp: pool_key_def good_info_def intro!: upserted_put upserted_fail split: outcome.split)

lemma UpsertClient_upserted: "upserted now mode opts cp (UpsertClient env now secretName mode opts cp)"
  unfolding UpsertClient_def
  by (auto intro!: upserted_fail fetch_mtls_upserted fetch_apikey_upserted fetch_nocred_upserted
      split: sum.split AuthMode.split)

lemma pool_wf_upserted:
  assumes "pool_wf cp" and "upserted now mode opts cp res"
  shows "pool_wf (snd res)"
proof (cases "fst res")
  case (Ok c)
  then obtain key info where k: "pool_key mode opts = Some key" and g: "good_info now mode c info"
    and put: "cp_clients (snd res) = map_put key info (cp_clients cp)"
    using assms(2) by (auto simp: upserted_def)
  from k have "key_AuthMode key = mode" by (auto simp: pool_key_def)
  with g have "pool_wf (put_client key info cp)" by (intro pool_wf_put assms(1)) (simp_all add: good_info_def)
  with put show ?thesis by (simp add: pool_wf_def)
qed (use assms in \<open>simp_all add: upserted_def pool_wf_def\<close>)

lemma pool_wf_GetSDKClient [simp]: "pool_wf (snd (GetSDKClient now key cp)) \<longleftrightarrow> pool_wf cp"
  by (simp add: GetSDKClient_def)

lemma pool_wf_Close: "pool_wf (snd (Close cp))"
  by (simp add: Close_def pool_wf_def)

section \<open>Lookups\<close>

text \<open>A lookup depends only on the clients of the pool.\<close>

lemma GetSDKClient_cong:
  "map_get (cp_clients cp) key = map_get (cp_clients cp') key \<Longrightarrow> fst (GetSDKClient now key cp) = fst (GetSDKClient now key cp')"
  by (simp add: GetSDKClient_def)

lemma GetSDKClient_no_panic:
  assumes "pool_wf cp"
  shows "\<exists>r. fst (GetSDKClient now key cp) = Ok r"
proof (cases "map_get (cp_clients cp) key")
  case (Some info)
  then have "auth_mTLS (ci_auth info) \<noteq> None \<longleftrightarrow> key_AuthMode key = AuthModeTLS"
    using assms unfolding pool_wf_def by blast
  with Some show ?thesis by (auto simp: GetSDKClient_def split: option.split)
qed (simp add: GetSDKClient_def)

lemma GetSDKClient_good_info:
  assumes "map_get (cp_clients cp) key = Some info" and "good_info now (key_AuthMode key) c info"
  shows "fst (GetSDKClient now key cp) = Ok (Some c)"
  using assms by (auto simp: GetSDKClient_def good_info_def isCertificateExpired_def split: option.split)

lemma GetSDKClient_upserted:
  assumes "upserted now mode opts cp (Ok c, cp')" and "pool_key mode opts = Some key"
  shows "fst (GetSDKClient now key cp') = Ok (Some c)"
    and "key' \<noteq> key \<Longrightarrow> fst (GetSDKClient t key' cp') = fst (GetSDKClient t key' cp)"
proof -
  obtain info where g: "good_info now mode c info" and put: "cp_clients cp' = map_put key info (cp_clients cp)"
    using assms by (auto simp: upserted_def)
  have "key_AuthMode key = mode" using assms(2) by (auto simp: pool_key_def)
  with g put show "fst (GetSDKClient now key cp') = Ok (Some c)" by (intro GetSDKClient_good_info) simp_all
  show "fst (GetSDKClient t key' cp') = fst (GetSDKClient t key' cp)" if "key' \<noteq> key"
    using that put by (intro GetSDKClient_cong) simp
qed

section \<open>The pool as a cache\<close>

text \<open>
  How the reconciler uses the pool: look the client up, and create it if there is none. The
  interface it relies on is a cache with an invariant under which lookups do not panic.
\<close>

definition get_or_upsert ::
  "('p \<Rightarrow> 'c option outcome \<times> 'p) \<Rightarrow> ('p \<Rightarrow> 'c outcome \<times> 'p) \<Rightarrow> 'p \<Rightarrow> 'c outcome \<times> 'p" where
  "get_or_upsert lookup upsert p =
     (case lookup p of
        (Ok (Some c), p') \<Rightarrow> (Ok c, p')
      | (Ok None, p') \<Rightarrow> upsert p'
      | (Err e, p') \<Rightarrow> (Err e, p')
      | (Panic x, p') \<Rightarrow> (Panic x, p'))"

locale client_cache =
  fixes lookup :: "'t \<Rightarrow> 'k \<Rightarrow> 'p \<Rightarrow> 'c option outcome \<times> 'p"
    and upsert :: "'t \<Rightarrow> 'q \<Rightarrow> 'p \<Rightarrow> 'c outcome \<times> 'p"
    and key_of :: "'q \<Rightarrow> 'k option"
    and pinv :: "'p \<Rightarrow> bool"
  assumes lookup_returns: "pinv p \<Longrightarrow> \<exists>r. fst (lookup t k p) = Ok r"
    and lookup_inv: "pinv p \<Longrightarrow> pinv (snd (lookup t k p))"
    and lookup_stable: "fst (lookup t k (snd (lookup t' k' p))) = fst (lookup t k p)"
    and upsert_inv: "pinv p \<Longrightarrow> pinv (snd (upsert t q p))"
    and upsert_hit: "upsert t q p = (Ok c, p') \<Longrightarrow> key_of q = Some k \<Longrightarrow> fst (lookup t k p') = Ok (Some c)"
    and upsert_miss: "(\<And>c. fst (upsert t q p) \<noteq> Ok c) \<Longrightarrow> fst (lookup t' k (snd (upsert t q p))) = fst (lookup t' k p)"
begin

lemma get_or_upsert_cases:
  assumes "pinv p"
  obtains (hit) c p' where "lookup t k p = (Ok (Some c), p')" and "get_or_upsert (lookup t k) (upsert t q) p = (Ok c, p')"
  | (miss) p' where "lookup t k p = (Ok None, p')" and "get_or_upsert (lookup t k) (upsert t q) p = upsert t q p'"
proof -
  obtain r p' where l: "lookup t k p = (Ok r, p')"
    using lookup_returns [OF assms, of t k] by (cases "lookup t k p") auto
  show thesis
  proof (cases r)
    case None
    with l show ?thesis by (intro miss) (simp_all add: get_or_upsert_def)
  next
    case (Some c)
    with l show ?thesis by (intro hit) (simp_all add: get_or_upsert_def)
  qed
qed

lemma get_or_upsert_inv:
  assumes "pinv p"
  shows "pinv (snd (get_or_upsert (lookup t k) (upsert t q) p))"
  using assms
proof (cases rule: get_or_upsert_cases [of p t k q])
  case (hit c p')
  then show ?thesis using lookup_inv [OF assms, of t k] by simp
next
  case (miss p')
  then show ?thesis using upsert_inv [of p' t q] lookup_inv [OF assms, of t k] by simp
qed

text \<open>A client once obtained is found again: it is not created twice.\<close>

lemma get_or_upsert_cached:
  assumes "pinv p" and "key_of q = Some k" and "get_or_upsert (lookup t k) (upsert t q) p = (Ok c, p')"
  shows "get_or_upsert (lookup t k) up p' = (Ok c, snd (lookup t k p'))"
proof -
  have "fst (lookup t k p') = Ok (Some c)"
    using assms(1)
  proof (cases rule: get_or_upsert_cases [of p t k q])
    case (hit c1 p1)
    then show ?thesis using assms(3) lookup_stable [of t k t k p] by simp
  next
    case (miss p1)
    then show ?thesis using assms(2,3) upsert_hit [of t q p1 c p' k] by simp
  qed
  then show ?thesis by (cases "lookup t k p'") (simp add: get_or_upsert_def)
qed

end

text \<open>The pool is such a cache: its requests are a mode with options, for any secrets and server.\<close>

interpretation pool: client_cache GetSDKClient
  "\<lambda>now (env, secretName, mode, opts). UpsertClient env now secretName mode opts"
  "\<lambda>(env, secretName, mode, opts). pool_key mode opts" pool_wf
proof (unfold_locales, goal_cases)
  case (3 t k t' k' p)
  then show ?case by (rule GetSDKClient_cong) (simp add: GetSDKClient_def)
next
  case (4 p t q)
  then show ?case using pool_wf_upserted [OF _ UpsertClient_upserted] by (cases q) simp
next
  case (5 t q p c p' k)
  obtain env secretName mode opts where q: "q = (env, secretName, mode, opts)" by (metis prod_cases4)
  from 5 q have "upserted t mode opts p (Ok c, p')" using UpsertClient_upserted [of t mode opts p env secretName] by simp
  with 5 q show ?case by (intro GetSDKClient_upserted(1)) simp_all
next
  case (6 t q p t' k)
  obtain env secretName mode opts where q: "q = (env, secretName, mode, opts)" by (metis prod_cases4)
  from 6 q have "cp_clients (snd (UpsertClient env t secretName mode opts p)) = cp_clients p"
    using UpsertClient_upserted [of t mode opts p env secretName]
    by (cases "fst (UpsertClient env t secretName mode opts p)") (auto simp: upserted_def)
  with q show ?case by (intro GetSDKClient_cong) simp
qed (simp_all add: GetSDKClient_no_panic)

section \<open>Runs of the pool and its lock\<close>

text \<open>One operation of one of the reconcilers that share the pool.\<close>

inductive pool_step :: "'c ClientPool \<Rightarrow> 'c ClientPool \<Rightarrow> bool" where
  step_get: "pool_step cp (snd (GetSDKClient now key cp))"
| step_upsert: "pool_step cp (snd (UpsertClient env now secretName mode opts cp))"
| step_close: "pool_step cp (snd (Close cp))"

inductive pool_reachable :: "'c ClientPool \<Rightarrow> bool" where
  reach_New: "pool_reachable New"
| reach_step: "pool_reachable cp \<Longrightarrow> pool_step cp cp' \<Longrightarrow> pool_reachable cp'"

inductive_cases pool_stepE: "pool_step cp cp'"

lemma pool_step_wf: "pool_step cp cp' \<Longrightarrow> pool_wf cp \<Longrightarrow> pool_wf cp'"
  by (elim pool_stepE) (auto intro: pool_wf_upserted [OF _ UpsertClient_upserted] pool_wf_Close)

lemma pool_reachable_wf: "pool_reachable cp \<Longrightarrow> pool_wf cp"
  by (induction rule: pool_reachable.induct) (auto intro: pool_wf_New pool_step_wf)

text \<open>The read-write lock: what a thread may do with the map depends on how it holds the lock.\<close>

datatype lock_mode = Free | Shared | Held

fun lock_next :: "lock_mode \<Rightarrow> lock_event \<Rightarrow> lock_mode option" where
  "lock_next Free Lock = Some Held"
| "lock_next Free RLock = Some Shared"
| "lock_next Held Unlock = Some Free"
| "lock_next Shared RUnlock = Some Free"
| "lock_next Held ReadMap = Some Held"
| "lock_next Held WriteMap = Some Held"
| "lock_next Shared ReadMap = Some Shared"
| "lock_next _ _ = None"

fun lock_run :: "lock_mode \<Rightarrow> lock_event list \<Rightarrow> lock_mode option" where
  "lock_run m [] = Some m"
| "lock_run m (e # es) = (case lock_next m e of None \<Rightarrow> None | Some m' \<Rightarrow> lock_run m' es)"

lemma lock_run_append:
  "lock_run m (es @ fs) = (case lock_run m es of None \<Rightarrow> None | Some m' \<Rightarrow> lock_run m' fs)"
  by (induction es arbitrary: m) (auto split: option.split)

definition disciplined :: "'c ClientPool \<Rightarrow> bool" where
  "disciplined cp \<longleftrightarrow> lock_run Free (cp_events cp) = Some Free"

lemma disciplined_put [simp]: "disciplined (put_client key info cp) \<longleftrightarrow> disciplined cp"
  by (simp add: disciplined_def put_client_def)

lemma disciplined_log: "disciplined cp \<Longrightarrow> disciplined (log_events es cp) \<longleftrightarrow> lock_run Free es = Some Free"
  by (simp add: disciplined_def log_events_def lock_run_append)

lemma disciplined_get: "disciplined cp \<Longrightarrow> disciplined (snd (GetSDKClient now key cp))"
  by (simp add: GetSDKClient_def disciplined_log)

lemma disciplined_close: "disciplined cp \<Longrightarrow> disciplined (snd (Close cp))"
  by (simp add: Close_def disciplined_def log_events_def lock_run_append)

lemma disciplined_mtls:
  assumes "disciplined cp"
  shows "disciplined (snd (fetchClientUsingMTLSSecret env now secret opts cp))"
  using assms unfolding fetchClientUsingMTLSSecret_def Let_def
  by (simp add: disciplined_log split: sum.split option.split outcome.split)

lemma disciplined_apikey:
  assumes "disciplined cp"
  shows "disciplined (snd (fetchClientUsingAPIKeySecret env secret opts cp))"
  using assms unfolding fetchClientUsingAPIKeySecret_def Let_def
  by (simp add: disciplined_log split: option.split outcome.split)

lemma disciplined_nocred:
  assumes "disciplined cp"
  shows "disciplined (snd (fetchClientUsingNoCredentials env opts cp))
         \<longleftrightarrow> (\<forall>c. fst (fetchClientUsingNoCredentials env opts cp) \<noteq> Ok c)"
  using assms unfolding fetchClientUsingNoCredentials_def Let_def
  by (simp add: disciplined_log split: outcome.split)

lemma disciplined_upsert:
  assumes "disciplined cp"
  shows "disciplined (snd (UpsertClient env now secretName mode opts cp))
         \<longleftrightarrow> \<not> (mode = AuthModeNoCredentials \<and> (\<exists>c. fst (UpsertClient env now secretName mode opts cp) = Ok c))"
proof (cases "if secretName \<noteq> [] then pe_GetSecret env (nco_K8sNamespace opts) secretName else Inr zero_Secret")
  case (Inl e)
  with assms show ?thesis by (simp add: UpsertClient_def)
next
  case (Inr secret)
  then show ?thesis
    using assms disciplined_mtls [OF assms] disciplined_apikey [OF assms] disciplined_nocred [OF assms]
    by (cases mode) (simp_all add: UpsertClient_def)
qed

section \<open>Properties\<close>

text \<open>
  C13 (invariant). In every state the pool can reach, a lookup never panics, and the client it
  returns for a TLS key has a certificate that is not past its expiry time, which is five
  minutes before the end of its validity; at the very moment of the expiry time the client is still returned.
\<close>

theorem GetSDKClient_safe:
  assumes "pool_reachable cp"
  shows "\<exists>r. fst (GetSDKClient now key cp) = Ok r
           \<and> (\<forall>c. r = Some c \<longrightarrow>
                (\<exists>info. map_get (cp_clients cp) key = Some info \<and> ci_client info = c
                   \<and> (key_AuthMode key = AuthModeTLS \<longrightarrow>
                        (\<exists>m. auth_mTLS (ci_auth info) = Some m \<and> now \<le> mtls_expiryTime m))))"
proof -
  obtain r where "fst (GetSDKClient now key cp) = Ok r"
    using GetSDKClient_no_panic [OF pool_reachable_wf [OF assms]] by blast
  then show ?thesis
    by (auto simp: GetSDKClient_def isCertificateExpired_def split: option.splits if_splits)
qed

text \<open>A server and a cluster for examples: a certificate valid until one hour, and no secret in other namespaces.\<close>

definition sample_env :: "string pool_env" where
  "sample_env =
     \<lparr>pe_GetSecret = (\<lambda>ns name. if ns = ''team-a''
                               then Inr \<lparr>sec_Name = name, sec_Type = ''kubernetes.io/tls'',
                                         sec_Data = [(''tls.crt'', ''pem''), (''tls.key'', ''key'')]\<rparr>
                               else Inl \<lparr>err_kind = ErrNotFound, err_text = ''no secret''\<rparr>),
      pe_Dial = (\<lambda>d. Ok (dial_HostPort d)), pe_CheckHealth = (\<lambda>_. None), pe_pem_Decode = Some,
      pe_ParseCertificate = (\<lambda>_. Inr (60 * Minute)), pe_X509KeyPair = (\<lambda>c k. Inr (c @ k))\<rparr>"

definition sample_opts :: "string \<Rightarrow> NewClientOptions" where
  "sample_opts ns =
     \<lparr>nco_TemporalNamespace = ''tns'', nco_K8sNamespace = ns,
      nco_Spec = \<lparr>tc_HostPort = ''temporal:7233'', tc_MutualTLSSecretRef = Some \<lparr>sr_Name = ''certs''\<rparr>,
                  tc_APIKeySecretRef = None\<rparr>\<rparr>"

definition sample_key :: ClientPoolKey where
  "sample_key = \<lparr>key_HostPort = ''temporal:7233'', key_Namespace = ''tns'', key_SecretName = ''certs'',
                 key_AuthMode = AuthModeTLS\<rparr>"

definition sample_pool :: "string ClientPool" where
  "sample_pool = snd (UpsertClient sample_env 0 ''certs'' AuthModeTLS (sample_opts ''team-a'') New)"

lemmas sample_pool_simps =
  sample_pool_def sample_env_def sample_opts_def sample_key_def UpsertClient_def fetchClientUsingMTLSSecret_def
  calculateCertificateExpirationTime_def isCertificateExpired_def New_def Let_def str_index_def Minute_def Second_def

theorem GetSDKClient_safe_witness:
  "\<exists>info. fst (GetSDKClient Minute sample_key sample_pool) = Ok (Some ''temporal:7233'')
     \<and> map_get (cp_clients sample_pool) sample_key = Some info \<and> ci_client info = ''temporal:7233''"
proof -
  have "pool_reachable sample_pool"
    unfolding sample_pool_def by (intro reach_step [OF reach_New] step_upsert)
  from GetSDKClient_safe [OF this, of Minute sample_key]
  have "\<exists>r. fst (GetSDKClient Minute sample_key sample_pool) = Ok r
     \<and> (\<forall>c. r = Some c \<longrightarrow> (\<exists>info. map_get (cp_clients sample_pool) sample_key = Some info \<and> ci_client info = c))"
    by blast
  moreover have "fst (GetSDKClient Minute sample_key sample_pool) = Ok (Some ''temporal:7233'')"
    by (simp add: sample_pool_simps GetSDKClient_def)
  ultimately show ?thesis by auto
qed

text \<open>
  C15 (roundtrip). A client that was created successfully is stored under the key of its
  options: a lookup of that key finds it, and every other key is looked up as before. When
  creation fails, every key is.
\<close>

theorem UpsertClient_lookup:
  "case UpsertClient env now secretName mode opts cp of
     (Ok c, cp') \<Rightarrow> \<exists>key. pool_key mode opts = Some key \<and> fst (GetSDKClient now key cp') = Ok (Some c)
                       \<and> (\<forall>t key'. key' \<noteq> key \<longrightarrow> fst (GetSDKClient t key' cp') = fst (GetSDKClient t key' cp))
   | (_, cp') \<Rightarrow> \<forall>t key. fst (GetSDKClient t key cp') = fst (GetSDKClient t key cp)"
proof -
  obtain r cp' where res: "UpsertClient env now secretName mode opts cp = (r, cp')" by fastforce
  then have u: "upserted now mode opts cp (r, cp')" by (metis UpsertClient_upserted)
  show ?thesis
  proof (cases r)
    case (Ok c)
    with u obtain key where k: "pool_key mode opts = Some key" by (auto simp: upserted_def)
    with Ok u res GetSDKClient_upserted [of now mode opts cp c cp' key] show ?thesis by auto
  qed (use u res in \<open>simp_all add: upserted_def GetSDKClient_def\<close>)
qed

theorem UpsertClient_lookup_witness:
  "fst (GetSDKClient 0 sample_key sample_pool) = Ok (Some ''temporal:7233'')"
proof -
  have "UpsertClient sample_env 0 ''certs'' AuthModeTLS (sample_opts ''team-a'') New = (Ok ''temporal:7233'', sample_pool)"
    by (simp add: sample_pool_simps)
  with UpsertClient_lookup [where env = sample_env and now = 0 and secretName = "''certs''" and mode = AuthModeTLS
      and opts = "sample_opts ''team-a''" and cp = New]
  show ?thesis by (auto simp: pool_key_def sample_opts_def sample_key_def)
qed

text \<open>
  C38 (error). The Kubernetes namespace is not part of the key: a client created with the secret
  of one namespace is handed out for every other namespace with the same host, Temporal
  namespace and secret name, whatever that namespace's secret is, even if it has none.
\<close>

theorem pool_ignores_namespace:
  assumes "UpsertClient env now secretName mode opts cp = (Ok c, cp')"
    and "pool_key mode opts = Some key"
  shows "pool_key mode (opts\<lparr>nco_K8sNamespace := ns'\<rparr>) = Some key
    \<and> fst (get_or_upsert (GetSDKClient now key)
             (UpsertClient env' now secretName mode (opts\<lparr>nco_K8sNamespace := ns'\<rparr>)) cp') = Ok c"
proof -
  have "upserted now mode opts cp (Ok c, cp')" by (metis UpsertClient_upserted assms(1))
  then have "fst (GetSDKClient now key cp') = Ok (Some c)" by (rule GetSDKClient_upserted(1) [OF _ assms(2)])
  then have "fst (get_or_upsert (GetSDKClient now key) up cp') = Ok c" for up
    by (cases "GetSDKClient now key cp'") (simp add: get_or_upsert_def)
  moreover have "pool_key mode (opts\<lparr>nco_K8sNamespace := ns'\<rparr>) = Some key"
    using assms(2) by (simp add: pool_key_def split: AuthMode.splits)
  ultimately show ?thesis by simp
qed

theorem pool_ignores_namespace_witness:
  "fst (UpsertClient sample_env 0 ''certs'' AuthModeTLS (sample_opts ''team-b'') New)
     = Err \<lparr>err_kind = ErrNotFound, err_text = ''no secret''\<rparr>
   \<and> fst (get_or_upsert (GetSDKClient 0 sample_key)
           (UpsertClient sample_env 0 ''certs'' AuthModeTLS ((sample_opts ''team-a'')\<lparr>nco_K8sNamespace := ''team-b''\<rparr>)) sample_pool)
       = Ok ''temporal:7233''"
proof -
  have "UpsertClient sample_env 0 ''certs'' AuthModeTLS (sample_opts ''team-a'') New = (Ok ''temporal:7233'', sample_pool)"
    by (simp add: sample_pool_simps)
  moreover have "pool_key AuthModeTLS (sample_opts ''team-a'') = Some sample_key"
    by (simp add: pool_key_def sample_opts_def sample_key_def)
  ultimately show ?thesis
    using pool_ignores_namespace [of sample_env 0 "''certs''" AuthModeTLS "sample_opts ''team-a''" New
        "''temporal:7233''" sample_pool sample_key "''team-b''" sample_env]
    by (simp add: UpsertClient_def sample_env_def sample_opts_def)
qed

text \<open>
  Every operation of the pool takes the lock around what it does with the map
  and releases it, on every path, with one exception: an upsert without credentials that
  succeeds writes the map with no lock held.
\<close>

theorem pool_lock_discipline:
  assumes "disciplined cp"
  shows "disciplined (snd (GetSDKClient now key cp)) \<and> disciplined (snd (Close cp))
    \<and> (disciplined (snd (UpsertClient env now secretName mode opts cp))
       \<longleftrightarrow> \<not> (mode = AuthModeNoCredentials \<and> (\<exists>c. fst (UpsertClient env now secretName mode opts cp) = Ok c)))"
  by (intro conjI disciplined_get disciplined_close disciplined_upsert assms)

theorem pool_lock_discipline_witness:
  "disciplined sample_pool
   \<and> \<not> disciplined (snd (UpsertClient sample_env 0 [] AuthModeNoCredentials (sample_opts ''ns'') New))"
proof -
  have new: "disciplined New" by (simp add: disciplined_def New_def)
  have "\<exists>c. fst (UpsertClient sample_env 0 [] AuthModeNoCredentials (sample_opts ''ns'') New) = Ok c"
    by (simp add: UpsertClient_def fetchClientUsingNoCredentials_def sample_env_def Let_def)
  with pool_lock_discipline [OF new, where env = sample_env and now = 0 and secretName = "[]" and mode = AuthModeNoCredentials and opts = "sample_opts ''ns''"]
    pool_lock_discipline [OF new, where env = sample_env and now = 0 and secretName = "''certs''" and mode = AuthModeTLS and opts = "sample_opts ''team-a''"]
  show ?thesis unfolding sample_pool_def by simp
qed

end
