(* ===== verification/Reconcile.thy ===== *)
theory Reconcile
  imports Exec_Plan Client_Pool
begin

text \<open>
  The reconciler (\<^verbatim>\<open>internal/controller/worker_controller.go\<close>, \<^verbatim>\<open>genplan.go\<close>): one run of the
  loop from the request to the requeue, the plan it generates, and the mapping of connections
  to requests. What the API server and Temporal answer, the environment, the iteration order
  of Go maps and \<open>SetControllerReference\<close> are the fields of a record, \<open>reconciler\<close>. The client
  pool is shared between runs: a run takes it and returns it, also when it fails. A panic is an
  outcome; whether the manager recovers from it is the manager's affair. The timeout of the
  context shows only in what the calls answer, which may depend on the clock.
\<close>

section \<open>The reconciler\<close>

record NamespacedName =
  nn_Namespace :: string
  nn_Name :: string

record Result =
  res_Requeue :: bool
  res_RequeueAfter :: duration

definition no_Result :: Result where
  "no_Result = \<lparr>res_Requeue = False, res_RequeueAfter = 0\<rparr>"

definition requeue_after :: "duration \<Rightarrow> Result" where
  "requeue_after d = \<lparr>res_Requeue = True, res_RequeueAfter = d\<rparr>"

record ConfigMap =
  cm_Data :: "(string, string) go_map option"
  cm_BinaryData :: "(string, string) go_map option"

record 'c reconciler =
  r_third_party :: third_party
  r_getenv :: "string \<Rightarrow> string"
  r_Version :: string
  r_GetTWD :: "NamespacedName \<Rightarrow> TemporalWorkerDeployment remote"
  r_GetConnection :: "NamespacedName \<Rightarrow> TemporalConnection remote"
  r_GetConfigMap :: "NamespacedName \<Rightarrow> ConfigMap remote"
  r_GetSecret :: "NamespacedName \<Rightarrow> Secret remote"
  r_ListDeployments :: "NamespacedName \<Rightarrow> Deployment list remote"        \<comment> \<open>namespace and name of the owner\<close>
  r_ListTWDs :: "string \<Rightarrow> TemporalWorkerDeployment list remote"          \<comment> \<open>of a namespace\<close>
  r_UpdateStatus :: "TemporalWorkerDeployment \<Rightarrow> TemporalWorkerDeployment remote"
  r_SetControllerReference :: "TemporalWorkerDeployment \<Rightarrow> Deployment \<Rightarrow> api_error + Deployment"
  r_pool_env :: "world \<Rightarrow> 'c pool_env"
  r_temporal :: "'c \<Rightarrow> temporal_client"
  r_api :: "'c \<Rightarrow> api"
  r_versions_order :: "DeploymentState \<Rightarrow> string list"
  r_scale_order :: "scale_map \<Rightarrow> (ref_ptr \<times> uint32) list"
  r_MaxDeploymentVersionsIneligibleForDeletion :: int32

section \<open>Credentials\<close>

definition getAPIKeySecretName :: "SecretKeySelector option \<Rightarrow> api_error + string" where
  "getAPIKeySecretName secretRef =
     (case secretRef of Some ref \<Rightarrow> Inr (sk_Name ref) | None \<Rightarrow> Inl (new_error ''API key secret name is not set''))"

definition getTLSSecretName :: "SecretReference option \<Rightarrow> api_error + string" where
  "getTLSSecretName secretRef =
     (case secretRef of Some ref \<Rightarrow> Inr (sr_Name ref) | None \<Rightarrow> Inl (new_error ''TLS secret name is not set''))"

definition resolveAuthSecretName :: "TemporalConnection \<Rightarrow> api_error + (AuthMode \<times> string)" where
  "resolveAuthSecretName tc =
     (if tc_MutualTLSSecretRef (tconn_Spec tc) \<noteq> None
      then bindE (getTLSSecretName (tc_MutualTLSSecretRef (tconn_Spec tc))) (\<lambda>name. Inr (AuthModeTLS, name))
      else if tc_APIKeySecretRef (tconn_Spec tc) \<noteq> None
      then bindE (getAPIKeySecretName (tc_APIKeySecretRef (tconn_Spec tc))) (\<lambda>name. Inr (AuthModeAPIKey, name))
      else Inr (AuthModeNoCredentials, []))"

section \<open>Generating the plan\<close>

definition read_deployment_state :: "'c reconciler \<Rightarrow> NamespacedName \<Rightarrow> DeploymentState io" where
  "read_deployment_state r owner =
     io_bind (io_read (r_ListDeployments r owner)) (\<lambda>listed.
       io_lift (map_error ''unable to get Kubernetes deployment state''
                  (GetDeploymentState (r_third_party r) listed)))"

text \<open>Somebody else changed the Worker Deployment last, and the controller has not been told to ignore it.\<close>

definition foreign_modifier :: "string \<Rightarrow> string \<Rightarrow> bool" where
  "foreign_modifier identity lastModifier \<longleftrightarrow>
     lastModifier \<noteq> identity \<and> lastModifier \<noteq> serverDeleteVersionIdentity \<and> lastModifier \<noteq> []"

definition effective_strategy ::
  "string \<Rightarrow> TemporalWorkerDeployment \<Rightarrow> TemporalWorkerState \<Rightarrow> RolloutStrategy" where
  "effective_strategy identity w ts =
     (if foreign_modifier identity (st_LastModifierIdentity (twd_Status w)) \<and> \<not> ts_IgnoreLastModifier ts
      then (spec_RolloutStrategy (twd_Spec w))\<lparr>rs_Strategy := UpdateManual\<rparr>
      else spec_RolloutStrategy (twd_Spec w))"

definition in_namespace :: "TemporalWorkerDeployment \<Rightarrow> string \<Rightarrow> NamespacedName" where
  "in_namespace w name = \<lparr>nn_Namespace = twd_Namespace w, nn_Name = name\<rparr>"

definition gate_config_map ::
  "'c reconciler \<Rightarrow> TemporalWorkerDeployment \<Rightarrow> GateInputSource
   \<Rightarrow> ((string, string) go_map option \<times> (string, string) go_map option) io" where
  "gate_config_map r w src =
     (case gi_ConfigMapKeyRef src of
        None \<Rightarrow> io_return (None, None)
      | Some ref \<Rightarrow>
          io_bind (io_read (r_GetConfigMap r (in_namespace w (ck_Name ref)))) (\<lambda>res.
          case res of
            Inl e \<Rightarrow> io_fail (wrap_error (''failed to get ConfigMap '' @ twd_Namespace w @ ''/'' @ ck_Name ref) e)
          | Inr cm \<Rightarrow> io_return (cm_Data cm, cm_BinaryData cm)))"

definition gate_secret ::
  "'c reconciler \<Rightarrow> TemporalWorkerDeployment \<Rightarrow> GateInputSource \<Rightarrow> (string, string) go_map option io" where
  "gate_secret r w src =
     (case gi_SecretKeyRef src of
        None \<Rightarrow> io_return None
      | Some ref \<Rightarrow>
          io_bind (io_read (r_GetSecret r (in_namespace w (sk_Name ref)))) (\<lambda>res.
          case res of
            Inl e \<Rightarrow> io_fail (wrap_error (''failed to get Secret '' @ twd_Namespace w @ ''/'' @ sk_Name ref) e)
          | Inr sec \<Rightarrow> io_return (Some (sec_Data sec))))"

definition gate_input :: "'c reconciler \<Rightarrow> TemporalWorkerDeployment \<Rightarrow> GateWorkflowConfig option \<Rightarrow> (string \<times> bool) io" where
  "gate_input r w gate =
     (case gate of
        None \<Rightarrow> io_return ([], False)
      | Some g \<Rightarrow>
          io_bind (case gate_InputFrom g of
                     None \<Rightarrow> io_return ((None, None), None)
                   | Some src \<Rightarrow>
                       io_bind (gate_config_map r w src) (\<lambda>cm.
                       io_bind (gate_secret r w src) (\<lambda>sec. io_return (cm, sec))))
            (\<lambda>(configMap, secretData). case configMap of (configMapData, configMapBinaryData) \<Rightarrow>
               io_lift (map_error ''unable to resolve gate input''
                 (ResolveGateInput gate (twd_Namespace w) configMapData configMapBinaryData secretData))))"

definition start_config :: "WorkflowConfig \<Rightarrow> startWorkflowConfig" where
  "start_config wc =
     \<lparr>sc_workflowType = wc_WorkflowType wc, sc_workflowID = wc_WorkflowID wc, sc_buildID = wc_BuildID wc,
      sc_taskQueue = wc_TaskQueue wc, sc_input = wc_GateInput wc, sc_isInputSecret = wc_IsInputSecret wc\<rparr>"

definition convert_plan :: "TemporalWorkerDeployment \<Rightarrow> Plan \<Rightarrow> Deployment option \<Rightarrow> cplan" where
  "convert_plan w p create =
     \<lparr>cp_TemporalNamespace = wo_TemporalNamespace (spec_WorkerOptions (twd_Spec w)),
      cp_WorkerDeploymentName = ComputeWorkerDeploymentName w,
      cp_DeleteDeployments = plan_DeleteDeployments p,
      cp_CreateDeployment = create,
      cp_ScaleDeployments = plan_ScaleDeployments p,
      cp_UpdateDeployments = plan_UpdateDeployments p,
      cp_UpdateVersionConfig = plan_VersionConfig p,
      cp_startTestWorkflows = map start_config (plan_TestWorkflows p),
      cp_RemoveIgnoreLastModifierBuilds = plan_RemoveIgnoreLastModifierBuilds p\<rparr>"

definition newDeployment ::
  "'c reconciler \<Rightarrow> TemporalWorkerDeployment \<Rightarrow> string \<Rightarrow> TemporalConnectionSpec \<Rightarrow> api_error + Deployment" where
  "newDeployment r w buildID connection =
     NewDeploymentWithControllerRef (r_third_party r) (r_SetControllerReference r) w buildID connection"

text \<open>The plan comes with the store its pointers refer to, after the planner's updates.\<close>

definition generatePlan ::
  "'c reconciler \<Rightarrow> TemporalWorkerDeployment \<Rightarrow> TemporalConnectionSpec \<Rightarrow> TemporalWorkerState
   \<Rightarrow> (cplan \<times> deployment_store) io" where
  "generatePlan r w connection temporalState =
     io_bind (read_deployment_state r (in_namespace w (twd_Name w))) (\<lambda>k8sState.
     let rolloutStrategy = effective_strategy (getControllerIdentity (r_getenv r)) w temporalState
     in io_bind (gate_input r w (rs_Gate rolloutStrategy)) (\<lambda>(gateInput, isGateInputSecret).
        io_bind io_now (\<lambda>now.
        case GeneratePlan (r_third_party r) now k8sState (twd_Status w) (twd_Spec w) (Some temporalState) connection
               \<lparr>cfg_RolloutStrategy = rolloutStrategy\<rparr> (ComputeWorkerDeploymentName w)
               (r_MaxDeploymentVersionsIneligibleForDeletion r) gateInput isGateInputSecret of
          Inl p \<Rightarrow> io_panic p
        | Inr (planResult, store) \<Rightarrow>
            if plan_ShouldCreateDeployment planResult
            then io_bind (io_lift (newDeployment r w (ComputeBuildID (r_third_party r) w) connection)) (\<lambda>d.
                   io_return (convert_plan w planResult (Some d), store))
            else io_return (convert_plan w planResult None, store))))"

section \<open>The reconcile loop\<close>

text \<open>\<open>fmt.Errorf\<close> around the error of a computation.\<close>

definition io_wrap :: "string \<Rightarrow> 'a io \<Rightarrow> 'a io" where
  "io_wrap what m = (\<lambda>w. case m w of Some (Err e, w') \<Rightarrow> Some (Err (wrap_error what e), w') | res \<Rightarrow> res)"

text \<open>An outcome as a value: the run goes on to return the pool.\<close>

definition io_try :: "'a io \<Rightarrow> 'a outcome io" where
  "io_try m = (\<lambda>w. case m w of None \<Rightarrow> None | Some (res, w') \<Rightarrow> Some (Ok res, w'))"

definition webhook_api_error :: "webhook_error \<Rightarrow> api_error" where
  "webhook_api_error e =
     new_error (case e of BadRequest \<Rightarrow> ''expected a TemporalWorkerDeployment'' | Invalid name errs \<Rightarrow> name @ '' is invalid'')"

text \<open>Up to the client: the worker deployment, its connection and the credentials, or an early result.\<close>

definition fetch_inputs ::
  "'c reconciler \<Rightarrow> NamespacedName \<Rightarrow> (Result + (TemporalWorkerDeployment \<times> TemporalConnection \<times> AuthMode \<times> string)) io" where
  "fetch_inputs r req =
     io_bind (io_read (r_GetTWD r req)) (\<lambda>got.
     case got of
       Inl e \<Rightarrow> if err_kind e = ErrNotFound then io_return (Inl no_Result) else io_fail e
     | Inr w0 \<Rightarrow>
         (case TWD_Default (ObjTWD w0) of
            Inl e \<Rightarrow> io_fail (webhook_api_error e)
          | Inr w \<Rightarrow>
              (case ValidateCreate (ObjTWD w) of
                 Inl _ \<Rightarrow> io_return (Inl (requeue_after (5 * Minute)))
               | Inr _ \<Rightarrow>
                   io_bind (io_read (r_GetConnection r
                      (in_namespace w (tcr_Name (wo_TemporalConnectionRef (spec_WorkerOptions (twd_Spec w)))))))
                     (\<lambda>conn. case conn of
                        Inl e \<Rightarrow> io_fail e
                      | Inr tc \<Rightarrow> io_bind (io_lift (resolveAuthSecretName tc))
                                    (\<lambda>(authMode, secretName). io_return (Inr (w, tc, authMode, secretName)))))))"

text \<open>The client for the connection: from the pool, or a new one.\<close>

definition client_key :: "TemporalWorkerDeployment \<Rightarrow> TemporalConnection \<Rightarrow> AuthMode \<Rightarrow> string \<Rightarrow> ClientPoolKey" where
  "client_key w tc authMode secretName =
     \<lparr>key_HostPort = tc_HostPort (tconn_Spec tc),
      key_Namespace = wo_TemporalNamespace (spec_WorkerOptions (twd_Spec w)),
      key_SecretName = secretName, key_AuthMode = authMode\<rparr>"

definition client_options :: "TemporalWorkerDeployment \<Rightarrow> TemporalConnection \<Rightarrow> NewClientOptions" where
  "client_options w tc =
     \<lparr>nco_TemporalNamespace = wo_TemporalNamespace (spec_WorkerOptions (twd_Spec w)),
      nco_K8sNamespace = twd_Namespace w, nco_Spec = tconn_Spec tc\<rparr>"

definition obtain_client ::
  "'c reconciler \<Rightarrow> world \<Rightarrow> TemporalWorkerDeployment \<Rightarrow> TemporalConnection \<Rightarrow> AuthMode \<Rightarrow> string \<Rightarrow> 'c ClientPool
   \<Rightarrow> 'c outcome \<times> 'c ClientPool" where
  "obtain_client r wld w tc authMode secretName =
     get_or_upsert (GetSDKClient (w_now wld) (client_key w tc authMode secretName))
       (UpsertClient (r_pool_env r wld) (w_now wld) secretName authMode (client_options w tc))"

text \<open>From the client on: the states, the status, the plan and its execution.\<close>

definition observe ::
  "'c reconciler \<Rightarrow> 'c \<Rightarrow> NamespacedName \<Rightarrow> TemporalWorkerDeployment
   \<Rightarrow> (TemporalWorkerDeploymentStatus \<times> TemporalWorkerState) io" where
  "observe r c req w =
     io_bind (read_deployment_state r req) (\<lambda>k8sState.
     io_bind (io_wrap ''unable to get Temporal worker deployment state''
                (GetWorkerDeploymentState (r_temporal r c) (ComputeWorkerDeploymentName w) (ks_Deployments k8sState)
                   (ComputeBuildID (r_third_party r) w) (rs_Strategy (spec_RolloutStrategy (twd_Spec w)))
                   (getControllerIdentity (r_getenv r)))) (\<lambda>temporalState.
     generateStatus (r_third_party r) (r_temporal r c) (r_versions_order r k8sState) w temporalState k8sState))"

definition act ::
  "'c reconciler \<Rightarrow> 'c \<Rightarrow> TemporalWorkerDeployment \<Rightarrow> TemporalConnectionSpec \<Rightarrow> TemporalWorkerState \<Rightarrow> Result io" where
  "act r c updated connection temporalState =
     (case TWD_Default (ObjTWD updated) of
        Inl e \<Rightarrow> io_fail (webhook_api_error e)
      | Inr w \<Rightarrow>
          io_bind (generatePlan r w connection temporalState) (\<lambda>(plan, store).
          io_bind (executePlan (r_api r c) (getControllerIdentity (r_getenv r))
                     (getControllerVersion (r_Version r) (r_getenv r)) store
                     (r_scale_order r (cp_ScaleDeployments plan)) plan) (\<lambda>_.
          io_return (requeue_after (10 * Second)))))"

definition reconcile_with ::
  "'c reconciler \<Rightarrow> 'c \<Rightarrow> NamespacedName \<Rightarrow> TemporalWorkerDeployment \<Rightarrow> TemporalConnectionSpec \<Rightarrow> Result io" where
  "reconcile_with r c req w connection =
     io_bind (observe r c req w) (\<lambda>(status, temporalState).
     let w' = w\<lparr>twd_Status := status\<rparr>
     in io_bind (io_write (\<lambda>_. r_UpdateStatus r w') (UpdateStatus w')) (\<lambda>res.
        case res of
          Inl e \<Rightarrow> if err_kind e = ErrConflict then io_return (requeue_after Second) else io_fail e
        | Inr updated \<Rightarrow> act r c updated connection temporalState))"

definition Reconcile :: "'c reconciler \<Rightarrow> NamespacedName \<Rightarrow> 'c ClientPool \<Rightarrow> (Result outcome \<times> 'c ClientPool) io" where
  "Reconcile r req pool =
     io_bind (io_try (fetch_inputs r req)) (\<lambda>inputs.
     case inputs of
       Err e \<Rightarrow> io_return (Err e, pool)
     | Panic p \<Rightarrow> io_return (Panic p, pool)
     | Ok (Inl early) \<Rightarrow> io_return (Ok early, pool)
     | Ok (Inr (w, tc, authMode, secretName)) \<Rightarrow>
         (\<lambda>wld. case obtain_client r wld w tc authMode secretName pool of
            (Err e, pool') \<Rightarrow> Some (Ok (Err e, pool'), wld)
          | (Panic p, pool') \<Rightarrow> Some (Ok (Panic p, pool'), wld)
          | (Ok c, pool') \<Rightarrow>
              io_bind (io_try (reconcile_with r c req w (tconn_Spec tc))) (\<lambda>res. io_return (res, pool')) wld))"

section \<open>Watches\<close>

text \<open>The requests to enqueue when a connection changes.\<close>

definition findTWDsUsingConnection :: "'c reconciler \<Rightarrow> TemporalConnection \<Rightarrow> NamespacedName list io" where
  "findTWDsUsingConnection r tc =
     io_bind (io_read (r_ListTWDs r (om_Namespace (tconn_ObjectMeta tc)))) (\<lambda>listed.
     case listed of
       Inl e \<Rightarrow> io_return []
     | Inr items \<Rightarrow>
         io_return (map (\<lambda>twd. \<lparr>nn_Namespace = twd_Namespace twd, nn_Name = twd_Name twd\<rparr>)
           (filter (\<lambda>twd. tcr_Name (wo_TemporalConnectionRef (spec_WorkerOptions (twd_Spec twd)))
                          = om_Name (tconn_ObjectMeta tc)) items)))"

text \<open>The index of Deployments by owner; \<open>controller_of\<close> is \<open>metav1.GetControllerOf\<close>.\<close>

definition apiGVStr :: string where
  "apiGVStr = ''temporal.io/v1alpha1''"

definition owner_index :: "(Deployment \<Rightarrow> OwnerReference option) \<Rightarrow> Deployment \<Rightarrow> string list" where
  "owner_index controller_of deploy =
     (case controller_of deploy of
        None \<Rightarrow> []
      | Some owner \<Rightarrow>
          if or_APIVersion owner \<noteq> apiGVStr \<or> or_Kind owner \<noteq> ''TemporalWorkerDeployment'' then []
          else [or_Name owner])"

section \<open>What only reads\<close>

lemma io_quiet_wrap [io_intros]:
  assumes "io_quiet m"
  shows "io_quiet (io_wrap p m)"
  unfolding io_quiet_def
proof
  fix w
  obtain r w' where "m w = Some (r, w')" "w_calls w' = w_calls w" by (rule io_quietE [OF assms])
  then show "\<exists>r w'. io_wrap p m w = Some (r, w') \<and> w_calls w' = w_calls w"
    by (cases r) (simp_all add: io_wrap_def)
qed

lemma io_wrap_Ok: "io_wrap p m w = Some (Ok x, w') \<longleftrightarrow> m w = Some (Ok x, w')"
  by (auto simp: io_wrap_def split: option.splits outcome.splits)

lemma read_deployment_state_quiet: "io_quiet (read_deployment_state r owner)"
  unfolding read_deployment_state_def by (intro io_intros)

lemma gate_input_quiet: "io_quiet (gate_input r w gate)"
  unfolding gate_input_def gate_config_map_def gate_secret_def by (intro io_intros)

lemma generatePlan_quiet: "io_quiet (generatePlan r w connection ts)"
  unfolding generatePlan_def Let_def by (intro io_intros read_deployment_state_quiet gate_input_quiet)

lemma fetch_inputs_quiet: "io_quiet (fetch_inputs r req)"
  unfolding fetch_inputs_def by (intro io_intros)

lemma GetWorkerDeploymentState_quiet: "io_quiet (GetWorkerDeploymentState client n deps target strategy ident)"
proof -
  have "io_quiet (read_versions client n deps rc target strategy ss (routing_state resp ig))" for rc ss resp ig
    unfolding io_quiet_def by (metis read_versions_run)
  then show ?thesis
    unfolding GetWorkerDeploymentState_def DeploymentShouldIgnoreLastModifier_def getShouldIgnoreLastModifier_def
    by (intro io_intros)
qed

text \<open>Looking up the test workflows changes at most the versions of the state.\<close>

lemma GetTestWorkflowStatus_keeps:
  "io_gives (GetTestWorkflowStatus client n b st) (\<lambda>x. \<exists>vs. fst x = st\<lparr>ts_Versions := vs\<rparr>)"
proof -
  have loop: "io_gives (io_bind (test_workflows_loop client info qs tqs [])
      (\<lambda>(tqs, res). io_return (st\<lparr>ts_Versions := f tqs\<rparr>, res))) (\<lambda>x. \<exists>vs. fst x = st\<lparr>ts_Versions := vs\<rparr>)" for info qs tqs f
    by (rule io_gives_bind [OF test_workflows_loop_gives]) (auto simp: case_prod_unfold intro!: io_gives_return)
  have same: "\<exists>vs. st = st\<lparr>ts_Versions := vs\<rparr>" by (rule exI [of _ "ts_Versions st"]) simp
  show ?thesis
    unfolding GetTestWorkflowStatus_def Let_def
    by (intro io_gives_option io_gives_ok_bind io_gives_read io_gives_sum io_gives_if io_gives_return loop) (simp_all add: same)
qed

lemma generateStatus_gives:
  "io_gives (generateStatus tp client order w ts ks)
     (\<lambda>(status, ts'). st_LastModifierIdentity status = ts_LastModifierIdentity ts
        \<and> ts_LastModifierIdentity ts' = ts_LastModifierIdentity ts \<and> ts_IgnoreLastModifier ts' = ts_IgnoreLastModifier ts
        \<and> status = mapToStatus order (newStateMapper ks ts' (ComputeWorkerDeploymentName w)) (ComputeBuildID tp w))"
proof -
  let ?keeps = "\<lambda>ts'. \<exists>vs. ts' = ts\<lparr>ts_Versions := vs\<rparr>"
  have app: "?keeps (append_test_workflows b wfs (ts\<lparr>ts_Versions := vs\<rparr>))" for b wfs vs
    by (auto simp: append_test_workflows_def split: option.split)
  have 1: "io_gives (io_bind (GetTestWorkflowStatus client n b ts)
      (\<lambda>(st, res). io_return (append_test_workflows b (case res of Inl e \<Rightarrow> [] | Inr wfs \<Rightarrow> wfs) st))) ?keeps" for n b
    by (rule io_gives_bind [OF GetTestWorkflowStatus_keeps]) (auto simp: case_prod_unfold app intro!: io_gives_return)
  have 2: "?keeps ts" by (rule exI [of _ "ts_Versions ts"]) simp
  show ?thesis
    unfolding generateStatus_def Let_def
    by (rule io_gives_bind [of _ ?keeps], intro io_gives_if 1 io_gives_return 2)
       (auto intro!: io_gives_return simp: mapToStatus_def newStateMapper_def Let_def)
qed

lemma observe_quiet: "io_quiet (observe r c req w)"
  unfolding observe_def
  by (intro io_intros read_deployment_state_quiet GetWorkerDeploymentState_quiet io_gives_quiet [OF generateStatus_gives])

section \<open>The plan and its execution\<close>

lemma GeneratePlan_facts:
  assumes "GeneratePlan tp now ks status spec ts connection config name limit input secret = Inr (p, store)"
  shows "set (plan_DeleteDeployments p) \<union> set (plan_UpdateDeployments p) \<subseteq> dom (map_get store)"
    and "getVersionConfigDiff now status ts config = Inr (plan_VersionConfig p)"
    and "plan_RemoveIgnoreLastModifierBuilds p = remove_ignore_builds ts (plan_VersionConfig p)"
proof -
  let ?found = "case ts of None \<Rightarrow> False | Some ts \<Rightarrow> length (ts_Versions ts) > 0"
  from assms obtain dels scales ups where
    del: "getDeleteDeployments now ks status spec ?found = Inr dels"
    and up: "getUpdateDeployments tp (ks_Deployments ks) status spec connection = Inr (store, ups)"
    and p: "plan_DeleteDeployments p = dels" "plan_UpdateDeployments p = ups"
    and v: "getVersionConfigDiff now status ts config = Inr (plan_VersionConfig p)"
    and rm: "plan_RemoveIgnoreLastModifierBuilds p = remove_ignore_builds ts (plan_VersionConfig p)"
    by (auto simp: GeneratePlan_def Let_def bindE_eq_Inr)
  have "set dels \<subseteq> dom (map_get (ks_Deployments ks))"
    using foldE_appendIf_Inr [OF del [unfolded getDeleteDeployments_def]]
    by (auto simp: delete_version_def split: option.splits if_splits)
  with getUpdateDeployments_inv [OF up] p
  show "set (plan_DeleteDeployments p) \<union> set (plan_UpdateDeployments p) \<subseteq> dom (map_get store)"
    by (auto simp: update_inv_def)
  from v rm show "getVersionConfigDiff now status ts config = Inr (plan_VersionConfig p)"
    "plan_RemoveIgnoreLastModifierBuilds p = remove_ignore_builds ts (plan_VersionConfig p)" by simp_all
qed

lemma generatePlan_OkE:
  assumes "generatePlan r w connection ts wld = Some (Ok (p, store), wld')"
  obtains items ks now input secret q create where
    "GetDeploymentState (r_third_party r) (Inr items) = Inr ks"
    and "GeneratePlan (r_third_party r) now ks (twd_Status w) (twd_Spec w) (Some ts) connection
       \<lparr>cfg_RolloutStrategy = effective_strategy (getControllerIdentity (r_getenv r)) w ts\<rparr> (ComputeWorkerDeploymentName w)
       (r_MaxDeploymentVersionsIneligibleForDeletion r) input secret = Inr (q, store)"
    and "p = convert_plan w q create"
proof -
  have read: "\<exists>items. GetDeploymentState (r_third_party r) (Inr items) = Inr ks"
    if "read_deployment_state r owner w0 = Some (Ok ks, w1)" for ks owner w0 w1
  proof -
    from that have "GetDeploymentState (r_third_party r) (fst (r_ListDeployments r owner w0)) = Inr ks"
      by (cases "GetDeploymentState (r_third_party r) (fst (r_ListDeployments r owner w0))")
         (auto simp: read_deployment_state_def io_bind_def io_read_def io_run)
    then show ?thesis by (cases "fst (r_ListDeployments r owner w0)") (auto simp: GetDeploymentState_def)
  qed
  obtain ks w1 now input secret q create where
    "read_deployment_state r (in_namespace w (twd_Name w)) wld = Some (Ok ks, w1)"
    and "GeneratePlan (r_third_party r) now ks (twd_Status w) (twd_Spec w) (Some ts) connection
       \<lparr>cfg_RolloutStrategy = effective_strategy (getControllerIdentity (r_getenv r)) w ts\<rparr> (ComputeWorkerDeploymentName w)
       (r_MaxDeploymentVersionsIneligibleForDeletion r) input secret = Inr (q, store)"
    and "p = convert_plan w q create"
    using assms unfolding generatePlan_def Let_def
    by (elim io_bind_OkE) (auto split: sum.splits if_splits elim!: io_bind_OkE)
  with read that show thesis by blast
qed

lemma generatePlan_wf:
  assumes "generatePlan r w connection ts wld = Some (Ok (p, store), wld')"
  shows "plan_wf store p"
proof -
  from assms obtain items ks now input secret q create where
    g: "GeneratePlan (r_third_party r) now ks (twd_Status w) (twd_Spec w) (Some ts) connection
       \<lparr>cfg_RolloutStrategy = effective_strategy (getControllerIdentity (r_getenv r)) w ts\<rparr> (ComputeWorkerDeploymentName w)
       (r_MaxDeploymentVersionsIneligibleForDeletion r) input secret = Inr (q, store)"
    and p: "p = convert_plan w q create" by (rule generatePlan_OkE)
  show ?thesis using GeneratePlan_facts(1) [OF g] by (simp add: p plan_wf_def convert_plan_def)
qed

text \<open>Under a foreign modifier the plan routes nothing and leaves the version metadata alone.\<close>

lemma generatePlan_foreign:
  assumes "generatePlan r w connection ts wld = Some (Ok (p, store), wld')"
    and "foreign_modifier (getControllerIdentity (r_getenv r)) (st_LastModifierIdentity (twd_Status w))"
    and "\<not> ts_IgnoreLastModifier ts"
  shows "cp_UpdateVersionConfig p = None \<and> cp_RemoveIgnoreLastModifierBuilds p = []"
proof -
  from assms(1) obtain items ks now input secret q create where
    g: "GeneratePlan (r_third_party r) now ks (twd_Status w) (twd_Spec w) (Some ts) connection
       \<lparr>cfg_RolloutStrategy = effective_strategy (getControllerIdentity (r_getenv r)) w ts\<rparr> (ComputeWorkerDeploymentName w)
       (r_MaxDeploymentVersionsIneligibleForDeletion r) input secret = Inr (q, store)"
    and p: "p = convert_plan w q create" by (rule generatePlan_OkE)
  have "rs_Strategy (effective_strategy (getControllerIdentity (r_getenv r)) w ts) = UpdateManual"
    using assms(2,3) by (simp add: effective_strategy_def)
  then have "plan_VersionConfig q = None"
    using GeneratePlan_facts(2) [OF g] by (simp add: getVersionConfigDiff_def Let_def split: option.splits if_splits)
  then show ?thesis using GeneratePlan_facts(3) [OF g] by (simp add: p convert_plan_def remove_ignore_builds_def)
qed

text \<open>The calls that route traffic or claim the ownership of a version.\<close>

fun routing_call :: "api_call \<Rightarrow> bool" where
  "routing_call (SetCurrentVersion _ _ _ _) = True"
| "routing_call (SetRampingVersion _ _ _ _ _) = True"
| "routing_call (UpsertVersionMetadata _ _ _) = True"
| "routing_call (RemoveVersionMetadata _ _ _) = True"
| "routing_call _ = False"

fun status_call :: "api_call \<Rightarrow> bool" where
  "status_call (UpdateStatus _) = True"
| "status_call _ = False"

lemma planned_calls_status: "c \<in> set (planned_calls identity version store so p) \<Longrightarrow> \<not> status_call c"
  by (auto simp: planned_calls_def version_config_call_def split: option.splits if_splits)

lemma planned_calls_routing:
  "cp_UpdateVersionConfig p = None \<Longrightarrow> cp_RemoveIgnoreLastModifierBuilds p = []
   \<Longrightarrow> c \<in> set (planned_calls identity version store so p) \<Longrightarrow> \<not> routing_call c"
  by (auto simp: planned_calls_def split: option.splits)

text \<open>The record of calls that stops at the first error.\<close>

definition stops_at_error :: "(api_call \<times> api_error option) list \<Rightarrow> bool" where
  "stops_at_error cs \<longleftrightarrow> (\<forall>x \<in> set (butlast cs). snd x = None)"

lemma executes_run:
  assumes "executes m cs"
  obtains res w' made where "m w = Some (res, w')" and "w_calls w' = w_calls w @ made" and "fst ` set made \<subseteq> set cs"
    and "stops_at_error made" and "res = Ok () \<longleftrightarrow> (\<forall>x \<in> set made. snd x = None)"
proof -
  from assms have "(\<exists>w'. m w = Some (Ok (), w') \<and> w_calls w' = w_calls w @ map (\<lambda>c. (c, None)) cs)
        \<or> (\<exists>e e' w' cs1 c cs2. m w = Some (Err e', w') \<and> cs = cs1 @ c # cs2 \<and> err_kind e' = err_kind e
             \<and> w_calls w' = w_calls w @ map (\<lambda>c. (c, None)) cs1 @ [(c, Some e)])"
    unfolding executes_def by blast
  then show thesis
  proof (elim disjE exE conjE)
    fix w' assume "m w = Some (Ok (), w')" "w_calls w' = w_calls w @ map (\<lambda>c. (c, None)) cs"
    then show thesis by (rule that) (auto simp: stops_at_error_def dest: in_set_butlastD)
  next
    fix e e' w' cs1 c cs2
    assume "m w = Some (Err e', w')" "cs = cs1 @ c # cs2" "w_calls w' = w_calls w @ map (\<lambda>c. (c, None)) cs1 @ [(c, Some e)]"
    then show thesis by (intro that [of "Err e'" w' "map (\<lambda>c. (c, None)) cs1 @ [(c, Some e)]"]) (auto simp: stops_at_error_def)
  qed
qed

text \<open>What the part of a run after the status update leaves in the record.\<close>

definition acted ::
  "'c reconciler \<Rightarrow> TemporalWorkerDeployment \<Rightarrow> TemporalWorkerState \<Rightarrow> (api_call \<times> api_error option) list \<Rightarrow> Result outcome \<Rightarrow> bool" where
  "acted r updated ts made res \<longleftrightarrow>
     stops_at_error made
   \<and> (made \<noteq> [] \<longrightarrow>
        (\<exists>connection p store wa wb version so.
           generatePlan r (updated\<lparr>twd_Spec := Spec_Default (twd_Spec updated)\<rparr>) connection ts wa = Some (Ok (p, store), wb)
           \<and> fst ` set made \<subseteq> set (planned_calls (getControllerIdentity (r_getenv r)) version store so p)))
   \<and> (\<forall>x \<in> set made. \<not> status_call (fst x))
   \<and> (\<forall>y. res = Ok y \<longrightarrow> y = requeue_after (10 * Second) \<and> (\<forall>x \<in> set made. snd x = None))
   \<and> (foreign_modifier (getControllerIdentity (r_getenv r)) (st_LastModifierIdentity (twd_Status updated))
        \<and> \<not> ts_IgnoreLastModifier ts \<longrightarrow> (\<forall>x \<in> set made. \<not> routing_call (fst x)))"

lemma act_run:
  obtains res w' made where "act r c updated connection ts w = Some (res, w')" and "w_calls w' = w_calls w @ made"
    and "acted r updated ts made res"
proof -
  let ?id = "getControllerIdentity (r_getenv r)" and ?v = "getControllerVersion (r_Version r) (r_getenv r)"
  define w0 where "w0 = updated\<lparr>twd_Spec := Spec_Default (twd_Spec updated)\<rparr>"
  let ?rest = "\<lambda>(plan, store). io_bind (executePlan (r_api r c) ?id ?v store (r_scale_order r (cp_ScaleDeployments plan)) plan)
          (\<lambda>_. io_return (requeue_after (10 * Second)))"
  have act: "act r c updated connection ts = io_bind (generatePlan r w0 connection ts) ?rest"
    by (simp add: act_def TWD_Default_def w0_def)
  obtain g w1 where g: "generatePlan r w0 connection ts w = Some (g, w1)" "w_calls w1 = w_calls w"
    by (rule io_quietE [OF generatePlan_quiet])
  show thesis
  proof (cases g)
    case (Ok ps)
    obtain p store where ps: "ps = (p, store)" by fastforce
    note gp = g(1) [unfolded Ok ps]
    let ?m = "executePlan (r_api r c) ?id ?v store (r_scale_order r (cp_ScaleDeployments p)) p"
    obtain x w2 made where x: "?m w1 = Some (x, w2)" "w_calls w2 = w_calls w1 @ made"
      and calls: "fst ` set made \<subseteq> set (planned_calls ?id ?v store (r_scale_order r (cp_ScaleDeployments p)) p)"
      and stop: "stops_at_error made" and ok: "x = Ok () \<longleftrightarrow> (\<forall>x \<in> set made. snd x = None)"
      by (rule executes_run [OF executePlan_executes [OF generatePlan_wf [OF gp]]])
    let ?res = "case x of Ok _ \<Rightarrow> Ok (requeue_after (10 * Second)) | Err e \<Rightarrow> Err e | Panic q \<Rightarrow> Panic q"
    have "act r c updated connection ts w = Some (?res, w2)"
      unfolding act using gp x(1) by (cases x) (simp_all add: io_bind_def io_run ps)
    moreover have "w_calls w2 = w_calls w @ made" using x(2) g(2) by simp
    moreover have "acted r updated ts made ?res"
      unfolding acted_def
    proof (intro conjI allI impI stop)
      show "\<exists>connection p store wa wb version so.
           generatePlan r (updated\<lparr>twd_Spec := Spec_Default (twd_Spec updated)\<rparr>) connection ts wa = Some (Ok (p, store), wb)
           \<and> fst ` set made \<subseteq> set (planned_calls ?id version store so p)"
        using gp calls unfolding w0_def by blast
      show "\<forall>x \<in> set made. \<not> status_call (fst x)" using calls planned_calls_status by blast
      show "y = requeue_after (10 * Second)" if "?res = Ok y" for y using that by (cases x) simp_all
      show "\<forall>x \<in> set made. snd x = None" if "?res = Ok y" for y using that ok by (cases x) simp_all
      assume f: "foreign_modifier ?id (st_LastModifierIdentity (twd_Status updated)) \<and> \<not> ts_IgnoreLastModifier ts"
      then have "cp_UpdateVersionConfig p = None \<and> cp_RemoveIgnoreLastModifierBuilds p = []"
        using generatePlan_foreign [OF gp] by (simp add: w0_def)
      then show "\<forall>x \<in> set made. \<not> routing_call (fst x)" using calls planned_calls_routing by blast
    qed
    ultimately show thesis by (rule that)
  next
    case (Err e)
    with g show thesis by (intro that [of "Err e" w1 "[]"]) (simp_all add: act io_bind_def acted_def stops_at_error_def)
  next
    case (Panic q)
    with g show thesis by (intro that [of "Panic q" w1 "[]"]) (simp_all add: act io_bind_def acted_def stops_at_error_def)
  qed
qed

section \<open>A whole run\<close>

text \<open>
  The part of a run with a client: nothing, a failed status update, or a status update followed
  by the actions of the plan, for the state that was observed and the object the update returned.
\<close>

definition reconciled ::
  "'c reconciler \<Rightarrow> 'c \<Rightarrow> NamespacedName \<Rightarrow> TemporalWorkerDeployment \<Rightarrow> (api_call \<times> api_error option) list \<Rightarrow> Result outcome \<Rightarrow> bool" where
  "reconciled r c req w made res \<longleftrightarrow>
     made = [] \<and> (\<forall>y. res \<noteq> Ok y)
   \<or> (\<exists>twd e. made = [(UpdateStatus twd, Some e)]
        \<and> res = (if err_kind e = ErrConflict then Ok (requeue_after Second) else Err e))
   \<or> (\<exists>twd updated ts rest wa wb. made = (UpdateStatus twd, None) # rest
        \<and> observe r c req w wa = Some (Ok (twd_Status twd, ts), wb) \<and> fst (r_UpdateStatus r twd wb) = Inr updated
        \<and> acted r updated ts rest res)"

lemma reconcile_with_run:
  obtains res w' made where "reconcile_with r c req twd connection w = Some (res, w')" and "w_calls w' = w_calls w @ made"
    and "reconciled r c req twd made res"
proof -
  obtain ob w1 where o: "observe r c req twd w = Some (ob, w1)" "w_calls w1 = w_calls w"
    by (rule io_quietE [OF observe_quiet])
  show thesis
  proof (cases ob)
    case (Ok st)
    obtain status ts where st: "st = (status, ts)" by fastforce
    define t where "t = twd\<lparr>twd_Status := status\<rparr>"
    define w2 where "w2 = w1\<lparr>w_now := w_now w1 + int (snd (r_UpdateStatus r t w1)),
        w_calls := w_calls w1 @ [(UpdateStatus t, case fst (r_UpdateStatus r t w1) of Inl e \<Rightarrow> Some e | Inr _ \<Rightarrow> None)]\<rparr>"
    have run: "reconcile_with r c req twd connection w =
        (case fst (r_UpdateStatus r t w1) of
           Inl e \<Rightarrow> if err_kind e = ErrConflict then io_return (requeue_after Second) else io_fail e
         | Inr updated \<Rightarrow> act r c updated connection ts) w2"
      using o(1) by (simp add: reconcile_with_def Ok st io_bind_def io_write_def Let_def t_def w2_def)
    show thesis
    proof (cases "fst (r_UpdateStatus r t w1)")
      case (Inl e)
      with run o(2) show thesis
        by (intro that [of "if err_kind e = ErrConflict then Ok (requeue_after Second) else Err e" w2 "[(UpdateStatus t, Some e)]"])
           (simp_all add: io_run w2_def reconciled_def)
    next
      case (Inr updated)
      obtain res w' made where a: "act r c updated connection ts w2 = Some (res, w')" "w_calls w' = w_calls w2 @ made"
        "acted r updated ts made res" by (rule act_run)
      have "observe r c req twd w = Some (Ok (twd_Status t, ts), w1)" using o(1) by (simp add: Ok st t_def)
      with Inr a(3) have "reconciled r c req twd ((UpdateStatus t, None) # made) res"
        unfolding reconciled_def by blast
      with run Inr a o(2) show thesis
        by (intro that [of res w' "(UpdateStatus t, None) # made"]) (simp_all add: w2_def)
    qed
  next
    case (Err e)
    with o show thesis by (intro that [of "Err e" w1 "[]"]) (simp_all add: reconcile_with_def io_bind_def reconciled_def)
  next
    case (Panic p)
    with o show thesis by (intro that [of "Panic p" w1 "[]"]) (simp_all add: reconcile_with_def io_bind_def reconciled_def)
  qed
qed

lemma obtain_client_wf: "pool_wf pool \<Longrightarrow> pool_wf (snd (obtain_client r wld w tc mode name pool))"
  using pool.get_or_upsert_inv [of pool "w_now wld" "client_key w tc mode name" "(r_pool_env r wld, name, mode, client_options w tc)"]
  by (simp add: obtain_client_def)

text \<open>Every run returns; it ends before it has a client, or goes on with one.\<close>

lemma Reconcile_run:
  obtains res pool' w' made where "Reconcile r req pool w = Some (Ok (res, pool'), w')" and "w_calls w' = w_calls w @ made"
    and "made = [] \<or> (\<exists>c twd. reconciled r c req twd made res)" and "pool_wf pool \<Longrightarrow> pool_wf pool'"
proof -
  obtain i w1 where i: "fetch_inputs r req w = Some (i, w1)" "w_calls w1 = w_calls w"
    by (rule io_quietE [OF fetch_inputs_quiet])
  have run: "Reconcile r req pool w =
     (case i of
       Err e \<Rightarrow> io_return (Err e, pool)
     | Panic p \<Rightarrow> io_return (Panic p, pool)
     | Ok (Inl early) \<Rightarrow> io_return (Ok early, pool)
     | Ok (Inr (twd, tc, mode, name)) \<Rightarrow>
         (\<lambda>wld. case obtain_client r wld twd tc mode name pool of
            (Err e, pool') \<Rightarrow> Some (Ok (Err e, pool'), wld)
          | (Panic p, pool') \<Rightarrow> Some (Ok (Panic p, pool'), wld)
          | (Ok c, pool') \<Rightarrow>
              io_bind (io_try (reconcile_with r c req twd (tconn_Spec tc))) (\<lambda>res. io_return (res, pool')) wld)) w1"
    using i(1) by (simp add: Reconcile_def io_try_def io_bind_def)
  note done0 = that [of _ _ w1 "[]"]
  show thesis
  proof (cases i)
    case (Ok x)
    show thesis
    proof (cases x)
      case (Inl early)
      with run Ok i(2) show thesis by (intro done0 [of "Ok early" pool]) (simp_all add: io_run)
    next
      case (Inr y)
      obtain twd tc mode name where y: "y = (twd, tc, mode, name)" by (metis prod_cases4)
      obtain rc pool' where c: "obtain_client r w1 twd tc mode name pool = (rc, pool')" by fastforce
      have wf': "pool_wf pool \<Longrightarrow> pool_wf pool'" using obtain_client_wf [of pool r w1 twd tc mode name] c by simp
      show thesis
      proof (cases rc)
        case rc: (Ok cl)
        obtain res w' made where m: "reconcile_with r cl req twd (tconn_Spec tc) w1 = Some (res, w')"
          "w_calls w' = w_calls w1 @ made" "reconciled r cl req twd made res" by (rule reconcile_with_run)
        with run Ok Inr y c rc i(2) wf' show thesis
          by (intro that [of res pool' w' made]) (auto simp: io_try_def io_bind_def io_run)
      qed (use run Ok Inr y c i(2) wf' in \<open>auto intro!: done0\<close>)
    qed
  qed (use run i(2) in \<open>auto intro!: done0 simp: io_run\<close>)
qed

section \<open>A foreign modifier is seen\<close>

text \<open>Nobody asked the controller to ignore the last modifier.\<close>

definition never_ignored :: "temporal_client \<Rightarrow> bool" where
  "never_ignored client \<longleftrightarrow>
     (\<forall>n b w desc v. fst (cl_DescribeVersion client n b w) = Inr desc
        \<longrightarrow> map_get (vd_Metadata desc) IgnoreLastModifierKey = Some v \<longrightarrow> cl_FromPayload client v \<noteq> Inr ''true'')"

text \<open>Somebody else modified the Worker Deployment last, whenever it is described.\<close>

definition foreign_described :: "string \<Rightarrow> temporal_client \<Rightarrow> bool" where
  "foreign_described identity client \<longleftrightarrow>
     (\<forall>n w. case fst (cl_Describe client n w) of
              Inl e \<Rightarrow> err_kind e \<noteq> ErrNotFound
            | Inr resp \<Rightarrow> foreign_modifier identity (dd_LastModifierIdentity resp))"

lemma getShouldIgnore_never:
  assumes "never_ignored client" and "getShouldIgnoreLastModifier client n b w = Some (Ok ig, w')"
  shows "\<not> ig"
proof -
  from assms(2) obtain w1 where "(case fst (cl_DescribeVersion client n b w) of
         Inl e \<Rightarrow> io_fail (wrap_error ''unable to describe version'' e)
       | Inr desc \<Rightarrow>
           (case map_get (vd_Metadata desc) IgnoreLastModifierKey of
              None \<Rightarrow> io_return False
            | Some v \<Rightarrow>
                (case cl_FromPayload client v of
                   Inl e \<Rightarrow> io_fail (wrap_error (''unable to decode metadata payload for key '' @ IgnoreLastModifierKey) e)
                 | Inr s \<Rightarrow> io_return (s = ''true'')))) w1 = Some (Ok ig, w')"
    by (auto simp: getShouldIgnoreLastModifier_def io_read_def elim!: io_bind_OkE)
  then show ?thesis
    using assms(1) unfolding never_ignored_def by (fastforce split: sum.splits option.splits)
qed

lemma GetWorkerDeploymentState_foreign:
  assumes "foreign_described ident client" and "never_ignored client"
    and "GetWorkerDeploymentState client n deps target strategy ident w = Some (Ok st, w')"
  shows "foreign_modifier ident (ts_LastModifierIdentity st) \<and> \<not> ts_IgnoreLastModifier st"
proof -
  have d: "case fst (cl_Describe client n w) of Inl e \<Rightarrow> err_kind e \<noteq> ErrNotFound
            | Inr resp \<Rightarrow> foreign_modifier ident (dd_LastModifierIdentity resp)"
    using assms(1) unfolding foreign_described_def by blast
  then obtain resp where resp: "fst (cl_Describe client n w) = Inr resp" "foreign_modifier ident (dd_LastModifierIdentity resp)"
    using assms(3) by (cases "fst (cl_Describe client n w)") (auto simp: GetWorkerDeploymentState_def io_bind_def io_read_def io_run)
  then obtain ig w1 w2 where ig: "DeploymentShouldIgnoreLastModifier client n (dd_RoutingConfig resp) w1 = Some (Ok ig, w2)"
    and rv: "read_versions client n deps (dd_RoutingConfig resp) target strategy
                (dd_VersionSummaries resp) (routing_state resp ig) w2 = Some (Ok st, w')"
    using assms(3) by (auto simp: GetWorkerDeploymentState_def io_read_def foreign_modifier_def elim!: io_bind_OkE)
  have never: "\<not> getShouldIgnoreLastModifier client n b v = Some (Ok True, v')" for b v v'
    using getShouldIgnore_never [OF assms(2)] by blast
  have "\<not> ig"
    using ig never
    by (cases ig) (fastforce simp: DeploymentShouldIgnoreLastModifier_def split: option.splits if_splits elim!: io_bind_OkE)+
  moreover have "st\<lparr>ts_Versions := []\<rparr> = (routing_state resp ig)\<lparr>ts_Versions := []\<rparr>"
  proof -
    obtain st' w3 where "read_versions client n deps (dd_RoutingConfig resp) target strategy
        (dd_VersionSummaries resp) (routing_state resp ig) w2 = Some (Ok st', w3)"
      "versions_from (dd_RoutingConfig resp) (routing_state resp ig) (dd_VersionSummaries resp) st'"
      by (rule read_versions_run)
    with rv show ?thesis by (simp add: versions_from_def)
  qed
  then have "ts_LastModifierIdentity (st\<lparr>ts_Versions := []\<rparr>) = dd_LastModifierIdentity resp"
    "ts_IgnoreLastModifier (st\<lparr>ts_Versions := []\<rparr>) = ig" by (simp_all add: routing_state_def Let_def)
  ultimately show ?thesis using resp(2) by simp
qed

lemma observe_foreign:
  assumes "foreign_described (getControllerIdentity (r_getenv r)) (r_temporal r c)" and "never_ignored (r_temporal r c)"
    and "observe r c req w wa = Some (Ok (status, ts), wb)"
  shows "foreign_modifier (getControllerIdentity (r_getenv r)) (st_LastModifierIdentity status) \<and> \<not> ts_IgnoreLastModifier ts"
proof -
  from assms(3) obtain ks ts0 w1 w2 where
    g: "GetWorkerDeploymentState (r_temporal r c) (ComputeWorkerDeploymentName w) (ks_Deployments ks)
                   (ComputeBuildID (r_third_party r) w) (rs_Strategy (spec_RolloutStrategy (twd_Spec w)))
                   (getControllerIdentity (r_getenv r)) w1 = Some (Ok ts0, w2)"
    and s: "generateStatus (r_third_party r) (r_temporal r c) (r_versions_order r ks) w ts0 ks w2 = Some (Ok (status, ts), wb)"
    by (auto simp: observe_def io_wrap_Ok elim!: io_bind_OkE)
  obtain x w3 where "generateStatus (r_third_party r) (r_temporal r c) (r_versions_order r ks) w ts0 ks w2 = Some (Ok x, w3)"
    "case x of (status, ts') \<Rightarrow> st_LastModifierIdentity status = ts_LastModifierIdentity ts0
        \<and> ts_LastModifierIdentity ts' = ts_LastModifierIdentity ts0 \<and> ts_IgnoreLastModifier ts' = ts_IgnoreLastModifier ts0
        \<and> status = mapToStatus (r_versions_order r ks) (newStateMapper ks ts' (ComputeWorkerDeploymentName w))
            (ComputeBuildID (r_third_party r) w)"
    by (rule io_givesE [OF generateStatus_gives])
  then have "st_LastModifierIdentity status = ts_LastModifierIdentity ts0" "ts_IgnoreLastModifier ts = ts_IgnoreLastModifier ts0"
    using s by auto
  with GetWorkerDeploymentState_foreign [OF assms(1,2) g] show ?thesis by metis
qed

section \<open>Properties\<close>

text \<open>A cluster and a server for the examples: one worker deployment, a connection without credentials, no Deployments.\<close>

definition sample_describe :: WorkerDeploymentDescribeResponse where
  "sample_describe = sample_response\<lparr>dd_LastModifierIdentity := ''someone'', dd_VersionSummaries := []\<rparr>"

definition sample_reconciler :: "string reconciler" where
  "sample_reconciler =
     \<lparr>r_third_party = sample_third_party, r_getenv = (\<lambda>_. []), r_Version = ''1.0.0'',
      r_GetTWD = (\<lambda>_ _. (Inr sample_twd, 1)),
      r_GetConnection = (\<lambda>_ _. (Inr \<lparr>tconn_ObjectMeta = sample_meta\<lparr>om_Name := ''conn''\<rparr>,
                                     tconn_Spec = sample_connection\<lparr>tc_MutualTLSSecretRef := None\<rparr>\<rparr>, 1)),
      r_GetConfigMap = (\<lambda>_ _. (Inl (new_error ''none''), 1)), r_GetSecret = (\<lambda>_ _. (Inl (new_error ''none''), 1)),
      r_ListDeployments = (\<lambda>_ _. (Inr [], 1)), r_ListTWDs = (\<lambda>_ _. (Inr [sample_twd], 1)),
      r_UpdateStatus = (\<lambda>twd _. (Inr twd, 1)), r_SetControllerReference = (\<lambda>_ d. Inr d),
      r_pool_env = (\<lambda>_. sample_env),
      r_temporal = (\<lambda>_. sample_client\<lparr>cl_Describe := \<lambda>_ _. (Inr sample_describe, 1)\<rparr>),
      r_api = (\<lambda>_. sample_api), r_versions_order = (\<lambda>ks. map fst (ks_Deployments ks)), r_scale_order = (\<lambda>m. m),
      r_MaxDeploymentVersionsIneligibleForDeletion = 75\<rparr>"

abbreviation sample_request :: NamespacedName where
  "sample_request \<equiv> \<lparr>nn_Namespace = ''ns'', nn_Name = ''foo''\<rparr>"

abbreviation sample_world :: world where
  "sample_world \<equiv> \<lparr>w_now = 0, w_calls = []\<rparr>"

text \<open>
  C11 (termination). A run of the loop always returns, and what it changes remotely has one of three forms:
  nothing; a status update that failed, with a retry after a second on a conflict and the
  error otherwise; or one successful status update followed by the actions of the plan, which
  stop at the first that fails. When the run reports success, every action succeeded and the
  next run is due in ten seconds. The client pool keeps its invariant.
\<close>

theorem Reconcile_returns:
  "\<exists>res pool' w' made. Reconcile r req pool w = Some (Ok (res, pool'), w') \<and> w_calls w' = w_calls w @ made
     \<and> (made = []
        \<or> (\<exists>twd e. made = [(UpdateStatus twd, Some e)]
             \<and> res = (if err_kind e = ErrConflict then Ok (requeue_after Second) else Err e))
        \<or> (\<exists>twd rest. made = (UpdateStatus twd, None) # rest
             \<and> (\<forall>x \<in> set rest. \<not> status_call (fst x)) \<and> (\<forall>x \<in> set (butlast rest). snd x = None)
             \<and> (\<forall>y. res = Ok y \<longrightarrow> y = requeue_after (10 * Second) \<and> (\<forall>x \<in> set rest. snd x = None))))
     \<and> (pool_wf pool \<longrightarrow> pool_wf pool')"
proof -
  obtain res pool' w' made where "Reconcile r req pool w = Some (Ok (res, pool'), w')" "w_calls w' = w_calls w @ made"
    and m: "made = [] \<or> (\<exists>c twd. reconciled r c req twd made res)" and wf: "pool_wf pool \<longrightarrow> pool_wf pool'"
    by (rule Reconcile_run [of r req pool w]) blast
  moreover have "made = []
        \<or> (\<exists>twd e. made = [(UpdateStatus twd, Some e)]
             \<and> res = (if err_kind e = ErrConflict then Ok (requeue_after Second) else Err e))
        \<or> (\<exists>twd rest. made = (UpdateStatus twd, None) # rest
             \<and> (\<forall>x \<in> set rest. \<not> status_call (fst x)) \<and> (\<forall>x \<in> set (butlast rest). snd x = None)
             \<and> (\<forall>y. res = Ok y \<longrightarrow> y = requeue_after (10 * Second) \<and> (\<forall>x \<in> set rest. snd x = None)))"
    using m unfolding reconciled_def acted_def stops_at_error_def by blast
  ultimately show ?thesis by blast
qed

theorem Reconcile_returns_witness:
  "\<exists>res pool' w'. Reconcile sample_reconciler sample_request New sample_world = Some (Ok (res, pool'), w') \<and> pool_wf pool'"
  using Reconcile_returns [of sample_reconciler sample_request New sample_world] pool_wf_New by blast

text \<open>
  C5 (safety). The controller stands back when somebody else modified the Worker Deployment last and the
  versions do not carry the override: a run then makes no call that routes traffic or
  changes version metadata, whatever else it does. What is relied on of the API server is that
  a status update returns the last modifier that was written.
\<close>

theorem Reconcile_respects_foreign:
  assumes "\<forall>c. foreign_described (getControllerIdentity (r_getenv r)) (r_temporal r c) \<and> never_ignored (r_temporal r c)"
    and "\<forall>twd w upd. fst (r_UpdateStatus r twd w) = Inr upd
           \<longrightarrow> st_LastModifierIdentity (twd_Status upd) = st_LastModifierIdentity (twd_Status twd)"
  shows "\<exists>out w' made. Reconcile r req pool w = Some (out, w') \<and> w_calls w' = w_calls w @ made
           \<and> (\<forall>x \<in> set made. \<not> routing_call (fst x))"
proof -
  obtain res pool' w' made where run: "Reconcile r req pool w = Some (Ok (res, pool'), w')" "w_calls w' = w_calls w @ made"
    and m: "made = [] \<or> (\<exists>c twd. reconciled r c req twd made res)"
    by (rule Reconcile_run [of r req pool w]) blast
  have "\<forall>x \<in> set rest. \<not> routing_call (fst x)"
    if "observe r c req twd0 wa = Some (Ok (twd_Status twd, ts), wb)" "fst (r_UpdateStatus r twd wb) = Inr updated"
      "acted r updated ts rest res" for c twd0 twd ts wa wb updated rest
  proof -
    have "foreign_modifier (getControllerIdentity (r_getenv r)) (st_LastModifierIdentity (twd_Status twd)) \<and> \<not> ts_IgnoreLastModifier ts"
      by (rule observe_foreign [OF _ _ that(1)]) (use assms(1) in blast)+
    moreover have "st_LastModifierIdentity (twd_Status updated) = st_LastModifierIdentity (twd_Status twd)"
      using assms(2) that(2) by blast
    ultimately show ?thesis using that(3) unfolding acted_def by metis
  qed
  then have "\<forall>x \<in> set made. \<not> routing_call (fst x)"
    using m unfolding reconciled_def by fastforce
  with run show ?thesis by blast
qed

theorem Reconcile_respects_foreign_witness:
  "\<exists>out w'. Reconcile sample_reconciler sample_request New sample_world = Some (out, w')
     \<and> (\<forall>x \<in> set (w_calls w'). \<not> routing_call (fst x))"
proof -
  have "foreign_described (getControllerIdentity (r_getenv sample_reconciler)) (r_temporal sample_reconciler c)
      \<and> never_ignored (r_temporal sample_reconciler c)" for c
    by (simp add: sample_reconciler_def foreign_described_def never_ignored_def foreign_modifier_def sample_describe_def
        serverDeleteVersionIdentity_def getControllerIdentity_def defaults_ControllerIdentity_def sample_client_def)
  then show ?thesis
    using Reconcile_respects_foreign [of sample_reconciler sample_request New sample_world]
    by (fastforce simp: sample_reconciler_def)
qed

text \<open>
  C31 (error). How a run ends before it has a connection: a deleted worker deployment ends it without an
  error and without a retry; another read error is returned; an object that admission would
  reject is not acted upon and is looked at again after five minutes. In none of these cases
  is anything changed, remotely or in the pool.
\<close>

theorem Reconcile_rejects:
  "case fst (r_GetTWD r req w) of
     Inl e \<Rightarrow> \<exists>w'. Reconcile r req pool w = Some (Ok (if err_kind e = ErrNotFound then Ok no_Result else Err e, pool), w')
                \<and> w_calls w' = w_calls w
   | Inr twd \<Rightarrow> ValidateCreate (ObjTWD twd) \<noteq> Inr () \<longrightarrow>
                (\<exists>w'. Reconcile r req pool w = Some (Ok (Ok (requeue_after (5 * Minute)), pool), w') \<and> w_calls w' = w_calls w)"
proof (cases "fst (r_GetTWD r req w)")
  case (Inl e)
  then show ?thesis by (simp add: Reconcile_def fetch_inputs_def io_try_def io_bind_def io_read_def io_run)
next
  case (Inr twd)
  have "ValidateCreate (ObjTWD (twd\<lparr>twd_Spec := Spec_Default (twd_Spec twd)\<rparr>)) = ValidateCreate (ObjTWD twd)"
    by (simp add: ValidateCreate_def TWD_validateForUpdateOrCreate_def validateForUpdateOrCreate_def Spec_Default_def Let_def)
  with Inr show ?thesis
    by (auto simp: Reconcile_def fetch_inputs_def io_try_def io_bind_def io_read_def io_run TWD_Default_def
        split: sum.split)
qed

theorem Reconcile_rejects_witness:
  "\<exists>w'. Reconcile (sample_reconciler\<lparr>r_GetTWD := \<lambda>_ _. (Inr (sample_twd\<lparr>twd_ObjectMeta := sample_meta\<lparr>om_Name := replicate 64 CHR ''a''\<rparr>\<rparr>), 1)\<rparr>)
          sample_request New sample_world = Some (Ok (Ok (requeue_after (5 * Minute)), New), w') \<and> w_calls w' = []"
  using Reconcile_rejects [where r = "sample_reconciler\<lparr>r_GetTWD := \<lambda>_ _. (Inr (sample_twd\<lparr>twd_ObjectMeta := sample_meta\<lparr>om_Name := replicate 64 CHR ''a''\<rparr>\<rparr>), 1)\<rparr>"
      and req = sample_request and w = sample_world and pool = New]
  by (simp add: ValidateCreate_def TWD_validateForUpdateOrCreate_def validateForUpdateOrCreate_def
      maxTemporalWorkerDeploymentNameLen_def Let_def)

text \<open>
  The reconciler looks its client up under the very key the pool stores it under, for all
  three ways to authenticate: a client a run obtained is the one the next run gets at that
  time, from the pool, with no new connection, whatever the secrets and the server answer by then.
\<close>

theorem Reconcile_client_cached:
  assumes "pool_wf pool" and "resolveAuthSecretName tc = Inr (authMode, secretName)"
    and "obtain_client r wld w tc authMode secretName pool = (Ok c, pool')" and "w_now wld' = w_now wld"
  shows "pool_key authMode (client_options w tc) = Some (client_key w tc authMode secretName)
    \<and> fst (obtain_client r' wld' w tc authMode secretName pool') = Ok c
    \<and> cp_clients (snd (obtain_client r' wld' w tc authMode secretName pool')) = cp_clients pool'"
proof -
  let ?key = "client_key w tc authMode secretName"
  have key: "pool_key authMode (client_options w tc) = Some ?key"
    using assms(2) by (auto simp: resolveAuthSecretName_def getTLSSecretName_def getAPIKeySecretName_def pool_key_def
        client_options_def client_key_def split: if_splits option.splits)
  have "obtain_client r' wld' w tc authMode secretName pool' = (Ok c, snd (GetSDKClient (w_now wld) ?key pool'))"
    unfolding obtain_client_def assms(4)
    by (rule pool.get_or_upsert_cached [of pool "(r_pool_env r wld, secretName, authMode, client_options w tc)"])
       (use assms(1,3) key in \<open>simp_all add: obtain_client_def\<close>)
  with key show ?thesis by (simp add: GetSDKClient_def)
qed

theorem Reconcile_client_cached_witness:
  "\<exists>c pool'. obtain_client sample_reconciler sample_world sample_twd
        \<lparr>tconn_ObjectMeta = sample_meta, tconn_Spec = nco_Spec (sample_opts ''ns'')\<rparr> AuthModeTLS ''certs'' sample_pool = (Ok c, pool')
     \<and> fst (obtain_client sample_reconciler sample_world sample_twd
        \<lparr>tconn_ObjectMeta = sample_meta, tconn_Spec = nco_Spec (sample_opts ''ns'')\<rparr> AuthModeTLS ''certs'' pool') = Ok c"
proof -
  let ?tc = "\<lparr>tconn_ObjectMeta = sample_meta, tconn_Spec = nco_Spec (sample_opts ''ns'')\<rparr>"
  have wf: "pool_wf sample_pool"
    unfolding sample_pool_def by (rule pool_wf_upserted [OF pool_wf_New UpsertClient_upserted])
  have res: "resolveAuthSecretName ?tc = Inr (AuthModeTLS, ''certs'')"
    by (simp add: resolveAuthSecretName_def getTLSSecretName_def sample_opts_def)
  have "\<exists>c pool'. obtain_client sample_reconciler sample_world sample_twd ?tc AuthModeTLS ''certs'' sample_pool = (Ok c, pool')"
    by (simp add: obtain_client_def get_or_upsert_def GetSDKClient_def client_key_def sample_pool_simps sample_twd_def sample_spec_def)
  with Reconcile_client_cached [OF wf res] show ?thesis by blast
qed

text \<open>
  A change of a connection enqueues exactly the worker deployments of its namespace that
  refer to it, each under its own name; if they cannot be listed, none.
\<close>

theorem findTWDsUsingConnection_spec:
  "\<exists>reqs w'. findTWDsUsingConnection r tc w = Some (Ok reqs, w') \<and> w_calls w' = w_calls w
     \<and> set reqs = {\<lparr>nn_Namespace = twd_Namespace twd, nn_Name = twd_Name twd\<rparr> | twd items.
          fst (r_ListTWDs r (om_Namespace (tconn_ObjectMeta tc)) w) = Inr items \<and> twd \<in> set items
          \<and> tcr_Name (wo_TemporalConnectionRef (spec_WorkerOptions (twd_Spec twd))) = om_Name (tconn_ObjectMeta tc)}"
  by (cases "fst (r_ListTWDs r (om_Namespace (tconn_ObjectMeta tc)) w)")
     (auto simp: findTWDsUsingConnection_def io_bind_def io_read_def io_run)

end
