(* ===== verification/Pool_Races.thy ===== *)
theory Pool_Races
  imports Client_Pool
begin

text \<open>
  The client pool under concurrency. Up to a hundred runs of the loop share the pool, each in its
  own goroutine. Here several threads execute the lock and map events of their pool operations, in
  any interleaving the read-write lock admits (\<open>sync.RWMutex\<close>: a writer excludes everybody, readers exclude
  writers). A race is a state in which one thread is about to write the map while another is about
  to read or write it; the Go runtime ends the program on it.
\<close>

section \<open>Operations and their events\<close>

datatype 'c pool_op =
    OpGet go_time ClientPoolKey
  | OpUpsert "'c pool_env" go_time string AuthMode NewClientOptions
  | OpClose

fun run_op :: "'c pool_op \<Rightarrow> 'c ClientPool \<Rightarrow> 'c ClientPool" where
  "run_op (OpGet now key) cp = snd (GetSDKClient now key cp)"
| "run_op (OpUpsert env now secretName mode opts) cp = snd (UpsertClient env now secretName mode opts cp)"
| "run_op OpClose cp = snd (Close cp)"

text \<open>The events of an operation that finds these clients in the pool.\<close>

definition op_events :: "'c pool_op \<Rightarrow> (ClientPoolKey, 'c ClientInfo) go_map \<Rightarrow> lock_event list" where
  "op_events op clients = cp_events (run_op op \<lparr>cp_clients = clients, cp_events = []\<rparr>)"

fun credentialled :: "'c pool_op \<Rightarrow> bool" where
  "credentialled (OpUpsert env now secretName mode opts) = (mode \<noteq> AuthModeNoCredentials)"
| "credentialled _ = True"

lemma op_events_disciplined:
  assumes "credentialled op"
  shows "lock_run Free (op_events op clients) = Some Free"
proof -
  let ?cp = "\<lparr>cp_clients = clients, cp_events = []\<rparr>"
  have "disciplined ?cp" by (simp add: disciplined_def)
  then have "disciplined (run_op op ?cp)"
    using assms by (cases op) (simp_all add: disciplined_upsert disciplined_get disciplined_close)
  then show ?thesis by (simp add: disciplined_def op_events_def)
qed

section \<open>Interleavings\<close>

text \<open>A thread: how it holds the lock, and what it has left to do.\<close>

type_synonym thread = "lock_mode \<times> lock_event list"
type_synonym threads = "nat \<Rightarrow> thread"

fun lock_effect :: "lock_mode \<Rightarrow> lock_event \<Rightarrow> lock_mode" where
  "lock_effect m Lock = Held"
| "lock_effect m RLock = Shared"
| "lock_effect m Unlock = Free"
| "lock_effect m RUnlock = Free"
| "lock_effect m ReadMap = m"
| "lock_effect m WriteMap = m"

text \<open>When a thread need not wait.\<close>

fun admitted :: "threads \<Rightarrow> nat \<Rightarrow> lock_event \<Rightarrow> bool" where
  "admitted ths i Lock = (\<forall>j. fst (ths j) = Free)"
| "admitted ths i RLock = (\<forall>j. fst (ths j) \<noteq> Held)"
| "admitted ths i _ = True"

inductive rw_step :: "threads \<Rightarrow> threads \<Rightarrow> bool" where
  "ths i = (m, e # es) \<Longrightarrow> admitted ths i e \<Longrightarrow> rw_step ths (ths(i := (lock_effect m e, es)))"

inductive rw_reach :: "threads \<Rightarrow> threads \<Rightarrow> bool" for start where
  rw_start: "rw_reach start start"
| rw_more: "rw_reach start ths \<Longrightarrow> rw_step ths ths' \<Longrightarrow> rw_reach start ths'"

inductive_cases rw_stepE: "rw_step ths ths'"

fun next_event :: "thread \<Rightarrow> lock_event option" where
  "next_event (m, []) = None"
| "next_event (m, e # es) = Some e"

definition race :: "threads \<Rightarrow> bool" where
  "race ths \<longleftrightarrow>
     (\<exists>i j. i \<noteq> j \<and> next_event (ths i) = Some WriteMap \<and> next_event (ths j) \<in> {Some WriteMap, Some ReadMap})"

definition start_threads :: "(nat \<Rightarrow> lock_event list) \<Rightarrow> threads" where
  "start_threads prog = (\<lambda>i. (Free, prog i))"

section \<open>Discipline excludes races\<close>

text \<open>Every thread will finish its discipline, and a writer is alone.\<close>

definition rw_inv :: "threads \<Rightarrow> bool" where
  "rw_inv ths \<longleftrightarrow>
     (\<forall>i. lock_run (fst (ths i)) (snd (ths i)) = Some Free)
     \<and> (\<forall>i j. i \<noteq> j \<longrightarrow> fst (ths i) = Held \<longrightarrow> fst (ths j) = Free)"

lemma lock_next_effect: "lock_next m e = Some m' \<Longrightarrow> m' = lock_effect m e"
  by (cases m; cases e) simp_all

lemma rw_inv_step:
  assumes "rw_inv ths" and "rw_step ths ths'"
  shows "rw_inv ths'"
  using assms(2)
proof (cases rule: rw_step.cases)
  case (1 i m e es)
  have run: "lock_run m (e # es) = Some Free" using assms(1) 1(2) unfolding rw_inv_def by (metis fst_conv snd_conv)
  then obtain m' where m': "lock_next m e = Some m'" "lock_run m' es = Some Free" by (auto split: option.splits)
  have other: "fst (ths j) = Free" if "j \<noteq> i" "lock_effect m e = Held" for j
  proof (cases "e = Lock")
    case True
    then show ?thesis using 1(3) by simp
  next
    case False
    with that(2) have "m = Held" by (cases e) simp_all
    then show ?thesis using assms(1) 1(2) that(1) unfolding rw_inv_def by (metis fst_conv)
  qed
  have self: "lock_effect m e = Free" if "fst (ths j) = Held" "j \<noteq> i" for j
  proof -
    have "m = Free" using assms(1) 1(2) that unfolding rw_inv_def by (metis fst_conv)
    with m'(1) 1(3) that(1) show ?thesis by (cases e) auto
  qed
  show ?thesis
    unfolding rw_inv_def 1(1)
  proof (intro conjI allI impI)
    fix k
    show "lock_run (fst ((ths(i := (lock_effect m e, es))) k)) (snd ((ths(i := (lock_effect m e, es))) k)) = Some Free"
      using assms(1) m' lock_next_effect [OF m'(1)] unfolding rw_inv_def by simp
  next
    fix k j
    assume kj: "k \<noteq> j" "fst ((ths(i := (lock_effect m e, es))) k) = Held"
    consider "k = i" | "j = i" | "k \<noteq> i" "j \<noteq> i" by blast
    then show "fst ((ths(i := (lock_effect m e, es))) j) = Free"
    proof cases
      case 1
      with kj other [of j] show ?thesis by simp
    next
      case 2
      with kj self [of k] show ?thesis by simp
    next
      case 3
      with kj assms(1) show ?thesis unfolding rw_inv_def by simp
    qed
  qed
qed

lemma rw_inv_reach: "rw_reach start ths \<Longrightarrow> rw_inv start \<Longrightarrow> rw_inv ths"
  by (induction rule: rw_reach.induct) (auto intro: rw_inv_step)

lemma next_write: "lock_run m es = Some Free \<Longrightarrow> next_event (m, es) = Some WriteMap \<Longrightarrow> m = Held"
  by (cases es; cases m) (auto split: option.splits)

lemma next_access: "lock_run m es = Some Free \<Longrightarrow> next_event (m, es) \<in> {Some WriteMap, Some ReadMap} \<Longrightarrow> m \<noteq> Free"
  by (cases es; cases m) (auto split: option.splits)

lemma rw_inv_no_race: "rw_inv ths \<Longrightarrow> \<not> race ths"
proof
  assume inv: "rw_inv ths" and "race ths"
  then obtain i j where ij: "i \<noteq> j" "next_event (ths i) = Some WriteMap" "next_event (ths j) \<in> {Some WriteMap, Some ReadMap}"
    unfolding race_def by blast
  have run: "lock_run (fst (ths k)) (snd (ths k)) = Some Free" for k using inv unfolding rw_inv_def by blast
  have "fst (ths i) = Held" using next_write [OF run, of i] ij(2) by simp
  moreover have "fst (ths j) \<noteq> Free" using next_access [OF run, of j] ij(3) by simp
  ultimately show False using inv ij(1) unfolding rw_inv_def by blast
qed

lemma start_inv: "(\<And>i. lock_run Free (prog i) = Some Free) \<Longrightarrow> rw_inv (start_threads prog)"
  by (simp add: rw_inv_def start_threads_def)

lemma nocred_events:
  assumes "\<exists>c. fst (UpsertClient env now secretName AuthModeNoCredentials opts \<lparr>cp_clients = clients, cp_events = []\<rparr>) = Ok c"
  shows "op_events (OpUpsert env now secretName AuthModeNoCredentials opts) clients = [WriteMap]"
proof (cases "if secretName \<noteq> [] then pe_GetSecret env (nco_K8sNamespace opts) secretName else Inr zero_Secret")
  case (Inl e)
  with assms show ?thesis by (simp add: UpsertClient_def)
next
  case (Inr secret)
  with assms show ?thesis
    by (auto simp: op_events_def UpsertClient_def fetchClientUsingNoCredentials_def Let_def log_events_def put_client_def
        split: outcome.splits)
qed

section \<open>Properties\<close>

text \<open>
  C14 (safety). Lookups, closing, and the creation of clients with credentials never race on the map, in any number
  of threads and any interleaving the lock admits. Creation without credentials does: two of them that
  succeed are in a race from the start.
\<close>

theorem pool_races:
  "((\<forall>i. credentialled (ops i)) \<and> rw_reach (start_threads (\<lambda>i. op_events (ops i) (found i))) ths \<longrightarrow> \<not> race ths)
   \<and> ((\<exists>c. fst (UpsertClient env now secretName AuthModeNoCredentials opts \<lparr>cp_clients = clients, cp_events = []\<rparr>) = Ok c)
      \<longrightarrow> race (start_threads (\<lambda>i. op_events (OpUpsert env now secretName AuthModeNoCredentials opts) clients)))"
proof (intro conjI impI)
  assume a: "(\<forall>i. credentialled (ops i)) \<and> rw_reach (start_threads (\<lambda>i. op_events (ops i) (found i))) ths"
  have "rw_inv (start_threads (\<lambda>i. op_events (ops i) (found i)))"
    by (rule start_inv) (use a op_events_disciplined in blast)
  then show "\<not> race ths" using a rw_inv_reach rw_inv_no_race by blast
next
  assume "\<exists>c. fst (UpsertClient env now secretName AuthModeNoCredentials opts \<lparr>cp_clients = clients, cp_events = []\<rparr>) = Ok c"
  then have "op_events (OpUpsert env now secretName AuthModeNoCredentials opts) clients = [WriteMap]" by (rule nocred_events)
  then show "race (start_threads (\<lambda>i. op_events (OpUpsert env now secretName AuthModeNoCredentials opts) clients))"
    unfolding race_def start_threads_def by (intro exI [of _ 0] exI [of _ 1]) simp
qed

theorem pool_races_witness:
  "\<not> race (start_threads (\<lambda>i. op_events (OpGet 0 sample_key :: string pool_op) []))
   \<and> race (start_threads (\<lambda>i. op_events (OpUpsert sample_env 0 [] AuthModeNoCredentials (sample_opts ''ns'')) []))"
proof -
  have "\<exists>c. fst (UpsertClient sample_env 0 [] AuthModeNoCredentials (sample_opts ''ns'') \<lparr>cp_clients = [], cp_events = []\<rparr>) = Ok c"
    by (simp add: UpsertClient_def fetchClientUsingNoCredentials_def sample_env_def Let_def)
  with pool_races [where ops = "\<lambda>_. OpGet 0 sample_key :: string pool_op" and found = "\<lambda>_. []"
      and ths = "start_threads (\<lambda>i. op_events (OpGet 0 sample_key :: string pool_op) [])"
      and env = sample_env and now = 0 and secretName = "[]" and opts = "sample_opts ''ns''" and clients = "[]"] rw_start
  show ?thesis by fastforce
qed

end
