(* ===== verification/Worker_Contract.thy ===== *)
theory Worker_Contract
  imports Updates
begin

text \<open>
  The other side of the Deployments: how a worker that runs in one of their pods learns which
  version it is. Modelled is the start of the workers of the repository (\<^verbatim>\<open>internal/demo/util/worker.go\<close>,
  \<^verbatim>\<open>env.go\<close>), up to the options handed to the SDK. The environment of the process is a parameter; what is relied on of the kubelet is that of
  several variables of one name the last counts. Connecting to the server is a parameter.
\<close>

section \<open>Workers\<close>

datatype versioning_behavior = VersioningBehaviorUnspecified | VersioningBehaviorPinned | VersioningBehaviorAutoUpgrade

text \<open>
  The deployment options the code sets, the task queue it passes beside them, and everything else in the options,
  which stays as the caller gave it (the empty string stands for \<open>worker.Options{}\<close>).
\<close>

record worker_options =
  wk_UseVersioning :: bool
  wk_DeploymentName :: string
  wk_BuildId :: string
  wk_DefaultVersioningBehavior :: versioning_behavior
  wk_TaskQueue :: string
  wk_rest :: string

text \<open>\<open>lookup\<close> is \<open>os.LookupEnv\<close>.\<close>

definition mustGetEnv :: "(string \<Rightarrow> string option) \<Rightarrow> string \<Rightarrow> go_panic + string" where
  "mustGetEnv lookup key =
     (case lookup key of
        Some v \<Rightarrow> Inr v
      | None \<Rightarrow> Inl (PanicValue (''environment variable '' @ [CHR 0x22] @ key @ [CHR 0x22] @ '' must be set'')))"

text \<open>The task queue is read when the package is initialised, before the worker is created.\<close>

definition NewVersionedWorker ::
  "string \<Rightarrow> (string \<Rightarrow> string option) \<Rightarrow> (string \<Rightarrow> int \<Rightarrow> go_panic + 'c) \<Rightarrow> go_panic + (worker_options \<times> 'c)" where
  "NewVersionedWorker opts lookup new_client =
     bindE (mustGetEnv lookup ''TEMPORAL_TASK_QUEUE'') (\<lambda>temporalTaskQueue.
     bindE (mustGetEnv lookup ''TEMPORAL_DEPLOYMENT_NAME'') (\<lambda>name.
     bindE (mustGetEnv lookup ''TEMPORAL_WORKER_BUILD_ID'') (\<lambda>buildID.
     bindE (new_client buildID 9090) (\<lambda>c.
       Inr (\<lparr>wk_UseVersioning = True, wk_DeploymentName = name, wk_BuildId = buildID,
             wk_DefaultVersioningBehavior = VersioningBehaviorPinned, wk_TaskQueue = temporalTaskQueue, wk_rest = opts\<rparr>, c)))))"

section \<open>The environment of a container\<close>

definition last_env :: "string \<Rightarrow> Container \<Rightarrow> EnvVar option" where
  "last_env key c = find (\<lambda>e. ev_Name e = key) (rev (ctr_Env c))"

text \<open>What the kubelet promises: a literal variable has the value of its last definition.\<close>

definition env_of :: "Container \<Rightarrow> (string \<Rightarrow> string option) \<Rightarrow> bool" where
  "env_of c lookup \<longleftrightarrow>
     (\<forall>key e. last_env key c = Some e \<longrightarrow> ev_ValueFrom e = None \<longrightarrow> lookup key = Some (ev_Value e))"

lemma find_append: "find P (xs @ ys) = (case find P xs of None \<Rightarrow> find P ys | Some x \<Rightarrow> Some x)"
  by (induction xs) auto

lemma last_env_controller:
  assumes "ctr_Env c = user @ controller_env connection ns name b"
  shows "last_env ''TEMPORAL_DEPLOYMENT_NAME'' c = Some (env_value ''TEMPORAL_DEPLOYMENT_NAME'' name)"
    and "last_env ''TEMPORAL_WORKER_BUILD_ID'' c = Some (env_value ''TEMPORAL_WORKER_BUILD_ID'' b)"
  using assms
  by (auto simp: last_env_def find_append controller_env_def base_env_def tls_env_def api_key_env_def env_value_def
      split: option.split)

lemma NewDeployment_env:
  assumes "c \<in> set (ps_Containers (pt_Spec (ds_Template (d_Spec (NewDeploymentWithOwnerRef tp tm om spec name b connection)))))"
  shows "\<exists>user ns. ctr_Env c = user @ controller_env connection ns name b"
proof -
  from assms obtain c0 where "c = c0\<lparr>ctr_Env := ctr_Env c0 @ controller_env connection
          (wo_TemporalNamespace (spec_WorkerOptions spec)) name b,
        ctr_VolumeMounts := ctr_VolumeMounts c0 @ controller_mounts connection\<rparr>"
    by (auto simp: NewDeploymentWithOwnerRef_def Let_def ApplyController_eq)
  then show ?thesis by simp blast
qed

lemma NewVersionedWorker_env:
  assumes "ctr_Env c = user @ controller_env connection ns name b" and "env_of c lookup"
    and "lookup ''TEMPORAL_TASK_QUEUE'' = Some q" and "new_client b 9090 = Inr cl"
  shows "NewVersionedWorker opts lookup new_client
           = Inr (\<lparr>wk_UseVersioning = True, wk_DeploymentName = name, wk_BuildId = b,
               wk_DefaultVersioningBehavior = VersioningBehaviorPinned, wk_TaskQueue = q, wk_rest = opts\<rparr>, cl)"
proof -
  have "lookup ''TEMPORAL_DEPLOYMENT_NAME'' = Some name" "lookup ''TEMPORAL_WORKER_BUILD_ID'' = Some b"
    using assms(2) last_env_controller [OF assms(1)] unfolding env_of_def by (force simp: env_value_def)+
  then show ?thesis using assms(3,4) by (simp add: NewVersionedWorker_def mustGetEnv_def)
qed

section \<open>Properties\<close>

text \<open>
  C22 (roundtrip). A worker started in any container of a Deployment the controller built registers as the version the
  controller tracks that Deployment under: its worker deployment name and its build ID, which is the
  one the Deployment is read back by, whatever variables the user sets.
\<close>

theorem worker_registers_as_tracked:
  assumes "c \<in> set (ps_Containers (pt_Spec (ds_Template (d_Spec
             (NewDeploymentWithOwnerRef tp tm om spec name b connection)))))"
    and "env_of c lookup" and "lookup ''TEMPORAL_TASK_QUEUE'' = Some q" and "new_client b 9090 = Inr cl" and "length b \<le> 63"
  shows "NewVersionedWorker opts lookup new_client
           = Inr (\<lparr>wk_UseVersioning = True, wk_DeploymentName = name, wk_BuildId = b,
               wk_DefaultVersioningBehavior = VersioningBehaviorPinned, wk_TaskQueue = q, wk_rest = opts\<rparr>, cl)
    \<and> deployment_build_id (NewDeploymentWithOwnerRef tp tm om spec name b connection) = Some b"
proof
  obtain user ns where "ctr_Env c = user @ controller_env connection ns name b" using NewDeployment_env [OF assms(1)] by blast
  then show "NewVersionedWorker opts lookup new_client
      = Inr (\<lparr>wk_UseVersioning = True, wk_DeploymentName = name, wk_BuildId = b,
               wk_DefaultVersioningBehavior = VersioningBehaviorPinned, wk_TaskQueue = q, wk_rest = opts\<rparr>, cl)"
    by (rule NewVersionedWorker_env) (rule assms)+
  show "deployment_build_id (NewDeploymentWithOwnerRef tp tm om spec name b connection) = Some b"
    using assms(5) by (simp add: deployment_build_id_def NewDeploymentWithOwnerRef_def Let_def selector_labels_get TruncateString_id)
qed

text \<open>The kubelet on a container with literal variables only.\<close>

definition literal_env :: "Container \<Rightarrow> string \<Rightarrow> string option" where
  "literal_env c key = map_option ev_Value (last_env key c)"

definition queue_spec :: TemporalWorkerDeploymentSpec where
  "queue_spec = sample_spec\<lparr>spec_Template := sample_template\<lparr>pt_Spec := (pt_Spec sample_template)
     \<lparr>ps_Containers := [sample_container\<lparr>ctr_Env := [env_value ''TEMPORAL_TASK_QUEUE'' ''hello'']\<rparr>]\<rparr>\<rparr>\<rparr>"

theorem worker_registers_as_tracked_witness:
  "\<exists>c. NewVersionedWorker [] (literal_env c) (\<lambda>b port. Inr ())
     = Inr (\<lparr>wk_UseVersioning = True, wk_DeploymentName = ''ns/foo'', wk_BuildId = ''v2'',
          wk_DefaultVersioningBehavior = VersioningBehaviorPinned, wk_TaskQueue = ''hello'', wk_rest = []\<rparr>, ())"
proof -
  let ?d = "NewDeploymentWithOwnerRef sample_third_party (twd_TypeMeta sample_twd) sample_meta queue_spec ''ns/foo'' ''v2'' sample_connection"
  obtain c where c: "ps_Containers (pt_Spec (ds_Template (d_Spec ?d))) = [c]"
    by (simp add: NewDeploymentWithOwnerRef_def ApplyController_eq queue_spec_def Let_def)
  have "env_of c (literal_env c)" by (simp add: env_of_def literal_env_def)
  moreover have "literal_env c ''TEMPORAL_TASK_QUEUE'' = Some ''hello''"
    using c by (auto simp: NewDeploymentWithOwnerRef_def ApplyController_eq queue_spec_def Let_def literal_env_def last_env_def
        find_append controller_env_def base_env_def tls_env_def sample_connection_def env_value_def)
  ultimately show ?thesis
    using worker_registers_as_tracked [of c sample_third_party "twd_TypeMeta sample_twd" sample_meta queue_spec "''ns/foo''" "''v2''"
        sample_connection "literal_env c" "''hello''" "\<lambda>b port. Inr ()" "()"] c by auto
qed

text \<open>
  C37 (error). The name is lost by an in-place update of a Deployment whose user sets the controller's variable: the
  update takes the worker deployment name from the first definition, the user's, and writes it
  as the last one, so the updated pods register under the user's name, where the pods built at creation register
  under the controller's.
\<close>

theorem update_loses_deployment_name:
  assumes "ps_Containers (pt_Spec (spec_Template spec)) = c0 # cs"
    and "find (\<lambda>e. ev_Name e = ''TEMPORAL_DEPLOYMENT_NAME'') (ctr_Env c0) = Some e" and "ev_Value e \<noteq> []"
    and "updateDeploymentWithPodTemplateSpec tp (NewDeploymentWithOwnerRef tp tm om spec name b connection) spec' connection' = Inr d'"
    and "c \<in> set (ps_Containers (pt_Spec (ds_Template (d_Spec d'))))"
    and "env_of c lookup" and "lookup ''TEMPORAL_TASK_QUEUE'' = Some q" and "\<forall>b. new_client b 9090 = Inr cl"
  shows "\<exists>b'. NewVersionedWorker opts lookup new_client
           = Inr (\<lparr>wk_UseVersioning = True, wk_DeploymentName = ev_Value e, wk_BuildId = b',
               wk_DefaultVersioningBehavior = VersioningBehaviorPinned, wk_TaskQueue = q, wk_rest = opts\<rparr>, cl)"
proof -
  let ?d = "NewDeploymentWithOwnerRef tp tm om spec name b connection"
  have "find_deployment_name (ps_Containers (pt_Spec (ds_Template (d_Spec ?d)))) = ev_Value e"
    using assms(1-3) by (simp add: NewDeploymentWithOwnerRef_def Let_def ApplyController_eq find_append)
  with assms(4,5) obtain c1 ns b' where "c = c1\<lparr>ctr_Env := ctr_Env c1 @ controller_env connection' ns (ev_Value e) b',
        ctr_VolumeMounts := ctr_VolumeMounts c1 @ controller_mounts connection'\<rparr>"
    by (auto simp: updateDeploymentWithPodTemplateSpec_def Let_def bindE_eq_Inr ApplyController_eq)
  then have "ctr_Env c = ctr_Env c1 @ controller_env connection' ns (ev_Value e) b'" by simp
  then have "NewVersionedWorker opts lookup new_client
      = Inr (\<lparr>wk_UseVersioning = True, wk_DeploymentName = ev_Value e, wk_BuildId = b',
               wk_DefaultVersioningBehavior = VersioningBehaviorPinned, wk_TaskQueue = q, wk_rest = opts\<rparr>, cl)"
    by (rule NewVersionedWorker_env) (simp_all add: assms(6-8))
  then show ?thesis by blast
qed

definition named_spec :: TemporalWorkerDeploymentSpec where
  "named_spec = queue_spec\<lparr>spec_Template := sample_template\<lparr>pt_Spec := (pt_Spec sample_template)
     \<lparr>ps_Containers := [sample_container\<lparr>ctr_Env :=
        [env_value ''TEMPORAL_DEPLOYMENT_NAME'' ''mine'', env_value ''TEMPORAL_TASK_QUEUE'' ''hello'']\<rparr>]\<rparr>\<rparr>\<rparr>"

theorem update_loses_deployment_name_witness:
  "\<exists>c b'. NewVersionedWorker [] (literal_env c) (\<lambda>b port. Inr ())
     = Inr (\<lparr>wk_UseVersioning = True, wk_DeploymentName = ''mine'', wk_BuildId = b',
          wk_DefaultVersioningBehavior = VersioningBehaviorPinned, wk_TaskQueue = ''hello'', wk_rest = []\<rparr>, ())"
proof -
  let ?d = "NewDeploymentWithOwnerRef sample_third_party (twd_TypeMeta sample_twd) sample_meta named_spec ''ns/foo'' ''v2'' sample_connection"
  let ?c0 = "sample_container\<lparr>ctr_Env :=
        [env_value ''TEMPORAL_DEPLOYMENT_NAME'' ''mine'', env_value ''TEMPORAL_TASK_QUEUE'' ''hello'']\<rparr>"
  obtain d' where d': "updateDeploymentWithPodTemplateSpec sample_third_party ?d queue_spec sample_connection = Inr d'"
    by (simp add: updateDeploymentWithPodTemplateSpec_def NewDeploymentWithOwnerRef_def Let_def)
  then obtain c n b where c: "ps_Containers (pt_Spec (ds_Template (d_Spec d'))) = [c]"
    "ctr_Env c = [env_value ''TEMPORAL_TASK_QUEUE'' ''hello''] @ controller_env sample_connection ''tns'' n b"
    by (auto simp: updateDeploymentWithPodTemplateSpec_def NewDeploymentWithOwnerRef_def ApplyController_eq Let_def queue_spec_def sample_spec_def)
  have 1: "ps_Containers (pt_Spec (spec_Template named_spec)) = [?c0]" by (simp add: named_spec_def)
  have 2: "find (\<lambda>e. ev_Name e = ''TEMPORAL_DEPLOYMENT_NAME'') (ctr_Env ?c0) = Some (env_value ''TEMPORAL_DEPLOYMENT_NAME'' ''mine'')"
    by (simp add: env_value_def)
  have 3: "ev_Value (env_value ''TEMPORAL_DEPLOYMENT_NAME'' ''mine'') \<noteq> []" by (simp add: env_value_def)
  have 4: "literal_env c ''TEMPORAL_TASK_QUEUE'' = Some ''hello''"
    using c(2) by (simp add: literal_env_def last_env_def find_append controller_env_def base_env_def tls_env_def
        sample_connection_def env_value_def)
  have 5: "env_of c (literal_env c)" by (simp add: env_of_def literal_env_def)
  from update_loses_deployment_name [OF 1 2 3 d' _ 5 4, of "\<lambda>b port. Inr ()" "()" "[]"] c(1) show ?thesis
    by (auto simp: env_value_def)
qed

end
