(* ===== verification/Composition.thy ===== *)
theory Composition
  imports Reconcile Pool_Races Worker_Contract
begin

text \<open>
  Lemmas that connect the components along a run of the loop: what the planner's updates keep
  of the listed objects, which Deployments a run deletes, and how an outage of Temporal travels
  from the reading of the versions to the planner.
\<close>

section \<open>Updates keep the metadata of the objects\<close>

definition same_meta :: "deployment_store \<Rightarrow> deployment_store \<Rightarrow> bool" where
  "same_meta store store' \<longleftrightarrow>
     (\<forall>b. map_option d_ObjectMeta (map_get store' b) = map_option d_ObjectMeta (map_get store b))"

lemma same_meta_refl [simp]: "same_meta s s"
  by (simp add: same_meta_def)

lemma same_meta_trans: "same_meta s s' \<Longrightarrow> same_meta s' s'' \<Longrightarrow> same_meta s s''"
  by (simp add: same_meta_def)

lemma same_meta_put:
  "map_get s b = Some d \<Longrightarrow> d_ObjectMeta d' = d_ObjectMeta d \<Longrightarrow> same_meta s (map_put b d' s)"
  by (simp add: same_meta_def)

lemma check_connection_meta:
  "checkAndUpdateDeploymentConnectionSpec b connection s = Inr (s', r) \<Longrightarrow> same_meta s s'"
  by (auto simp: checkAndUpdateDeploymentConnectionSpec_def updateDeploymentWithConnection_def Let_def bindE_eq_Inr
      intro!: same_meta_put split: option.splits if_splits)

lemma check_pod_meta:
  "checkAndUpdateDeploymentPodTemplateSpec tp b spec connection s = Inr (s', r) \<Longrightarrow> same_meta s s'"
  by (auto simp: checkAndUpdateDeploymentPodTemplateSpec_def updateDeploymentWithPodTemplateSpec_def Let_def bindE_eq_Inr
      intro!: same_meta_put split: option.splits if_splits)

lemma update_once_meta: "update_connection_once connection b st = Inr st' \<Longrightarrow> same_meta (fst st) (fst st')"
  by (auto simp: update_connection_once_def note_update_def bindE_eq_Inr dest: check_connection_meta split: if_splits)

lemma update_deprecated_meta:
  "foldE (\<lambda>v. update_connection_once connection (v_BuildID v)) vs st = Inr st' \<Longrightarrow> same_meta (fst st) (fst st')"
proof (induction vs arbitrary: st)
  case (Cons v vs)
  then show ?case by (auto simp: bindE_eq_Inr intro: same_meta_trans update_once_meta)
qed simp

lemma getUpdateDeployments_meta:
  assumes "getUpdateDeployments tp store status spec connection = Inr (store', ups)"
  shows "same_meta store store'"
proof -
  let ?t = "v_BuildID (st_TargetVersion status)"
  from assms obtain st1 st2 st3 where
      1: "(if ?t \<noteq> [] then note_update (checkAndUpdateDeploymentPodTemplateSpec tp ?t spec connection) (store, [])
           else Inr (store, [])) = Inr st1"
    and 2: "(if ?t \<noteq> [] then update_connection_once connection ?t st1 else Inr st1) = Inr st2"
    and 3: "(case st_CurrentVersion status of None \<Rightarrow> Inr st2
             | Some c \<Rightarrow> if v_BuildID c \<noteq> [] then update_connection_once connection (v_BuildID c) st2 else Inr st2) = Inr st3"
    and 4: "foldE (\<lambda>v. update_connection_once connection (v_BuildID v)) (st_DeprecatedVersions status) st3 = Inr (store', ups)"
    by (auto simp: getUpdateDeployments_def Let_def bindE_eq_Inr)
  have "same_meta store (fst st1)"
    using 1 by (auto simp: note_update_def bindE_eq_Inr dest: check_pod_meta split: if_splits)
  moreover have "same_meta (fst st1) (fst st2)" using 2 by (auto dest: update_once_meta split: if_splits)
  moreover have "same_meta (fst st2) (fst st3)" using 3 by (auto dest: update_once_meta split: option.splits if_splits)
  moreover have "same_meta (fst st3) store'" using update_deprecated_meta [OF 4] by simp
  ultimately show ?thesis by (blast intro: same_meta_trans)
qed

section \<open>What a run deletes\<close>

lemma same_meta_build_id:
  assumes "same_meta s s'" and "map_get s' b = Some d'"
  shows "\<exists>d. map_get s b = Some d \<and> deployment_build_id d' = deployment_build_id d"
proof -
  have "map_option d_ObjectMeta (map_get s b) = Some (d_ObjectMeta d')"
    using assms unfolding same_meta_def by (metis option.simps(9))
  then show ?thesis by (auto simp: deployment_build_id_def)
qed

text \<open>The Deployments of a plan carry the build ID of the version they stand for, and those to delete a deprecated one's.\<close>

lemma GeneratePlan_deletes:
  assumes "GeneratePlan tp now ks status spec ts connection config name limit input secret = Inr (p, store)"
    and "deployments_wf tp' ks" and "b \<in> set (plan_DeleteDeployments p)"
  shows "\<exists>d. map_get store b = Some d \<and> deployment_build_id d = Some b"
    and "b \<in> v_BuildID ` set (st_DeprecatedVersions status)"
proof -
  let ?found = "case ts of None \<Rightarrow> False | Some ts \<Rightarrow> length (ts_Versions ts) > 0"
  from assms(1) obtain dels ups where
    del: "getDeleteDeployments now ks status spec ?found = Inr dels" and p: "plan_DeleteDeployments p = dels"
    and up: "getUpdateDeployments tp (ks_Deployments ks) status spec connection = Inr (store, ups)"
    by (auto simp: GeneratePlan_def Let_def bindE_eq_Inr)
  from foldE_appendIf_Inr [OF del [unfolded getDeleteDeployments_def]] assms(3) p
  show "b \<in> v_BuildID ` set (st_DeprecatedVersions status)" by auto
  obtain d where d: "map_get store b = Some d"
    using GeneratePlan_facts(1) [OF assms(1)] assms(3) by blast
  obtain d0 where "map_get (ks_Deployments ks) b = Some d0" "deployment_build_id d = deployment_build_id d0"
    using same_meta_build_id [OF getUpdateDeployments_meta [OF up] d] by blast
  moreover from this(1) have "deployment_build_id d0 = Some b"
    using assms(2) unfolding deployments_wf_def by blast
  ultimately show "\<exists>d. map_get store b = Some d \<and> deployment_build_id d = Some b" using d by simp
qed

lemma generatePlan_deletes:
  assumes "generatePlan r w connection ts wa = Some (Ok (p, store), wb)" and "b \<in> set (cp_DeleteDeployments p)"
  shows "\<exists>d. map_get store b = Some d \<and> deployment_build_id d = Some b"
    and "b \<in> v_BuildID ` set (st_DeprecatedVersions (twd_Status w))"
proof -
  from assms(1) obtain items ks now input secret q create where
    ks: "GetDeploymentState (r_third_party r) (Inr items) = Inr ks"
    and g: "GeneratePlan (r_third_party r) now ks (twd_Status w) (twd_Spec w) (Some ts) connection
       \<lparr>cfg_RolloutStrategy = effective_strategy (getControllerIdentity (r_getenv r)) w ts\<rparr> (ComputeWorkerDeploymentName w)
       (r_MaxDeploymentVersionsIneligibleForDeletion r) input secret = Inr (q, store)"
    and p: "p = convert_plan w q create"
    by (rule generatePlan_OkE)
  have b: "b \<in> set (plan_DeleteDeployments q)" using assms(2) by (simp add: p convert_plan_def)
  note D = GeneratePlan_deletes [OF g GetDeploymentState_wf [OF ks] b]
  from D show "\<exists>d. map_get store b = Some d \<and> deployment_build_id d = Some b"
    "b \<in> v_BuildID ` set (st_DeprecatedVersions (twd_Status w))" by blast+
qed

text \<open>The build IDs a status mentions: what an API server must keep of a status it stores.\<close>

definition same_versions :: "TemporalWorkerDeploymentStatus \<Rightarrow> TemporalWorkerDeploymentStatus \<Rightarrow> bool" where
  "same_versions s s' \<longleftrightarrow>
     v_BuildID (st_TargetVersion s') = v_BuildID (st_TargetVersion s)
     \<and> map_option v_BuildID (st_CurrentVersion s') = map_option v_BuildID (st_CurrentVersion s)
     \<and> map v_BuildID (st_DeprecatedVersions s') = map v_BuildID (st_DeprecatedVersions s)"

lemma observe_status:
  assumes "observe r c req w wa = Some (Ok (status, ts), wb)"
  shows "\<exists>order ks n. status = mapToStatus order (newStateMapper ks ts n) (ComputeBuildID (r_third_party r) w)"
proof -
  from assms obtain ks ts0 w2 where
    s: "generateStatus (r_third_party r) (r_temporal r c) (r_versions_order r ks) w ts0 ks w2 = Some (Ok (status, ts), wb)"
    by (auto simp: observe_def io_wrap_Ok elim!: io_bind_OkE)
  obtain x w3 where "generateStatus (r_third_party r) (r_temporal r c) (r_versions_order r ks) w ts0 ks w2 = Some (Ok x, w3)"
    "case x of (status, ts') \<Rightarrow> st_LastModifierIdentity status = ts_LastModifierIdentity ts0
        \<and> ts_LastModifierIdentity ts' = ts_LastModifierIdentity ts0 \<and> ts_IgnoreLastModifier ts' = ts_IgnoreLastModifier ts0
        \<and> status = mapToStatus (r_versions_order r ks) (newStateMapper ks ts' (ComputeWorkerDeploymentName w))
            (ComputeBuildID (r_third_party r) w)"
    by (rule io_givesE [OF generateStatus_gives])
  with s show ?thesis by auto
qed

lemma mapped_deprecated:
  assumes "b \<in> v_BuildID ` set (st_DeprecatedVersions (mapToStatus order m target))"
  shows "b \<noteq> target" and "st_CurrentVersion (mapToStatus order m target) = Some c \<Longrightarrow> v_BuildID c \<noteq> b"
proof -
  have b: "b \<in> set (deprecated_ids m target order)"
    using assms deprecated_in_status(2) by blast
  then show "b \<noteq> target" by (simp add: deprecated_ids_def)
  show "v_BuildID c \<noteq> b" if "st_CurrentVersion (mapToStatus order m target) = Some c"
    using b mapCurrent_fields that by (auto simp: current_in_status deprecated_ids_def)
qed

lemma planned_deletes:
  "DeleteDeployment d \<in> set (planned_calls identity version store so p) \<Longrightarrow>
     \<exists>b \<in> set (cp_DeleteDeployments p). d = the (map_get store b)"
  by (auto simp: planned_calls_def stored_def version_config_call_def split: option.splits if_splits)

lemma acted_planE:
  assumes "acted r updated ts made res" and "(c, e) \<in> set made"
  obtains connection p store wa wb version so where
    "generatePlan r (updated\<lparr>twd_Spec := Spec_Default (twd_Spec updated)\<rparr>) connection ts wa = Some (Ok (p, store), wb)"
    and "c \<in> set (planned_calls (getControllerIdentity (r_getenv r)) version store so p)"
proof -
  have "made \<noteq> []" using assms(2) by auto
  moreover have "made \<noteq> [] \<longrightarrow>
        (\<exists>connection p store wa wb version so.
           generatePlan r (updated\<lparr>twd_Spec := Spec_Default (twd_Spec updated)\<rparr>) connection ts wa = Some (Ok (p, store), wb)
           \<and> fst ` set made \<subseteq> set (planned_calls (getControllerIdentity (r_getenv r)) version store so p))"
    using assms(1) unfolding acted_def by (elim conjE)
  ultimately obtain connection p store wa wb version so where
    g: "generatePlan r (updated\<lparr>twd_Spec := Spec_Default (twd_Spec updated)\<rparr>) connection ts wa = Some (Ok (p, store), wb)"
    and c: "fst ` set made \<subseteq> set (planned_calls (getControllerIdentity (r_getenv r)) version store so p)"
    by (elim impE exE conjE)
  from c assms(2) have "c \<in> set (planned_calls (getControllerIdentity (r_getenv r)) version store so p)" by force
  with g show thesis by (rule that)
qed

lemma acted_deletes:
  assumes "acted r updated ts made res" and "(DeleteDeployment d, e) \<in> set made"
  shows "\<exists>b. deployment_build_id d = Some b \<and> b \<in> v_BuildID ` set (st_DeprecatedVersions (twd_Status updated))"
proof -
  obtain connection p store wa wb version so where
    g: "generatePlan r (updated\<lparr>twd_Spec := Spec_Default (twd_Spec updated)\<rparr>) connection ts wa = Some (Ok (p, store), wb)"
    and "DeleteDeployment d \<in> set (planned_calls (getControllerIdentity (r_getenv r)) version store so p)"
    by (rule acted_planE [OF assms])
  then obtain b where "b \<in> set (cp_DeleteDeployments p)" "d = the (map_get store b)" using planned_deletes by blast
  with generatePlan_deletes [OF g this(1)] show ?thesis by auto
qed

section \<open>What a run routes\<close>

text \<open>The ramps a rollout may set, as \<open>int32\<close> values.\<close>

definition step_ramps :: "RolloutStep list \<Rightarrow> int32 set" where
  "step_ramps steps = (\<lambda>s. word_of_int (step_RampPercentage s)) ` set steps"

definition target_is_current :: "TemporalWorkerDeploymentStatus \<Rightarrow> bool" where
  "target_is_current status \<longleftrightarrow> map_option v_BuildID (st_CurrentVersion status) = Some (v_BuildID (st_TargetVersion status))"

text \<open>
  A version configuration that is right for a status: it makes the target current, ramps a target that is not current to the
  percentage of a step of a Progressive rollout, or takes the ramp away when the target is current.
\<close>

definition right_config :: "RolloutStrategy \<Rightarrow> TemporalWorkerDeploymentStatus \<Rightarrow> VersionConfig \<Rightarrow> bool" where
  "right_config strategy status vcfg \<longleftrightarrow>
     vc_ConflictToken vcfg = st_VersionConflictToken status
     \<and> (if vc_SetCurrent vcfg
        then vc_BuildID vcfg = v_BuildID (st_TargetVersion status) \<and> \<not> target_is_current status
        else \<not> target_is_current status \<and> vc_BuildID vcfg = v_BuildID (st_TargetVersion status)
               \<and> rs_Strategy strategy = UpdateProgressive \<and> vc_RampPercentage vcfg \<in> step_ramps (rs_Steps strategy)
             \<or> target_is_current status \<and> vc_BuildID vcfg = [] \<and> vc_RampPercentage vcfg = 0)"

lemma handleProgressiveRollout_config:
  assumes "handleProgressiveRollout steps t0 m r v = Some vcfg"
  shows "vc_ConflictToken vcfg = vc_ConflictToken v \<and> vc_BuildID vcfg = vc_BuildID v
     \<and> (vc_SetCurrent vcfg \<or> vc_SetCurrent vcfg = vc_SetCurrent v \<and> vc_RampPercentage vcfg \<in> step_ramps steps)"
proof -
  have "steps \<noteq> []" using assms by (auto simp: handleProgressiveRollout_def)
  then have "steps ! getCurrentStepIndex steps r \<in> set steps" by (intro nth_mem getCurrentStepIndex_less)
  moreover have "steps ! (i + 1) \<in> set steps" if "int i < int (length steps) - 1" for i using that by (intro nth_mem) simp
  ultimately show ?thesis using assms
    by (auto simp: handleProgressiveRollout_def step_ramps_def Let_def split: if_splits option.splits)
qed

lemma getVersionConfigDiff_guards:
  assumes "getVersionConfigDiff now status ts config = Inr (Some vcfg)"
  shows "rs_Strategy (cfg_RolloutStrategy config) \<noteq> UpdateManual"
    and "v_HealthySince (st_TargetVersion status) \<noteq> None"
    and "v_Status (st_TargetVersion status) \<noteq> VersionStatusNotRegistered"
    and "gate_passed (cfg_RolloutStrategy config) (st_TargetVersion status)"
    and "right_config (cfg_RolloutStrategy config) status vcfg"
proof -
  show "rs_Strategy (cfg_RolloutStrategy config) \<noteq> UpdateManual" "v_HealthySince (st_TargetVersion status) \<noteq> None"
    "v_Status (st_TargetVersion status) \<noteq> VersionStatusNotRegistered"
    "gate_passed (cfg_RolloutStrategy config) (st_TargetVersion status)"
    using assms by (auto simp: getVersionConfigDiff_def Let_def split: if_splits)
  from assms show "right_config (cfg_RolloutStrategy config) status vcfg"
    by (auto simp: getVersionConfigDiff_def Let_def bindE_eq_Inr right_config_def target_is_current_def
        dest!: handleProgressiveRollout_config
        split: if_splits DefaultVersionUpdateStrategy.splits option.splits)
qed

text \<open>A status under which traffic may be routed: with a gate, the target has task queues and at least as many test workflows, all of which have completed.\<close>

definition may_route :: "TemporalWorkerDeploymentSpec \<Rightarrow> TemporalWorkerDeploymentStatus \<Rightarrow> bool" where
  "may_route spec status \<longleftrightarrow>
     rs_Strategy (spec_RolloutStrategy spec) \<noteq> UpdateManual
     \<and> v_HealthySince (st_TargetVersion status) \<noteq> None
     \<and> v_Status (st_TargetVersion status) \<noteq> VersionStatusNotRegistered
     \<and> (\<forall>g. rs_Gate (spec_RolloutStrategy spec) = Some g \<longrightarrow>
          v_TaskQueues (st_TargetVersion status) \<noteq> []
          \<and> length (v_TaskQueues (st_TargetVersion status)) \<le> length (v_TestWorkflows (st_TargetVersion status))
          \<and> (\<forall>wf \<in> set (v_TestWorkflows (st_TargetVersion status)). wf_Status wf = WorkflowExecutionStatusCompleted))"

text \<open>
  A routing call that carries the decision for a status: about the named worker deployment, with the conflict token of the status and the
  given identity, and with the build ID and percentage of a right configuration. The authorship is recorded for the version that was routed.
\<close>

fun well_routed ::
  "RolloutStrategy \<Rightarrow> TemporalWorkerDeploymentStatus \<Rightarrow> string \<Rightarrow> string \<Rightarrow> api_call \<Rightarrow> bool" where
  "well_routed strategy status name identity (SetCurrentVersion n b tok i) \<longleftrightarrow>
     n = name \<and> tok = st_VersionConflictToken status \<and> i = identity
     \<and> b = v_BuildID (st_TargetVersion status) \<and> \<not> target_is_current status"
| "well_routed strategy status name identity (SetRampingVersion n b pct tok i) \<longleftrightarrow>
     n = name \<and> tok = st_VersionConflictToken status \<and> i = identity
     \<and> (if target_is_current status then b = [] \<and> pct = 0
        else b = v_BuildID (st_TargetVersion status) \<and> rs_Strategy strategy = UpdateProgressive
           \<and> pct \<in> (\<lambda>x. float32_of_int (sint x)) ` step_ramps (rs_Steps strategy))"
| "well_routed strategy status name identity (UpsertVersionMetadata n b kvs) \<longleftrightarrow>
     n = name \<and> b = (if target_is_current status then [] else v_BuildID (st_TargetVersion status))
     \<and> (\<exists>ver. kvs = [(controllerIdentityMetadataKey, identity), (controllerVersionMetadataKey, ver)])"
| "well_routed strategy status name identity (RemoveVersionMetadata n b keys) \<longleftrightarrow>
     n = name \<and> keys = [IgnoreLastModifierKey]"
| "well_routed strategy status name identity c \<longleftrightarrow> True"

lemma effective_strategy_spec:
  "rs_Gate (effective_strategy i w ts) = rs_Gate (spec_RolloutStrategy (twd_Spec w))"
  "rs_Strategy (effective_strategy i w ts) \<noteq> UpdateManual
     \<Longrightarrow> effective_strategy i w ts = spec_RolloutStrategy (twd_Spec w)"
  by (auto simp: effective_strategy_def)

lemma generatePlan_routes:
  assumes "generatePlan r w connection ts wa = Some (Ok (p, store), wb)"
    and "cp_UpdateVersionConfig p \<noteq> None \<or> cp_RemoveIgnoreLastModifierBuilds p \<noteq> []"
  obtains vcfg where "cp_UpdateVersionConfig p = Some vcfg" and "may_route (twd_Spec w) (twd_Status w)"
    and "right_config (spec_RolloutStrategy (twd_Spec w)) (twd_Status w) vcfg"
    and "cp_WorkerDeploymentName p = ComputeWorkerDeploymentName w"
proof -
  let ?st = "effective_strategy (getControllerIdentity (r_getenv r)) w ts"
  from assms(1) obtain items ks now input secret q create where
    g: "GeneratePlan (r_third_party r) now ks (twd_Status w) (twd_Spec w) (Some ts) connection
       \<lparr>cfg_RolloutStrategy = ?st\<rparr> (ComputeWorkerDeploymentName w)
       (r_MaxDeploymentVersionsIneligibleForDeletion r) input secret = Inr (q, store)"
    and p: "p = convert_plan w q create" by (rule generatePlan_OkE)
  obtain vcfg where v: "plan_VersionConfig q = Some vcfg"
    using assms(2) GeneratePlan_facts(3) [OF g] by (auto simp: p convert_plan_def remove_ignore_builds_def split: if_splits)
  note G = getVersionConfigDiff_guards [OF GeneratePlan_facts(2) [OF g, unfolded v]]
  have st: "?st = spec_RolloutStrategy (twd_Spec w)" by (rule effective_strategy_spec(2)) (use G(1) in simp)
  have "may_route (twd_Spec w) (twd_Status w)" using G(1-4) by (auto simp: may_route_def st gate_passed_def list_all_iff split: option.splits)
  then show thesis using that [of vcfg] v G(5) by (simp add: p convert_plan_def st)
qed

lemma planned_routing:
  assumes "c \<in> set (planned_calls identity version store so p)" and "routing_call c"
  shows "cp_UpdateVersionConfig p \<noteq> None \<or> cp_RemoveIgnoreLastModifierBuilds p \<noteq> []"
  using assms planned_calls_routing by blast

lemma planned_well_routed:
  assumes "c \<in> set (planned_calls identity version store so p)" and "cp_UpdateVersionConfig p = Some vcfg"
    and "right_config strategy status vcfg"
  shows "well_routed strategy status (cp_WorkerDeploymentName p) identity c"
  using assms by (auto simp: planned_calls_def version_config_call_def right_config_def split: option.splits if_splits)

lemma acted_routes:
  assumes "acted r updated ts made res" and "(c, e) \<in> set made" and "routing_call c"
  shows "may_route (twd_Spec updated) (twd_Status updated)
    \<and> well_routed (spec_RolloutStrategy (twd_Spec updated)) (twd_Status updated) (ComputeWorkerDeploymentName updated)
        (getControllerIdentity (r_getenv r)) c"
proof -
  let ?w = "updated\<lparr>twd_Spec := Spec_Default (twd_Spec updated)\<rparr>"
  obtain connection p store wa wb version so where
    g: "generatePlan r ?w connection ts wa = Some (Ok (p, store), wb)"
    and c: "c \<in> set (planned_calls (getControllerIdentity (r_getenv r)) version store so p)"
    by (rule acted_planE [OF assms(1,2)])
  obtain vcfg where v: "cp_UpdateVersionConfig p = Some vcfg" "may_route (twd_Spec ?w) (twd_Status ?w)"
    "right_config (spec_RolloutStrategy (twd_Spec ?w)) (twd_Status ?w) vcfg"
    "cp_WorkerDeploymentName p = ComputeWorkerDeploymentName ?w"
    by (rule generatePlan_routes [OF g planned_routing [OF c assms(3)]])
  have spec: "spec_RolloutStrategy (Spec_Default s) = spec_RolloutStrategy s" for s
    by (simp add: Spec_Default_def Let_def)
  show ?thesis
    using v(2) planned_well_routed [OF c v(1,3)] v(4) by (simp add: may_route_def spec ComputeWorkerDeploymentName_def)
qed

text \<open>
  Removing a ramp is planned with the empty build ID, and the execution then records the controller as the author of the
  version with that empty build ID.
\<close>

theorem ramp_removal_writes_empty_version:
  assumes "getVersionConfigDiff now status (Some ts) config = Inr (Some vcfg)"
    and "map_option v_BuildID (st_CurrentVersion status) = Some (v_BuildID (st_TargetVersion status))"
    and "cp_UpdateVersionConfig p = Some vcfg"
  shows "UpsertVersionMetadata (cp_WorkerDeploymentName p) []
           [(controllerIdentityMetadataKey, identity), (controllerVersionMetadataKey, version)]
         \<in> set (planned_calls identity version store so p)"
proof -
  have "vc_BuildID vcfg = []"
    using assms(1,2) by (auto simp: getVersionConfigDiff_def Let_def bindE_eq_Inr split: if_splits)
  with assms(3) show ?thesis by (simp add: planned_calls_def)
qed

section \<open>An outage of Temporal\<close>

text \<open>A version the server says is drained, and that it then fails to describe.\<close>

lemma version_info_outage:
  assumes "rc_CurrentVersion rc \<noteq> Some (vs_Version s)" and "rc_RampingVersion rc \<noteq> Some (vs_Version s)"
    and "vs_DrainageStatus s = DrainageDrained"
    and "\<And>w. fst (cl_DescribeVersion client n (wdv_BuildId (vs_Version s)) w) = Inl e" and "err_kind e \<noteq> ErrNotFound"
  shows "io_gives (version_info client n deps rc target strategy s) (\<lambda>vi. vi = zero_VersionInfo (vs_Version s) VersionStatusDrained)"
  using drained_version_outage [OF assms(4,5)] assms(1-3)
  by (simp add: version_info_def io_gives_def)

lemma read_versions_outage:
  assumes one: "\<And>s'. s' \<in> set ss \<Longrightarrow> wdv_BuildId (vs_Version s') = b \<Longrightarrow>
        io_gives (version_info client n deps rc target strategy s') (\<lambda>vi. vi = z)"
    and "b \<in> (\<lambda>s. wdv_BuildId (vs_Version s)) ` set ss \<or> map_get (ts_Versions st) b = Some z"
  shows "io_gives (read_versions client n deps rc target strategy ss st) (\<lambda>st'. map_get (ts_Versions st') b = Some z)"
  using assms
proof (induction ss arbitrary: st)
  case Nil
  then show ?case by (simp add: read_versions_def io_gives_return)
next
  case (Cons s ss)
  let ?b = "wdv_BuildId (vs_Version s)"
  let ?step = "io_bind (version_info client n deps rc target strategy s)
       (\<lambda>vi. io_return (st\<lparr>ts_Versions := map_put ?b vi (ts_Versions st)\<rparr>))"
  let ?Q = "\<lambda>st'. b \<in> (\<lambda>s. wdv_BuildId (vs_Version s)) ` set ss \<or> map_get (ts_Versions st') b = Some z"
  have "io_gives ?step ?Q"
  proof (cases "?b = b")
    case True
    have "io_gives (version_info client n deps rc target strategy s) (\<lambda>vi. vi = z)" using Cons.prems(1) True by simp
    then show ?thesis by (rule io_gives_bind) (simp add: io_gives_return True)
  next
    case False
    have "io_ok (version_info client n deps rc target strategy s)"
      by (rule io_gives_mono [OF version_info_gives]) simp
    then show ?thesis by (rule io_gives_bind) (use Cons.prems(2) False in \<open>auto intro: io_gives_return\<close>)
  qed
  moreover have "io_gives (read_versions client n deps rc target strategy ss st1) (\<lambda>st'. map_get (ts_Versions st') b = Some z)"
    if "?Q st1" for st1
    by (rule Cons.IH) (use Cons.prems(1) that in auto)
  ultimately have "io_gives (io_bind ?step (read_versions client n deps rc target strategy ss))
      (\<lambda>st'. map_get (ts_Versions st') b = Some z)" by (rule io_gives_bind)
  then show ?case by (simp add: read_versions_def)
qed

text \<open>Such a version in the mapped status makes the planner panic.\<close>

lemma GeneratePlan_nil_drain:
  assumes "map_get (ts_Versions ts) b = Some vi" and "vi_Status vi = VersionStatusDrained" and "vi_DrainedSince vi = None"
    and "GetDeploymentState tp (Inr items) = Inr ks" and "b \<in> dom (map_get (ks_Deployments ks))" and "b \<in> set order"
    and "b \<noteq> []" and "b \<noteq> target" and "b \<noteq> ts_CurrentBuildID ts"
  shows "GeneratePlan tp now ks (mapToStatus order (newStateMapper ks ts n) target) spec (Some ts) connection config name limit
           input secret = Inl NilPointer"
proof -
  let ?m = "newStateMapper ks ts n" and ?s = "mapToStatus order (newStateMapper ks ts n) target"
  obtain d ref where d: "map_get (ks_Deployments ks) b = Some d" "map_get (ks_DeploymentRefs ks) b = Some ref"
    using assms(5) GetDeploymentState_wf [OF assms(4)] unfolding deployments_wf_def by blast
  obtain v where v: "mapDeprecatedWorkerDeploymentVersionByBuildID ?m b = Some v"
    using mapDeprecated_Some [OF assms(7)] by blast
  have "b \<in> set (deprecated_ids ?m target order)"
    using assms(6-9) by (simp add: deprecated_ids_def newStateMapper_def)
  then have "v \<in> set (st_DeprecatedVersions ?s)" using v by (force simp: deprecated_versions_eq)
  moreover have "v_BuildID v = b \<and> v_Status v = VersionStatusDrained \<and> v_DrainedSince v = None \<and> v_Deployment v = Some ref"
    using v d assms(1-3,7) by (auto simp: mapDeprecatedWorkerDeploymentVersionByBuildID_def newStateMapper_def Let_def)
  ultimately have "getDeleteDeployments now ks ?s spec found = Inl NilPointer" for found
    using d(1) by (intro getDeleteDeployments_nil) force
  then show ?thesis by (simp add: GeneratePlan_def Let_def)
qed

section \<open>The steady state\<close>

text \<open>
  The target is current, nothing ramps, no other version is left, and its Deployment is as
  desired: present, with the desired replicas, and with the present hashes.
\<close>

definition steady ::
  "third_party \<Rightarrow> DeploymentState \<Rightarrow> TemporalWorkerDeploymentStatus \<Rightarrow> TemporalWorkerDeploymentSpec \<Rightarrow> TemporalWorkerState
   \<Rightarrow> TemporalConnectionSpec \<Rightarrow> bool" where
  "steady tp ks status spec ts connection \<longleftrightarrow>
     (let t = st_TargetVersion status
      in map_option v_BuildID (st_CurrentVersion status) = Some (v_BuildID t)
       \<and> st_DeprecatedVersions status = [] \<and> v_Deployment t \<noteq> None \<and> ts_RampingBuildID ts = []
       \<and> spec_Replicas spec \<noteq> None
       \<and> (\<forall>d. map_get (ks_Deployments ks) (v_BuildID t) = Some d \<longrightarrow> d_Replicas d = spec_Replicas spec)
       \<and> pod_fresh tp spec (ks_Deployments ks) (v_BuildID t) \<and> conn_fresh connection (ks_Deployments ks) (v_BuildID t))"

definition empty_plan :: Plan where
  "empty_plan =
     \<lparr>plan_DeleteDeployments = [], plan_ScaleDeployments = [], plan_UpdateDeployments = [],
      plan_ShouldCreateDeployment = False, plan_VersionConfig = None, plan_TestWorkflows = [],
      plan_RemoveIgnoreLastModifierBuilds = []\<rparr>"

lemma GeneratePlan_empty:
  assumes "steady tp ks status spec ts connection"
  shows "GeneratePlan tp now ks status spec (Some ts) connection config name limit input secret
           = Inr (empty_plan, ks_Deployments ks)"
proof -
  let ?t = "st_TargetVersion status"
  obtain c where c: "st_CurrentVersion status = Some c" "v_BuildID c = v_BuildID ?t"
    using assms by (auto simp: steady_def Let_def)
  obtain n where n: "spec_Replicas spec = Some n" using assms by (auto simp: steady_def Let_def)
  have dep: "st_DeprecatedVersions status = []" using assms by (simp add: steady_def Let_def)
  have 1: "getDeleteDeployments now ks status spec found = Inr []" for found
    by (simp add: getDeleteDeployments_def dep)
  have 2: "getScaleDeployments now ks status spec = Inr []"
    using assms c n dep
    by (auto simp: getScaleDeployments_def scale_current_def scale_target_def steady_def Let_def split: option.splits)
  have 3: "getUpdateDeployments tp (ks_Deployments ks) status spec connection = Inr (ks_Deployments ks, [])"
    by (rule getUpdateDeployments_fresh) (use assms c dep in \<open>auto simp: steady_def Let_def watched_def\<close>)
  have 4: "getVersionConfigDiff now status (Some ts) config = Inr None"
    using assms c by (auto simp: getVersionConfigDiff_def steady_def Let_def)
  have 5: "getTestWorkflows status config name input secret = []"
    using c by (auto simp: getTestWorkflows_def split: option.split)
  have 6: "\<not> shouldCreateDeployment status limit"
    using assms by (auto simp: shouldCreateDeployment_def steady_def Let_def)
  show ?thesis
    by (simp add: GeneratePlan_def Let_def 1 2 3 4 5 6 empty_plan_def remove_ignore_builds_def)
qed

text \<open>An empty plan has no calls.\<close>

lemma executePlan_empty:
  "executePlan api identity version store [] (convert_plan w empty_plan None) wld = Some (Ok (), wld)"
  by (simp add: executePlan_def convert_plan_def empty_plan_def for_each_def route_versions_def remove_override_def io_run)

end
