(* ===== verification/Sample_Run.thy ===== *)
theory Sample_Run
  imports Composition
begin

text \<open>
  One run of the loop that routes traffic, evaluated step by step: the server has version \<open>v1\<close> as current, the Deployment of the
  target \<open>v2\<close> is up to date and available, the strategy is AllAtOnce and there is no gate. The run makes \<open>v2\<close> current. It is the concrete
  input of the witness for what holds of routing calls; it models no code.
\<close>

definition routing_twd :: TemporalWorkerDeployment where
  "routing_twd = sample_twd\<lparr>twd_Spec := sample_spec\<lparr>
     spec_RolloutStrategy := sample_rollout\<lparr>rs_Strategy := UpdateAllAtOnce\<rparr>,
     spec_WorkerOptions := (spec_WorkerOptions sample_spec)\<lparr>wo_UnsafeCustomBuildID := ''v2''\<rparr>\<rparr>\<rparr>"

abbreviation routing_connection :: TemporalConnectionSpec where
  "routing_connection \<equiv> sample_connection\<lparr>tc_MutualTLSSecretRef := None\<rparr>"

definition routing_deployment :: Deployment where
  "routing_deployment =
     (NewDeploymentWithOwnerRef sample_third_party (twd_TypeMeta sample_twd) sample_meta (twd_Spec routing_twd) ''ns/foo'' ''v2'' routing_connection)
       \<lparr>d_Status := \<lparr>dst_Replicas = 3, dst_Conditions = [\<lparr>dc_Type = ''Available'', dc_Status = ''True'', dc_LastTransitionTime = 0\<rparr>]\<rparr>\<rparr>"

definition routing_response :: WorkerDeploymentDescribeResponse where
  "routing_response = sample_response\<lparr>dd_VersionSummaries :=
     [\<lparr>vs_Version = sample_version ''v1'', vs_DrainageStatus = DrainageUnspecified\<rparr>,
      \<lparr>vs_Version = sample_version ''v2'', vs_DrainageStatus = DrainageUnspecified\<rparr>]\<rparr>"

definition routing_reconciler :: "string reconciler" where
  "routing_reconciler = sample_reconciler
     \<lparr>r_GetTWD := \<lambda>_ _. (Inr routing_twd, 1), r_ListDeployments := \<lambda>_ _. (Inr [routing_deployment], 1),
      r_temporal := \<lambda>_. sample_client\<lparr>cl_Describe := \<lambda>_ _. (Inr routing_response, 1)\<rparr>\<rparr>"

lemma routing_default: "Spec_Default (twd_Spec routing_twd) = twd_Spec routing_twd"
  by (simp add: routing_twd_def sample_spec_def Spec_Default_def Let_def)

lemma routing_build_id: "ComputeBuildID sample_third_party (routing_twd\<lparr>twd_Status := s\<rparr>) = ''v2''"
  by code_simp

lemma routing_facts:
  "deployment_build_id routing_deployment = Some ''v2''" "d_Replicas routing_deployment = Some 3"
  "healthy_since routing_deployment = Some 0"
  "annotation routing_deployment ConnectionSpecHashAnnotation = ComputeConnectionSpecHash routing_connection"
  "annotation routing_deployment PodTemplateSpecHashAnnotation
     = ComputePodTemplateSpecHash sample_third_party (spec_Template (twd_Spec routing_twd))"
  using NewDeployment_annotations
  by (simp_all add: routing_deployment_def deployment_build_id_def NewDeploymentWithOwnerRef_def Let_def selector_labels_get TruncateString_id
    routing_twd_def sample_spec_def healthy_since_def IsDeploymentHealthy_def annotation_def pod_annotations_def)

definition routing_ks :: DeploymentState where
  "routing_ks = \<lparr>ks_Deployments = [(''v2'', routing_deployment)], ks_DeploymentsByTime = [routing_deployment],
     ks_DeploymentRefs = [(''v2'', (0, NewObjectRef sample_third_party routing_deployment))]\<rparr>"

lemma routing_read: "GetDeploymentState sample_third_party (Inr [routing_deployment]) = Inr routing_ks"
  by (simp add: GetDeploymentState_def track_deployment_def routing_facts empty_DeploymentState_def routing_ks_def map_error_def)

lemma routing_inputs:
  "fetch_inputs routing_reconciler sample_request sample_world
     = Some (Ok (Inr (routing_twd, \<lparr>tconn_ObjectMeta = sample_meta\<lparr>om_Name := ''conn''\<rparr>, tconn_Spec = routing_connection\<rparr>, AuthModeNoCredentials, [])),
         \<lparr>w_now = 2, w_calls = []\<rparr>)"
proof -
  have "ValidateCreate (ObjTWD routing_twd) = Inr ()"
    by (simp add: ValidateCreate_def TWD_validateForUpdateOrCreate_def validateForUpdateOrCreate_def validateRolloutStrategy_def
      validateGate_def routing_twd_def sample_defs maxTemporalWorkerDeploymentNameLen_def Let_def)
  then show ?thesis
    by (simp add: fetch_inputs_def io_bind_def io_read_def io_run routing_reconciler_def sample_reconciler_def TWD_Default_def
      routing_default resolveAuthSecretName_def sample_connection_def)
qed

lemma routing_client:
  "\<exists>pool. obtain_client routing_reconciler wld routing_twd \<lparr>tconn_ObjectMeta = sample_meta\<lparr>om_Name := ''conn''\<rparr>, tconn_Spec = routing_connection\<rparr>
     AuthModeNoCredentials [] New = (Ok ''host:7233'', pool)"
  by (simp add: obtain_client_def get_or_upsert_def GetSDKClient_def New_def UpsertClient_def fetchClientUsingNoCredentials_def
    routing_reconciler_def sample_reconciler_def sample_env_def client_options_def sample_connection_def client_key_def Let_def)

definition routing_state_at :: "TemporalWorkerState" where
  "routing_state_at = (routing_state routing_response False)
     \<lparr>ts_Versions := [(''v1'', zero_VersionInfo (sample_version ''v1'') VersionStatusCurrent),
                      (''v2'', zero_VersionInfo (sample_version ''v2'') VersionStatusInactive)]\<rparr>"

definition routing_status :: TemporalWorkerDeploymentStatus where
  "routing_status = mapToStatus [''v2''] (newStateMapper routing_ks routing_state_at ''ns/foo'') ''v2''"

lemma routing_temporal:
  "GetWorkerDeploymentState (r_temporal routing_reconciler c) ''ns/foo'' deps ''v2'' UpdateAllAtOnce ident w
     = Some (Ok routing_state_at, w\<lparr>w_now := w_now w + 1\<rparr>)"
  by (simp add: GetWorkerDeploymentState_def io_bind_def io_read_def io_run routing_reconciler_def sample_client_def routing_response_def
    sample_response_def sample_routing_def read_versions_def version_info_def inactive_version_def sample_version_def
    routing_state_def routing_state_at_def Let_def)

lemma routing_names: "ComputeWorkerDeploymentName routing_twd = ''ns/foo''" "rs_Strategy (spec_RolloutStrategy (twd_Spec routing_twd)) = UpdateAllAtOnce"
  "ComputeBuildID sample_third_party routing_twd = ''v2''" "rs_Gate (spec_RolloutStrategy (twd_Spec routing_twd)) = None"
  "ts_IgnoreLastModifier routing_state_at = False"
  by code_simp+

lemma routing_read_state:
  "read_deployment_state routing_reconciler owner w = Some (Ok routing_ks, w\<lparr>w_now := w_now w + 1\<rparr>)"
  by (simp add: read_deployment_state_def io_bind_def io_read_def io_run routing_reconciler_def sample_reconciler_def routing_read
    map_error_def io_lift_def)

lemma routing_observed:
  "\<exists>t. observe routing_reconciler c sample_request routing_twd w = Some (Ok (routing_status, routing_state_at), w\<lparr>w_now := t\<rparr>)"
proof -
  have tp: "r_third_party routing_reconciler = sample_third_party" by (simp add: routing_reconciler_def sample_reconciler_def)
  have order: "r_versions_order routing_reconciler routing_ks = [''v2'']"
    by (simp add: routing_reconciler_def sample_reconciler_def routing_ks_def)
  have gen: "\<exists>t. generateStatus sample_third_party (r_temporal routing_reconciler c) [''v2''] routing_twd routing_state_at routing_ks w
      = Some (Ok (routing_status, routing_state_at), w\<lparr>w_now := t\<rparr>)" for w
    by (intro exI [of _ "w_now w + 1"]) (simp add: generateStatus_def routing_names GetTestWorkflowStatus_def io_bind_def io_read_def io_run routing_state_at_def
      routing_state_def routing_response_def sample_response_def sample_routing_def sample_version_def zero_VersionInfo_def
      routing_reconciler_def sample_client_def append_test_workflows_def new_error_def routing_status_def Let_def)
  obtain t where "generateStatus sample_third_party (r_temporal routing_reconciler c) [''v2''] routing_twd routing_state_at routing_ks
      (w\<lparr>w_now := 2 + w_now w\<rparr>) = Some (Ok (routing_status, routing_state_at), w\<lparr>w_now := t\<rparr>)"
    using gen [of "w\<lparr>w_now := 2 + w_now w\<rparr>"] by auto
  then show ?thesis
    by (intro exI [of _ t]) (simp add: observe_def io_bind_def routing_read_state tp routing_names routing_temporal order io_wrap_def)
qed

lemma routing_target:
  "v_HealthySince (st_TargetVersion routing_status) = Some 0" "v_Status (st_TargetVersion routing_status) = VersionStatusInactive"
  "v_BuildID (st_TargetVersion routing_status) = ''v2''" "map_option v_BuildID (st_CurrentVersion routing_status) = Some ''v1''"
  "st_DeprecatedVersions routing_status = []" "map_option v_Deployment (st_CurrentVersion routing_status) = Some None"
  "\<exists>r. v_Deployment (st_TargetVersion routing_status) = Some r" "st_LastModifierIdentity routing_status = []"
  "st_VersionConflictToken routing_status = ''tok''"
  by (simp_all add: routing_status_def mapToStatus_def newStateMapper_def mapTargetWorkerDeploymentVersionByBuildID_def
    mapCurrentWorkerDeploymentVersionByBuildID_def add_deprecated_def routing_ks_def routing_state_at_def routing_state_def
    routing_response_def sample_response_def sample_routing_def sample_version_def zero_VersionInfo_def routing_facts Let_def)

lemma routing_plan:
  "\<exists>q. GeneratePlan sample_third_party now routing_ks routing_status (twd_Spec routing_twd) (Some routing_state_at) routing_connection
       \<lparr>cfg_RolloutStrategy = spec_RolloutStrategy (twd_Spec routing_twd)\<rparr> name limit input secret = Inr (q, ks_Deployments routing_ks)
     \<and> plan_VersionConfig q = Some \<lparr>vc_ConflictToken = ''tok'', vc_BuildID = ''v2'', vc_SetCurrent = True, vc_RampPercentage = 0\<rparr>
     \<and> plan_DeleteDeployments q = [] \<and> plan_UpdateDeployments q = [] \<and> plan_ScaleDeployments q = []
     \<and> \<not> plan_ShouldCreateDeployment q \<and> plan_TestWorkflows q = [] \<and> plan_RemoveIgnoreLastModifierBuilds q = []"
proof -
  obtain c where c: "st_CurrentVersion routing_status = Some c" "v_BuildID c = ''v1''" "v_Deployment c = None"
    using routing_target(4,6) by auto
  obtain ref where ref: "v_Deployment (st_TargetVersion routing_status) = Some ref" using routing_target(7) by blast
  have del: "getDeleteDeployments now routing_ks routing_status (twd_Spec routing_twd) found = Inr []" for found
    by (simp add: getDeleteDeployments_def routing_target)
  have scale: "getScaleDeployments now routing_ks routing_status (twd_Spec routing_twd) = Inr []"
    by (simp add: getScaleDeployments_def scale_current_def scale_target_def c ref routing_target routing_ks_def routing_facts
      routing_twd_def sample_spec_def Let_def)
  have upd: "getUpdateDeployments sample_third_party (ks_Deployments routing_ks) routing_status (twd_Spec routing_twd) routing_connection
      = Inr (ks_Deployments routing_ks, [])"
    by (rule getUpdateDeployments_fresh)
       (auto simp: pod_fresh_def conn_fresh_def watched_def routing_target c routing_ks_def routing_facts)
  have vcfg: "getVersionConfigDiff now routing_status (Some routing_state_at) \<lparr>cfg_RolloutStrategy = spec_RolloutStrategy (twd_Spec routing_twd)\<rparr>
      = Inr (Some \<lparr>vc_ConflictToken = ''tok'', vc_BuildID = ''v2'', vc_SetCurrent = True, vc_RampPercentage = 0\<rparr>)"
    by (simp add: getVersionConfigDiff_def routing_target c routing_names gate_passed_def routing_twd_def sample_spec_def sample_rollout_def Let_def)
  show ?thesis
    by (simp add: GeneratePlan_def del scale upd vcfg shouldCreateDeployment_def ref remove_ignore_builds_def routing_names
      getTestWorkflows_def Let_def)
qed

lemma routing_acted:
  "\<exists>out w'. act routing_reconciler c (routing_twd\<lparr>twd_Status := routing_status\<rparr>) routing_connection routing_state_at w = Some (out, w')
     \<and> (SetCurrentVersion ''ns/foo'' ''v2'' ''tok'' ''temporal-worker-controller'', None) \<in> set (w_calls w')"
proof -
  let ?w = "routing_twd\<lparr>twd_Status := routing_status\<rparr>"
  have eff: "effective_strategy ident ?w routing_state_at = spec_RolloutStrategy (twd_Spec routing_twd)" for ident
    by (simp add: effective_strategy_def foreign_modifier_def routing_target)
  have default: "TWD_Default (ObjTWD ?w) = Inr ?w"
    using routing_default by (simp add: TWD_Default_def)
  have fields: "r_third_party routing_reconciler = sample_third_party" "r_getenv routing_reconciler = (\<lambda>_. [])"
    "r_scale_order routing_reconciler = (\<lambda>m. m)" "r_api routing_reconciler = (\<lambda>_. sample_api)"
    by (simp_all add: routing_reconciler_def sample_reconciler_def)
  have name: "ComputeWorkerDeploymentName ?w = ''ns/foo''" using routing_names(1) by (simp add: ComputeWorkerDeploymentName_def)
  obtain q where q: "GeneratePlan sample_third_party (w_now w + 1) routing_ks routing_status (twd_Spec routing_twd) (Some routing_state_at) routing_connection
       \<lparr>cfg_RolloutStrategy = spec_RolloutStrategy (twd_Spec routing_twd)\<rparr> ''ns/foo''
       (r_MaxDeploymentVersionsIneligibleForDeletion routing_reconciler) [] False = Inr (q, ks_Deployments routing_ks)"
     "plan_VersionConfig q = Some \<lparr>vc_ConflictToken = ''tok'', vc_BuildID = ''v2'', vc_SetCurrent = True, vc_RampPercentage = 0\<rparr>"
     "plan_DeleteDeployments q = []" "plan_UpdateDeployments q = []" "plan_ScaleDeployments q = []"
     "\<not> plan_ShouldCreateDeployment q" "plan_TestWorkflows q = []" "plan_RemoveIgnoreLastModifierBuilds q = []"
    using routing_plan by metis
  have plan: "generatePlan routing_reconciler ?w routing_connection routing_state_at w
      = Some (Ok (convert_plan ?w q None, ks_Deployments routing_ks), w\<lparr>w_now := w_now w + 1\<rparr>)"
    by (simp add: generatePlan_def io_bind_def routing_read_state eff name routing_names gate_input_def io_run io_now_def fields q Let_def)
  show ?thesis
    by (simp add: act_def default io_bind_def plan executePlan_def convert_plan_def name q for_each_def route_versions_def
      remove_override_def do_call_def io_write_def io_run fields sample_api_def version_config_call_def getControllerIdentity_def
      defaults_ControllerIdentity_def)
qed

lemma routing_run:
  "\<exists>out w'. Reconcile routing_reconciler sample_request New sample_world = Some (out, w')
     \<and> (SetCurrentVersion ''ns/foo'' ''v2'' ''tok'' ''temporal-worker-controller'', None) \<in> set (w_calls w')"
proof -
  obtain t where o: "observe routing_reconciler ''host:7233'' sample_request routing_twd \<lparr>w_now = 2, w_calls = []\<rparr>
      = Some (Ok (routing_status, routing_state_at), \<lparr>w_now = t, w_calls = []\<rparr>)"
    using routing_observed [of "''host:7233''" "\<lparr>w_now = 2, w_calls = []\<rparr>"] by auto
  have upd: "r_UpdateStatus routing_reconciler = (\<lambda>twd _. (Inr twd, 1))" by (simp add: routing_reconciler_def sample_reconciler_def)
  obtain pool where "obtain_client routing_reconciler \<lparr>w_now = 2, w_calls = []\<rparr> routing_twd
      \<lparr>tconn_ObjectMeta = sample_meta\<lparr>om_Name := ''conn''\<rparr>, tconn_Spec = routing_connection\<rparr> AuthModeNoCredentials [] New = (Ok ''host:7233'', pool)"
    using routing_client by blast
  moreover obtain out w' where "act routing_reconciler ''host:7233'' (routing_twd\<lparr>twd_Status := routing_status\<rparr>) routing_connection routing_state_at
       \<lparr>w_now = t + 1, w_calls = [(UpdateStatus (routing_twd\<lparr>twd_Status := routing_status\<rparr>), None)]\<rparr> = Some (out, w')"
     "(SetCurrentVersion ''ns/foo'' ''v2'' ''tok'' ''temporal-worker-controller'', None) \<in> set (w_calls w')"
    using routing_acted by blast
  ultimately show ?thesis
    by (cases out) (simp_all add: Reconcile_def io_bind_def io_try_def routing_inputs reconcile_with_def o upd io_write_def io_run Let_def)
qed

end
