(* ===== verification/Go_Heap.thy ===== *)
theory Go_Heap
  imports Prelude
begin

text \<open>
  Go's memory, as far as copies and aliasing need it: allocated objects at addresses, slices as
  windows of arrays, computations that allocate, load and store, and what it means to be a deep
  copy. A heap is the list of the objects allocated so far (the garbage collector is not visible to a
  program), an address is an index into it, \<open>'c\<close> is the type of the objects.

  A computation is a function on heaps; \<open>None\<close> is no behaviour of Go but a type error: an address
  without an object, or with one of another type. What a value means is given by its view, which reads, from the value
  and the heap it points into, the value without pointers together with the addresses that were
  followed, those the value owns and those it shares with its copies. The contract of a copy is the
  locale \<open>deep_copyable\<close>, with a rule for each way Go builds types: plain values, pointers, slices, structs.
\<close>

section \<open>Heaps and computations\<close>

type_synonym addr = nat

type_synonym ('c, 'a) mem = "'c list \<Rightarrow> ('a \<times> 'c list) option"

definition mreturn :: "'a \<Rightarrow> ('c, 'a) mem" where
  "mreturn x h = Some (x, h)"

definition mbind :: "('c, 'a) mem \<Rightarrow> ('a \<Rightarrow> ('c, 'b) mem) \<Rightarrow> ('c, 'b) mem" where
  "mbind m f h = (case m h of None \<Rightarrow> None | Some (x, h') \<Rightarrow> f x h')"

text \<open>\<open>new(T)\<close> with its first assignment; a load through a pointer; a store through a pointer.\<close>

definition alloc :: "'c \<Rightarrow> ('c, addr) mem" where
  "alloc c h = Some (length h, h @ [c])"

definition heap_get :: "('c \<Rightarrow> 'a option) \<Rightarrow> 'c list \<Rightarrow> addr \<Rightarrow> 'a option" where
  "heap_get obj h p = (if p < length h then obj (h ! p) else None)"

definition load :: "('c \<Rightarrow> 'a option) \<Rightarrow> addr \<Rightarrow> ('c, 'a) mem" where
  "load obj p h = map_option (\<lambda>x. (x, h)) (heap_get obj h p)"

definition store :: "addr \<Rightarrow> 'c \<Rightarrow> ('c, unit) mem" where
  "store p c h = (if p < length h then Some ((), h[p := c]) else None)"

text \<open>A slice: the array it is a window of, where the window starts and how long it is.\<close>

record slice =
  sl_array :: addr
  sl_start :: nat
  sl_len :: nat

definition slice_get :: "('c \<Rightarrow> 'a list option) \<Rightarrow> 'c list \<Rightarrow> slice \<Rightarrow> 'a list option" where
  "slice_get obj h s =
     (case heap_get obj h (sl_array s) of
        None \<Rightarrow> None
      | Some xs \<Rightarrow> if sl_start s + sl_len s \<le> length xs then Some (take (sl_len s) (drop (sl_start s) xs)) else None)"

definition load_slice :: "('c \<Rightarrow> 'a list option) \<Rightarrow> slice \<Rightarrow> ('c, 'a list) mem" where
  "load_slice obj s h = map_option (\<lambda>xs. (xs, h)) (slice_get obj h s)"

text \<open>The array \<open>make\<close> allocates for a slice of the given elements.\<close>

definition slice_of :: "('a list \<Rightarrow> 'c) \<Rightarrow> 'a list \<Rightarrow> ('c, slice) mem" where
  "slice_of arr xs = mbind (alloc (arr xs)) (\<lambda>p. mreturn \<lparr>sl_array = p, sl_start = 0, sl_len = length xs\<rparr>)"

fun mmap :: "('a \<Rightarrow> ('c, 'b) mem) \<Rightarrow> 'a list \<Rightarrow> ('c, 'b list) mem" where
  "mmap f [] = mreturn []"
| "mmap f (x # xs) = mbind (f x) (\<lambda>y. mbind (mmap f xs) (\<lambda>ys. mreturn (y # ys)))"

lemma mem_simps [simp]:
  "mreturn x h = Some (x, h)"
  "alloc c h = Some (length h, h @ [c])"
  by (simp_all add: mreturn_def alloc_def)

lemma mbind_eq_Some:
  "mbind m f h = Some r \<longleftrightarrow> (\<exists>x h'. m h = Some (x, h') \<and> f x h' = Some r)"
  by (auto simp: mbind_def split: option.splits)

lemma mbind_run: "m h = Some (x, h') \<Longrightarrow> mbind m f h = f x h'"
  by (simp add: mbind_def)

lemma mbind_return [simp]: "mbind (mreturn x) f = f x" "mbind m mreturn = m"
  by (auto simp: mbind_def fun_eq_iff split: option.splits)

lemma mbind_assoc: "mbind (mbind m f) g = mbind m (\<lambda>x. mbind (f x) g)"
  by (auto simp: mbind_def fun_eq_iff split: option.splits)

lemma slice_of_run: "slice_of arr xs h = Some (\<lparr>sl_array = length h, sl_start = 0, sl_len = length xs\<rparr>, h @ [arr xs])"
  by (simp add: slice_of_def mbind_def)

section \<open>The copies Go code makes\<close>

text \<open>
  \<open>if in.F != nil { *out = new(T); (*in).DeepCopyInto(*out) }\<close>, with what DeepCopyInto writes as \<open>into\<close>; the object is
  allocated with the value written into it. Then the same for a slice: \<open>make\<close> and \<open>copy\<close>, or \<open>make\<close> and a loop.
\<close>

definition copy_ptr :: "('c \<Rightarrow> 'v option) \<Rightarrow> ('v \<Rightarrow> 'c) \<Rightarrow> ('v \<Rightarrow> ('c, 'v) mem) \<Rightarrow> addr \<Rightarrow> ('c, addr) mem" where
  "copy_ptr obj cell into p = mbind (load obj p) (\<lambda>v. mbind (into v) (\<lambda>v'. alloc (cell v')))"

definition copy_slice :: "('c \<Rightarrow> 'v list option) \<Rightarrow> ('v list \<Rightarrow> 'c) \<Rightarrow> ('v \<Rightarrow> ('c, 'v) mem) \<Rightarrow> slice \<Rightarrow> ('c, slice) mem" where
  "copy_slice obj arr into s = mbind (load_slice obj s) (\<lambda>vs. mbind (mmap into vs) (slice_of arr))"

definition unless_nil :: "('v \<Rightarrow> ('c, 'v) mem) \<Rightarrow> 'v option \<Rightarrow> ('c, 'v option) mem" where
  "unless_nil copy v = (case v of None \<Rightarrow> mreturn None | Some x \<Rightarrow> mbind (copy x) (\<lambda>y. mreturn (Some y)))"

section \<open>Views\<close>

type_synonym ('c, 'v, 'a) view = "'c list \<Rightarrow> 'v \<Rightarrow> ('a \<times> addr list \<times> addr list) option"

definition view_plain :: "('c, 'v, 'v) view" where
  "view_plain h v = Some (v, [], [])"

definition view_ptr :: "('c \<Rightarrow> 'v option) \<Rightarrow> ('c, 'v, 'a) view \<Rightarrow> ('c, addr, 'a) view" where
  "view_ptr obj rd h p =
     (case heap_get obj h p of
        None \<Rightarrow> None
      | Some v \<Rightarrow> (case rd h v of None \<Rightarrow> None | Some (a, own, sh) \<Rightarrow> Some (a, p # own, sh)))"

definition view_opt :: "('c, 'v, 'a) view \<Rightarrow> ('c, 'v option, 'a option) view" where
  "view_opt rd h v =
     (case v of
        None \<Rightarrow> Some (None, [], [])
      | Some x \<Rightarrow> (case rd h x of None \<Rightarrow> None | Some (a, own, sh) \<Rightarrow> Some (Some a, own, sh)))"

fun view_list :: "('c, 'v, 'a) view \<Rightarrow> ('c, 'v list, 'a list) view" where
  "view_list rd h [] = Some ([], [], [])"
| "view_list rd h (v # vs) =
     (case rd h v of
        None \<Rightarrow> None
      | Some (a, own, sh) \<Rightarrow>
          (case view_list rd h vs of
             None \<Rightarrow> None
           | Some (as, own', sh') \<Rightarrow> Some (a # as, own @ own', sh @ sh')))"

definition view_slice :: "('c \<Rightarrow> 'v list option) \<Rightarrow> ('c, 'v, 'a) view \<Rightarrow> ('c, slice, 'a list) view" where
  "view_slice obj rd h s =
     (case slice_get obj h s of
        None \<Rightarrow> None
      | Some vs \<Rightarrow>
          (case view_list rd h vs of None \<Rightarrow> None | Some (as, own, sh) \<Rightarrow> Some (as, sl_array s # own, sh)))"

definition view_pair :: "('c, 'v, 'a) view \<Rightarrow> ('c, 'w, 'b) view \<Rightarrow> ('c, 'v \<times> 'w, 'a \<times> 'b) view" where
  "view_pair rd rd' h v =
     (case rd h (fst v) of
        None \<Rightarrow> None
      | Some (a, own, sh) \<Rightarrow>
          (case rd' h (snd v) of None \<Rightarrow> None | Some (b, own', sh') \<Rightarrow> Some ((a, b), own @ own', sh @ sh')))"

text \<open>A struct: the part that can hold pointers, seen through a view, completed by the plain fields.\<close>

definition view_struct :: "('r \<Rightarrow> 'v) \<Rightarrow> ('r \<Rightarrow> 'a \<Rightarrow> 'b) \<Rightarrow> ('c, 'v, 'a) view \<Rightarrow> ('c, 'r, 'b) view" where
  "view_struct get mk rd h r = (case rd h (get r) of None \<Rightarrow> None | Some (a, own, sh) \<Rightarrow> Some (mk r a, own, sh))"

text \<open>A struct copied field by field: the pointers are copied together and written back.\<close>

definition copy_pair :: "('v \<Rightarrow> ('c, 'v) mem) \<Rightarrow> ('w \<Rightarrow> ('c, 'w) mem) \<Rightarrow> 'v \<times> 'w \<Rightarrow> ('c, 'v \<times> 'w) mem" where
  "copy_pair copy copy' v = mbind (copy (fst v)) (\<lambda>x. mbind (copy' (snd v)) (\<lambda>y. mreturn (x, y)))"

definition copy_struct :: "('r \<Rightarrow> 'v) \<Rightarrow> ('v \<Rightarrow> 'r \<Rightarrow> 'r) \<Rightarrow> ('v \<Rightarrow> ('c, 'v) mem) \<Rightarrow> 'r \<Rightarrow> ('c, 'r) mem" where
  "copy_struct get put copy r = mbind (copy (get r)) (\<lambda>v. mreturn (put v r))"

text \<open>What a plain assignment leaves shared.\<close>

definition view_shared :: "('c, 'v, 'a) view \<Rightarrow> ('c, 'v, 'a) view" where
  "view_shared rd h v = (case rd h v of None \<Rightarrow> None | Some (a, own, sh) \<Rightarrow> Some (a, [], own @ sh))"

text \<open>A value is well-typed in a heap if its view can be read: every pointer leads to an object of its type.\<close>

definition well_typed :: "('c, 'v, 'a) view \<Rightarrow> 'c list \<Rightarrow> 'v \<Rightarrow> bool" where
  "well_typed rd h v \<longleftrightarrow> rd h v \<noteq> None"

lemma well_typedI: "(case rd h v of None \<Rightarrow> False | Some _ \<Rightarrow> True) \<Longrightarrow> well_typed rd h v"
  by (cases "rd h v") (simp_all add: well_typed_def)

lemmas view_defs = view_plain_def view_ptr_def view_opt_def view_slice_def view_pair_def view_struct_def view_shared_def

section \<open>The contract of a deep copy\<close>

text \<open>
  A view follows only addresses of the heap (\<open>bounded\<close>) and depends on nothing else in it (\<open>frame\<close>). A deep
  copy of a value that can be viewed always succeeds, changes no object that was there, means the same, and all it owns
  is newly allocated; what it shares is what the original shares (\<open>copies\<close>).
\<close>

definition agree_on :: "addr set \<Rightarrow> 'c list \<Rightarrow> 'c list \<Rightarrow> bool" where
  "agree_on A h h2 \<longleftrightarrow> (\<forall>p \<in> A. p < length h2 \<and> h2 ! p = h ! p)"

lemma agree_on_simps [simp]:
  "agree_on {} h h2"
  "agree_on (insert p A) h h2 \<longleftrightarrow> p < length h2 \<and> h2 ! p = h ! p \<and> agree_on A h h2"
  "agree_on (A \<union> B) h h2 \<longleftrightarrow> agree_on A h h2 \<and> agree_on B h h2"
  by (auto simp: agree_on_def)

locale deep_copyable =
  fixes rd :: "('c, 'v, 'a) view" and copy :: "'v \<Rightarrow> ('c, 'v) mem"
  assumes bounded: "rd h v = Some (a, own, sh) \<Longrightarrow> set own \<union> set sh \<subseteq> {..<length h}"
    and frame: "rd h v = Some (a, own, sh) \<Longrightarrow> agree_on (set own \<union> set sh) h h2
                  \<Longrightarrow> rd h2 v = Some (a, own, sh)"
    and copies: "rd h v = Some (a, own, sh) \<Longrightarrow>
                   \<exists>v' new own'. copy v h = Some (v', h @ new) \<and> rd (h @ new) v' = Some (a, own', sh)
                     \<and> set own' \<subseteq> {length h ..< length (h @ new)}"

text \<open>Two heaps that differ at most at the given addresses; the second may have grown.\<close>

definition agree_except :: "addr set \<Rightarrow> 'c list \<Rightarrow> 'c list \<Rightarrow> bool" where
  "agree_except A h h2 \<longleftrightarrow> length h \<le> length h2 \<and> (\<forall>p < length h. p \<notin> A \<longrightarrow> h2 ! p = h ! p)"

lemma agree_exceptD:
  "agree_except A h h2 \<Longrightarrow> p < length h \<Longrightarrow> p \<notin> A \<Longrightarrow> p < length h2 \<and> h2 ! p = h ! p"
  by (simp add: agree_except_def)

context deep_copyable
begin

lemma frame_agree:
  assumes "rd h v = Some (a, own, sh)" and "agree_except A h h2" and "A \<inter> (set own \<union> set sh) = {}"
  shows "rd h2 v = Some (a, own, sh)"
proof (rule frame [OF assms(1)], unfold agree_on_def, rule ballI)
  fix p assume p: "p \<in> set own \<union> set sh"
  then have "p < length h" using bounded [OF assms(1)] by blast
  with assms(2) show "p < length h2 \<and> h2 ! p = h ! p" by (rule agree_exceptD) (use p assms(3) in blast)
qed

lemma frame_append:
  assumes "rd h v = Some (a, own, sh)" shows "rd (h @ new) v = Some (a, own, sh)"
  by (rule frame_agree [OF assms, of "{}"]) (simp_all add: agree_except_def nth_append)

lemma copyE:
  assumes "rd h v = Some (a, own, sh)"
  obtains v' new own' where "copy v h = Some (v', h @ new)" and "rd (h @ new) v' = Some (a, own', sh)"
    and "set own' \<subseteq> {length h ..< length (h @ new)}"
  using copies [OF assms] by blast

lemma copied:
  assumes "rd h v = Some (a, own, sh)" and "copy v h = Some (v', h')"
  shows "\<exists>new own'. h' = h @ new \<and> rd h' v' = Some (a, own', sh) \<and> set own' \<subseteq> {length h ..< length h'}"
  using copies [OF assms(1)] assms(2) by auto

lemma copy_typed:
  assumes "well_typed rd h v"
  shows "\<exists>v' new. copy v h = Some (v', h @ new) \<and> well_typed rd (h @ new) v' \<and> well_typed rd (h @ new) v"
proof -
  obtain a own sh where v: "rd h v = Some (a, own, sh)" using assms by (cases "rd h v") (auto simp: well_typed_def)
  obtain v' new own' where "copy v h = Some (v', h @ new)" "rd (h @ new) v' = Some (a, own', sh)"
    by (rule copyE [OF v])
  with frame_append [OF v, of new] show ?thesis by (auto simp: well_typed_def)
qed

text \<open>Writes to what a copy owns are not seen through the original, nor the other way round.\<close>

lemma original_unaffected:
  assumes "rd h v = Some (a, own, sh)" and "copy v h = Some (v', h')" and "rd h' v' = Some (a', own', sh')"
    and "agree_except (set own') h' h2"
  shows "rd h2 v = Some (a, own, sh)"
proof -
  obtain new where h': "h' = h @ new" and own': "set own' \<subseteq> {length h ..< length h'}"
    using copied [OF assms(1,2)] assms(3) by auto
  have "rd h' v = Some (a, own, sh)" unfolding h' by (rule frame_append [OF assms(1)])
  then show ?thesis
  proof (rule frame_agree [OF _ assms(4)])
    have "set own \<union> set sh \<subseteq> {..<length h}" by (rule bounded [OF assms(1)])
    with own' show "set own' \<inter> (set own \<union> set sh) = {}" by fastforce
  qed
qed

lemma copy_unaffected:
  assumes "rd h v = Some (a, own, sh)" and "copy v h = Some (v', h')"
    and "agree_except (set own - set sh) h' h2"
  shows "\<exists>own'. rd h' v' = Some (a, own', sh) \<and> rd h2 v' = Some (a, own', sh)"
proof -
  obtain own' where c: "rd h' v' = Some (a, own', sh)" "set own' \<subseteq> {length h ..< length h'}"
    using copied [OF assms(1,2)] by blast
  have "set own \<subseteq> {..<length h}" using bounded [OF assms(1)] by simp
  with c(2) have "(set own - set sh) \<inter> (set own' \<union> set sh) = {}" by fastforce
  with frame_agree [OF c(1) assms(3)] c(1) show ?thesis by blast
qed

end

section \<open>One rule for each way Go builds types\<close>

lemma heap_get_cong:
  "heap_get obj h p = Some v \<Longrightarrow> p < length h2 \<and> h2 ! p = h ! p \<Longrightarrow> heap_get obj h2 p = Some v"
  by (auto simp: heap_get_def split: if_splits)

lemma heap_get_bound: "heap_get obj h p = Some v \<Longrightarrow> p < length h"
  by (auto simp: heap_get_def split: if_splits)

lemma heap_get_new [simp]: "heap_get obj (h @ [c]) (length h) = obj c"
  by (simp add: heap_get_def)

lemma deep_copyable_plain: "deep_copyable view_plain mreturn"
  by unfold_locales (auto simp: view_plain_def)

lemma view_ptr_eq_Some:
  "view_ptr obj rd h p = Some (a, own, sh) \<longleftrightarrow>
     (\<exists>v own1. heap_get obj h p = Some v \<and> rd h v = Some (a, own1, sh) \<and> own = p # own1)"
  by (auto simp: view_ptr_def split: option.splits)

lemma deep_copyable_ptr:
  assumes rd: "deep_copyable rd into" and obj: "\<And>v. obj (cell v) = Some v"
  shows "deep_copyable (view_ptr obj rd) (copy_ptr obj cell into)"
proof
  fix h p a own sh assume "view_ptr obj rd h p = Some (a, own, sh)"
  then obtain v own1 where v: "heap_get obj h p = Some v" "rd h v = Some (a, own1, sh)" "own = p # own1"
    unfolding view_ptr_eq_Some by blast
  show "set own \<union> set sh \<subseteq> {..<length h}"
    using v(3) deep_copyable.bounded [OF rd v(2)] heap_get_bound [OF v(1)] by simp
  show "view_ptr obj rd h2 p = Some (a, own, sh)"
    if "agree_on (set own \<union> set sh) h h2" for h2
    unfolding view_ptr_eq_Some using v heap_get_cong [OF v(1)] deep_copyable.frame [OF rd v(2)] that by simp
  obtain v' new own' where c: "into v h = Some (v', h @ new)" "rd (h @ new) v' = Some (a, own', sh)"
    "set own' \<subseteq> {length h ..< length (h @ new)}" by (rule deep_copyable.copyE [OF rd v(2)])
  have "copy_ptr obj cell into p h = Some (length (h @ new), h @ new @ [cell v'])"
    using v(1) c(1) by (simp add: copy_ptr_def load_def mbind_def)
  moreover have "view_ptr obj rd (h @ new @ [cell v']) (length (h @ new)) = Some (a, length (h @ new) # own', sh)"
    using deep_copyable.frame_append [OF rd c(2), of "[cell v']"] heap_get_new [of obj "h @ new" "cell v'"] obj
    unfolding view_ptr_eq_Some by simp
  moreover have "set (length (h @ new) # own') \<subseteq> {length h ..< length (h @ new @ [cell v'])}" using c(3) by auto
  ultimately show "\<exists>v' new own'. copy_ptr obj cell into p h = Some (v', h @ new)
      \<and> view_ptr obj rd (h @ new) v' = Some (a, own', sh) \<and> set own' \<subseteq> {length h ..< length (h @ new)}" by blast
qed

lemma view_opt_simps [simp]:
  "view_opt rd h None = Some (None, [], [])"
  "view_opt rd h (Some x) = Some (a, own, sh) \<longleftrightarrow> (\<exists>b. rd h x = Some (b, own, sh) \<and> a = Some b)"
  by (auto simp: view_opt_def split: option.splits)

lemma unless_nil_simps [simp]:
  "unless_nil copy None = mreturn None"
  "unless_nil copy (Some x) = mbind (copy x) (\<lambda>y. mreturn (Some y))"
  by (simp_all add: unless_nil_def)

lemma deep_copyable_opt:
  assumes rd: "deep_copyable rd copy"
  shows "deep_copyable (view_opt rd) (unless_nil copy)"
proof
  fix h v a own sh assume v: "view_opt rd h v = Some (a, own, sh)"
  show "set own \<union> set sh \<subseteq> {..<length h}"
    using v deep_copyable.bounded [OF rd] by (cases v) (simp, simp, blast)
  show "view_opt rd h2 v = Some (a, own, sh)" if "agree_on (set own \<union> set sh) h h2" for h2
  proof (cases v)
    case None
    then show ?thesis using v by simp
  next
    case (Some x)
    with v obtain b where b: "rd h x = Some (b, own, sh)" "a = Some b" by auto
    then show ?thesis using deep_copyable.frame [OF rd b(1) that] Some by simp
  qed
  show "\<exists>v' new own'. unless_nil copy v h = Some (v', h @ new)
      \<and> view_opt rd (h @ new) v' = Some (a, own', sh) \<and> set own' \<subseteq> {length h ..< length (h @ new)}"
  proof (cases v)
    case None
    then show ?thesis using v by (auto intro!: exI [of _ "[]"])
  next
    case (Some x)
    with v obtain b where b: "rd h x = Some (b, own, sh)" "a = Some b" by auto
    obtain x' new own' where "copy x h = Some (x', h @ new)" "rd (h @ new) x' = Some (b, own', sh)"
      "set own' \<subseteq> {length h ..< length (h @ new)}" by (rule deep_copyable.copyE [OF rd b(1)])
    then show ?thesis using Some b(2) by (intro exI [of _ "Some x'"] exI [of _ new] exI [of _ own']) (simp add: mbind_run)
  qed
qed

lemma view_pair_eq_Some:
  "view_pair rd rd' h v = Some (a, own, sh) \<longleftrightarrow>
     (\<exists>a1 own1 sh1 a2 own2 sh2. rd h (fst v) = Some (a1, own1, sh1) \<and> rd' h (snd v) = Some (a2, own2, sh2)
        \<and> a = (a1, a2) \<and> own = own1 @ own2 \<and> sh = sh1 @ sh2)"
  by (auto simp: view_pair_def split: option.splits)

lemma deep_copyable_pair:
  assumes rd: "deep_copyable rd copy" and rd': "deep_copyable rd' copy'"
  shows "deep_copyable (view_pair rd rd') (copy_pair copy copy')"
proof
  fix h v a own sh assume "view_pair rd rd' h v = Some (a, own, sh)"
  then obtain a1 own1 sh1 a2 own2 sh2 where v: "rd h (fst v) = Some (a1, own1, sh1)" "rd' h (snd v) = Some (a2, own2, sh2)"
    and [simp]: "a = (a1, a2)" "own = own1 @ own2" "sh = sh1 @ sh2"
    unfolding view_pair_eq_Some by blast
  show "set own \<union> set sh \<subseteq> {..<length h}"
    using deep_copyable.bounded [OF rd v(1)] deep_copyable.bounded [OF rd' v(2)] by simp
  show "view_pair rd rd' h2 v = Some (a, own, sh)"
    if "agree_on (set own \<union> set sh) h h2" for h2
    unfolding view_pair_eq_Some using deep_copyable.frame [OF rd v(1)] deep_copyable.frame [OF rd' v(2)] that by simp
  obtain x new1 own1' where x: "copy (fst v) h = Some (x, h @ new1)" "rd (h @ new1) x = Some (a1, own1', sh1)"
    "set own1' \<subseteq> {length h ..< length (h @ new1)}" by (rule deep_copyable.copyE [OF rd v(1)])
  obtain y new2 own2' where y: "copy' (snd v) (h @ new1) = Some (y, (h @ new1) @ new2)"
    "rd' ((h @ new1) @ new2) y = Some (a2, own2', sh2)" "set own2' \<subseteq> {length (h @ new1) ..< length ((h @ new1) @ new2)}"
    by (rule deep_copyable.copyE [OF rd' deep_copyable.frame_append [OF rd' v(2), of new1]])
  have "copy_pair copy copy' v h = Some ((x, y), h @ new1 @ new2)"
    using x(1) y(1) by (simp add: copy_pair_def mbind_run)
  moreover have "view_pair rd rd' (h @ new1 @ new2) (x, y) = Some (a, own1' @ own2', sh)"
    using deep_copyable.frame_append [OF rd x(2), of new2] y(2) unfolding view_pair_eq_Some by simp
  moreover have "set (own1' @ own2') \<subseteq> {length h ..< length (h @ new1 @ new2)}" using x(3) y(3) by fastforce
  ultimately show "\<exists>v' new own'. copy_pair copy copy' v h = Some (v', h @ new)
      \<and> view_pair rd rd' (h @ new) v' = Some (a, own', sh) \<and> set own' \<subseteq> {length h ..< length (h @ new)}" by blast
qed

lemma view_struct_eq_Some:
  "view_struct get mk rd h r = Some (b, own, sh) \<longleftrightarrow> (\<exists>a. rd h (get r) = Some (a, own, sh) \<and> b = mk r a)"
  by (auto simp: view_struct_def split: option.splits)

lemma deep_copyable_struct:
  assumes rd: "deep_copyable rd copy" and get: "\<And>v r. get (put v r) = v" and mk: "\<And>v r a. mk (put v r) a = mk r a"
  shows "deep_copyable (view_struct get mk rd) (copy_struct get put copy)"
proof
  fix h r b own sh assume "view_struct get mk rd h r = Some (b, own, sh)"
  then obtain a where a: "rd h (get r) = Some (a, own, sh)" and b: "b = mk r a" unfolding view_struct_eq_Some by blast
  show "set own \<union> set sh \<subseteq> {..<length h}" by (rule deep_copyable.bounded [OF rd a])
  show "view_struct get mk rd h2 r = Some (b, own, sh)"
    if "agree_on (set own \<union> set sh) h h2" for h2
    unfolding view_struct_eq_Some using deep_copyable.frame [OF rd a] that b by simp
  obtain v new own' where c: "copy (get r) h = Some (v, h @ new)" "rd (h @ new) v = Some (a, own', sh)"
    "set own' \<subseteq> {length h ..< length (h @ new)}" by (rule deep_copyable.copyE [OF rd a])
  then have "copy_struct get put copy r h = Some (put v r, h @ new)" by (simp add: copy_struct_def mbind_run)
  moreover have "view_struct get mk rd (h @ new) (put v r) = Some (b, own', sh)"
    unfolding view_struct_eq_Some using c(2) b by (simp add: get mk)
  ultimately show "\<exists>r' new own'. copy_struct get put copy r h = Some (r', h @ new)
      \<and> view_struct get mk rd (h @ new) r' = Some (b, own', sh) \<and> set own' \<subseteq> {length h ..< length (h @ new)}"
    using c(3) by blast
qed

lemma view_list_bounded:
  assumes rd: "deep_copyable rd copy"
  shows "view_list rd h vs = Some (a, own, sh) \<Longrightarrow> set own \<union> set sh \<subseteq> {..<length h}"
proof (induction vs arbitrary: a own sh)
  case (Cons v vs)
  then obtain b o1 s1 c o2 s2 where "rd h v = Some (b, o1, s1)" "view_list rd h vs = Some (c, o2, s2)" "own = o1 @ o2" "sh = s1 @ s2"
    by (auto split: option.splits)
  with Cons.IH deep_copyable.bounded [OF rd] show ?case by fastforce
qed simp

lemma view_list_frame:
  assumes rd: "deep_copyable rd copy"
  shows "view_list rd h vs = Some (a, own, sh) \<Longrightarrow> agree_on (set own \<union> set sh) h h2
    \<Longrightarrow> view_list rd h2 vs = Some (a, own, sh)"
proof (induction vs arbitrary: a own sh)
  case (Cons v vs)
  then obtain b o1 s1 c o2 s2 where v: "rd h v = Some (b, o1, s1)" "view_list rd h vs = Some (c, o2, s2)"
    and [simp]: "a = b # c" "own = o1 @ o2" "sh = s1 @ s2"
    by (auto split: option.splits)
  have "rd h2 v = Some (b, o1, s1)" by (rule deep_copyable.frame [OF rd v(1)]) (use Cons.prems(2) in simp)
  moreover have "view_list rd h2 vs = Some (c, o2, s2)" by (rule Cons.IH [OF v(2)]) (use Cons.prems(2) in simp)
  ultimately show ?case by simp
qed simp

lemma view_list_copies:
  assumes rd: "deep_copyable rd copy"
  shows "view_list rd h vs = Some (a, own, sh) \<Longrightarrow>
    \<exists>vs' new own'. mmap copy vs h = Some (vs', h @ new) \<and> view_list rd (h @ new) vs' = Some (a, own', sh)
      \<and> set own' \<subseteq> {length h ..< length (h @ new)} \<and> length vs' = length vs"
proof (induction vs arbitrary: a own sh h)
  case Nil
  then show ?case by auto
next
  case (Cons v vs)
  then obtain b o1 s1 c o2 s2 where v: "rd h v = Some (b, o1, s1)" "view_list rd h vs = Some (c, o2, s2)"
    and [simp]: "a = b # c" "own = o1 @ o2" "sh = s1 @ s2"
    by (auto split: option.splits)
  obtain x new1 o1' where x: "copy v h = Some (x, h @ new1)" "rd (h @ new1) x = Some (b, o1', s1)"
    "set o1' \<subseteq> {length h ..< length (h @ new1)}" by (rule deep_copyable.copyE [OF rd v(1)])
  have "view_list rd (h @ new1) vs = Some (c, o2, s2)"
    by (rule view_list_frame [OF rd v(2)]) (use view_list_bounded [OF rd v(2)] in \<open>force simp: agree_on_def nth_append\<close>)
  from Cons.IH [OF this] obtain ys new2 o2' where y: "mmap copy vs (h @ new1) = Some (ys, (h @ new1) @ new2)"
    "view_list rd ((h @ new1) @ new2) ys = Some (c, o2', s2)" "set o2' \<subseteq> {length (h @ new1) ..< length ((h @ new1) @ new2)}"
    "length ys = length vs" by blast
  have "mmap copy (v # vs) h = Some (x # ys, h @ new1 @ new2)" using x(1) y(1) by (simp add: mbind_run)
  moreover have "view_list rd (h @ new1 @ new2) (x # ys) = Some (a, o1' @ o2', sh)"
    using deep_copyable.frame_append [OF rd x(2), of new2] y(2) by simp
  moreover have "set (o1' @ o2') \<subseteq> {length h ..< length (h @ new1 @ new2)}" using x(3) y(3) by fastforce
  ultimately show ?case using y(4) by (intro exI [of _ "x # ys"] exI [of _ "new1 @ new2"] exI [of _ "o1' @ o2'"]) simp
qed

lemma deep_copyable_list:
  assumes rd: "deep_copyable rd copy"
  shows "deep_copyable (view_list rd) (mmap copy)"
proof
  fix h vs a own sh assume v: "view_list rd h vs = Some (a, own, sh)"
  show "set own \<union> set sh \<subseteq> {..<length h}" by (rule view_list_bounded [OF rd v])
  show "view_list rd h2 vs = Some (a, own, sh)" if "agree_on (set own \<union> set sh) h h2" for h2
    by (rule view_list_frame [OF rd v that])
  show "\<exists>vs' new own'. mmap copy vs h = Some (vs', h @ new)
      \<and> view_list rd (h @ new) vs' = Some (a, own', sh) \<and> set own' \<subseteq> {length h ..< length (h @ new)}"
    using view_list_copies [OF rd v] by blast
qed

lemma view_slice_eq_Some:
  "view_slice obj rd h s = Some (a, own, sh) \<longleftrightarrow>
     (\<exists>vs own1. slice_get obj h s = Some vs \<and> view_list rd h vs = Some (a, own1, sh) \<and> own = sl_array s # own1)"
  by (auto simp: view_slice_def split: option.splits)

lemma slice_get_cong:
  "slice_get obj h s = Some vs \<Longrightarrow> sl_array s < length h2 \<and> h2 ! sl_array s = h ! sl_array s \<Longrightarrow> slice_get obj h2 s = Some vs"
  by (auto simp: slice_get_def heap_get_def split: if_splits)

lemma slice_get_bound: "slice_get obj h s = Some vs \<Longrightarrow> sl_array s < length h"
  by (auto simp: slice_get_def heap_get_def split: if_splits)

lemma slice_get_new:
  "obj c = Some vs \<Longrightarrow> slice_get obj (h @ [c]) \<lparr>sl_array = length h, sl_start = 0, sl_len = length vs\<rparr> = Some vs"
  by (simp add: slice_get_def)

lemma deep_copyable_slice:
  assumes rd: "deep_copyable rd into" and obj: "\<And>vs. obj (arr vs) = Some vs"
  shows "deep_copyable (view_slice obj rd) (copy_slice obj arr into)"
proof
  fix h s a own sh assume "view_slice obj rd h s = Some (a, own, sh)"
  then obtain vs own1 where v: "slice_get obj h s = Some vs" "view_list rd h vs = Some (a, own1, sh)" "own = sl_array s # own1"
    unfolding view_slice_eq_Some by blast
  show "set own \<union> set sh \<subseteq> {..<length h}"
    using v(3) view_list_bounded [OF rd v(2)] slice_get_bound [OF v(1)] by simp
  show "view_slice obj rd h2 s = Some (a, own, sh)" if "agree_on (set own \<union> set sh) h h2" for h2
    unfolding view_slice_eq_Some using v slice_get_cong [OF v(1)] view_list_frame [OF rd v(2)] that by simp
  obtain vs' new own' where c: "mmap into vs h = Some (vs', h @ new)" "view_list rd (h @ new) vs' = Some (a, own', sh)"
    "set own' \<subseteq> {length h ..< length (h @ new)}" using view_list_copies [OF rd v(2)] by blast
  let ?s = "\<lparr>sl_array = length (h @ new), sl_start = 0, sl_len = length vs'\<rparr>"
  have "copy_slice obj arr into s h = Some (?s, h @ new @ [arr vs'])"
    using v(1) c(1) by (simp add: copy_slice_def load_slice_def mbind_run slice_of_run)
  moreover have "view_list rd (h @ new @ [arr vs']) vs' = Some (a, own', sh)"
    using deep_copyable.frame_append [OF deep_copyable_list [OF rd] c(2), of "[arr vs']"] by simp
  then have "view_slice obj rd (h @ new @ [arr vs']) ?s = Some (a, length (h @ new) # own', sh)"
    using slice_get_new [of obj "arr vs'" vs' "h @ new", OF obj] unfolding view_slice_eq_Some by simp
  moreover have "set (length (h @ new) # own') \<subseteq> {length h ..< length (h @ new @ [arr vs'])}" using c(3) by auto
  ultimately show "\<exists>v' new own'. copy_slice obj arr into s h = Some (v', h @ new)
      \<and> view_slice obj rd (h @ new) v' = Some (a, own', sh) \<and> set own' \<subseteq> {length h ..< length (h @ new)}" by blast
qed

lemma view_shared_eq_Some:
  "view_shared rd h v = Some (a, own, sh) \<longleftrightarrow> own = [] \<and> (\<exists>own1 sh1. rd h v = Some (a, own1, sh1) \<and> sh = own1 @ sh1)"
  by (auto simp: view_shared_def split: option.splits)

lemma deep_copyable_shared:
  assumes rd: "deep_copyable rd copy"
  shows "deep_copyable (view_shared rd) mreturn"
proof
  fix h v a own sh assume v0: "view_shared rd h v = Some (a, own, sh)"
  then obtain own1 sh1 where v: "rd h v = Some (a, own1, sh1)" and [simp]: "own = []" "sh = own1 @ sh1"
    unfolding view_shared_eq_Some by blast
  show "set own \<union> set sh \<subseteq> {..<length h}" using deep_copyable.bounded [OF rd v] by simp
  show "view_shared rd h2 v = Some (a, own, sh)" if "agree_on (set own \<union> set sh) h h2" for h2
    unfolding view_shared_eq_Some using deep_copyable.frame [OF rd v] that by simp
  show "\<exists>v' new own'. mreturn v h = Some (v', h @ new)
      \<and> view_shared rd (h @ new) v' = Some (a, own', sh) \<and> set own' \<subseteq> {length h ..< length (h @ new)}"
    using v0 by (intro exI [of _ v] exI [of _ "[]"]) simp
qed

lemmas deep_copyable_rules = deep_copyable_plain deep_copyable_opt deep_copyable_pair deep_copyable_list

text \<open>A view that shares nothing.\<close>

definition owns_all :: "('c, 'v, 'a) view \<Rightarrow> bool" where
  "owns_all rd \<longleftrightarrow> (\<forall>h v a own sh. rd h v = Some (a, own, sh) \<longrightarrow> sh = [])"

lemma owns_allD: "owns_all rd \<Longrightarrow> rd h v = Some (a, own, sh) \<Longrightarrow> sh = []"
  by (simp add: owns_all_def)

lemma owns_all_rules:
  "owns_all view_plain"
  "owns_all rd \<Longrightarrow> owns_all (view_ptr obj rd)"
  "owns_all rd \<Longrightarrow> owns_all (view_opt rd)"
  "owns_all rd \<Longrightarrow> owns_all rd' \<Longrightarrow> owns_all (view_pair rd rd')"
  "owns_all rd \<Longrightarrow> owns_all (view_struct get mk rd)"
  by (auto simp: owns_all_def view_defs split: option.splits) 

text \<open>In a pair, if one side shares nothing, the pair shares what the other side shares.\<close>

lemma view_pair_snd:
  "view_pair rd rd' h v = Some (a, own, sh) \<Longrightarrow> owns_all rd \<Longrightarrow> \<exists>own2. rd' h (snd v) = Some (snd a, own2, sh)"
  by (auto simp: view_pair_eq_Some owns_all_def)

lemma view_pair_fst:
  "view_pair rd rd' h v = Some (a, own, sh) \<Longrightarrow> owns_all rd' \<Longrightarrow> \<exists>own1. rd h (fst v) = Some (fst a, own1, sh)"
  by (auto simp: view_pair_eq_Some owns_all_def)

lemma owns_all_list: "owns_all rd \<Longrightarrow> owns_all (view_list rd)"
  unfolding owns_all_def
proof (intro allI impI)
  fix h vs a own sh
  assume "\<forall>h v a own sh. rd h v = Some (a, own, sh) \<longrightarrow> sh = []" and "view_list rd h vs = Some (a, own, sh)"
  then show "sh = []" by (induction vs arbitrary: a own sh) (auto split: option.splits)
qed

lemma owns_all_slice: "owns_all rd \<Longrightarrow> owns_all (view_slice obj rd)"
  using owns_all_list [of rd] by (auto simp: owns_all_def view_slice_eq_Some)

end
