(* ===== verification/Heap_Types.thy ===== *)
theory Heap_Types
  imports Go_Heap Samples
begin

text \<open>
  The resources of \<^verbatim>\<open>api/v1alpha1\<close> as they lie in Go's memory. Elsewhere they are values (\<open>Api_Types\<close>); here they are
  what Go has: structs whose pointers are addresses and whose slices are windows of arrays. A record \<open>h_T\<close> is the struct \<open>T\<close>
  in memory; \<open>cell\<close> is what can be allocated.

  The structs of other packages (object and list metadata, pod templates, key selectors) are raw memory, their bytes and the
  pointers in them: how they are read and copied, and how a time is copied, is the parameter \<open>k8s_types\<close>.
\<close>

section \<open>Structs in memory\<close>

text \<open>A struct of another package: its bytes and its pointers.\<close>

type_synonym raw = "string \<times> addr list"

record h_JSON =
  hj_Raw :: "slice option"

record h_GateInputSource =
  hi_ConfigMapKeyRef :: "addr option"
  hi_SecretKeyRef :: "addr option"

record h_GateWorkflowConfig =
  hg_WorkflowType :: string
  hg_Input :: "addr option"
  hg_InputFrom :: "addr option"

record h_RolloutStrategy =
  hr_Strategy :: DefaultVersionUpdateStrategy
  hr_Gate :: "addr option"
  hr_Steps :: "slice option"

record h_SunsetStrategy =
  hn_ScaledownDelay :: "addr option"
  hn_DeleteDelay :: "addr option"

record h_TemporalWorkerDeploymentSpec =
  hp_Replicas :: "addr option"
  hp_Template :: raw
  hp_MinReadySeconds :: int32
  hp_ProgressDeadlineSeconds :: "addr option"
  hp_RolloutStrategy :: h_RolloutStrategy
  hp_SunsetStrategy :: h_SunsetStrategy
  hp_WorkerOptions :: WorkerOptions

record h_BaseWorkerDeploymentVersion =
  hb_BuildID :: string
  hb_Status :: VersionStatus
  hb_HealthySince :: "addr option"
  hb_Deployment :: "addr option"
  hb_TaskQueues :: "slice option"
  hb_ManagedBy :: string

record h_CurrentWorkerDeploymentVersion =
  hc_Base :: h_BaseWorkerDeploymentVersion

record h_TargetWorkerDeploymentVersion =
  ht_Base :: h_BaseWorkerDeploymentVersion
  ht_TestWorkflows :: "slice option"
  ht_RampPercentage :: "addr option"
  ht_RampingSince :: "addr option"
  ht_RampLastModifiedAt :: "addr option"

record h_DeprecatedWorkerDeploymentVersion =
  hd_Base :: h_BaseWorkerDeploymentVersion
  hd_DrainedSince :: "addr option"
  hd_EligibleForDeletion :: bool

record h_TemporalWorkerDeploymentStatus =
  hs_TargetVersion :: h_TargetWorkerDeploymentVersion
  hs_CurrentVersion :: "addr option"
  hs_DeprecatedVersions :: "slice option"
  hs_VersionConflictToken :: "slice option"
  hs_LastModifierIdentity :: string
  hs_VersionCount :: int32

record h_TemporalWorkerDeployment =
  hw_TypeMeta :: TypeMeta
  hw_ObjectMeta :: raw
  hw_Spec :: h_TemporalWorkerDeploymentSpec
  hw_Status :: h_TemporalWorkerDeploymentStatus

record h_TemporalWorkerDeploymentList =
  hwl_TypeMeta :: TypeMeta
  hwl_ListMeta :: raw
  hwl_Items :: "slice option"

record h_TemporalConnectionSpec =
  hx_HostPort :: string
  hx_MutualTLSSecretRef :: "addr option"
  hx_APIKeySecretRef :: "addr option"

record h_TemporalConnection =
  hy_TypeMeta :: TypeMeta
  hy_ObjectMeta :: raw
  hy_Spec :: h_TemporalConnectionSpec
  hy_Status :: unit

record h_TemporalConnectionList =
  hyl_TypeMeta :: TypeMeta
  hyl_ListMeta :: raw
  hyl_Items :: "slice option"

text \<open>
  What can be allocated: what the pointers point to, the structs with a \<open>DeepCopy\<close> of their own, and the arrays of the slices.
  \<open>RawCell\<close> is memory only other packages know the type of.
\<close>

datatype plain_object =
    Int32Cell int32 | Float32Cell float32 | TimeCell go_time | DurationCell duration
  | ObjectReferenceCell ObjectReference | SecretReferenceCell SecretReference
  | WorkerOptionsCell WorkerOptions | ConnectionReferenceCell TemporalConnectionReference
  | RolloutStepCell RolloutStep | TaskQueueCell TaskQueue | WorkflowExecutionCell WorkflowExecution
  | EmptyStructCell unit

datatype struct_object =
    SecretKeySelectorCell raw | ConfigMapKeySelectorCell raw | RawCell raw
  | JSONCell h_JSON | GateInputSourceCell h_GateInputSource | GateCell h_GateWorkflowConfig
  | RolloutCell h_RolloutStrategy | SunsetCell h_SunsetStrategy | SpecCell h_TemporalWorkerDeploymentSpec
  | BaseVersionCell h_BaseWorkerDeploymentVersion | CurrentVersionCell h_CurrentWorkerDeploymentVersion
  | TargetVersionCell h_TargetWorkerDeploymentVersion | DeprecatedVersionCell h_DeprecatedWorkerDeploymentVersion
  | StatusCell h_TemporalWorkerDeploymentStatus

datatype resource_object =
    TWDCell h_TemporalWorkerDeployment | TWDListCell h_TemporalWorkerDeploymentList
  | ConnectionSpecCell h_TemporalConnectionSpec | ConnectionCell h_TemporalConnection
  | ConnectionListCell h_TemporalConnectionList

datatype array_object =
    BytesArray string | RolloutSteps "RolloutStep list" | TaskQueues "TaskQueue list" | Workflows "WorkflowExecution list"
  | DeprecatedPtrs "addr option list" | TWDs "h_TemporalWorkerDeployment list" | Connections "h_TemporalConnection list"

datatype cell = Plain plain_object | Struct struct_object | Resource resource_object | Array array_object

text \<open>The object of a given type in a cell: what a pointer of that type may point to.\<close>

definition as_Int32 :: "cell \<Rightarrow> int32 option" where
  "as_Int32 c = (case c of Plain (Int32Cell x) \<Rightarrow> Some x | _ \<Rightarrow> None)"

definition as_Float32 :: "cell \<Rightarrow> float32 option" where
  "as_Float32 c = (case c of Plain (Float32Cell x) \<Rightarrow> Some x | _ \<Rightarrow> None)"

definition as_Time :: "cell \<Rightarrow> go_time option" where
  "as_Time c = (case c of Plain (TimeCell x) \<Rightarrow> Some x | _ \<Rightarrow> None)"

definition as_Duration :: "cell \<Rightarrow> duration option" where
  "as_Duration c = (case c of Plain (DurationCell x) \<Rightarrow> Some x | _ \<Rightarrow> None)"

definition as_ObjectReference :: "cell \<Rightarrow> ObjectReference option" where
  "as_ObjectReference c = (case c of Plain (ObjectReferenceCell x) \<Rightarrow> Some x | _ \<Rightarrow> None)"

definition as_SecretReference :: "cell \<Rightarrow> SecretReference option" where
  "as_SecretReference c = (case c of Plain (SecretReferenceCell x) \<Rightarrow> Some x | _ \<Rightarrow> None)"

definition as_WorkerOptions :: "cell \<Rightarrow> WorkerOptions option" where
  "as_WorkerOptions c = (case c of Plain (WorkerOptionsCell x) \<Rightarrow> Some x | _ \<Rightarrow> None)"

definition as_ConnectionReference :: "cell \<Rightarrow> TemporalConnectionReference option" where
  "as_ConnectionReference c = (case c of Plain (ConnectionReferenceCell x) \<Rightarrow> Some x | _ \<Rightarrow> None)"

definition as_RolloutStep :: "cell \<Rightarrow> RolloutStep option" where
  "as_RolloutStep c = (case c of Plain (RolloutStepCell x) \<Rightarrow> Some x | _ \<Rightarrow> None)"

definition as_TaskQueue :: "cell \<Rightarrow> TaskQueue option" where
  "as_TaskQueue c = (case c of Plain (TaskQueueCell x) \<Rightarrow> Some x | _ \<Rightarrow> None)"

definition as_WorkflowExecution :: "cell \<Rightarrow> WorkflowExecution option" where
  "as_WorkflowExecution c = (case c of Plain (WorkflowExecutionCell x) \<Rightarrow> Some x | _ \<Rightarrow> None)"

definition as_EmptyStruct :: "cell \<Rightarrow> unit option" where
  "as_EmptyStruct c = (case c of Plain (EmptyStructCell x) \<Rightarrow> Some x | _ \<Rightarrow> None)"

definition as_SecretKeySelector :: "cell \<Rightarrow> raw option" where
  "as_SecretKeySelector c = (case c of Struct (SecretKeySelectorCell x) \<Rightarrow> Some x | _ \<Rightarrow> None)"

definition as_ConfigMapKeySelector :: "cell \<Rightarrow> raw option" where
  "as_ConfigMapKeySelector c = (case c of Struct (ConfigMapKeySelectorCell x) \<Rightarrow> Some x | _ \<Rightarrow> None)"

definition as_Raw :: "cell \<Rightarrow> raw option" where
  "as_Raw c = (case c of Struct (RawCell x) \<Rightarrow> Some x | _ \<Rightarrow> None)"

definition as_JSON :: "cell \<Rightarrow> h_JSON option" where
  "as_JSON c = (case c of Struct (JSONCell x) \<Rightarrow> Some x | _ \<Rightarrow> None)"

definition as_GateInputSource :: "cell \<Rightarrow> h_GateInputSource option" where
  "as_GateInputSource c = (case c of Struct (GateInputSourceCell x) \<Rightarrow> Some x | _ \<Rightarrow> None)"

definition as_Gate :: "cell \<Rightarrow> h_GateWorkflowConfig option" where
  "as_Gate c = (case c of Struct (GateCell x) \<Rightarrow> Some x | _ \<Rightarrow> None)"

definition as_Rollout :: "cell \<Rightarrow> h_RolloutStrategy option" where
  "as_Rollout c = (case c of Struct (RolloutCell x) \<Rightarrow> Some x | _ \<Rightarrow> None)"

definition as_Sunset :: "cell \<Rightarrow> h_SunsetStrategy option" where
  "as_Sunset c = (case c of Struct (SunsetCell x) \<Rightarrow> Some x | _ \<Rightarrow> None)"

definition as_Spec :: "cell \<Rightarrow> h_TemporalWorkerDeploymentSpec option" where
  "as_Spec c = (case c of Struct (SpecCell x) \<Rightarrow> Some x | _ \<Rightarrow> None)"

definition as_BaseVersion :: "cell \<Rightarrow> h_BaseWorkerDeploymentVersion option" where
  "as_BaseVersion c = (case c of Struct (BaseVersionCell x) \<Rightarrow> Some x | _ \<Rightarrow> None)"

definition as_CurrentVersion :: "cell \<Rightarrow> h_CurrentWorkerDeploymentVersion option" where
  "as_CurrentVersion c = (case c of Struct (CurrentVersionCell x) \<Rightarrow> Some x | _ \<Rightarrow> None)"

definition as_TargetVersion :: "cell \<Rightarrow> h_TargetWorkerDeploymentVersion option" where
  "as_TargetVersion c = (case c of Struct (TargetVersionCell x) \<Rightarrow> Some x | _ \<Rightarrow> None)"

definition as_DeprecatedVersion :: "cell \<Rightarrow> h_DeprecatedWorkerDeploymentVersion option" where
  "as_DeprecatedVersion c = (case c of Struct (DeprecatedVersionCell x) \<Rightarrow> Some x | _ \<Rightarrow> None)"

definition as_Status :: "cell \<Rightarrow> h_TemporalWorkerDeploymentStatus option" where
  "as_Status c = (case c of Struct (StatusCell x) \<Rightarrow> Some x | _ \<Rightarrow> None)"

definition as_TWD :: "cell \<Rightarrow> h_TemporalWorkerDeployment option" where
  "as_TWD c = (case c of Resource (TWDCell x) \<Rightarrow> Some x | _ \<Rightarrow> None)"

definition as_TWDList :: "cell \<Rightarrow> h_TemporalWorkerDeploymentList option" where
  "as_TWDList c = (case c of Resource (TWDListCell x) \<Rightarrow> Some x | _ \<Rightarrow> None)"

definition as_ConnectionSpec :: "cell \<Rightarrow> h_TemporalConnectionSpec option" where
  "as_ConnectionSpec c = (case c of Resource (ConnectionSpecCell x) \<Rightarrow> Some x | _ \<Rightarrow> None)"

definition as_Connection :: "cell \<Rightarrow> h_TemporalConnection option" where
  "as_Connection c = (case c of Resource (ConnectionCell x) \<Rightarrow> Some x | _ \<Rightarrow> None)"

definition as_ConnectionList :: "cell \<Rightarrow> h_TemporalConnectionList option" where
  "as_ConnectionList c = (case c of Resource (ConnectionListCell x) \<Rightarrow> Some x | _ \<Rightarrow> None)"

definition as_BytesArray :: "cell \<Rightarrow> string option" where
  "as_BytesArray c = (case c of Array (BytesArray x) \<Rightarrow> Some x | _ \<Rightarrow> None)"

definition as_RolloutSteps :: "cell \<Rightarrow> (RolloutStep list) option" where
  "as_RolloutSteps c = (case c of Array (RolloutSteps x) \<Rightarrow> Some x | _ \<Rightarrow> None)"

definition as_TaskQueues :: "cell \<Rightarrow> (TaskQueue list) option" where
  "as_TaskQueues c = (case c of Array (TaskQueues x) \<Rightarrow> Some x | _ \<Rightarrow> None)"

definition as_Workflows :: "cell \<Rightarrow> (WorkflowExecution list) option" where
  "as_Workflows c = (case c of Array (Workflows x) \<Rightarrow> Some x | _ \<Rightarrow> None)"

definition as_DeprecatedPtrs :: "cell \<Rightarrow> (addr option list) option" where
  "as_DeprecatedPtrs c = (case c of Array (DeprecatedPtrs x) \<Rightarrow> Some x | _ \<Rightarrow> None)"

definition as_TWDs :: "cell \<Rightarrow> (h_TemporalWorkerDeployment list) option" where
  "as_TWDs c = (case c of Array (TWDs x) \<Rightarrow> Some x | _ \<Rightarrow> None)"

definition as_Connections :: "cell \<Rightarrow> (h_TemporalConnection list) option" where
  "as_Connections c = (case c of Array (Connections x) \<Rightarrow> Some x | _ \<Rightarrow> None)"

lemma objects [simp]:
  "as_Int32 (Plain (Int32Cell x0)) = Some x0"
  "as_Float32 (Plain (Float32Cell x1)) = Some x1"
  "as_Time (Plain (TimeCell x2)) = Some x2"
  "as_Duration (Plain (DurationCell x3)) = Some x3"
  "as_ObjectReference (Plain (ObjectReferenceCell x4)) = Some x4"
  "as_SecretReference (Plain (SecretReferenceCell x5)) = Some x5"
  "as_WorkerOptions (Plain (WorkerOptionsCell x6)) = Some x6"
  "as_ConnectionReference (Plain (ConnectionReferenceCell x7)) = Some x7"
  "as_RolloutStep (Plain (RolloutStepCell x8)) = Some x8"
  "as_TaskQueue (Plain (TaskQueueCell x9)) = Some x9"
  "as_WorkflowExecution (Plain (WorkflowExecutionCell x10)) = Some x10"
  "as_EmptyStruct (Plain (EmptyStructCell x11)) = Some x11"
  "as_SecretKeySelector (Struct (SecretKeySelectorCell x12)) = Some x12"
  "as_ConfigMapKeySelector (Struct (ConfigMapKeySelectorCell x13)) = Some x13"
  "as_Raw (Struct (RawCell x14)) = Some x14"
  "as_JSON (Struct (JSONCell x15)) = Some x15"
  "as_GateInputSource (Struct (GateInputSourceCell x16)) = Some x16"
  "as_Gate (Struct (GateCell x17)) = Some x17"
  "as_Rollout (Struct (RolloutCell x18)) = Some x18"
  "as_Sunset (Struct (SunsetCell x19)) = Some x19"
  "as_Spec (Struct (SpecCell x20)) = Some x20"
  "as_BaseVersion (Struct (BaseVersionCell x21)) = Some x21"
  "as_CurrentVersion (Struct (CurrentVersionCell x22)) = Some x22"
  "as_TargetVersion (Struct (TargetVersionCell x23)) = Some x23"
  "as_DeprecatedVersion (Struct (DeprecatedVersionCell x24)) = Some x24"
  "as_Status (Struct (StatusCell x25)) = Some x25"
  "as_TWD (Resource (TWDCell x26)) = Some x26"
  "as_TWDList (Resource (TWDListCell x27)) = Some x27"
  "as_ConnectionSpec (Resource (ConnectionSpecCell x28)) = Some x28"
  "as_Connection (Resource (ConnectionCell x29)) = Some x29"
  "as_ConnectionList (Resource (ConnectionListCell x30)) = Some x30"
  "as_BytesArray (Array (BytesArray x31)) = Some x31"
  "as_RolloutSteps (Array (RolloutSteps x32)) = Some x32"
  "as_TaskQueues (Array (TaskQueues x33)) = Some x33"
  "as_Workflows (Array (Workflows x34)) = Some x34"
  "as_DeprecatedPtrs (Array (DeprecatedPtrs x35)) = Some x35"
  "as_TWDs (Array (TWDs x36)) = Some x36"
  "as_Connections (Array (Connections x37)) = Some x37"
  by (simp_all add: as_Int32_def as_Float32_def as_Time_def as_Duration_def as_ObjectReference_def as_SecretReference_def as_WorkerOptions_def as_ConnectionReference_def as_RolloutStep_def as_TaskQueue_def as_WorkflowExecution_def as_EmptyStruct_def as_SecretKeySelector_def as_ConfigMapKeySelector_def as_Raw_def as_JSON_def as_GateInputSource_def as_Gate_def as_Rollout_def as_Sunset_def as_Spec_def as_BaseVersion_def as_CurrentVersion_def as_TargetVersion_def as_DeprecatedVersion_def as_Status_def as_TWD_def as_TWDList_def as_ConnectionSpec_def as_Connection_def as_ConnectionList_def as_BytesArray_def as_RolloutSteps_def as_TaskQueues_def as_Workflows_def as_DeprecatedPtrs_def as_TWDs_def as_Connections_def)

section \<open>What other packages provide\<close>

record k8s_types =
  tc_Time :: "addr \<Rightarrow> (cell, addr) mem"                          \<comment> \<open>\<open>(*metav1.Time).DeepCopy\<close>, for a pointer that is not nil\<close>
  tc_ObjectMeta :: "raw \<Rightarrow> (cell, raw) mem"
  tc_ListMeta :: "raw \<Rightarrow> (cell, raw) mem"
  tc_PodTemplateSpec :: "raw \<Rightarrow> (cell, raw) mem"
  tc_SecretKeySelector :: "raw \<Rightarrow> (cell, raw) mem"
  tc_ConfigMapKeySelector :: "raw \<Rightarrow> (cell, raw) mem"
  tv_ObjectMeta :: "(cell, raw, ObjectMeta) view"
  tv_ListMeta :: "(cell, raw, string) view"
  tv_PodTemplateSpec :: "(cell, raw, PodTemplateSpec) view"
  tv_SecretKeySelector :: "(cell, raw, SecretKeySelector) view"
  tv_ConfigMapKeySelector :: "(cell, raw, ConfigMapKeySelector) view"

text \<open>The documented behaviour of the deep copies of the Kubernetes packages: they are deep copies.\<close>

definition k8s_deep_copies :: "k8s_types \<Rightarrow> bool" where
  "k8s_deep_copies k \<longleftrightarrow>
     deep_copyable (view_ptr as_Time view_plain) (tc_Time k)
     \<and> deep_copyable (tv_ObjectMeta k) (tc_ObjectMeta k) \<and> owns_all (tv_ObjectMeta k)
     \<and> deep_copyable (tv_ListMeta k) (tc_ListMeta k) \<and> owns_all (tv_ListMeta k)
     \<and> deep_copyable (tv_PodTemplateSpec k) (tc_PodTemplateSpec k) \<and> owns_all (tv_PodTemplateSpec k)
     \<and> deep_copyable (tv_SecretKeySelector k) (tc_SecretKeySelector k) \<and> owns_all (tv_SecretKeySelector k)
     \<and> deep_copyable (tv_ConfigMapKeySelector k) (tc_ConfigMapKeySelector k) \<and> owns_all (tv_ConfigMapKeySelector k)"

end
