(* ===== verification/Deep_Copy.thy ===== *)
theory Deep_Copy
  imports Heap_Types
begin

text \<open>
  The generated deep copies (\<^verbatim>\<open>api/v1alpha1/zz_generated.deepcopy.go\<close>). A \<open>DeepCopyInto_T\<close> is the function from the struct at
  \<open>in\<close> to the struct written to \<open>out\<close>, and allocates what its pointers point to; \<open>DeepCopy_T\<close> takes and returns a
  pointer, nil if it gets nil. \<open>view_T\<close> reads the struct \<open>T\<close> in memory as the value of type \<open>T\<close> of \<open>Api_Types\<close>.

  Shown: a copy of a well-typed object is well-typed and means the same. Statuses and connections own all their
  memory, so nothing written through a copy is seen through the original; but the copy of a rollout gate is a
  plain assignment, so a \<open>TemporalWorkerDeployment\<close> shares the inputs of its gate with its copies.
\<close>

section \<open>The methods\<close>

subsection \<open>Structs without pointers, and the gate, which is assigned like one\<close>

definition DeepCopyInto_AllAtOnceRolloutStrategy :: "unit \<Rightarrow> (cell, unit) mem" where
  "DeepCopyInto_AllAtOnceRolloutStrategy v = mreturn v"

definition DeepCopy_AllAtOnceRolloutStrategy :: "addr option \<Rightarrow> (cell, addr option) mem" where
  "DeepCopy_AllAtOnceRolloutStrategy =
     unless_nil (copy_ptr as_EmptyStruct (\<lambda>v. Plain (EmptyStructCell v)) DeepCopyInto_AllAtOnceRolloutStrategy)"

definition DeepCopyInto_ManualRolloutStrategy :: "unit \<Rightarrow> (cell, unit) mem" where
  "DeepCopyInto_ManualRolloutStrategy v = mreturn v"

definition DeepCopy_ManualRolloutStrategy :: "addr option \<Rightarrow> (cell, addr option) mem" where
  "DeepCopy_ManualRolloutStrategy =
     unless_nil (copy_ptr as_EmptyStruct (\<lambda>v. Plain (EmptyStructCell v)) DeepCopyInto_ManualRolloutStrategy)"

definition DeepCopyInto_TemporalConnectionStatus :: "unit \<Rightarrow> (cell, unit) mem" where
  "DeepCopyInto_TemporalConnectionStatus v = mreturn v"

definition DeepCopy_TemporalConnectionStatus :: "addr option \<Rightarrow> (cell, addr option) mem" where
  "DeepCopy_TemporalConnectionStatus =
     unless_nil (copy_ptr as_EmptyStruct (\<lambda>v. Plain (EmptyStructCell v)) DeepCopyInto_TemporalConnectionStatus)"

definition DeepCopyInto_RolloutStep :: "RolloutStep \<Rightarrow> (cell, RolloutStep) mem" where
  "DeepCopyInto_RolloutStep v = mreturn v"

definition DeepCopy_RolloutStep :: "addr option \<Rightarrow> (cell, addr option) mem" where
  "DeepCopy_RolloutStep =
     unless_nil (copy_ptr as_RolloutStep (\<lambda>v. Plain (RolloutStepCell v)) DeepCopyInto_RolloutStep)"

definition DeepCopyInto_SecretReference :: "SecretReference \<Rightarrow> (cell, SecretReference) mem" where
  "DeepCopyInto_SecretReference v = mreturn v"

definition DeepCopy_SecretReference :: "addr option \<Rightarrow> (cell, addr option) mem" where
  "DeepCopy_SecretReference =
     unless_nil (copy_ptr as_SecretReference (\<lambda>v. Plain (SecretReferenceCell v)) DeepCopyInto_SecretReference)"

definition DeepCopyInto_TaskQueue :: "TaskQueue \<Rightarrow> (cell, TaskQueue) mem" where
  "DeepCopyInto_TaskQueue v = mreturn v"

definition DeepCopy_TaskQueue :: "addr option \<Rightarrow> (cell, addr option) mem" where
  "DeepCopy_TaskQueue =
     unless_nil (copy_ptr as_TaskQueue (\<lambda>v. Plain (TaskQueueCell v)) DeepCopyInto_TaskQueue)"

definition DeepCopyInto_TemporalConnectionReference :: "TemporalConnectionReference \<Rightarrow> (cell, TemporalConnectionReference) mem" where
  "DeepCopyInto_TemporalConnectionReference v = mreturn v"

definition DeepCopy_TemporalConnectionReference :: "addr option \<Rightarrow> (cell, addr option) mem" where
  "DeepCopy_TemporalConnectionReference =
     unless_nil (copy_ptr as_ConnectionReference (\<lambda>v. Plain (ConnectionReferenceCell v)) DeepCopyInto_TemporalConnectionReference)"

definition DeepCopyInto_WorkerOptions :: "WorkerOptions \<Rightarrow> (cell, WorkerOptions) mem" where
  "DeepCopyInto_WorkerOptions v = mreturn v"

definition DeepCopy_WorkerOptions :: "addr option \<Rightarrow> (cell, addr option) mem" where
  "DeepCopy_WorkerOptions =
     unless_nil (copy_ptr as_WorkerOptions (\<lambda>v. Plain (WorkerOptionsCell v)) DeepCopyInto_WorkerOptions)"

definition DeepCopyInto_WorkflowExecution :: "WorkflowExecution \<Rightarrow> (cell, WorkflowExecution) mem" where
  "DeepCopyInto_WorkflowExecution v = mreturn v"

definition DeepCopy_WorkflowExecution :: "addr option \<Rightarrow> (cell, addr option) mem" where
  "DeepCopy_WorkflowExecution =
     unless_nil (copy_ptr as_WorkflowExecution (\<lambda>v. Plain (WorkflowExecutionCell v)) DeepCopyInto_WorkflowExecution)"

definition DeepCopyInto_GateWorkflowConfig :: "h_GateWorkflowConfig \<Rightarrow> (cell, h_GateWorkflowConfig) mem" where
  "DeepCopyInto_GateWorkflowConfig v = mreturn v"

definition DeepCopy_GateWorkflowConfig :: "addr option \<Rightarrow> (cell, addr option) mem" where
  "DeepCopy_GateWorkflowConfig =
     unless_nil (copy_ptr as_Gate (\<lambda>v. Struct (GateCell v)) DeepCopyInto_GateWorkflowConfig)"

subsection \<open>Strategies\<close>

definition DeepCopyInto_RolloutStrategy :: "h_RolloutStrategy \<Rightarrow> (cell, h_RolloutStrategy) mem" where
  "DeepCopyInto_RolloutStrategy v =
     mbind (unless_nil (copy_ptr as_Gate (\<lambda>g. Struct (GateCell g)) mreturn) (hr_Gate v)) (\<lambda>gate.
     mbind (unless_nil (copy_slice as_RolloutSteps (\<lambda>xs. Array (RolloutSteps xs)) mreturn) (hr_Steps v)) (\<lambda>steps.
     mreturn (v\<lparr>hr_Gate := gate, hr_Steps := steps\<rparr>)))"

definition DeepCopy_RolloutStrategy :: "addr option \<Rightarrow> (cell, addr option) mem" where
  "DeepCopy_RolloutStrategy =
     unless_nil (copy_ptr as_Rollout (\<lambda>v. Struct (RolloutCell v)) DeepCopyInto_RolloutStrategy)"

definition DeepCopyInto_SunsetStrategy :: "h_SunsetStrategy \<Rightarrow> (cell, h_SunsetStrategy) mem" where
  "DeepCopyInto_SunsetStrategy v =
     mbind (unless_nil (copy_ptr as_Duration (\<lambda>d. Plain (DurationCell d)) mreturn) (hn_ScaledownDelay v)) (\<lambda>scaledown.
     mbind (unless_nil (copy_ptr as_Duration (\<lambda>d. Plain (DurationCell d)) mreturn) (hn_DeleteDelay v)) (\<lambda>delete.
     mreturn (v\<lparr>hn_ScaledownDelay := scaledown, hn_DeleteDelay := delete\<rparr>)))"

definition DeepCopy_SunsetStrategy :: "addr option \<Rightarrow> (cell, addr option) mem" where
  "DeepCopy_SunsetStrategy =
     unless_nil (copy_ptr as_Sunset (\<lambda>v. Struct (SunsetCell v)) DeepCopyInto_SunsetStrategy)"

subsection \<open>Versions and the status\<close>

definition DeepCopyInto_BaseWorkerDeploymentVersion ::
  "k8s_types \<Rightarrow> h_BaseWorkerDeploymentVersion \<Rightarrow> (cell, h_BaseWorkerDeploymentVersion) mem" where
  "DeepCopyInto_BaseWorkerDeploymentVersion k v =
     mbind (unless_nil (tc_Time k) (hb_HealthySince v)) (\<lambda>since.
     mbind (unless_nil (copy_ptr as_ObjectReference (\<lambda>r. Plain (ObjectReferenceCell r)) mreturn) (hb_Deployment v)) (\<lambda>ref.
     mbind (unless_nil (copy_slice as_TaskQueues (\<lambda>xs. Array (TaskQueues xs)) mreturn) (hb_TaskQueues v)) (\<lambda>queues.
     mreturn (v\<lparr>hb_HealthySince := since, hb_Deployment := ref, hb_TaskQueues := queues\<rparr>))))"

definition DeepCopy_BaseWorkerDeploymentVersion :: "k8s_types \<Rightarrow> addr option \<Rightarrow> (cell, addr option) mem" where
  "DeepCopy_BaseWorkerDeploymentVersion k =
     unless_nil (copy_ptr as_BaseVersion (\<lambda>v. Struct (BaseVersionCell v)) (DeepCopyInto_BaseWorkerDeploymentVersion k))"

definition DeepCopyInto_CurrentWorkerDeploymentVersion ::
  "k8s_types \<Rightarrow> h_CurrentWorkerDeploymentVersion \<Rightarrow> (cell, h_CurrentWorkerDeploymentVersion) mem" where
  "DeepCopyInto_CurrentWorkerDeploymentVersion k v =
     mbind (DeepCopyInto_BaseWorkerDeploymentVersion k (hc_Base v)) (\<lambda>base. mreturn (v\<lparr>hc_Base := base\<rparr>))"

definition DeepCopy_CurrentWorkerDeploymentVersion :: "k8s_types \<Rightarrow> addr option \<Rightarrow> (cell, addr option) mem" where
  "DeepCopy_CurrentWorkerDeploymentVersion k =
     unless_nil (copy_ptr as_CurrentVersion (\<lambda>v. Struct (CurrentVersionCell v)) (DeepCopyInto_CurrentWorkerDeploymentVersion k))"

definition DeepCopyInto_TargetWorkerDeploymentVersion ::
  "k8s_types \<Rightarrow> h_TargetWorkerDeploymentVersion \<Rightarrow> (cell, h_TargetWorkerDeploymentVersion) mem" where
  "DeepCopyInto_TargetWorkerDeploymentVersion k v =
     mbind (DeepCopyInto_BaseWorkerDeploymentVersion k (ht_Base v)) (\<lambda>base.
     mbind (unless_nil (copy_slice as_Workflows (\<lambda>xs. Array (Workflows xs)) mreturn) (ht_TestWorkflows v)) (\<lambda>workflows.
     mbind (unless_nil (copy_ptr as_Float32 (\<lambda>x. Plain (Float32Cell x)) mreturn) (ht_RampPercentage v)) (\<lambda>ramp.
     mbind (unless_nil (tc_Time k) (ht_RampingSince v)) (\<lambda>since.
     mbind (unless_nil (tc_Time k) (ht_RampLastModifiedAt v)) (\<lambda>modified.
     mreturn (v\<lparr>ht_Base := base, ht_TestWorkflows := workflows, ht_RampPercentage := ramp, ht_RampingSince := since,
       ht_RampLastModifiedAt := modified\<rparr>))))))"

definition DeepCopy_TargetWorkerDeploymentVersion :: "k8s_types \<Rightarrow> addr option \<Rightarrow> (cell, addr option) mem" where
  "DeepCopy_TargetWorkerDeploymentVersion k =
     unless_nil (copy_ptr as_TargetVersion (\<lambda>v. Struct (TargetVersionCell v)) (DeepCopyInto_TargetWorkerDeploymentVersion k))"

definition DeepCopyInto_DeprecatedWorkerDeploymentVersion ::
  "k8s_types \<Rightarrow> h_DeprecatedWorkerDeploymentVersion \<Rightarrow> (cell, h_DeprecatedWorkerDeploymentVersion) mem" where
  "DeepCopyInto_DeprecatedWorkerDeploymentVersion k v =
     mbind (DeepCopyInto_BaseWorkerDeploymentVersion k (hd_Base v)) (\<lambda>base.
     mbind (unless_nil (tc_Time k) (hd_DrainedSince v)) (\<lambda>since.
     mreturn (v\<lparr>hd_Base := base, hd_DrainedSince := since\<rparr>)))"

definition DeepCopy_DeprecatedWorkerDeploymentVersion :: "k8s_types \<Rightarrow> addr option \<Rightarrow> (cell, addr option) mem" where
  "DeepCopy_DeprecatedWorkerDeploymentVersion k =
     unless_nil (copy_ptr as_DeprecatedVersion (\<lambda>v. Struct (DeprecatedVersionCell v)) (DeepCopyInto_DeprecatedWorkerDeploymentVersion k))"

definition DeepCopyInto_TemporalWorkerDeploymentStatus ::
  "k8s_types \<Rightarrow> h_TemporalWorkerDeploymentStatus \<Rightarrow> (cell, h_TemporalWorkerDeploymentStatus) mem" where
  "DeepCopyInto_TemporalWorkerDeploymentStatus k v =
     mbind (DeepCopyInto_TargetWorkerDeploymentVersion k (hs_TargetVersion v)) (\<lambda>target.
     mbind (unless_nil (copy_ptr as_CurrentVersion (\<lambda>x. Struct (CurrentVersionCell x))
              (DeepCopyInto_CurrentWorkerDeploymentVersion k)) (hs_CurrentVersion v)) (\<lambda>current.
     mbind (unless_nil (copy_slice as_DeprecatedPtrs (\<lambda>xs. Array (DeprecatedPtrs xs))
              (unless_nil (copy_ptr as_DeprecatedVersion (\<lambda>x. Struct (DeprecatedVersionCell x))
                 (DeepCopyInto_DeprecatedWorkerDeploymentVersion k)))) (hs_DeprecatedVersions v)) (\<lambda>deprecated.
     mbind (unless_nil (copy_slice as_BytesArray (\<lambda>xs. Array (BytesArray xs)) mreturn) (hs_VersionConflictToken v)) (\<lambda>token.
     mreturn (v\<lparr>hs_TargetVersion := target, hs_CurrentVersion := current, hs_DeprecatedVersions := deprecated,
       hs_VersionConflictToken := token\<rparr>)))))"

definition DeepCopy_TemporalWorkerDeploymentStatus :: "k8s_types \<Rightarrow> addr option \<Rightarrow> (cell, addr option) mem" where
  "DeepCopy_TemporalWorkerDeploymentStatus k =
     unless_nil (copy_ptr as_Status (\<lambda>v. Struct (StatusCell v)) (DeepCopyInto_TemporalWorkerDeploymentStatus k))"

subsection \<open>Worker deployments\<close>

definition DeepCopyInto_TemporalWorkerDeploymentSpec ::
  "k8s_types \<Rightarrow> h_TemporalWorkerDeploymentSpec \<Rightarrow> (cell, h_TemporalWorkerDeploymentSpec) mem" where
  "DeepCopyInto_TemporalWorkerDeploymentSpec k v =
     mbind (unless_nil (copy_ptr as_Int32 (\<lambda>n. Plain (Int32Cell n)) mreturn) (hp_Replicas v)) (\<lambda>replicas.
     mbind (tc_PodTemplateSpec k (hp_Template v)) (\<lambda>template.
     mbind (unless_nil (copy_ptr as_Int32 (\<lambda>n. Plain (Int32Cell n)) mreturn) (hp_ProgressDeadlineSeconds v)) (\<lambda>deadline.
     mbind (DeepCopyInto_RolloutStrategy (hp_RolloutStrategy v)) (\<lambda>rollout.
     mbind (DeepCopyInto_SunsetStrategy (hp_SunsetStrategy v)) (\<lambda>sunset.
     mreturn (v\<lparr>hp_Replicas := replicas, hp_Template := template, hp_ProgressDeadlineSeconds := deadline,
       hp_RolloutStrategy := rollout, hp_SunsetStrategy := sunset, hp_WorkerOptions := hp_WorkerOptions v\<rparr>))))))"

definition DeepCopy_TemporalWorkerDeploymentSpec :: "k8s_types \<Rightarrow> addr option \<Rightarrow> (cell, addr option) mem" where
  "DeepCopy_TemporalWorkerDeploymentSpec k =
     unless_nil (copy_ptr as_Spec (\<lambda>v. Struct (SpecCell v)) (DeepCopyInto_TemporalWorkerDeploymentSpec k))"

definition DeepCopyInto_TemporalWorkerDeployment ::
  "k8s_types \<Rightarrow> h_TemporalWorkerDeployment \<Rightarrow> (cell, h_TemporalWorkerDeployment) mem" where
  "DeepCopyInto_TemporalWorkerDeployment k v =
     mbind (tc_ObjectMeta k (hw_ObjectMeta v)) (\<lambda>meta.
     mbind (DeepCopyInto_TemporalWorkerDeploymentSpec k (hw_Spec v)) (\<lambda>spec.
     mbind (DeepCopyInto_TemporalWorkerDeploymentStatus k (hw_Status v)) (\<lambda>status.
     mreturn (v\<lparr>hw_TypeMeta := hw_TypeMeta v, hw_ObjectMeta := meta, hw_Spec := spec, hw_Status := status\<rparr>))))"

definition DeepCopy_TemporalWorkerDeployment :: "k8s_types \<Rightarrow> addr option \<Rightarrow> (cell, addr option) mem" where
  "DeepCopy_TemporalWorkerDeployment k =
     unless_nil (copy_ptr as_TWD (\<lambda>v. Resource (TWDCell v)) (DeepCopyInto_TemporalWorkerDeployment k))"

text \<open>
  \<open>DeepCopyObject\<close> returns an interface value: nil, or a pointer, which may itself be nil without the interface
  value being nil.
\<close>

datatype runtime_object = NilObject | PointerTo "addr option"

definition DeepCopyObject_TemporalWorkerDeployment :: "k8s_types \<Rightarrow> addr option \<Rightarrow> (cell, runtime_object) mem" where
  "DeepCopyObject_TemporalWorkerDeployment k p =
     mbind (DeepCopy_TemporalWorkerDeployment k p) (\<lambda>c. mreturn (if c \<noteq> None then PointerTo c else NilObject))"

definition DeepCopyInto_TemporalWorkerDeploymentList ::
  "k8s_types \<Rightarrow> h_TemporalWorkerDeploymentList \<Rightarrow> (cell, h_TemporalWorkerDeploymentList) mem" where
  "DeepCopyInto_TemporalWorkerDeploymentList k v =
     mbind (tc_ListMeta k (hwl_ListMeta v)) (\<lambda>meta.
     mbind (unless_nil (copy_slice as_TWDs (\<lambda>xs. Array (TWDs xs)) (DeepCopyInto_TemporalWorkerDeployment k)) (hwl_Items v)) (\<lambda>items.
     mreturn (v\<lparr>hwl_TypeMeta := hwl_TypeMeta v, hwl_ListMeta := meta, hwl_Items := items\<rparr>)))"

definition DeepCopy_TemporalWorkerDeploymentList :: "k8s_types \<Rightarrow> addr option \<Rightarrow> (cell, addr option) mem" where
  "DeepCopy_TemporalWorkerDeploymentList k =
     unless_nil (copy_ptr as_TWDList (\<lambda>v. Resource (TWDListCell v)) (DeepCopyInto_TemporalWorkerDeploymentList k))"

definition DeepCopyObject_TemporalWorkerDeploymentList :: "k8s_types \<Rightarrow> addr option \<Rightarrow> (cell, runtime_object) mem" where
  "DeepCopyObject_TemporalWorkerDeploymentList k p =
     mbind (DeepCopy_TemporalWorkerDeploymentList k p) (\<lambda>c. mreturn (if c \<noteq> None then PointerTo c else NilObject))"

subsection \<open>Connections\<close>

definition DeepCopyInto_TemporalConnectionSpec ::
  "k8s_types \<Rightarrow> h_TemporalConnectionSpec \<Rightarrow> (cell, h_TemporalConnectionSpec) mem" where
  "DeepCopyInto_TemporalConnectionSpec k v =
     mbind (unless_nil (copy_ptr as_SecretReference (\<lambda>r. Plain (SecretReferenceCell r)) mreturn) (hx_MutualTLSSecretRef v)) (\<lambda>tls.
     mbind (unless_nil (copy_ptr as_SecretKeySelector (\<lambda>r. Struct (SecretKeySelectorCell r)) (tc_SecretKeySelector k))
              (hx_APIKeySecretRef v)) (\<lambda>key.
     mreturn (v\<lparr>hx_MutualTLSSecretRef := tls, hx_APIKeySecretRef := key\<rparr>)))"

definition DeepCopy_TemporalConnectionSpec :: "k8s_types \<Rightarrow> addr option \<Rightarrow> (cell, addr option) mem" where
  "DeepCopy_TemporalConnectionSpec k =
     unless_nil (copy_ptr as_ConnectionSpec (\<lambda>v. Resource (ConnectionSpecCell v)) (DeepCopyInto_TemporalConnectionSpec k))"

definition DeepCopyInto_TemporalConnection ::
  "k8s_types \<Rightarrow> h_TemporalConnection \<Rightarrow> (cell, h_TemporalConnection) mem" where
  "DeepCopyInto_TemporalConnection k v =
     mbind (tc_ObjectMeta k (hy_ObjectMeta v)) (\<lambda>meta.
     mbind (DeepCopyInto_TemporalConnectionSpec k (hy_Spec v)) (\<lambda>spec.
     mreturn (v\<lparr>hy_TypeMeta := hy_TypeMeta v, hy_ObjectMeta := meta, hy_Spec := spec, hy_Status := hy_Status v\<rparr>)))"

definition DeepCopy_TemporalConnection :: "k8s_types \<Rightarrow> addr option \<Rightarrow> (cell, addr option) mem" where
  "DeepCopy_TemporalConnection k =
     unless_nil (copy_ptr as_Connection (\<lambda>v. Resource (ConnectionCell v)) (DeepCopyInto_TemporalConnection k))"

definition DeepCopyObject_TemporalConnection :: "k8s_types \<Rightarrow> addr option \<Rightarrow> (cell, runtime_object) mem" where
  "DeepCopyObject_TemporalConnection k p =
     mbind (DeepCopy_TemporalConnection k p) (\<lambda>c. mreturn (if c \<noteq> None then PointerTo c else NilObject))"

definition DeepCopyInto_TemporalConnectionList ::
  "k8s_types \<Rightarrow> h_TemporalConnectionList \<Rightarrow> (cell, h_TemporalConnectionList) mem" where
  "DeepCopyInto_TemporalConnectionList k v =
     mbind (tc_ListMeta k (hyl_ListMeta v)) (\<lambda>meta.
     mbind (unless_nil (copy_slice as_Connections (\<lambda>xs. Array (Connections xs)) (DeepCopyInto_TemporalConnection k)) (hyl_Items v)) (\<lambda>items.
     mreturn (v\<lparr>hyl_TypeMeta := hyl_TypeMeta v, hyl_ListMeta := meta, hyl_Items := items\<rparr>)))"

definition DeepCopy_TemporalConnectionList :: "k8s_types \<Rightarrow> addr option \<Rightarrow> (cell, addr option) mem" where
  "DeepCopy_TemporalConnectionList k =
     unless_nil (copy_ptr as_ConnectionList (\<lambda>v. Resource (ConnectionListCell v)) (DeepCopyInto_TemporalConnectionList k))"

definition DeepCopyObject_TemporalConnectionList :: "k8s_types \<Rightarrow> addr option \<Rightarrow> (cell, runtime_object) mem" where
  "DeepCopyObject_TemporalConnectionList k p =
     mbind (DeepCopy_TemporalConnectionList k p) (\<lambda>c. mreturn (if c \<noteq> None then PointerTo c else NilObject))"

section \<open>What the structs mean\<close>

text \<open>A nil slice has no elements.\<close>

abbreviation elems :: "'a list option \<Rightarrow> 'a list" where
  "elems xs \<equiv> (case xs of None \<Rightarrow> [] | Some ys \<Rightarrow> ys)"

definition view_JSON :: "(cell, h_JSON, string) view" where
  "view_JSON = view_struct hj_Raw (\<lambda>_. elems) (view_opt (view_slice as_BytesArray view_plain))"

definition view_GateInputSource :: "k8s_types \<Rightarrow> (cell, h_GateInputSource, GateInputSource) view" where
  "view_GateInputSource k =
     view_struct (\<lambda>v. (hi_ConfigMapKeyRef v, hi_SecretKeyRef v))
       (\<lambda>_ (c, s). \<lparr>gi_ConfigMapKeyRef = c, gi_SecretKeyRef = s\<rparr>)
       (view_pair (view_opt (view_ptr as_ConfigMapKeySelector (tv_ConfigMapKeySelector k)))
          (view_opt (view_ptr as_SecretKeySelector (tv_SecretKeySelector k))))"

text \<open>A gate owns none of what its two pointers lead to: its copy is an assignment.\<close>

definition view_GateWorkflowConfig :: "k8s_types \<Rightarrow> (cell, h_GateWorkflowConfig, GateWorkflowConfig) view" where
  "view_GateWorkflowConfig k =
     view_struct (\<lambda>v. (hg_Input v, hg_InputFrom v))
       (\<lambda>v (i, f). \<lparr>gate_WorkflowType = hg_WorkflowType v, gate_Input = i, gate_InputFrom = f\<rparr>)
       (view_shared (view_pair (view_opt (view_ptr as_JSON view_JSON))
          (view_opt (view_ptr as_GateInputSource (view_GateInputSource k)))))"

definition view_RolloutStrategy :: "k8s_types \<Rightarrow> (cell, h_RolloutStrategy, RolloutStrategy) view" where
  "view_RolloutStrategy k =
     view_struct (\<lambda>v. (hr_Gate v, hr_Steps v))
       (\<lambda>v (g, steps). \<lparr>rs_Strategy = hr_Strategy v, rs_Gate = g, rs_Steps = elems steps\<rparr>)
       (view_pair (view_opt (view_ptr as_Gate (view_GateWorkflowConfig k)))
          (view_opt (view_slice as_RolloutSteps view_plain)))"

definition view_SunsetStrategy :: "(cell, h_SunsetStrategy, SunsetStrategy) view" where
  "view_SunsetStrategy =
     view_struct (\<lambda>v. (hn_ScaledownDelay v, hn_DeleteDelay v)) (\<lambda>_ (a, b). \<lparr>ss_ScaledownDelay = a, ss_DeleteDelay = b\<rparr>)
       (view_pair (view_opt (view_ptr as_Duration view_plain)) (view_opt (view_ptr as_Duration view_plain)))"

definition view_TemporalWorkerDeploymentSpec :: "k8s_types \<Rightarrow> (cell, h_TemporalWorkerDeploymentSpec, TemporalWorkerDeploymentSpec) view" where
  "view_TemporalWorkerDeploymentSpec k =
     view_struct (\<lambda>v. (hp_Replicas v, hp_Template v, hp_ProgressDeadlineSeconds v, hp_RolloutStrategy v, hp_SunsetStrategy v))
       (\<lambda>v (n, t, d, r, s). \<lparr>spec_Replicas = n, spec_Template = t, spec_MinReadySeconds = hp_MinReadySeconds v,
          spec_ProgressDeadlineSeconds = d, spec_RolloutStrategy = r, spec_SunsetStrategy = s,
          spec_WorkerOptions = hp_WorkerOptions v\<rparr>)
       (view_pair (view_opt (view_ptr as_Int32 view_plain)) (view_pair (tv_PodTemplateSpec k)
         (view_pair (view_opt (view_ptr as_Int32 view_plain)) (view_pair (view_RolloutStrategy k) view_SunsetStrategy))))"

text \<open>The address of an object reference is no part of what a version means; it is read as 0.\<close>

definition view_BaseWorkerDeploymentVersion :: "(cell, h_BaseWorkerDeploymentVersion, BaseWorkerDeploymentVersion) view" where
  "view_BaseWorkerDeploymentVersion =
     view_struct (\<lambda>v. (hb_HealthySince v, hb_Deployment v, hb_TaskQueues v))
       (\<lambda>v (t, r, q). \<lparr>v_BuildID = hb_BuildID v, v_Status = hb_Status v, v_HealthySince = t,
          v_Deployment = map_option (Pair 0) r, v_TaskQueues = elems q, v_ManagedBy = hb_ManagedBy v\<rparr>)
       (view_pair (view_opt (view_ptr as_Time view_plain)) (view_pair (view_opt (view_ptr as_ObjectReference view_plain))
         (view_opt (view_slice as_TaskQueues view_plain))))"

definition view_CurrentWorkerDeploymentVersion :: "(cell, h_CurrentWorkerDeploymentVersion, CurrentWorkerDeploymentVersion) view" where
  "view_CurrentWorkerDeploymentVersion = view_struct hc_Base (\<lambda>_ b. b) view_BaseWorkerDeploymentVersion"

definition view_TargetWorkerDeploymentVersion :: "(cell, h_TargetWorkerDeploymentVersion, TargetWorkerDeploymentVersion) view" where
  "view_TargetWorkerDeploymentVersion =
     view_struct (\<lambda>v. (ht_Base v, ht_TestWorkflows v, ht_RampPercentage v, ht_RampingSince v, ht_RampLastModifiedAt v))
       (\<lambda>_ (b, w, p, s, m). BaseWorkerDeploymentVersion.extend b
          (TargetWorkerDeploymentVersion.fields (elems w) p s m))
       (view_pair view_BaseWorkerDeploymentVersion (view_pair (view_opt (view_slice as_Workflows view_plain))
         (view_pair (view_opt (view_ptr as_Float32 view_plain)) (view_pair (view_opt (view_ptr as_Time view_plain))
           (view_opt (view_ptr as_Time view_plain))))))"

definition view_DeprecatedWorkerDeploymentVersion ::
  "(cell, h_DeprecatedWorkerDeploymentVersion, DeprecatedWorkerDeploymentVersion) view" where
  "view_DeprecatedWorkerDeploymentVersion =
     view_struct (\<lambda>v. (hd_Base v, hd_DrainedSince v))
       (\<lambda>v (b, s). BaseWorkerDeploymentVersion.extend b
          (DeprecatedWorkerDeploymentVersion.fields s (hd_EligibleForDeletion v)))
       (view_pair view_BaseWorkerDeploymentVersion (view_opt (view_ptr as_Time view_plain)))"

text \<open>A nil pointer among the deprecated versions stands for no version.\<close>

definition view_TemporalWorkerDeploymentStatus :: "(cell, h_TemporalWorkerDeploymentStatus, TemporalWorkerDeploymentStatus) view" where
  "view_TemporalWorkerDeploymentStatus =
     view_struct (\<lambda>v. (hs_TargetVersion v, hs_CurrentVersion v, hs_DeprecatedVersions v, hs_VersionConflictToken v))
       (\<lambda>v (t, c, ds, tok). \<lparr>st_TargetVersion = t, st_CurrentVersion = c, st_DeprecatedVersions = List.map_filter id (elems ds),
          st_VersionConflictToken = elems tok, st_LastModifierIdentity = hs_LastModifierIdentity v,
          st_VersionCount = hs_VersionCount v\<rparr>)
       (view_pair view_TargetWorkerDeploymentVersion
         (view_pair (view_opt (view_ptr as_CurrentVersion view_CurrentWorkerDeploymentVersion))
           (view_pair (view_opt (view_slice as_DeprecatedPtrs
               (view_opt (view_ptr as_DeprecatedVersion view_DeprecatedWorkerDeploymentVersion))))
             (view_opt (view_slice as_BytesArray view_plain)))))"

definition view_TemporalWorkerDeployment :: "k8s_types \<Rightarrow> (cell, h_TemporalWorkerDeployment, TemporalWorkerDeployment) view" where
  "view_TemporalWorkerDeployment k =
     view_struct (\<lambda>v. (hw_ObjectMeta v, hw_Spec v, hw_Status v))
       (\<lambda>v (m, s, t). \<lparr>twd_TypeMeta = hw_TypeMeta v, twd_ObjectMeta = m, twd_Spec = s, twd_Status = t\<rparr>)
       (view_pair (tv_ObjectMeta k) (view_pair (view_TemporalWorkerDeploymentSpec k) view_TemporalWorkerDeploymentStatus))"

definition view_TemporalWorkerDeploymentList ::
  "k8s_types \<Rightarrow> (cell, h_TemporalWorkerDeploymentList, TypeMeta \<times> string \<times> TemporalWorkerDeployment list) view" where
  "view_TemporalWorkerDeploymentList k =
     view_struct (\<lambda>v. (hwl_ListMeta v, hwl_Items v)) (\<lambda>v (m, xs). (hwl_TypeMeta v, m, elems xs))
       (view_pair (tv_ListMeta k) (view_opt (view_slice as_TWDs (view_TemporalWorkerDeployment k))))"

definition view_TemporalConnectionSpec :: "k8s_types \<Rightarrow> (cell, h_TemporalConnectionSpec, TemporalConnectionSpec) view" where
  "view_TemporalConnectionSpec k =
     view_struct (\<lambda>v. (hx_MutualTLSSecretRef v, hx_APIKeySecretRef v))
       (\<lambda>v (t, a). \<lparr>tc_HostPort = hx_HostPort v, tc_MutualTLSSecretRef = t, tc_APIKeySecretRef = a\<rparr>)
       (view_pair (view_opt (view_ptr as_SecretReference view_plain))
         (view_opt (view_ptr as_SecretKeySelector (tv_SecretKeySelector k))))"

definition view_TemporalConnection :: "k8s_types \<Rightarrow> (cell, h_TemporalConnection, TypeMeta \<times> TemporalConnection) view" where
  "view_TemporalConnection k =
     view_struct (\<lambda>v. (hy_ObjectMeta v, hy_Spec v)) (\<lambda>v (m, s). (hy_TypeMeta v, \<lparr>tconn_ObjectMeta = m, tconn_Spec = s\<rparr>))
       (view_pair (tv_ObjectMeta k) (view_TemporalConnectionSpec k))"

definition view_TemporalConnectionList ::
  "k8s_types \<Rightarrow> (cell, h_TemporalConnectionList, TypeMeta \<times> string \<times> (TypeMeta \<times> TemporalConnection) list) view" where
  "view_TemporalConnectionList k =
     view_struct (\<lambda>v. (hyl_ListMeta v, hyl_Items v)) (\<lambda>v (m, xs). (hyl_TypeMeta v, m, elems xs))
       (view_pair (tv_ListMeta k) (view_opt (view_slice as_Connections (view_TemporalConnection k))))"

section \<open>Every method meets the contract\<close>

lemma deep_copyable_record:
  assumes "deep_copyable rd copy" and "\<And>v r. get (put v r) = v" and "\<And>v r a. mk (put v r) a = mk r a"
    and "\<And>r. into r = mbind (copy (get r)) (\<lambda>v. mreturn (put v r))"
  shows "deep_copyable (view_struct get mk rd) into"
proof -
  have "into = copy_struct get put copy" by (rule ext) (simp add: assms(4) copy_struct_def)
  then show ?thesis using deep_copyable_struct [OF assms(1), of get put mk, OF assms(2,3)] by simp
qed

lemma k8s_copies:
  assumes "k8s_deep_copies k"
  shows "deep_copyable (view_ptr as_Time view_plain) (tc_Time k)"
    and "deep_copyable (tv_ObjectMeta k) (tc_ObjectMeta k)" and "deep_copyable (tv_ListMeta k) (tc_ListMeta k)"
    and "deep_copyable (tv_PodTemplateSpec k) (tc_PodTemplateSpec k)"
    and "deep_copyable (tv_SecretKeySelector k) (tc_SecretKeySelector k)"
    and "deep_copyable (tv_ConfigMapKeySelector k) (tc_ConfigMapKeySelector k)"
  using assms by (simp_all add: k8s_deep_copies_def)

lemmas deep_copyable_fields = deep_copyable_rules deep_copyable_ptr deep_copyable_slice

lemma SunsetStrategy_copies:
  shows "deep_copyable view_SunsetStrategy DeepCopyInto_SunsetStrategy"
  unfolding view_SunsetStrategy_def
  by (rule deep_copyable_record [where put = "\<lambda>(a, b) v. v\<lparr>hn_ScaledownDelay := a, hn_DeleteDelay := b\<rparr>"
      and copy = "copy_pair (unless_nil (copy_ptr as_Duration (\<lambda>x. Plain (DurationCell x)) mreturn))
        (unless_nil (copy_ptr as_Duration (\<lambda>x. Plain (DurationCell x)) mreturn))"])
    (auto intro!: deep_copyable_fields
      simp: copy_pair_def mbind_assoc DeepCopyInto_SunsetStrategy_def simp del: mem_simps)

text \<open>No method copies a gate's inputs; what they own is what a deep copy of them would have to copy.\<close>

lemma JSON_copies:
  shows "deep_copyable view_JSON (copy_struct hj_Raw (\<lambda>x v. v\<lparr>hj_Raw := x\<rparr>) (unless_nil (copy_slice as_BytesArray (\<lambda>xs. Array (BytesArray xs)) mreturn)))"
  unfolding view_JSON_def
  by (rule deep_copyable_record [where put = "\<lambda>x v. v\<lparr>hj_Raw := x\<rparr>"
      and copy = "unless_nil (copy_slice as_BytesArray (\<lambda>xs. Array (BytesArray xs)) mreturn)"])
    (auto intro!: deep_copyable_fields
      simp: copy_pair_def mbind_assoc copy_struct_def simp del: mem_simps)

lemma GateInputSource_copies:
  assumes "k8s_deep_copies k"
  shows "deep_copyable (view_GateInputSource k) (copy_struct (\<lambda>v. (hi_ConfigMapKeyRef v, hi_SecretKeyRef v)) (\<lambda>(c, s) v. v\<lparr>hi_ConfigMapKeyRef := c, hi_SecretKeyRef := s\<rparr>)
      (copy_pair (unless_nil (copy_ptr as_ConfigMapKeySelector (\<lambda>x. Struct (ConfigMapKeySelectorCell x)) (tc_ConfigMapKeySelector k)))
        (unless_nil (copy_ptr as_SecretKeySelector (\<lambda>x. Struct (SecretKeySelectorCell x)) (tc_SecretKeySelector k)))))"
  unfolding view_GateInputSource_def
  by (rule deep_copyable_record [where put = "\<lambda>(c, s) v. v\<lparr>hi_ConfigMapKeyRef := c, hi_SecretKeyRef := s\<rparr>"
      and copy = "copy_pair (unless_nil (copy_ptr as_ConfigMapKeySelector (\<lambda>x. Struct (ConfigMapKeySelectorCell x)) (tc_ConfigMapKeySelector k)))
        (unless_nil (copy_ptr as_SecretKeySelector (\<lambda>x. Struct (SecretKeySelectorCell x)) (tc_SecretKeySelector k)))"])
    (auto intro!: deep_copyable_fields k8s_copies [OF assms]
      simp: copy_pair_def mbind_assoc copy_struct_def simp del: mem_simps)

lemma GateWorkflowConfig_copies:
  assumes "k8s_deep_copies k"
  shows "deep_copyable (view_GateWorkflowConfig k) mreturn"
  unfolding view_GateWorkflowConfig_def
  by (rule deep_copyable_record [where put = "\<lambda>(i, f) v. v\<lparr>hg_Input := i, hg_InputFrom := f\<rparr>" and copy = mreturn])
    (auto intro: deep_copyable_shared [OF deep_copyable_pair, OF deep_copyable_opt deep_copyable_opt,
        OF deep_copyable_ptr [OF JSON_copies, of as_JSON "\<lambda>v. Struct (JSONCell v)"]
           deep_copyable_ptr [OF GateInputSource_copies [OF assms], of as_GateInputSource "\<lambda>v. Struct (GateInputSourceCell v)"]])

lemma RolloutStrategy_copies:
  assumes "k8s_deep_copies k"
  shows "deep_copyable (view_RolloutStrategy k) DeepCopyInto_RolloutStrategy"
  unfolding view_RolloutStrategy_def
  by (rule deep_copyable_record [where put = "\<lambda>(g, xs) v. v\<lparr>hr_Gate := g, hr_Steps := xs\<rparr>"
      and copy = "copy_pair (unless_nil (copy_ptr as_Gate (\<lambda>x. Struct (GateCell x)) mreturn))
        (unless_nil (copy_slice as_RolloutSteps (\<lambda>xs. Array (RolloutSteps xs)) mreturn))"])
    (auto intro!: deep_copyable_fields GateWorkflowConfig_copies [OF assms] k8s_copies [OF assms]
      simp: copy_pair_def mbind_assoc DeepCopyInto_RolloutStrategy_def simp del: mem_simps)

lemma TemporalWorkerDeploymentSpec_copies:
  assumes "k8s_deep_copies k"
  shows "deep_copyable (view_TemporalWorkerDeploymentSpec k) (DeepCopyInto_TemporalWorkerDeploymentSpec k)"
  unfolding view_TemporalWorkerDeploymentSpec_def
  by (rule deep_copyable_record [where put = "\<lambda>(n, t, d, r, s) v. v\<lparr>hp_Replicas := n, hp_Template := t, hp_ProgressDeadlineSeconds := d,
        hp_RolloutStrategy := r, hp_SunsetStrategy := s\<rparr>"
      and copy = "copy_pair (unless_nil (copy_ptr as_Int32 (\<lambda>x. Plain (Int32Cell x)) mreturn))
        (copy_pair (tc_PodTemplateSpec k) (copy_pair (unless_nil (copy_ptr as_Int32 (\<lambda>x. Plain (Int32Cell x)) mreturn))
        (copy_pair DeepCopyInto_RolloutStrategy DeepCopyInto_SunsetStrategy)))"])
    (auto intro!: deep_copyable_fields
        RolloutStrategy_copies [OF assms] SunsetStrategy_copies k8s_copies [OF assms]
      simp: copy_pair_def mbind_assoc DeepCopyInto_TemporalWorkerDeploymentSpec_def simp del: mem_simps)

lemma BaseWorkerDeploymentVersion_copies:
  assumes "k8s_deep_copies k"
  shows "deep_copyable view_BaseWorkerDeploymentVersion (DeepCopyInto_BaseWorkerDeploymentVersion k)"
  unfolding view_BaseWorkerDeploymentVersion_def
  by (rule deep_copyable_record [where put = "\<lambda>(t, r, q) v. v\<lparr>hb_HealthySince := t, hb_Deployment := r, hb_TaskQueues := q\<rparr>"
      and copy = "copy_pair (unless_nil (tc_Time k))
        (copy_pair (unless_nil (copy_ptr as_ObjectReference (\<lambda>x. Plain (ObjectReferenceCell x)) mreturn))
        (unless_nil (copy_slice as_TaskQueues (\<lambda>xs. Array (TaskQueues xs)) mreturn)))"])
    (auto intro!: deep_copyable_fields k8s_copies [OF assms]
      simp: copy_pair_def mbind_assoc DeepCopyInto_BaseWorkerDeploymentVersion_def simp del: mem_simps)

lemma CurrentWorkerDeploymentVersion_copies:
  assumes "k8s_deep_copies k"
  shows "deep_copyable view_CurrentWorkerDeploymentVersion (DeepCopyInto_CurrentWorkerDeploymentVersion k)"
  unfolding view_CurrentWorkerDeploymentVersion_def
  by (rule deep_copyable_record [where put = "\<lambda>b v. v\<lparr>hc_Base := b\<rparr>"
      and copy = "DeepCopyInto_BaseWorkerDeploymentVersion k"])
    (auto intro!: deep_copyable_fields BaseWorkerDeploymentVersion_copies [OF assms] k8s_copies [OF assms]
      simp: copy_pair_def mbind_assoc DeepCopyInto_CurrentWorkerDeploymentVersion_def simp del: mem_simps)

lemma TargetWorkerDeploymentVersion_copies:
  assumes "k8s_deep_copies k"
  shows "deep_copyable view_TargetWorkerDeploymentVersion (DeepCopyInto_TargetWorkerDeploymentVersion k)"
  unfolding view_TargetWorkerDeploymentVersion_def
  by (rule deep_copyable_record [where put = "\<lambda>(b, w, p, s, m) v. v\<lparr>ht_Base := b, ht_TestWorkflows := w, ht_RampPercentage := p,
        ht_RampingSince := s, ht_RampLastModifiedAt := m\<rparr>"
      and copy = "copy_pair (DeepCopyInto_BaseWorkerDeploymentVersion k) (copy_pair (unless_nil (copy_slice as_Workflows (\<lambda>xs. Array (Workflows xs)) mreturn))
        (copy_pair (unless_nil (copy_ptr as_Float32 (\<lambda>x. Plain (Float32Cell x)) mreturn))
        (copy_pair (unless_nil (tc_Time k))
        (unless_nil (tc_Time k)))))"])
    (auto intro!: deep_copyable_fields
        BaseWorkerDeploymentVersion_copies [OF assms] k8s_copies [OF assms]
      simp: copy_pair_def mbind_assoc DeepCopyInto_TargetWorkerDeploymentVersion_def simp del: mem_simps)

lemma DeprecatedWorkerDeploymentVersion_copies:
  assumes "k8s_deep_copies k"
  shows "deep_copyable view_DeprecatedWorkerDeploymentVersion (DeepCopyInto_DeprecatedWorkerDeploymentVersion k)"
  unfolding view_DeprecatedWorkerDeploymentVersion_def
  by (rule deep_copyable_record [where put = "\<lambda>(b, s) v. v\<lparr>hd_Base := b, hd_DrainedSince := s\<rparr>"
      and copy = "copy_pair (DeepCopyInto_BaseWorkerDeploymentVersion k) (unless_nil (tc_Time k))"])
    (auto intro!: deep_copyable_fields
        BaseWorkerDeploymentVersion_copies [OF assms] k8s_copies [OF assms]
      simp: copy_pair_def mbind_assoc DeepCopyInto_DeprecatedWorkerDeploymentVersion_def simp del: mem_simps)

lemma TemporalWorkerDeploymentStatus_copies:
  assumes "k8s_deep_copies k"
  shows "deep_copyable view_TemporalWorkerDeploymentStatus (DeepCopyInto_TemporalWorkerDeploymentStatus k)"
  unfolding view_TemporalWorkerDeploymentStatus_def
  by (rule deep_copyable_record [where put = "\<lambda>(t, c, d, tok) v. v\<lparr>hs_TargetVersion := t, hs_CurrentVersion := c, hs_DeprecatedVersions := d,
        hs_VersionConflictToken := tok\<rparr>"
      and copy = "copy_pair (DeepCopyInto_TargetWorkerDeploymentVersion k) (copy_pair (unless_nil (copy_ptr as_CurrentVersion (\<lambda>x. Struct (CurrentVersionCell x)) (DeepCopyInto_CurrentWorkerDeploymentVersion k)))
        (copy_pair (unless_nil (copy_slice as_DeprecatedPtrs (\<lambda>xs. Array (DeprecatedPtrs xs))
        (unless_nil (copy_ptr as_DeprecatedVersion (\<lambda>x. Struct (DeprecatedVersionCell x)) (DeepCopyInto_DeprecatedWorkerDeploymentVersion k)))))
        (unless_nil (copy_slice as_BytesArray (\<lambda>xs. Array (BytesArray xs)) mreturn))))"])
    (auto intro!: deep_copyable_fields
        TargetWorkerDeploymentVersion_copies [OF assms] CurrentWorkerDeploymentVersion_copies [OF assms] DeprecatedWorkerDeploymentVersion_copies [OF assms] k8s_copies [OF assms]
      simp: copy_pair_def mbind_assoc DeepCopyInto_TemporalWorkerDeploymentStatus_def simp del: mem_simps)

lemma TemporalWorkerDeployment_copies:
  assumes "k8s_deep_copies k"
  shows "deep_copyable (view_TemporalWorkerDeployment k) (DeepCopyInto_TemporalWorkerDeployment k)"
  unfolding view_TemporalWorkerDeployment_def
  by (rule deep_copyable_record [where put = "\<lambda>(m, s, t) v. v\<lparr>hw_ObjectMeta := m, hw_Spec := s, hw_Status := t\<rparr>"
      and copy = "copy_pair (tc_ObjectMeta k) (copy_pair (DeepCopyInto_TemporalWorkerDeploymentSpec k) (DeepCopyInto_TemporalWorkerDeploymentStatus k))"])
    (auto intro!: deep_copyable_fields
        TemporalWorkerDeploymentSpec_copies [OF assms] TemporalWorkerDeploymentStatus_copies [OF assms] k8s_copies [OF assms]
      simp: copy_pair_def mbind_assoc DeepCopyInto_TemporalWorkerDeployment_def simp del: mem_simps)

lemma TemporalWorkerDeploymentList_copies:
  assumes "k8s_deep_copies k"
  shows "deep_copyable (view_TemporalWorkerDeploymentList k) (DeepCopyInto_TemporalWorkerDeploymentList k)"
  unfolding view_TemporalWorkerDeploymentList_def
  by (rule deep_copyable_record [where put = "\<lambda>(m, xs) v. v\<lparr>hwl_ListMeta := m, hwl_Items := xs\<rparr>"
      and copy = "copy_pair (tc_ListMeta k) (unless_nil (copy_slice as_TWDs (\<lambda>xs. Array (TWDs xs)) (DeepCopyInto_TemporalWorkerDeployment k)))"])
    (auto intro!: deep_copyable_fields
        TemporalWorkerDeployment_copies [OF assms] k8s_copies [OF assms]
      simp: copy_pair_def mbind_assoc DeepCopyInto_TemporalWorkerDeploymentList_def simp del: mem_simps)

lemma TemporalConnectionSpec_copies:
  assumes "k8s_deep_copies k"
  shows "deep_copyable (view_TemporalConnectionSpec k) (DeepCopyInto_TemporalConnectionSpec k)"
  unfolding view_TemporalConnectionSpec_def
  by (rule deep_copyable_record [where put = "\<lambda>(t, a) v. v\<lparr>hx_MutualTLSSecretRef := t, hx_APIKeySecretRef := a\<rparr>"
      and copy = "copy_pair (unless_nil (copy_ptr as_SecretReference (\<lambda>x. Plain (SecretReferenceCell x)) mreturn))
        (unless_nil (copy_ptr as_SecretKeySelector (\<lambda>x. Struct (SecretKeySelectorCell x)) (tc_SecretKeySelector k)))"])
    (auto intro!: deep_copyable_fields k8s_copies [OF assms]
      simp: copy_pair_def mbind_assoc DeepCopyInto_TemporalConnectionSpec_def simp del: mem_simps)

lemma empty_status [simp]: "hy_Status_update f (v :: h_TemporalConnection) = v"
  by (cases v) simp

lemma TemporalConnection_copies:
  assumes "k8s_deep_copies k"
  shows "deep_copyable (view_TemporalConnection k) (DeepCopyInto_TemporalConnection k)"
  unfolding view_TemporalConnection_def
  by (rule deep_copyable_record [where put = "\<lambda>(m, s) v. v\<lparr>hy_ObjectMeta := m, hy_Spec := s\<rparr>"
      and copy = "copy_pair (tc_ObjectMeta k) (DeepCopyInto_TemporalConnectionSpec k)"])
    (auto intro!: deep_copyable_fields
        TemporalConnectionSpec_copies [OF assms] k8s_copies [OF assms]
      simp: copy_pair_def mbind_assoc DeepCopyInto_TemporalConnection_def simp del: mem_simps)

lemma TemporalConnectionList_copies:
  assumes "k8s_deep_copies k"
  shows "deep_copyable (view_TemporalConnectionList k) (DeepCopyInto_TemporalConnectionList k)"
  unfolding view_TemporalConnectionList_def
  by (rule deep_copyable_record [where put = "\<lambda>(m, xs) v. v\<lparr>hyl_ListMeta := m, hyl_Items := xs\<rparr>"
      and copy = "copy_pair (tc_ListMeta k) (unless_nil (copy_slice as_Connections (\<lambda>xs. Array (Connections xs)) (DeepCopyInto_TemporalConnection k)))"])
    (auto intro!: deep_copyable_fields
        TemporalConnection_copies [OF assms] k8s_copies [OF assms]
      simp: copy_pair_def mbind_assoc DeepCopyInto_TemporalConnectionList_def simp del: mem_simps)

section \<open>What a copy owns\<close>

lemma status_owns_all:
  "owns_all view_SunsetStrategy" "owns_all view_BaseWorkerDeploymentVersion" "owns_all view_CurrentWorkerDeploymentVersion"
  "owns_all view_TargetWorkerDeploymentVersion" "owns_all view_DeprecatedWorkerDeploymentVersion"
  "owns_all view_TemporalWorkerDeploymentStatus"
  by (auto intro!: owns_all_rules owns_all_slice simp: view_SunsetStrategy_def view_BaseWorkerDeploymentVersion_def
      view_CurrentWorkerDeploymentVersion_def view_TargetWorkerDeploymentVersion_def
      view_DeprecatedWorkerDeploymentVersion_def view_TemporalWorkerDeploymentStatus_def)

lemma connection_owns_all:
  assumes "k8s_deep_copies k"
  shows "owns_all (view_TemporalConnectionSpec k)" "owns_all (view_TemporalConnection k)"
    "owns_all (view_TemporalConnectionList k)"
  using assms by (auto intro!: owns_all_rules owns_all_slice simp: view_TemporalConnectionSpec_def
      view_TemporalConnection_def view_TemporalConnectionList_def k8s_deep_copies_def)

section \<open>The methods on pointers\<close>

text \<open>A pointer to a resource, as the controller and its caches hold it.\<close>

abbreviation view_TWD_ptr :: "k8s_types \<Rightarrow> (cell, addr option, TemporalWorkerDeployment option) view" where
  "view_TWD_ptr k \<equiv> view_opt (view_ptr as_TWD (view_TemporalWorkerDeployment k))"

abbreviation view_TWDList_ptr ::
  "k8s_types \<Rightarrow> (cell, addr option, (TypeMeta \<times> string \<times> TemporalWorkerDeployment list) option) view" where
  "view_TWDList_ptr k \<equiv> view_opt (view_ptr as_TWDList (view_TemporalWorkerDeploymentList k))"

abbreviation view_Status_ptr :: "(cell, addr option, TemporalWorkerDeploymentStatus option) view" where
  "view_Status_ptr \<equiv> view_opt (view_ptr as_Status view_TemporalWorkerDeploymentStatus)"

abbreviation view_ConnectionList_ptr ::
  "k8s_types \<Rightarrow> (cell, addr option, (TypeMeta \<times> string \<times> (TypeMeta \<times> TemporalConnection) list) option) view" where
  "view_ConnectionList_ptr k \<equiv> view_opt (view_ptr as_ConnectionList (view_TemporalConnectionList k))"

lemma DeepCopy_copies:
  assumes "k8s_deep_copies k"
  shows "deep_copyable (view_TWD_ptr k) (DeepCopy_TemporalWorkerDeployment k)"
    and "deep_copyable (view_TWDList_ptr k) (DeepCopy_TemporalWorkerDeploymentList k)"
    and "deep_copyable view_Status_ptr (DeepCopy_TemporalWorkerDeploymentStatus k)"
    and "deep_copyable (view_ConnectionList_ptr k) (DeepCopy_TemporalConnectionList k)"
  by (auto intro!: deep_copyable_fields TemporalWorkerDeployment_copies [OF assms] TemporalWorkerDeploymentList_copies [OF assms]
      TemporalWorkerDeploymentStatus_copies [OF assms] TemporalConnectionList_copies [OF assms]
      simp: DeepCopy_TemporalWorkerDeployment_def DeepCopy_TemporalWorkerDeploymentList_def
        DeepCopy_TemporalWorkerDeploymentStatus_def DeepCopy_TemporalConnectionList_def)

lemma unless_nil_None_iff: "unless_nil copy p h = Some (q, h') \<Longrightarrow> q = None \<longleftrightarrow> p = None"
  by (cases p) (auto simp: mbind_eq_Some)

interpretation sunset: deep_copyable view_SunsetStrategy DeepCopyInto_SunsetStrategy
  by (rule SunsetStrategy_copies)

section \<open>A cluster's packages, for the witnesses\<close>

text \<open>Raw structs whose pointers lead to flat memory; the copies copy that memory.\<close>

definition view_flat :: "(cell, raw, string) view" where
  "view_flat h r = (if snd r = [] then Some (fst r, [], []) else None)"

definition sample_view :: "(string \<Rightarrow> string list \<Rightarrow> 'a) \<Rightarrow> (cell, raw, 'a) view" where
  "sample_view mk = view_struct snd (\<lambda>r. mk (fst r)) (view_list (view_ptr as_Raw view_flat))"

definition sample_copy :: "raw \<Rightarrow> (cell, raw) mem" where
  "sample_copy = copy_struct snd (\<lambda>ps r. (fst r, ps)) (mmap (copy_ptr as_Raw (\<lambda>r. Struct (RawCell r)) mreturn))"

definition sample_k8s :: k8s_types where
  "sample_k8s =
     \<lparr>tc_Time = copy_ptr as_Time (\<lambda>t. Plain (TimeCell t)) mreturn, tc_ObjectMeta = sample_copy, tc_ListMeta = sample_copy,
      tc_PodTemplateSpec = sample_copy, tc_SecretKeySelector = sample_copy, tc_ConfigMapKeySelector = sample_copy,
      tv_ObjectMeta = sample_view (\<lambda>n ls. sample_meta\<lparr>om_Name := n, om_Labels := Some (map (\<lambda>l. (l, [])) ls)\<rparr>),
      tv_ListMeta = sample_view (\<lambda>n _. n), tv_PodTemplateSpec = sample_view (\<lambda>n _. sample_template\<lparr>pt_rest := n\<rparr>),
      tv_SecretKeySelector = sample_view (\<lambda>n _. \<lparr>sk_Name = n, sk_Key = ''key'', sk_Optional = None\<rparr>),
      tv_ConfigMapKeySelector = sample_view (\<lambda>n _. \<lparr>ck_Name = n, ck_Key = ''key'', ck_Optional = None\<rparr>)\<rparr>"

lemma view_flat_copies: "deep_copyable view_flat mreturn"
  by unfold_locales (auto simp: view_flat_def split: if_splits)

lemma sample_view_copies: "deep_copyable (sample_view mk) sample_copy"
  unfolding sample_view_def sample_copy_def
  by (intro deep_copyable_struct deep_copyable_list deep_copyable_ptr view_flat_copies) auto

lemma sample_view_owns_all: "owns_all (sample_view mk)"
proof -
  have "owns_all view_flat" by (auto simp: owns_all_def view_flat_def)
  then show ?thesis unfolding sample_view_def by (intro owns_all_rules owns_all_list)
qed

lemma sample_k8s_copies: "k8s_deep_copies sample_k8s"
  unfolding k8s_deep_copies_def
  by (auto simp: sample_k8s_def sample_view_copies sample_view_owns_all intro: deep_copyable_ptr deep_copyable_plain)

text \<open>
  A worker deployment in memory: a gate with an inline input behind two pointers and an array, one step, a target version
  with a deployment reference and a test workflow, and a deprecated version next to a nil pointer.
\<close>

definition sample_h_version :: "string \<Rightarrow> h_BaseWorkerDeploymentVersion" where
  "sample_h_version b =
     \<lparr>hb_BuildID = b, hb_Status = VersionStatusInactive, hb_HealthySince = Some 0, hb_Deployment = Some 1,
      hb_TaskQueues = Some \<lparr>sl_array = 2, sl_start = 1, sl_len = 1\<rparr>, hb_ManagedBy = []\<rparr>"

definition sample_h_status :: h_TemporalWorkerDeploymentStatus where
  "sample_h_status =
     \<lparr>hs_TargetVersion =
        \<lparr>ht_Base = sample_h_version ''v2'', ht_TestWorkflows = None, ht_RampPercentage = Some 3, ht_RampingSince = Some 0,
         ht_RampLastModifiedAt = None\<rparr>,
      hs_CurrentVersion = None, hs_DeprecatedVersions = Some \<lparr>sl_array = 5, sl_start = 0, sl_len = 2\<rparr>,
      hs_VersionConflictToken = Some \<lparr>sl_array = 6, sl_start = 0, sl_len = 2\<rparr>, hs_LastModifierIdentity = [],
      hs_VersionCount = 2\<rparr>"

definition sample_h_rollout :: h_RolloutStrategy where
  "sample_h_rollout =
     \<lparr>hr_Strategy = UpdateProgressive, hr_Gate = Some 9, hr_Steps = Some \<lparr>sl_array = 10, sl_start = 0, sl_len = 1\<rparr>\<rparr>"

definition sample_h_spec :: h_TemporalWorkerDeploymentSpec where
  "sample_h_spec =
     \<lparr>hp_Replicas = Some 11, hp_Template = (''pod'', []), hp_MinReadySeconds = 0, hp_ProgressDeadlineSeconds = None,
      hp_RolloutStrategy = sample_h_rollout, hp_SunsetStrategy = \<lparr>hn_ScaledownDelay = Some 12, hn_DeleteDelay = None\<rparr>,
      hp_WorkerOptions = spec_WorkerOptions sample_spec\<rparr>"

definition sample_h_twd :: h_TemporalWorkerDeployment where
  "sample_h_twd =
     \<lparr>hw_TypeMeta = twd_TypeMeta sample_twd, hw_ObjectMeta = (''foo'', [13]), hw_Spec = sample_h_spec,
      hw_Status = sample_h_status\<rparr>"

definition sample_heap :: "cell list" where
  "sample_heap =
     [Plain (TimeCell 5), Plain (ObjectReferenceCell (snd (sample_ref 0))),
      Array (TaskQueues [\<lparr>tq_Name = ''old''\<rparr>, \<lparr>tq_Name = ''q''\<rparr>]), Plain (Float32Cell 10),
      Struct (DeprecatedVersionCell \<lparr>hd_Base = sample_h_version ''v1'', hd_DrainedSince = Some 0, hd_EligibleForDeletion = True\<rparr>),
      Array (DeprecatedPtrs [Some 4, None]), Array (BytesArray ''tok''),
      Array (BytesArray ''{}''), Struct (JSONCell \<lparr>hj_Raw = Some \<lparr>sl_array = 7, sl_start = 0, sl_len = 2\<rparr>\<rparr>),
      Struct (GateCell \<lparr>hg_WorkflowType = ''gate'', hg_Input = Some 8, hg_InputFrom = None\<rparr>),
      Array (RolloutSteps [\<lparr>step_RampPercentage = 10, step_PauseDuration = Second\<rparr>]),
      Plain (Int32Cell 3), Plain (DurationCell Hour), Struct (RawCell (''label'', [])),
      Resource (TWDCell sample_h_twd), Struct (StatusCell sample_h_status),
      Array (TWDs [sample_h_twd]),
      Resource (TWDListCell \<lparr>hwl_TypeMeta = twd_TypeMeta sample_twd, hwl_ListMeta = (''list'', []),
        hwl_Items = Some \<lparr>sl_array = 16, sl_start = 0, sl_len = 1\<rparr>\<rparr>)]"

section \<open>Copies of well-typed objects\<close>

text \<open>
  C18 (type). Deep copies are type safe: for a well-typed list of worker deployments or of connections (nil included)
  \<open>DeepCopyObject\<close> never goes wrong, leaves every object as it was, and returns the nil interface for nil and otherwise
  an interface on a pointer that is not nil and leads to a well-typed object of the same type.
\<close>

theorem DeepCopyObject_typed:
  assumes "k8s_deep_copies k"
    and "well_typed (view_TWDList_ptr k) h p" and "well_typed (view_ConnectionList_ptr k) h c"
  shows "(\<exists>q new. DeepCopyObject_TemporalWorkerDeploymentList k p h = Some (q, h @ new)
       \<and> well_typed (view_TWDList_ptr k) (h @ new) p
       \<and> (case q of NilObject \<Rightarrow> p = None | PointerTo q' \<Rightarrow> p \<noteq> None \<and> q' \<noteq> None \<and> well_typed (view_TWDList_ptr k) (h @ new) q'))
    \<and> (\<exists>q new. DeepCopyObject_TemporalConnectionList k c h = Some (q, h @ new)
       \<and> well_typed (view_ConnectionList_ptr k) (h @ new) c
       \<and> (case q of NilObject \<Rightarrow> c = None
          | PointerTo q' \<Rightarrow> c \<noteq> None \<and> q' \<noteq> None \<and> well_typed (view_ConnectionList_ptr k) (h @ new) q'))"
proof -
  note D = DeepCopy_copies [OF assms(1)]
  obtain q new where q: "DeepCopy_TemporalWorkerDeploymentList k p h = Some (q, h @ new)"
    "well_typed (view_TWDList_ptr k) (h @ new) q" "well_typed (view_TWDList_ptr k) (h @ new) p"
    using deep_copyable.copy_typed [OF D(2) assms(2)] by blast
  obtain d new' where d: "DeepCopy_TemporalConnectionList k c h = Some (d, h @ new')"
    "well_typed (view_ConnectionList_ptr k) (h @ new') d" "well_typed (view_ConnectionList_ptr k) (h @ new') c"
    using deep_copyable.copy_typed [OF D(4) assms(3)] by blast
  have "q = None \<longleftrightarrow> p = None" "d = None \<longleftrightarrow> c = None"
    using q(1) d(1) unless_nil_None_iff
    unfolding DeepCopy_TemporalWorkerDeploymentList_def DeepCopy_TemporalConnectionList_def by blast+
  then show ?thesis
    using q d by (auto simp: DeepCopyObject_TemporalWorkerDeploymentList_def DeepCopyObject_TemporalConnectionList_def mbind_def)
qed

theorem DeepCopyObject_typed_witness:
  "\<exists>q new. DeepCopyObject_TemporalWorkerDeploymentList sample_k8s (Some 17) sample_heap = Some (q, sample_heap @ new)
     \<and> q \<noteq> NilObject"
proof -
  have "case view_TWDList_ptr sample_k8s sample_heap (Some 17) of None \<Rightarrow> False | Some _ \<Rightarrow> True" by code_simp
  then have "well_typed (view_TWDList_ptr sample_k8s) sample_heap (Some 17)" by (rule well_typedI)
  moreover have "well_typed (view_ConnectionList_ptr sample_k8s) sample_heap None" by (simp add: well_typed_def)
  ultimately show ?thesis using DeepCopyObject_typed [OF sample_k8s_copies] by (fastforce split: runtime_object.splits)
qed

text \<open>
  C17 (roundtrip). A copy of a worker deployment means what the original means, everything the copy owns is newly
  allocated, and the original still means the same: values are an adequate model of the objects the controller
  passes around.
\<close>

theorem DeepCopy_means_the_same:
  assumes "k8s_deep_copies k" and "view_TWD_ptr k h p = Some (w, own, sh)"
  shows "\<exists>q new own'. DeepCopy_TemporalWorkerDeployment k p h = Some (q, h @ new)
     \<and> view_TWD_ptr k (h @ new) q = Some (w, own', sh) \<and> set own' \<subseteq> {length h ..< length (h @ new)}
     \<and> view_TWD_ptr k (h @ new) p = Some (w, own, sh)"
  using deep_copyable.copies [OF DeepCopy_copies(1) [OF assms(1)] assms(2)]
    deep_copyable.frame_append [OF DeepCopy_copies(1) [OF assms(1)] assms(2)] by blast

theorem DeepCopy_means_the_same_witness:
  "\<exists>w own sh q new own'. view_TWD_ptr sample_k8s sample_heap (Some 14) = Some (Some w, own, sh) \<and> twd_Name w = ''foo''
     \<and> DeepCopy_TemporalWorkerDeployment sample_k8s (Some 14) sample_heap = Some (q, sample_heap @ new)
     \<and> view_TWD_ptr sample_k8s (sample_heap @ new) q = Some (Some w, own', sh)"
proof -
  have "case view_TWD_ptr sample_k8s sample_heap (Some 14) of Some (Some w, own, sh) \<Rightarrow> twd_Name w = ''foo'' | _ \<Rightarrow> False"
    by code_simp
  then obtain w own sh where w: "view_TWD_ptr sample_k8s sample_heap (Some 14) = Some (Some w, own, sh)" "twd_Name w = ''foo''"
    by (auto split: option.splits)
  with DeepCopy_means_the_same [OF sample_k8s_copies w(1)] show ?thesis by blast
qed

text \<open>
  C16 (safety). A copied status is independent of the original: whatever is written to the memory the copy owns, the
  original means the same, and the other way round. The same holds of lists of connections.
\<close>

theorem copies_independent:
  assumes "k8s_deep_copies k"
    and "view_Status_ptr h p = Some (s, own, sh)" and "DeepCopy_TemporalWorkerDeploymentStatus k p h = Some (q, h')"
    and "view_ConnectionList_ptr k g c = Some (cs, own2, sh2)" and "DeepCopy_TemporalConnectionList k c g = Some (d, g')"
  shows "(\<exists>own'. view_Status_ptr h' q = Some (s, own', [])
       \<and> (\<forall>h2. agree_except (set own') h' h2 \<longrightarrow> view_Status_ptr h2 p = Some (s, own, []))
       \<and> (\<forall>h2. agree_except (set own) h' h2 \<longrightarrow> view_Status_ptr h2 q = Some (s, own', [])))
    \<and> (\<exists>own'. view_ConnectionList_ptr k g' d = Some (cs, own', [])
       \<and> (\<forall>g2. agree_except (set own') g' g2 \<longrightarrow> view_ConnectionList_ptr k g2 c = Some (cs, own2, []))
       \<and> (\<forall>g2. agree_except (set own2) g' g2 \<longrightarrow> view_ConnectionList_ptr k g2 d = Some (cs, own', [])))"
proof -
  have indep: "\<exists>own'. rd h' q = Some (a, own', []) \<and> (\<forall>h2. agree_except (set own') h' h2 \<longrightarrow> rd h2 p = Some (a, own, []))
       \<and> (\<forall>h2. agree_except (set own) h' h2 \<longrightarrow> rd h2 q = Some (a, own', []))"
    if rd: "deep_copyable rd copy" and own: "owns_all rd" and v: "rd h p = Some (a, own, sh)" and c: "copy p h = Some (q, h')"
    for rd :: "(cell, addr option, 'z) view" and copy h p a own sh q h'
  proof -
    have [simp]: "sh = []" by (rule owns_allD [OF own v])
    obtain own' where q: "rd h' q = Some (a, own', [])" using deep_copyable.copied [OF rd v c] by auto
    show ?thesis
      using q deep_copyable.original_unaffected [OF rd v c q] deep_copyable.copy_unaffected [OF rd v c] by auto
  qed
  note D = DeepCopy_copies [OF assms(1)]
  have "owns_all view_Status_ptr" "owns_all (view_ConnectionList_ptr k)"
    by (intro owns_all_rules status_owns_all connection_owns_all [OF assms(1)])+
  with indep [OF D(3) _ assms(2,3)] indep [OF D(4) _ assms(4,5)] show ?thesis by blast
qed

theorem copies_independent_witness:
  "\<exists>q h' own'. DeepCopy_TemporalWorkerDeploymentStatus sample_k8s (Some 15) sample_heap = Some (q, h') \<and> own' \<noteq> []
     \<and> (\<forall>h2. agree_except (set own') h' h2 \<longrightarrow> well_typed view_Status_ptr h2 (Some 15))"
proof -
  have "case view_Status_ptr sample_heap (Some 15) of Some (Some _, _) \<Rightarrow> True | _ \<Rightarrow> False" by code_simp
  then obtain s own sh where s: "view_Status_ptr sample_heap (Some 15) = Some (Some s, own, sh)" by (auto split: option.splits)
  obtain q new own1 where q: "DeepCopy_TemporalWorkerDeploymentStatus sample_k8s (Some 15) sample_heap = Some (q, sample_heap @ new)"
    by (rule deep_copyable.copyE [OF DeepCopy_copies(3) [OF sample_k8s_copies] s])
  have c: "view_ConnectionList_ptr sample_k8s [] None = Some (None, [], [])"
    "DeepCopy_TemporalConnectionList sample_k8s None [] = Some (None, [])"
    by (simp_all add: DeepCopy_TemporalConnectionList_def)
  obtain own' where own': "view_Status_ptr (sample_heap @ new) q = Some (Some s, own', [])"
    "\<forall>h2. agree_except (set own') (sample_heap @ new) h2 \<longrightarrow> view_Status_ptr h2 (Some 15) = Some (Some s, own, [])"
    using copies_independent [OF sample_k8s_copies s q c] by blast
  have "own' \<noteq> []" using own'(1) by (cases q) (auto simp: view_ptr_eq_Some)
  with q own'(2) show ?thesis by (auto simp: well_typed_def)
qed

section \<open>The gate's inputs are shared\<close>

text \<open>Where the inline input of the gate of a worker deployment lies, and what it is.\<close>

definition gate_input_addr :: "cell list \<Rightarrow> h_TemporalWorkerDeployment \<Rightarrow> addr option" where
  "gate_input_addr h v =
     (case hr_Gate (hp_RolloutStrategy (hw_Spec v)) of
        None \<Rightarrow> None
      | Some g \<Rightarrow> (case heap_get as_Gate h g of None \<Rightarrow> None | Some gate \<Rightarrow> hg_Input gate))"

definition gate_input :: "cell list \<Rightarrow> h_TemporalWorkerDeployment \<Rightarrow> h_JSON option" where
  "gate_input h v = (case gate_input_addr h v of None \<Rightarrow> None | Some j \<Rightarrow> heap_get as_JSON h j)"

lemma as_Gate_JSON: "as_Gate c = Some g \<Longrightarrow> as_JSON c = None"
  by (auto simp: as_Gate_def as_JSON_def split: cell.splits struct_object.splits)

lemma view_Gate_sh:
  assumes "view_GateWorkflowConfig k h gate = Some (a, own, sh)"
  shows "gate_Input a = None \<Longrightarrow> hg_Input gate = None"
    and "gate_Input a \<noteq> None \<Longrightarrow> hg_Input gate = Some (hd sh) \<and> heap_get as_JSON h (hd sh) \<noteq> None"
proof -
  obtain i o1 s1 f o2 s2 where i: "view_opt (view_ptr as_JSON view_JSON) h (hg_Input gate) = Some (i, o1, s1)"
    and a: "gate_Input a = i" and sh: "sh = (o1 @ o2) @ s1 @ s2"
    using assms unfolding view_GateWorkflowConfig_def
    by (auto simp: view_struct_eq_Some view_shared_eq_Some view_pair_eq_Some)
  show "gate_Input a = None \<Longrightarrow> hg_Input gate = None" using i a by (cases "hg_Input gate") auto
  show "gate_Input a \<noteq> None \<Longrightarrow> hg_Input gate = Some (hd sh) \<and> heap_get as_JSON h (hd sh) \<noteq> None"
    using i a sh by (cases "hg_Input gate") (auto simp: view_ptr_eq_Some)
qed

lemma view_TWD_gate:
  assumes "view_TemporalWorkerDeployment k h v = Some (w, own, sh)" and "k8s_deep_copies k"
  shows "\<exists>o'. view_opt (view_ptr as_Gate (view_GateWorkflowConfig k)) h (hr_Gate (hp_RolloutStrategy (hw_Spec v)))
           = Some (rs_Gate (spec_RolloutStrategy (twd_Spec w)), o', sh)"
proof -
  have own: "owns_all (tv_ObjectMeta k)" "owns_all (tv_PodTemplateSpec k)"
    using assms(2) by (simp_all add: k8s_deep_copies_def)
  have plain: "owns_all (view_opt (view_ptr as_Int32 view_plain))"
    "owns_all (view_opt (view_slice as_RolloutSteps view_plain))"
    by (intro owns_all_rules owns_all_slice)+
  obtain x where x: "view_pair (tv_ObjectMeta k) (view_pair (view_TemporalWorkerDeploymentSpec k)
        view_TemporalWorkerDeploymentStatus) h (hw_ObjectMeta v, hw_Spec v, hw_Status v) = Some (x, own, sh)"
    and w: "twd_Spec w = fst (snd x)"
    using assms(1) unfolding view_TemporalWorkerDeployment_def view_struct_eq_Some by (auto split: prod.splits)
  obtain o1 where "view_pair (view_TemporalWorkerDeploymentSpec k) view_TemporalWorkerDeploymentStatus h
      (hw_Spec v, hw_Status v) = Some (snd x, o1, sh)" using view_pair_snd [OF x own(1)] by auto
  from view_pair_fst [OF this status_owns_all(6)] obtain o2 where
    sp: "view_TemporalWorkerDeploymentSpec k h (hw_Spec v) = Some (fst (snd x), o2, sh)" by auto
  obtain y where "view_pair (view_opt (view_ptr as_Int32 view_plain)) (view_pair (tv_PodTemplateSpec k)
         (view_pair (view_opt (view_ptr as_Int32 view_plain)) (view_pair (view_RolloutStrategy k) view_SunsetStrategy))) h
         (hp_Replicas (hw_Spec v), hp_Template (hw_Spec v), hp_ProgressDeadlineSeconds (hw_Spec v),
          hp_RolloutStrategy (hw_Spec v), hp_SunsetStrategy (hw_Spec v)) = Some (y, o2, sh)"
    and y: "spec_RolloutStrategy (fst (snd x)) = fst (snd (snd (snd y)))"
    using sp unfolding view_TemporalWorkerDeploymentSpec_def view_struct_eq_Some by (auto split: prod.splits)
  from view_pair_snd [OF this(1) plain(1)] obtain o3 where "view_pair (tv_PodTemplateSpec k)
         (view_pair (view_opt (view_ptr as_Int32 view_plain)) (view_pair (view_RolloutStrategy k) view_SunsetStrategy)) h
         (hp_Template (hw_Spec v), hp_ProgressDeadlineSeconds (hw_Spec v),
          hp_RolloutStrategy (hw_Spec v), hp_SunsetStrategy (hw_Spec v)) = Some (snd y, o3, sh)" by auto
  from view_pair_snd [OF this own(2)] obtain o4 where "view_pair (view_opt (view_ptr as_Int32 view_plain))
         (view_pair (view_RolloutStrategy k) view_SunsetStrategy) h
         (hp_ProgressDeadlineSeconds (hw_Spec v), hp_RolloutStrategy (hw_Spec v), hp_SunsetStrategy (hw_Spec v))
         = Some (snd (snd y), o4, sh)" by auto
  from view_pair_snd [OF this plain(1)] obtain o5 where "view_pair (view_RolloutStrategy k) view_SunsetStrategy h
         (hp_RolloutStrategy (hw_Spec v), hp_SunsetStrategy (hw_Spec v)) = Some (snd (snd (snd y)), o5, sh)" by auto
  from view_pair_fst [OF this status_owns_all(1)] obtain o6 where
    r: "view_RolloutStrategy k h (hp_RolloutStrategy (hw_Spec v)) = Some (fst (snd (snd (snd y))), o6, sh)" by auto
  obtain z where "view_pair (view_opt (view_ptr as_Gate (view_GateWorkflowConfig k))) (view_opt (view_slice as_RolloutSteps view_plain)) h
        (hr_Gate (hp_RolloutStrategy (hw_Spec v)), hr_Steps (hp_RolloutStrategy (hw_Spec v))) = Some (z, o6, sh)"
    and z: "rs_Gate (fst (snd (snd (snd y)))) = fst z"
    using r unfolding view_RolloutStrategy_def view_struct_eq_Some by (auto split: prod.splits)
  from view_pair_fst [OF this(1) plain(2)] obtain o7 where
    g: "view_opt (view_ptr as_Gate (view_GateWorkflowConfig k)) h (hr_Gate (hp_RolloutStrategy (hw_Spec v))) = Some (fst z, o7, sh)"
    by auto
  show ?thesis using g w y z by simp
qed

text \<open>What is read of a gate tells where its input lies: it is the first of the shared addresses.\<close>

lemma gate_input_addr_view:
  assumes "view_TemporalWorkerDeployment k h v = Some (w, own, sh)" and "k8s_deep_copies k"
  shows "gate_input_addr h v =
      (case rs_Gate (spec_RolloutStrategy (twd_Spec w)) of
         None \<Rightarrow> None
       | Some gate \<Rightarrow> if gate_Input gate = None then None else Some (hd sh))"
    and "gate_input_addr h v = Some j \<Longrightarrow> heap_get as_JSON h j \<noteq> None"
proof -
  have "gate_input_addr h v =
      (case rs_Gate (spec_RolloutStrategy (twd_Spec w)) of
         None \<Rightarrow> None
       | Some gate \<Rightarrow> if gate_Input gate = None then None else Some (hd sh))
    \<and> (\<forall>j. gate_input_addr h v = Some j \<longrightarrow> heap_get as_JSON h j \<noteq> None)"
  proof (cases "hr_Gate (hp_RolloutStrategy (hw_Spec v))")
    case None
    then show ?thesis using view_TWD_gate [OF assms] by (auto simp: gate_input_addr_def)
  next
    case (Some g)
    with view_TWD_gate [OF assms] obtain gate a o' where g: "heap_get as_Gate h g = Some gate"
      "view_GateWorkflowConfig k h gate = Some (a, o', sh)" "rs_Gate (spec_RolloutStrategy (twd_Spec w)) = Some a"
      by (auto simp: view_ptr_eq_Some)
    then show ?thesis using Some view_Gate_sh [OF g(2)]
      by (cases "gate_Input a = None") (simp_all add: gate_input_addr_def)
  qed
  then show "gate_input_addr h v =
      (case rs_Gate (spec_RolloutStrategy (twd_Spec w)) of
         None \<Rightarrow> None
       | Some gate \<Rightarrow> if gate_Input gate = None then None else Some (hd sh))"
    and "gate_input_addr h v = Some j \<Longrightarrow> heap_get as_JSON h j \<noteq> None" by blast+
qed

text \<open>An input written where it lies is read through the gate: the gate itself lies elsewhere.\<close>

lemma gate_input_store:
  assumes "gate_input_addr h v = Some j" and "heap_get as_JSON h j \<noteq> None"
  shows "gate_input (h[j := Struct (JSONCell c)]) v = Some c"
proof -
  let ?h = "h[j := Struct (JSONCell c)]"
  obtain g gate where g: "hr_Gate (hp_RolloutStrategy (hw_Spec v)) = Some g" "heap_get as_Gate h g = Some gate" "hg_Input gate = Some j"
    using assms(1) by (auto simp: gate_input_addr_def split: option.splits)
  have j: "j < length h" using assms(2) by (auto simp: heap_get_def split: if_splits)
  have "g \<noteq> j"
    using g(2) assms(2) as_Gate_JSON by (auto simp: heap_get_def split: if_splits)
  then have "heap_get as_Gate ?h g = Some gate" using g(2) by (simp add: heap_get_def split: if_splits)
  then show ?thesis using g j by (simp add: gate_input_def gate_input_addr_def heap_get_def)
qed

text \<open>
  C19 (error). A deep copy of a worker deployment is not deep at the gate: the inline input of the copy's gate is the same
  object as the original's, so whatever is stored there through the copy is read through the original.
\<close>

theorem gate_input_shared:
  assumes "k8s_deep_copies k" and "heap_get as_TWD h p = Some v" and "well_typed (view_TemporalWorkerDeployment k) h v"
    and "gate_input_addr h v = Some j"
  shows "\<exists>q h' v'. DeepCopy_TemporalWorkerDeployment k (Some p) h = Some (Some q, h') \<and> q \<noteq> p
     \<and> heap_get as_TWD h' q = Some v' \<and> gate_input_addr h' v' = Some j
     \<and> (\<forall>c. gate_input (h'[j := Struct (JSONCell c)]) v = Some c)"
proof -
  obtain w own sh where v: "view_TemporalWorkerDeployment k h v = Some (w, own, sh)"
    using assms(3) by (cases "view_TemporalWorkerDeployment k h v") (auto simp: well_typed_def)
  note C = TemporalWorkerDeployment_copies [OF assms(1)]
  obtain v' new own' where c: "DeepCopyInto_TemporalWorkerDeployment k v h = Some (v', h @ new)"
    "view_TemporalWorkerDeployment k (h @ new) v' = Some (w, own', sh)" by (rule deep_copyable.copyE [OF C v])
  let ?h' = "h @ new @ [Resource (TWDCell v')]" and ?q = "length (h @ new)"
  have "DeepCopy_TemporalWorkerDeployment k (Some p) h = Some (Some ?q, ?h')"
    using assms(2) c(1) by (simp add: DeepCopy_TemporalWorkerDeployment_def copy_ptr_def load_def mbind_def)
  moreover have "?q \<noteq> p" using heap_get_bound [OF assms(2)] by simp
  moreover have "heap_get as_TWD ?h' ?q = Some v'" using heap_get_new [of as_TWD "h @ new"] by simp
  moreover have v1: "view_TemporalWorkerDeployment k ?h' v = Some (w, own, sh)"
    and v2: "view_TemporalWorkerDeployment k ?h' v' = Some (w, own', sh)"
    using deep_copyable.frame_append [OF C v, of "new @ [Resource (TWDCell v')]"]
      deep_copyable.frame_append [OF C c(2), of "[Resource (TWDCell v')]"] by simp_all
  have j: "gate_input_addr ?h' v' = Some j" "gate_input_addr ?h' v = Some j"
    using gate_input_addr_view(1) [OF v assms(1)] gate_input_addr_view(1) [OF v1 assms(1)]
      gate_input_addr_view(1) [OF v2 assms(1)] assms(4) by simp_all
  moreover have "gate_input (?h'[j := Struct (JSONCell c)]) v = Some c" for c
    by (rule gate_input_store [OF j(2) gate_input_addr_view(2) [OF v1 assms(1) j(2)]])
  ultimately show ?thesis by blast
qed

theorem gate_input_shared_witness:
  "gate_input sample_heap sample_h_twd = Some \<lparr>hj_Raw = Some \<lparr>sl_array = 7, sl_start = 0, sl_len = 2\<rparr>\<rparr>
   \<and> (\<exists>q h' v'. DeepCopy_TemporalWorkerDeployment sample_k8s (Some 14) sample_heap = Some (Some q, h') \<and> q \<noteq> 14
     \<and> heap_get as_TWD h' q = Some v' \<and> gate_input_addr h' v' = Some 8
     \<and> gate_input (h'[8 := Struct (JSONCell \<lparr>hj_Raw = None\<rparr>)]) sample_h_twd = Some \<lparr>hj_Raw = None\<rparr>)"
proof (intro conjI)
  show "gate_input sample_heap sample_h_twd = Some \<lparr>hj_Raw = Some \<lparr>sl_array = 7, sl_start = 0, sl_len = 2\<rparr>\<rparr>" by code_simp
  have "heap_get as_TWD sample_heap 14 = Some sample_h_twd" by (simp add: heap_get_def sample_heap_def)
  moreover have "case view_TemporalWorkerDeployment sample_k8s sample_heap sample_h_twd of None \<Rightarrow> False | Some _ \<Rightarrow> True" by code_simp
  then have "well_typed (view_TemporalWorkerDeployment sample_k8s) sample_heap sample_h_twd" by (rule well_typedI)
  moreover have "gate_input_addr sample_heap sample_h_twd = Some 8" by code_simp
  ultimately show "\<exists>q h' v'. DeepCopy_TemporalWorkerDeployment sample_k8s (Some 14) sample_heap = Some (Some q, h') \<and> q \<noteq> 14
     \<and> heap_get as_TWD h' q = Some v' \<and> gate_input_addr h' v' = Some 8
     \<and> gate_input (h'[8 := Struct (JSONCell \<lparr>hj_Raw = None\<rparr>)]) sample_h_twd = Some \<lparr>hj_Raw = None\<rparr>"
    using gate_input_shared [OF sample_k8s_copies] by blast
qed

end
