(* ===== verification/Closed_Loop.thy ===== *)
theory Closed_Loop
  imports Composition
begin

text \<open>
  The closed loop: the planner's decisions, run after run, and a cluster and a Temporal server that carry them
  out. An observation is what one run reads. The environment is not a program of the repository: it is a relation
  between consecutive observations that states its documented behaviour (\<open>took_effect\<close>) and the
  conditions of a calm period (\<open>calm\<close>): pods come up and register, versions that got no traffic any more have
  drained long enough, nobody else interferes.

  Shown: with the strategy AllAtOnce and no gate, in a calm period the loop is quiet after four runs, and
  stays so: the target is current, every other Deployment that is left is inactive and has no replicas, and the plan is
  empty. And where the loop is stuck: versions that were abandoned before they got traffic are never deleted, and once
  there are as many as the limit, no Deployment is created any more.
\<close>

section \<open>Observations and plans\<close>

record observation =
  o_ks :: DeploymentState
  o_ts :: TemporalWorkerState
  o_now :: go_time

text \<open>What stays fixed over the period: the worker deployment, its connection and the limit.\<close>

record loop_params =
  lp_tp :: third_party
  lp_target :: string
  lp_spec :: TemporalWorkerDeploymentSpec
  lp_connection :: TemporalConnectionSpec
  lp_name :: string
  lp_limit :: int32

definition status_at :: "loop_params \<Rightarrow> observation \<Rightarrow> TemporalWorkerDeploymentStatus" where
  "status_at L ob =
     mapToStatus (map fst (ks_Deployments (o_ks ob))) (newStateMapper (o_ks ob) (o_ts ob) (lp_name L)) (lp_target L)"

definition plan_at :: "loop_params \<Rightarrow> observation \<Rightarrow> go_panic + (Plan \<times> deployment_store)" where
  "plan_at L ob =
     GeneratePlan (lp_tp L) (o_now ob) (o_ks ob) (status_at L ob) (lp_spec L) (Some (o_ts ob)) (lp_connection L)
       \<lparr>cfg_RolloutStrategy = spec_RolloutStrategy (lp_spec L)\<rparr> (lp_name L) (lp_limit L) [] False"

section \<open>The environment\<close>

abbreviation store_at :: "observation \<Rightarrow> deployment_store" where
  "store_at ob \<equiv> ks_Deployments (o_ks ob)"

abbreviation current_at :: "observation \<Rightarrow> string" where
  "current_at ob \<equiv> ts_CurrentBuildID (o_ts ob)"

text \<open>
  What happened to the Deployment of a build ID between two runs: deleted, created with the desired replicas, scaled, or left
  alone; its pods and conditions may have changed.
\<close>

definition replicas_after :: "loop_params \<Rightarrow> Plan \<Rightarrow> observation \<Rightarrow> string \<Rightarrow> int32 option option" where
  "replicas_after L p ob b =
     (case map_get (store_at ob) b of
        None \<Rightarrow> if plan_ShouldCreateDeployment p \<and> b = lp_target L then Some (spec_Replicas (lp_spec L)) else None
      | Some d \<Rightarrow>
          if b \<in> set (plan_DeleteDeployments p) then None
          else case map_get (ks_DeploymentRefs (o_ks ob)) b of
                 None \<Rightarrow> Some (d_Replicas d)
               | Some ref \<Rightarrow> (case map_get (plan_ScaleDeployments p) ref of None \<Rightarrow> Some (d_Replicas d) | Some n \<Rightarrow> Some (Some n)))"

text \<open>
  The calls of a plan took effect, and routing was not changed otherwise; a version that is not routed before or after stays inactive if it was.
\<close>

definition took_effect :: "loop_params \<Rightarrow> Plan \<Rightarrow> observation \<Rightarrow> observation \<Rightarrow> bool" where
  "took_effect L p ob ob' \<longleftrightarrow>
     (\<forall>b. map_option d_Replicas (map_get (store_at ob') b) = replicas_after L p ob b)
     \<and> current_at ob' = (case plan_VersionConfig p of
          Some vcfg \<Rightarrow> if vc_SetCurrent vcfg then vc_BuildID vcfg else current_at ob
        | None \<Rightarrow> current_at ob)
     \<and> (\<forall>b vi vi'. b \<notin> {current_at ob, ts_RampingBuildID (o_ts ob), current_at ob', ts_RampingBuildID (o_ts ob')} \<longrightarrow>
          map_get (ts_Versions (o_ts ob)) b = Some vi \<longrightarrow> map_get (ts_Versions (o_ts ob')) b = Some vi' \<longrightarrow>
          vi_Status vi = VersionStatusInactive \<longrightarrow> vi_Status vi' = VersionStatusInactive)"

text \<open>
  A version that serves nothing and will not: it never did, or it has been drained for longer than both sunset delays.
\<close>

definition retired :: "loop_params \<Rightarrow> go_time \<Rightarrow> VersionInfo \<Rightarrow> bool" where
  "retired L now vi \<longleftrightarrow>
     vi_Status vi = VersionStatusInactive
     \<or> vi_Status vi = VersionStatusDrained
       \<and> (\<exists>t a b. vi_DrainedSince vi = Some t \<and> delays (lp_spec L) a b \<and> a + b < now - t)"

definition calm :: "loop_params \<Rightarrow> observation \<Rightarrow> bool" where
  "calm L ob \<longleftrightarrow>
     deployments_wf (lp_tp L) (o_ks ob) \<and> [] \<notin> dom (map_get (store_at ob)) \<and> served (store_at ob)
     \<and> (\<forall>b vi. map_get (ts_Versions (o_ts ob)) b = Some vi \<longrightarrow> vi_Status vi = VersionStatusDrained \<longrightarrow> vi_DrainedSince vi \<noteq> None)
     \<and> (\<forall>d. map_get (store_at ob) (lp_target L) = Some d \<longrightarrow> healthy_since d \<noteq> None)
     \<and> (\<forall>b. conn_fresh (lp_connection L) (store_at ob) b) \<and> pod_fresh (lp_tp L) (lp_spec L) (store_at ob) (lp_target L)
     \<and> (\<forall>b \<in> dom (map_get (store_at ob)). \<exists>vi. map_get (ts_Versions (o_ts ob)) b = Some vi
          \<and> vi_Status vi \<noteq> VersionStatusNotRegistered
          \<and> (b \<noteq> current_at ob \<longrightarrow> b \<noteq> lp_target L \<longrightarrow> retired L (o_now ob) vi))
     \<and> (ts_RampingBuildID (o_ts ob) = [] \<or> ts_RampingBuildID (o_ts ob) = lp_target L \<and> current_at ob \<noteq> lp_target L)"

text \<open>One run and what follows it, in a calm period. A run that panics has no successor.\<close>

definition loop_step :: "loop_params \<Rightarrow> observation \<Rightarrow> observation \<Rightarrow> bool" where
  "loop_step L ob ob' \<longleftrightarrow>
     calm L ob \<and> calm L ob' \<and> (\<exists>p store. plan_at L ob = Inr (p, store) \<and> took_effect L p ob ob')"

text \<open>The worker deployment: AllAtOnce without a gate, defaulted, and a target.\<close>

definition simple_rollout :: "loop_params \<Rightarrow> bool" where
  "simple_rollout L \<longleftrightarrow>
     rs_Strategy (spec_RolloutStrategy (lp_spec L)) = UpdateAllAtOnce \<and> rs_Gate (spec_RolloutStrategy (lp_spec L)) = None
     \<and> (\<exists>a b. delays (lp_spec L) a b) \<and> spec_Replicas (lp_spec L) \<noteq> None \<and> lp_target L \<noteq> []"

section \<open>The parts of a plan\<close>

lemma plan_parts:
  assumes "plan_at L ob = Inr (p, store)"
  shows "getDeleteDeployments (o_now ob) (o_ks ob) (status_at L ob) (lp_spec L) (length (ts_Versions (o_ts ob)) > 0)
           = Inr (plan_DeleteDeployments p)"
    and "getScaleDeployments (o_now ob) (o_ks ob) (status_at L ob) (lp_spec L) = Inr (plan_ScaleDeployments p)"
    and "getUpdateDeployments (lp_tp L) (store_at ob) (status_at L ob) (lp_spec L) (lp_connection L)
           = Inr (store, plan_UpdateDeployments p)"
    and "getVersionConfigDiff (o_now ob) (status_at L ob) (Some (o_ts ob))
           \<lparr>cfg_RolloutStrategy = spec_RolloutStrategy (lp_spec L)\<rparr> = Inr (plan_VersionConfig p)"
    and "plan_ShouldCreateDeployment p = shouldCreateDeployment (status_at L ob) (lp_limit L)"
    and "plan_TestWorkflows p = getTestWorkflows (status_at L ob) \<lparr>cfg_RolloutStrategy = spec_RolloutStrategy (lp_spec L)\<rparr>
           (lp_name L) [] False"
    and "plan_RemoveIgnoreLastModifierBuilds p = remove_ignore_builds (Some (o_ts ob)) (plan_VersionConfig p)"
  using assms by (auto simp: plan_at_def GeneratePlan_def Let_def bindE_eq_Inr)

lemma calm_mapped: "calm L ob \<Longrightarrow> mapped (status_at L ob)"
  unfolding mapped_def status_at_def
  by (intro exI [of _ "lp_tp L"] exI [of _ "map fst (store_at ob)"]
        exI [of _ "newStateMapper (o_ks ob) (o_ts ob) (lp_name L)"] exI [of _ "lp_target L"])
     (auto simp: calm_def deployments_wf_def newStateMapper_def)

lemma target_at [simp]: "v_BuildID (st_TargetVersion (status_at L ob)) = lp_target L"
  by (simp add: status_at_def target_in_status)

section \<open>What the status says in a calm period\<close>

lemma store_ref:
  assumes "calm L ob" and "map_get (store_at ob) b = Some d"
  obtains r where "map_get (ks_DeploymentRefs (o_ks ob)) b = Some r"
proof -
  have "deployments_wf (lp_tp L) (o_ks ob)" using assms(1) by (simp add: calm_def)
  then show thesis using assms(2) that unfolding deployments_wf_def by blast
qed

text \<open>A Deployment that is neither current nor target has a deprecated version, with what Temporal says of it.\<close>

lemma deprecated_at:
  assumes "calm L ob" and "map_get (store_at ob) b = Some d" and "b \<noteq> current_at ob" and "b \<noteq> lp_target L"
  obtains v vi r where "v \<in> set (st_DeprecatedVersions (status_at L ob))" and "v_BuildID v = b"
    and "map_get (ts_Versions (o_ts ob)) b = Some vi" and "retired L (o_now ob) vi"
    and "v_Status v = vi_Status vi" and "v_DrainedSince v = vi_DrainedSince vi"
    and "v_Deployment v = Some r" and "map_get (ks_DeploymentRefs (o_ks ob)) b = Some r"
proof -
  let ?m = "newStateMapper (o_ks ob) (o_ts ob) (lp_name L)"
  have m: "sm_k8sState ?m = o_ks ob" "sm_temporalState ?m = o_ts ob" by (simp_all add: newStateMapper_def)
  have b: "b \<in> dom (map_get (store_at ob))" using assms(2) by blast
  then have "b \<noteq> []" using assms(1) by (auto simp: calm_def)
  then obtain v where v: "mapDeprecatedWorkerDeploymentVersionByBuildID ?m b = Some v" using mapDeprecated_Some by blast
  have "b \<in> set (deprecated_ids ?m (lp_target L) (map fst (store_at ob)))"
    using assms(3,4) \<open>b \<noteq> []\<close> map_of_SomeD [OF assms(2)] by (force simp: deprecated_ids_def m)
  then have "v \<in> set (st_DeprecatedVersions (status_at L ob))"
    using v unfolding status_at_def deprecated_versions_eq by force
  moreover obtain vi where vi: "map_get (ts_Versions (o_ts ob)) b = Some vi" "retired L (o_now ob) vi"
    using assms b unfolding calm_def by blast
  moreover obtain r where "map_get (ks_DeploymentRefs (o_ks ob)) b = Some r" by (rule store_ref [OF assms(1,2)])
  ultimately show thesis
    using that [of v vi r] mapDeprecated_fields [OF v] assms(2) by (simp add: m)
qed

lemma deprecated_at_conv:
  assumes "v \<in> set (st_DeprecatedVersions (status_at L ob))"
  shows "\<exists>d. map_get (store_at ob) (v_BuildID v) = Some d" and "v_BuildID v \<noteq> current_at ob" and "v_BuildID v \<noteq> lp_target L"
proof -
  have "v_BuildID v \<in> set (deprecated_ids (newStateMapper (o_ks ob) (o_ts ob) (lp_name L)) (lp_target L) (map fst (store_at ob)))"
    using deprecated_in_status(2) assms unfolding status_at_def by blast
  then show "\<exists>d. map_get (store_at ob) (v_BuildID v) = Some d" "v_BuildID v \<noteq> current_at ob" "v_BuildID v \<noteq> lp_target L"
    by (auto simp: deprecated_ids_def newStateMapper_def map_of_eq_None_iff [symmetric] dest!: weak_map_of_SomeI)
qed

lemma deprecated_status:
  assumes "calm L ob" and "v \<in> set (st_DeprecatedVersions (status_at L ob))"
  shows "v_Status v \<in> {VersionStatusInactive, VersionStatusDrained}"
proof -
  obtain d where "map_get (store_at ob) (v_BuildID v) = Some d" using deprecated_at_conv(1) [OF assms(2)] by blast
  from deprecated_at [OF assms(1) this deprecated_at_conv(2,3) [OF assms(2)]] obtain v' vi where
    "v' \<in> set (st_DeprecatedVersions (status_at L ob))" "v_BuildID v' = v_BuildID v" "retired L (o_now ob) vi" "v_Status v' = vi_Status vi"
    by blast
  moreover from this have "v' = v" using sm.deprecated_unique [OF calm_mapped [OF assms(1)]] assms(2) by blast
  ultimately show ?thesis by (auto simp: retired_def)
qed

lemma current_version_at:
  "map_option v_BuildID (st_CurrentVersion (status_at L ob)) = (if current_at ob = [] then None else Some (current_at ob))"
  by (simp add: status_at_def current_in_status newStateMapper_def mapCurrentWorkerDeploymentVersionByBuildID_def Let_def
      split: option.split)

lemma target_version_at:
  assumes "calm L ob" and "map_get (store_at ob) (lp_target L) = Some d"
  shows "v_Deployment (st_TargetVersion (status_at L ob)) = map_get (ks_DeploymentRefs (o_ks ob)) (lp_target L)"
    and "v_HealthySince (st_TargetVersion (status_at L ob)) \<noteq> None"
    and "v_Status (st_TargetVersion (status_at L ob)) \<noteq> VersionStatusNotRegistered"
    and "v_Deployment (st_TargetVersion (status_at L ob)) \<noteq> None"
proof -
  let ?m = "newStateMapper (o_ks ob) (o_ts ob) (lp_name L)"
  have m: "sm_k8sState ?m = o_ks ob" "sm_temporalState ?m = o_ts ob" by (simp_all add: newStateMapper_def)
  have t: "lp_target L \<noteq> []" using assms by (auto simp: calm_def)
  have "lp_target L \<in> dom (map_get (store_at ob))" using assms(2) by blast
  then obtain vi where vi: "map_get (ts_Versions (o_ts ob)) (lp_target L) = Some vi" "vi_Status vi \<noteq> VersionStatusNotRegistered"
    using assms(1) unfolding calm_def by blast
  show "v_Deployment (st_TargetVersion (status_at L ob)) = map_get (ks_DeploymentRefs (o_ks ob)) (lp_target L)"
    using t assms(2) by (simp add: status_at_def target_in_status mapTarget_fields m)
  then show "v_Deployment (st_TargetVersion (status_at L ob)) \<noteq> None"
    by (metis store_ref [OF assms] option.distinct(1))
  show "v_Status (st_TargetVersion (status_at L ob)) \<noteq> VersionStatusNotRegistered"
    using t vi by (simp add: status_at_def target_in_status mapTarget_fields m)
  have "healthy_since d \<noteq> None" using assms by (simp add: calm_def)
  then show "v_HealthySince (st_TargetVersion (status_at L ob)) \<noteq> None"
    using t assms(2) vi(1)
    by (simp add: status_at_def mapToStatus_def mapTargetWorkerDeploymentVersionByBuildID_def Let_def m)
qed

section \<open>The stages\<close>

text \<open>There is room for the target; it has a Deployment; it is current; sizes are right; what else is left is inactive.\<close>

definition room :: "loop_params \<Rightarrow> observation \<Rightarrow> bool" where
  "room L ob \<longleftrightarrow>
     map_get (store_at ob) (lp_target L) \<noteq> None \<or> shouldCreateDeployment (status_at L ob) (lp_limit L)"

definition placed :: "loop_params \<Rightarrow> observation \<Rightarrow> bool" where
  "placed L ob \<longleftrightarrow> map_get (store_at ob) (lp_target L) \<noteq> None"

definition routed :: "loop_params \<Rightarrow> observation \<Rightarrow> bool" where
  "routed L ob \<longleftrightarrow> placed L ob \<and> current_at ob = lp_target L"

definition sized :: "loop_params \<Rightarrow> observation \<Rightarrow> bool" where
  "sized L ob \<longleftrightarrow>
     routed L ob \<and> (\<forall>b d. map_get (store_at ob) b = Some d \<longrightarrow>
       d_Replicas d = (if b = lp_target L then spec_Replicas (lp_spec L) else Some 0))"

definition settled :: "loop_params \<Rightarrow> observation \<Rightarrow> bool" where
  "settled L ob \<longleftrightarrow>
     sized L ob \<and> (\<forall>b \<in> dom (map_get (store_at ob)) - {lp_target L}.
       \<exists>vi. map_get (ts_Versions (o_ts ob)) b = Some vi \<and> vi_Status vi = VersionStatusInactive)"

lemma loop_stepE:
  assumes "loop_step L ob ob'"
  obtains p store where "calm L ob" and "calm L ob'" and "plan_at L ob = Inr (p, store)" and "took_effect L p ob ob'"
  using assms unfolding loop_step_def by blast

lemma replicas_step:
  "took_effect L p ob ob' \<Longrightarrow> map_option d_Replicas (map_get (store_at ob') b) = replicas_after L p ob b"
  by (simp add: took_effect_def)

lemma stays_inactive:
  assumes "took_effect L p ob ob'" and "map_get (ts_Versions (o_ts ob)) b = Some vi" and "vi_Status vi = VersionStatusInactive"
    and "map_get (ts_Versions (o_ts ob')) b = Some vi'"
    and "b \<noteq> current_at ob" and "b \<noteq> ts_RampingBuildID (o_ts ob)" and "b \<noteq> current_at ob'" and "b \<noteq> ts_RampingBuildID (o_ts ob')"
  shows "vi_Status vi' = VersionStatusInactive"
proof -
  have "b \<notin> {current_at ob, ts_RampingBuildID (o_ts ob), current_at ob', ts_RampingBuildID (o_ts ob')}" using assms(5-8) by blast
  with assms(1) [unfolded took_effect_def, THEN conjunct2, THEN conjunct2] show ?thesis using assms(2-4) by (elim allE impE)
qed

lemma simple_rolloutE:
  assumes "simple_rollout L"
  obtains a b n where "delays (lp_spec L) a b" and "spec_Replicas (lp_spec L) = Some n"
    and "ss_ScaledownDelay (spec_SunsetStrategy (lp_spec L)) = Some a"
  using assms unfolding simple_rollout_def delays_def by blast

lemma target_not_deleted:
  assumes "simple_rollout L" and "calm L ob" and "plan_at L ob = Inr (p, store)"
  shows "lp_target L \<notin> set (plan_DeleteDeployments p)"
proof -
  obtain a b n where "delays (lp_spec L) a b" "spec_Replicas (lp_spec L) = Some n" by (rule simple_rolloutE [OF assms(1)])
  from sm.serving_kept(1) [OF calm_mapped [OF assms(2)] plan_parts(1,2) [OF assms(3)] this] show ?thesis by simp
qed

lemma placed_step:
  assumes "loop_step L ob ob'" and "simple_rollout L" and "room L ob"
  shows "placed L ob'"
proof -
  obtain p store where calm: "calm L ob" and p: "plan_at L ob = Inr (p, store)" and t: "took_effect L p ob ob'"
    by (rule loop_stepE [OF assms(1)])
  have "replicas_after L p ob (lp_target L) \<noteq> None"
    using target_not_deleted [OF assms(2) calm p] assms(3) plan_parts(5) [OF p]
    by (auto simp: replicas_after_def room_def split: option.splits)
  then show ?thesis unfolding replicas_step [OF t, symmetric] placed_def by auto
qed

text \<open>Where the version configuration leads: the target is current afterwards.\<close>

lemma routed_step:
  assumes "loop_step L ob ob'" and "simple_rollout L" and "placed L ob"
  shows "routed L ob'"
proof -
  obtain p store where calm: "calm L ob" and p: "plan_at L ob = Inr (p, store)" and t: "took_effect L p ob ob'"
    by (rule loop_stepE [OF assms(1)])
  obtain d where d: "map_get (store_at ob) (lp_target L) = Some d" using assms(3) by (auto simp: placed_def)
  note T = target_version_at [OF calm d]
  have pt: "placed L ob'" by (rule placed_step [OF assms(1,2)]) (use d in \<open>simp add: room_def\<close>)
  have ne: "lp_target L \<noteq> []" using assms(2) by (simp add: simple_rollout_def)
  have cur: "(case st_CurrentVersion (status_at L ob) of None \<Rightarrow> False | Some c \<Rightarrow> v_BuildID c = lp_target L)
      \<longleftrightarrow> current_at ob = lp_target L"
    using current_version_at [of L ob] ne by (auto split: option.splits if_splits)
  have S: "rs_Strategy (spec_RolloutStrategy (lp_spec L)) = UpdateAllAtOnce"
    "gate_passed (spec_RolloutStrategy (lp_spec L)) t" for t
    using assms(2) by (simp_all add: simple_rollout_def gate_passed_def)
  have V: "if current_at ob = lp_target L then r = None else \<exists>vcfg. r = Some vcfg \<and> vc_SetCurrent vcfg \<and> vc_BuildID vcfg = lp_target L"
    if "getVersionConfigDiff (o_now ob) (status_at L ob) (Some (o_ts ob)) \<lparr>cfg_RolloutStrategy = spec_RolloutStrategy (lp_spec L)\<rparr> = Inr r"
    for r
  proof (cases "current_at ob = lp_target L")
    case True
    then have "ts_RampingBuildID (o_ts ob) = []" using calm by (simp add: calm_def)
    with that True cur S T(2,3) show ?thesis
      by (auto simp: getVersionConfigDiff_def Let_def bindE_eq_Inr split: if_splits option.splits)
  next
    case False
    with that cur S T(2,3) show ?thesis
      by (auto simp: getVersionConfigDiff_def Let_def bindE_eq_Inr split: if_splits option.splits)
  qed
  have "current_at ob' = lp_target L"
    using V [OF plan_parts(4) [OF p]] t by (auto simp: took_effect_def split: if_splits)
  with pt show ?thesis by (simp add: routed_def)
qed

section \<open>Which sizes are planned\<close>

lemma scale_version_keeps:
  assumes "scale_version now ks status spec n v m = Inr m'" and "map_get m r \<noteq> None"
  shows "map_get m' r \<noteq> None"
  using assms by (auto simp: scale_version_def bindE_eq_Inr split: option.splits VersionStatus.splits if_splits)

lemma scale_loop_keeps:
  assumes "foldE (scale_version now ks status spec n) vs m = Inr m'" and "map_get m r \<noteq> None"
  shows "map_get m' r \<noteq> None"
  by (rule foldE_invariant [where P = "\<lambda>m. map_get m r \<noteq> None", OF assms]) (rule scale_version_keeps)

lemma getScaleDeployments_loop:
  assumes "getScaleDeployments now ks status spec = Inr m" and "spec_Replicas spec = Some n"
  shows "foldE (scale_version now ks status spec n) (st_DeprecatedVersions status)
           (scale_target ks status n (scale_current ks status n [])) = Inr m"
  using assms by (simp add: getScaleDeployments_def)

text \<open>A deprecated version that serves nothing and has replicas is in the plan.\<close>

lemma idle_scaled:
  assumes "getScaleDeployments now ks status spec = Inr m" and "spec_Replicas spec = Some n"
    and "ss_ScaledownDelay (spec_SunsetStrategy spec) = Some wait"
    and "v \<in> set (st_DeprecatedVersions status)" and "v_BuildID v \<noteq> v_BuildID (st_TargetVersion status)"
    and "scaled_down now ks status wait v r"
  shows "map_get m r \<noteq> None"
proof -
  obtain xs ys where vs: "st_DeprecatedVersions status = xs @ v # ys" using split_list [OF assms(4)] by blast
  obtain m1 m2 where m2: "scale_version now ks status spec n v m1 = Inr m2"
    and m: "foldE (scale_version now ks status spec n) ys m2 = Inr m"
    using getScaleDeployments_loop [OF assms(1,2)] unfolding vs foldE_append by (auto simp: bindE_eq_Inr)
  have "map_get m2 r \<noteq> None"
    using m2 assms(3,5,6) by (auto simp: scale_version_def scaled_down_def bindE_eq_Inr split: if_splits)
  with m show ?thesis by (rule scale_loop_keeps)
qed

text \<open>The current version's Deployment is in the plan if it has another size.\<close>

lemma current_scaled:
  assumes "getScaleDeployments now ks status spec = Inr m" and "spec_Replicas spec = Some n"
    and "st_CurrentVersion status = Some c" and "v_Deployment c = Some r"
    and "map_get (ks_Deployments ks) (v_BuildID c) = Some d" and "d_Replicas d \<noteq> None" and "d_Replicas d \<noteq> Some n"
  shows "map_get m r \<noteq> None"
proof -
  have "map_get (scale_target ks status n (scale_current ks status n [])) r \<noteq> None"
    using assms(3-7) by (auto simp: scale_current_def scale_target_def split: option.splits)
  with getScaleDeployments_loop [OF assms(1,2)] show ?thesis by (rule scale_loop_keeps)
qed

text \<open>In a calm period: an idle Deployment ends at zero, the target's at the desired size, once it is current.\<close>

lemma retired_scaled:
  assumes "delays spec a b" and "a + b < now - t"
  shows "a < time_Since now t" and "a + b < time_Since now t"
  using assms by (auto simp: delays_def intro!: time_Since_gtI)

lemma delays_unique: "delays spec a b \<Longrightarrow> delays spec a' b' \<Longrightarrow> a' = a \<and> b' = b"
  by (auto simp: delays_def)

lemma idle_size:
  assumes "simple_rollout L" and "calm L ob" and "plan_at L ob = Inr (p, store)" and "routed L ob"
    and "map_get (store_at ob) b = Some d" and "b \<noteq> lp_target L"
  shows "replicas_after L p ob b = None \<or> replicas_after L p ob b = Some (Some 0)"
proof (cases "b \<in> set (plan_DeleteDeployments p)")
  case True
  then show ?thesis using assms(5) by (simp add: replicas_after_def)
next
  case False
  let ?s = "status_at L ob" and ?m = "plan_ScaleDeployments p"
  obtain x y n where D: "delays (lp_spec L) x y" and n: "spec_Replicas (lp_spec L) = Some n"
    and x: "ss_ScaledownDelay (spec_SunsetStrategy (lp_spec L)) = Some x" by (rule simple_rolloutE [OF assms(1)])
  have "b \<noteq> current_at ob" using assms(4,6) by (simp add: routed_def)
  then obtain v vi r where v: "v \<in> set (st_DeprecatedVersions ?s)" "v_BuildID v = b" "retired L (o_now ob) vi"
    "v_Status v = vi_Status vi" "v_DrainedSince v = vi_DrainedSince vi" "v_Deployment v = Some r"
    "map_get (ks_DeploymentRefs (o_ks ob)) b = Some r"
    using assms(6) by (metis deprecated_at [OF assms(2,5)])
  have idle: "v_Status v = VersionStatusInactive
      \<or> v_Status v = VersionStatusDrained \<and> (\<exists>t. v_DrainedSince v = Some t \<and> time_Since (o_now ob) t > x)"
    using v(3-5) delays_unique [OF D] retired_scaled(1) unfolding retired_def by metis
  note S = plan_parts(2) [OF assms(3)]
  have zero: "k = 0" if "map_get ?m r = Some k" for k
    using sm.reason_of_deprecated [OF calm_mapped [OF assms(2)] v(1,6)] getScaleDeployments_reason [OF S n x] that idle
    unfolding reasoned_def by fastforce
  have "scaled_down (o_now ob) (o_ks ob) ?s x v r" if "d_Replicas d \<noteq> Some 0"
  proof -
    have "d_Replicas d \<noteq> None" using assms(2,5) by (auto simp: calm_def served_def served_deployment_def)
    then show ?thesis using that idle assms(5,6) v(2,6) by (auto simp: scaled_down_def)
  qed
  then have "map_get ?m r = None \<Longrightarrow> d_Replicas d = Some 0"
    using idle_scaled [OF S n x v(1), of r] v(2) assms(6) by (metis target_at)
  with zero False assms(5) v(7) show ?thesis by (auto simp: replicas_after_def split: option.split)
qed

lemma target_size:
  assumes "simple_rollout L" and "calm L ob" and "plan_at L ob = Inr (p, store)" and "routed L ob"
  shows "replicas_after L p ob (lp_target L) = Some (spec_Replicas (lp_spec L))"
proof -
  let ?s = "status_at L ob" and ?m = "plan_ScaleDeployments p"
  obtain x y n where D: "delays (lp_spec L) x y" and n: "spec_Replicas (lp_spec L) = Some n" by (rule simple_rolloutE [OF assms(1)])
  obtain d where d: "map_get (store_at ob) (lp_target L) = Some d" using assms(4) by (auto simp: routed_def placed_def)
  obtain r where r: "map_get (ks_DeploymentRefs (o_ks ob)) (lp_target L) = Some r" by (rule store_ref [OF assms(2) d])
  have "lp_target L \<noteq> []" using assms(1) by (simp add: simple_rollout_def)
  then obtain c where c: "st_CurrentVersion ?s = Some c" "v_BuildID c = lp_target L"
    using current_version_at [of L ob] assms(4) by (auto simp: routed_def)
  have cd: "v_Deployment c = Some r"
    using mapCurrent_fields [OF c(1) [unfolded status_at_def current_in_status]] c(2) d r by (simp add: newStateMapper_def split: if_splits)
  note S = plan_parts(2) [OF assms(3)]
  have "map_get ?m r \<in> {None, Some n}"
    by (rule sm.serving_kept(4) [OF calm_mapped [OF assms(2)] plan_parts(1) [OF assms(3)] S D n c(1) cd])
  moreover have "d_Replicas d \<noteq> None" using assms(2) d by (auto simp: calm_def served_def served_deployment_def)
  then have "map_get ?m r = None \<Longrightarrow> d_Replicas d = Some n"
    using current_scaled [OF S n c(1) cd] c(2) d by metis
  ultimately show ?thesis
    using target_not_deleted [OF assms(1-3)] d r n by (auto simp: replicas_after_def)
qed

lemma sized_step:
  assumes "loop_step L ob ob'" and "simple_rollout L" and "routed L ob"
  shows "sized L ob'"
proof -
  obtain p store where calm: "calm L ob" and p: "plan_at L ob = Inr (p, store)" and t: "took_effect L p ob ob'"
    by (rule loop_stepE [OF assms(1)])
  have pl: "placed L ob" using assms(3) by (simp add: routed_def)
  have "d_Replicas d' = (if b = lp_target L then spec_Replicas (lp_spec L) else Some 0)"
    if d': "map_get (store_at ob') b = Some d'" for b d'
  proof -
    have R: "replicas_after L p ob b = Some (d_Replicas d')" using replicas_step [OF t, of b] d' by simp
    show ?thesis
    proof (cases "b = lp_target L")
      case True
      then show ?thesis using R target_size [OF assms(2) calm p assms(3)] by simp
    next
      case False
      then obtain d where "map_get (store_at ob) b = Some d"
        using R by (auto simp: replicas_after_def split: option.splits if_splits)
      from idle_size [OF assms(2) calm p assms(3) this False] R False show ?thesis by simp
    qed
  qed
  then show ?thesis using routed_step [OF assms(1,2) pl] unfolding sized_def by blast
qed

text \<open>A drained Deployment of size zero goes, so only inactive ones are left.\<close>

lemma settled_step:
  assumes "loop_step L ob ob'" and "simple_rollout L" and "sized L ob"
  shows "settled L ob'"
proof -
  obtain p store where calm: "calm L ob" "calm L ob'" and p: "plan_at L ob = Inr (p, store)" and t: "took_effect L p ob ob'"
    by (rule loop_stepE [OF assms(1)])
  obtain x y where D: "delays (lp_spec L) x y" by (rule simple_rolloutE [OF assms(2)])
  have ro: "routed L ob" and cur: "current_at ob = lp_target L" using assms(3) by (simp_all add: sized_def routed_def)
  have "\<exists>vi. map_get (ts_Versions (o_ts ob')) b = Some vi \<and> vi_Status vi = VersionStatusInactive"
    if b: "b \<in> dom (map_get (store_at ob'))" "b \<noteq> lp_target L" for b
  proof -
    obtain d' where d': "map_get (store_at ob') b = Some d'" using b(1) by blast
    have R: "replicas_after L p ob b = Some (d_Replicas d')" using replicas_step [OF t, of b] d' by simp
    then obtain d where d: "map_get (store_at ob) b = Some d" and keep: "b \<notin> set (plan_DeleteDeployments p)"
      using b(2) by (auto simp: replicas_after_def split: option.splits if_splits)
    have d0: "d_Replicas d = Some 0" using assms(3) d b(2) by (simp add: sized_def)
    have bc: "b \<noteq> current_at ob" using cur b(2) by simp
    obtain v vi r where v: "v \<in> set (st_DeprecatedVersions (status_at L ob))" "v_BuildID v = b"
      "map_get (ts_Versions (o_ts ob)) b = Some vi" "retired L (o_now ob) vi"
      "v_Status v = vi_Status vi" "v_DrainedSince v = vi_DrainedSince vi" "v_Deployment v = Some r"
      by (rule deprecated_at [OF calm(1) d bc b(2)])
    have i: "vi_Status vi = VersionStatusInactive"
    proof (rule ccontr)
      assume "vi_Status vi \<noteq> VersionStatusInactive"
      then obtain t where "vi_Status vi = VersionStatusDrained" "vi_DrainedSince vi = Some t" "time_Since (o_now ob) t > x + y"
        using v(4) delays_unique [OF D] retired_scaled(2) [OF D] unfolding retired_def by blast
      then have "deletable (o_now ob) (o_ks ob) (status_at L ob) (x + y) f v" for f
        using v(2,5-7) d d0 by (auto simp: deletable_def)
      then show False
        using keep v(1,2) unfolding getDeleteDeployments_eq [OF plan_parts(1) [OF p] D] by auto
    qed
    have c': "current_at ob' = lp_target L" using routed_step [OF assms(1,2)] ro by (simp add: routed_def)
    have "b \<noteq> ts_RampingBuildID (o_ts ob)" "b \<noteq> ts_RampingBuildID (o_ts ob')"
      using calm cur c' d d' by (auto simp: calm_def)
    moreover obtain vi' where "map_get (ts_Versions (o_ts ob')) b = Some vi'" using calm(2) b(1) unfolding calm_def by blast
    moreover from this calculation have "vi_Status vi' = VersionStatusInactive"
      using stays_inactive [OF t v(3) i] bc b(2) c' by simp
    ultimately show ?thesis by blast
  qed
  then show ?thesis using sized_step [OF assms(1,2) ro] by (auto simp: settled_def)
qed

section \<open>The loop comes to rest\<close>

lemma settled_deprecated:
  assumes "settled L ob" and "v \<in> set (st_DeprecatedVersions (status_at L ob))"
  shows "v_Status v = VersionStatusInactive" and "v_BuildID v \<noteq> lp_target L"
    and "\<exists>d. map_get (store_at ob) (v_BuildID v) = Some d \<and> d_Replicas d = Some 0"
proof -
  note D = deprecated_at_conv [OF assms(2)]
  then obtain d where d: "map_get (store_at ob) (v_BuildID v) = Some d" by blast
  show "v_BuildID v \<noteq> lp_target L" by (rule D)
  then show "\<exists>d. map_get (store_at ob) (v_BuildID v) = Some d \<and> d_Replicas d = Some 0"
    using assms(1) d by (auto simp: settled_def sized_def)
  obtain vi where "map_get (ts_Versions (o_ts ob)) (v_BuildID v) = Some vi" "vi_Status vi = VersionStatusInactive"
    using assms(1) d D(3) unfolding settled_def by blast
  then show "v_Status v = VersionStatusInactive"
    using mapDeprecated_fields [OF deprecated_in_status(1) [OF assms(2) [unfolded status_at_def]]]
    by (simp add: newStateMapper_def)
qed

lemma settled_quiet:
  assumes "simple_rollout L" and "calm L ob" and "settled L ob"
  shows "plan_at L ob = Inr (empty_plan, store_at ob)"
proof -
  let ?s = "status_at L ob"
  obtain n where n: "spec_Replicas (lp_spec L) = Some n" by (rule simple_rolloutE [OF assms(1)])
  have cur: "current_at ob = lp_target L" and ne: "lp_target L \<noteq> []"
    using assms(1,3) by (simp_all add: simple_rollout_def settled_def sized_def routed_def)
  obtain d where d: "map_get (store_at ob) (lp_target L) = Some d" "d_Replicas d = Some n"
    using assms(3) n by (auto simp: settled_def sized_def routed_def placed_def)
  obtain c where c: "st_CurrentVersion ?s = Some c" "v_BuildID c = lp_target L"
    using current_version_at [of L ob] cur ne by auto
  have ramp: "ts_RampingBuildID (o_ts ob) = []" using assms(2) cur by (simp add: calm_def)
  note T = target_version_at [OF assms(2) d(1)]
  have 1: "getDeleteDeployments (o_now ob) (o_ks ob) ?s (lp_spec L) f = Inr []" for f
  proof -
    have "\<forall>v \<in> set (st_DeprecatedVersions ?s). delete_version (o_now ob) (o_ks ob) ?s (lp_spec L) f v = Inr False"
      using settled_deprecated(1) [OF assms(3)] by (auto simp: delete_version_def split: option.split)
    then show ?thesis unfolding getDeleteDeployments_def by (subst foldE_appendIf_total) (auto simp: filter_empty_conv)
  qed
  have 2: "getScaleDeployments (o_now ob) (o_ks ob) ?s (lp_spec L) = Inr []"
  proof -
    have "scale_version (o_now ob) (o_ks ob) ?s (lp_spec L) n v m = Inr m" if "v \<in> set (st_DeprecatedVersions ?s)" for v m
      using settled_deprecated [OF assms(3) that] by (auto simp: scale_version_def split: option.split)
    then have "foldE (scale_version (o_now ob) (o_ks ob) ?s (lp_spec L) n) (st_DeprecatedVersions ?s) []
        = Inr (fold (\<lambda>_ m. m) (st_DeprecatedVersions ?s) [])" by (intro foldE_total)
    moreover have "scale_target (o_ks ob) ?s n (scale_current (o_ks ob) ?s n []) = []"
      using c d by (auto simp: scale_current_def scale_target_def split: option.splits)
    moreover have "fold (\<lambda>_ m. m) vs m = m" for vs :: "DeprecatedWorkerDeploymentVersion list" and m :: scale_map
      by (induction vs) simp_all
    ultimately show ?thesis by (simp add: getScaleDeployments_def n)
  qed
  have 3: "getUpdateDeployments (lp_tp L) (store_at ob) ?s (lp_spec L) (lp_connection L) = Inr (store_at ob, [])"
    by (rule getUpdateDeployments_fresh) (use assms(2) in \<open>simp_all add: calm_def\<close>)
  have 4: "getVersionConfigDiff (o_now ob) ?s (Some (o_ts ob)) \<lparr>cfg_RolloutStrategy = spec_RolloutStrategy (lp_spec L)\<rparr> = Inr None"
    using assms(1) c ramp T(2,3) by (auto simp: getVersionConfigDiff_def Let_def gate_passed_def simple_rollout_def)
  have 5: "getTestWorkflows ?s \<lparr>cfg_RolloutStrategy = spec_RolloutStrategy (lp_spec L)\<rparr> (lp_name L) [] False = []"
    using assms(1) by (simp add: getTestWorkflows_def simple_rollout_def)
  have 6: "\<not> shouldCreateDeployment ?s (lp_limit L)" using T(4) by (simp add: shouldCreateDeployment_def)
  show ?thesis
    by (simp add: plan_at_def GeneratePlan_def Let_def 1 2 3 4 5 6 empty_plan_def remove_ignore_builds_def)
qed

lemma settled_kept:
  assumes "(loop_step L ^^ n) ob ob'" and "simple_rollout L" and "settled L ob"
  shows "settled L ob'"
  using assms(1)
proof (induction n arbitrary: ob')
  case (Suc n)
  then obtain ob1 where "settled L ob1" "loop_step L ob1 ob'" by auto
  then show ?case using settled_step assms(2) by (simp add: settled_def)
qed (use assms(3) in simp)

lemma settled_after_four:
  assumes "(loop_step L ^^ 4) ob ob'" and "simple_rollout L" and "room L ob"
  shows "settled L ob'"
proof -
  obtain o1 o2 o3 where s: "loop_step L ob o1" "loop_step L o1 o2" "loop_step L o2 o3" "loop_step L o3 ob'"
    using assms(1) by (auto simp: numeral_eq_Suc)
  have "placed L o1" by (rule placed_step [OF s(1) assms(2,3)])
  then have "routed L o2" by (rule routed_step [OF s(2) assms(2)])
  then have "sized L o3" by (rule sized_step [OF s(3) assms(2)])
  then show ?thesis by (rule settled_step [OF s(4) assms(2)])
qed

text \<open>No run of a calm period panics.\<close>

lemma calm_plans:
  assumes "simple_rollout L" and "calm L ob"
  shows "\<exists>p store. plan_at L ob = Inr (p, store)"
  unfolding plan_at_def
proof (rule GeneratePlan_runs)
  let ?s = "status_at L ob" and ?spec = "lp_spec L"
  obtain a b n where D: "delays ?spec a b" and n: "spec_Replicas ?spec = Some n" by (rule simple_rolloutE [OF assms(1)])
  have drained: "v_DrainedSince v \<noteq> None"
    if "v \<in> set (st_DeprecatedVersions ?s)" "v_Status v = VersionStatusDrained" for v
    using mapped_drained [OF that(1) [unfolded status_at_def] that(2)] assms(2) unfolding calm_def by force
  have spec: "ss_ScaledownDelay (spec_SunsetStrategy ?spec) \<noteq> None" "ss_DeleteDelay (spec_SunsetStrategy ?spec) \<noteq> None"
    using D by (simp_all add: delays_def)
  have served: "served (store_at ob)" using assms(2) by (simp add: calm_def)
  have "\<forall>v \<in> set (st_DeprecatedVersions ?s). \<exists>b. delete_version (o_now ob) (o_ks ob) ?s ?spec found v = Inr b" for found
    using drained spec served by (intro ballI delete_version_total) (auto simp: served_def served_deployment_def)
  then show "\<exists>ds. getDeleteDeployments (o_now ob) (o_ks ob) ?s ?spec
      (case Some (o_ts ob) of None \<Rightarrow> False | Some ts \<Rightarrow> length (ts_Versions ts) > 0) = Inr ds"
    unfolding getDeleteDeployments_def by (meson foldE_appendIf_total)
  have "\<exists>m. foldE (scale_version (o_now ob) (o_ks ob) ?s ?spec n) (st_DeprecatedVersions ?s) m0 = Inr m" for m0
    by (rule foldE_returns) (rule scale_version_total [OF spec(1) drained])
  then show "\<exists>m. getScaleDeployments (o_now ob) (o_ks ob) ?s ?spec = Inr m" by (simp add: getScaleDeployments_def n)
  show "\<exists>st. getUpdateDeployments (lp_tp L) (store_at ob) ?s ?spec (lp_connection L) = Inr st"
    using getUpdateDeployments_served [OF served] n by blast
  show "\<exists>r. getVersionConfigDiff (o_now ob) ?s (Some (o_ts ob)) \<lparr>cfg_RolloutStrategy = spec_RolloutStrategy ?spec\<rparr> = Inr r"
    unfolding status_at_def by (rule getVersionConfigDiff_mapped_no_panic)
qed

section \<open>Properties\<close>

text \<open>
  C2 (liveness). Rollouts end. In a calm period, with the strategy AllAtOnce and no gate, and with room for the
  target, no run panics and after four runs the loop is at rest: the plan is empty, the target is current and has
  the desired replicas, and every other Deployment that is left has none. It stays so for as long as the period lasts.
\<close>

theorem loop_converges:
  assumes "simple_rollout L" and "calm L ob" and "room L ob" and "(loop_step L ^^ n) ob ob'"
  shows "(\<exists>p store. plan_at L ob' = Inr (p, store))
    \<and> (4 \<le> n \<longrightarrow> plan_at L ob' = Inr (empty_plan, store_at ob') \<and> current_at ob' = lp_target L
         \<and> map_get (store_at ob') (lp_target L) \<noteq> None
         \<and> (\<forall>b d. map_get (store_at ob') b = Some d \<longrightarrow>
              d_Replicas d = (if b = lp_target L then spec_Replicas (lp_spec L) else Some 0)))"
proof -
  have calm: "calm L ob'" using assms(2,4) by (cases n) (auto simp: loop_step_def)
  have "settled L ob'" if "4 \<le> n"
  proof -
    have "(loop_step L ^^ (4 + (n - 4))) ob ob'" using that assms(4) by simp
    then obtain o4 where "(loop_step L ^^ 4) ob o4" "(loop_step L ^^ (n - 4)) o4 ob'"
      unfolding relpowp_add by blast
    then show ?thesis using settled_after_four [OF _ assms(1,3)] settled_kept [OF _ assms(1)] by blast
  qed
  then show ?thesis
    using settled_quiet [OF assms(1) calm] calm_plans [OF assms(1) calm]
    by (auto simp: settled_def sized_def routed_def placed_def)
qed

text \<open>A sample period: \<open>v1\<close> is current with its three replicas and \<open>v2\<close> is the target.\<close>

definition loop_deployment :: "string \<Rightarrow> string \<times> int32 \<Rightarrow> Deployment" where
  "loop_deployment h bn =
     (let d = sample_deployment (fst bn) (Some (snd bn))
      in d\<lparr>d_Spec := (d_Spec d)\<lparr>ds_Template := (ds_Template (d_Spec d))\<lparr>pt_Annotations := Some [(ConnectionSpecHashAnnotation, h)]\<rparr>\<rparr>,
           d_Status := \<lparr>dst_Replicas = snd bn,
             dst_Conditions = [\<lparr>dc_Type = ''Available'', dc_Status = ''True'', dc_LastTransitionTime = 0\<rparr>]\<rparr>\<rparr>)"

definition loop_ks :: "string \<Rightarrow> (string \<times> int32) list \<Rightarrow> DeploymentState" where
  "loop_ks h ds =
     \<lparr>ks_Deployments = map (\<lambda>bn. (fst bn, loop_deployment h bn)) ds, ks_DeploymentsByTime = map (loop_deployment h) ds,
      ks_DeploymentRefs = map (\<lambda>(a, bn). (fst bn, (a, NewObjectRef sample_third_party (loop_deployment h bn)))) (enumerate 0 ds)\<rparr>"

definition loop_version :: "string \<Rightarrow> VersionStatus \<Rightarrow> string \<times> VersionInfo" where
  "loop_version b s = (b, (zero_VersionInfo (sample_version b) s)\<lparr>vi_DrainedSince := if s = VersionStatusDrained then Some 0 else None\<rparr>)"

definition loop_observation :: "string \<Rightarrow> (string \<times> int32) list \<Rightarrow> string \<Rightarrow> (string \<times> VersionInfo) list \<Rightarrow> observation" where
  "loop_observation h ds c vs =
     \<lparr>o_ks = loop_ks h ds, o_ts = empty_TemporalWorkerState\<lparr>ts_CurrentBuildID := c, ts_Versions := vs\<rparr>, o_now = 30 * Hour\<rparr>"

definition sample_loop :: loop_params where
  "sample_loop =
     \<lparr>lp_tp = sample_third_party, lp_target = ''v2'', lp_spec = sample_spec\<lparr>spec_RolloutStrategy := sample_rollout\<lparr>rs_Strategy := UpdateAllAtOnce\<rparr>\<rparr>,
      lp_connection = sample_connection, lp_name = ''ns/foo'', lp_limit = 75\<rparr>"

definition loop_trace :: "string \<Rightarrow> nat \<Rightarrow> observation" where
  "loop_trace h i =
     (let v2 = loop_version ''v2'' VersionStatusCurrent; v1 = loop_version ''v1'' VersionStatusDrained
      in [loop_observation h [(''v1'', 3)] ''v1'' [loop_version ''v1'' VersionStatusCurrent],
          loop_observation h [(''v1'', 3), (''v2'', 3)] ''v1'' [loop_version ''v1'' VersionStatusCurrent, loop_version ''v2'' VersionStatusInactive],
          loop_observation h [(''v1'', 3), (''v2'', 3)] ''v2'' [v1, v2],
          loop_observation h [(''v1'', 0), (''v2'', 3)] ''v2'' [v1, v2],
          loop_observation h [(''v2'', 3)] ''v2'' [v2]] ! i)"

lemmas loop_samples = loop_trace_def loop_observation_def loop_ks_def loop_deployment_def loop_version_def sample_loop_def

abbreviation sample_hash :: string where
  "sample_hash \<equiv> ComputeConnectionSpecHash sample_connection"

lemma loop_deployment_fields:
  "deployment_build_id (loop_deployment h bn) = Some (fst bn)" "creation_time (loop_deployment h bn) = 0"
  "d_Replicas (loop_deployment h bn) = Some (snd bn)" "served_deployment (loop_deployment h bn)"
  "healthy_since (loop_deployment h bn) = Some 0" "annotation (loop_deployment h bn) ConnectionSpecHashAnnotation = h"
  "annotation (loop_deployment h bn) PodTemplateSpecHashAnnotation = []"
  by (simp_all add: loop_deployment_def sample_deployment_def sample_meta_def creation_time_def served_deployment_def
      deployment_build_id_def BuildIDLabel_def healthy_since_def IsDeploymentHealthy_def annotation_def str_index_def
      ConnectionSpecHashAnnotation_def PodTemplateSpecHashAnnotation_def Let_def)

lemma loop_ks_store: "map_get (ks_Deployments (loop_ks h ds)) b = Some d \<Longrightarrow> \<exists>n. (b, n) \<in> set ds \<and> d = loop_deployment h (b, n)"
  by (auto simp: loop_ks_def dest!: map_of_SomeD) blast


lemma loop_ks_wf: "deployments_wf sample_third_party (loop_ks h [(b, n)])"
  "b \<noteq> b' \<Longrightarrow> deployments_wf sample_third_party (loop_ks h [(b, n), (b', n')])"
  by (auto simp: deployments_wf_def loop_ks_def loop_deployment_fields split: if_splits)


lemma loop_observation_simps:
  "store_at (loop_observation h ds c vs) = ks_Deployments (loop_ks h ds)" "o_ks (loop_observation h ds c vs) = loop_ks h ds"
  "current_at (loop_observation h ds c vs) = c" "ts_RampingBuildID (o_ts (loop_observation h ds c vs)) = []"
  "ts_Versions (o_ts (loop_observation h ds c vs)) = vs" "o_now (loop_observation h ds c vs) = 30 * Hour"
  by (simp_all add: loop_observation_def empty_TemporalWorkerState_def)

lemma sample_loop_simps:
  "lp_tp sample_loop = sample_third_party" "lp_target sample_loop = ''v2''" "lp_connection sample_loop = sample_connection"
  "wo_UnsafeCustomBuildID (spec_WorkerOptions (lp_spec sample_loop)) = []" "spec_Replicas (lp_spec sample_loop) = Some 3"
  by (simp_all add: sample_loop_def sample_spec_def)

lemma loop_observation_calm:
  assumes "deployments_wf sample_third_party (loop_ks sample_hash ds)" and "[] \<notin> fst ` set ds"
    and "\<forall>(b, vi) \<in> set vs. vi_Status vi = VersionStatusDrained \<longrightarrow> vi_DrainedSince vi \<noteq> None"
    and "\<forall>b \<in> fst ` set ds. \<exists>vi. map_get vs b = Some vi \<and> vi_Status vi \<noteq> VersionStatusNotRegistered
          \<and> (b \<noteq> c \<longrightarrow> b \<noteq> ''v2'' \<longrightarrow> retired sample_loop (30 * Hour) vi)"
  shows "calm sample_loop (loop_observation sample_hash ds c vs)"
proof -
  have dom: "b \<in> fst ` set ds" if "b \<in> dom (map_get (ks_Deployments (loop_ks sample_hash ds)))" for b
    using that loop_ks_store by force
  have drained: "vi_DrainedSince vi \<noteq> None" if "map_get vs b = Some vi" "vi_Status vi = VersionStatusDrained" for b vi
    using assms(3) map_of_SomeD [OF that(1)] that(2) by blast
  have served: "served (ks_Deployments (loop_ks sample_hash ds))"
    using loop_ks_store by (force simp: served_def loop_deployment_fields)
  have healthy: "healthy_since d \<noteq> None" if "map_get (ks_Deployments (loop_ks sample_hash ds)) b = Some d" for b d
    using loop_ks_store [OF that] by (force simp: loop_deployment_fields)
  have conn: "conn_fresh sample_connection (ks_Deployments (loop_ks sample_hash ds)) b" for b
    using loop_ks_store by (force simp: conn_fresh_def loop_deployment_fields)
  have pod: "pod_fresh sample_third_party (lp_spec sample_loop) store b" for store b
    by (simp add: pod_fresh_def sample_loop_simps)
  have nil: "[] \<notin> dom (map_get (ks_Deployments (loop_ks sample_hash ds)))" using dom assms(2) by blast
  have versions: "\<forall>b \<in> dom (map_get (ks_Deployments (loop_ks sample_hash ds))).
      \<exists>vi. map_get vs b = Some vi \<and> vi_Status vi \<noteq> VersionStatusNotRegistered
        \<and> (b \<noteq> c \<longrightarrow> b \<noteq> ''v2'' \<longrightarrow> retired sample_loop (30 * Hour) vi)"
    by (rule ballI) (rule bspec [OF assms(4) dom])
  show ?thesis
    unfolding calm_def loop_observation_simps sample_loop_simps
    by (intro conjI allI impI)
      (rule assms(1) nil served versions conn pod disjI1 [OF refl] | erule (1) drained | erule healthy)+
qed


lemma trace_calm:
  assumes "i \<in> set [0 ..< 5]"
  shows "calm sample_loop (loop_trace sample_hash i)"
proof -
  have "\<forall>i \<in> set [0 ..< 5]. calm sample_loop (loop_trace sample_hash i)"
    unfolding loop_trace_def Let_def
    by (simp add: upt_conv_Cons, intro conjI loop_observation_calm loop_ks_wf)
       (auto simp: loop_version_def retired_def zero_VersionInfo_def delays_def sample_loop_def sample_spec_def
         duration_units maxDuration_def split: if_splits)
  with assms show ?thesis by blast
qed

lemma calm_limit: "calm (L\<lparr>lp_limit := k\<rparr>) ob = calm L ob"
  by (simp add: calm_def retired_def)

text \<open>What a run decides, as far as it can be computed without the hashes.\<close>

definition decides :: "loop_params \<Rightarrow> observation \<Rightarrow> string list \<Rightarrow> scale_map \<Rightarrow> bool \<Rightarrow> bool \<Rightarrow> bool" where
  "decides L ob dels scales create route \<longleftrightarrow>
     (case (getDeleteDeployments (o_now ob) (o_ks ob) (status_at L ob) (lp_spec L) (length (ts_Versions (o_ts ob)) > 0),
            getScaleDeployments (o_now ob) (o_ks ob) (status_at L ob) (lp_spec L),
            getVersionConfigDiff (o_now ob) (status_at L ob) (Some (o_ts ob))
              \<lparr>cfg_RolloutStrategy = spec_RolloutStrategy (lp_spec L)\<rparr>) of
        (Inr d, Inr s, Inr v) \<Rightarrow>
          d = dels \<and> s = scales \<and> shouldCreateDeployment (status_at L ob) (lp_limit L) = create
          \<and> (case v of None \<Rightarrow> \<not> route | Some vc \<Rightarrow> route \<and> vc_SetCurrent vc \<and> vc_BuildID vc = ''v2'')
      | _ \<Rightarrow> False)"

lemma decides_plan:
  assumes "calm L ob" and "decides L ob dels scales create route"
  shows "\<exists>p store. plan_at L ob = Inr (p, store) \<and> plan_DeleteDeployments p = dels \<and> plan_ScaleDeployments p = scales
    \<and> plan_ShouldCreateDeployment p = create
    \<and> (case plan_VersionConfig p of None \<Rightarrow> \<not> route | Some vc \<Rightarrow> route \<and> vc_SetCurrent vc \<and> vc_BuildID vc = ''v2'')"
proof -
  have "getUpdateDeployments (lp_tp L) (store_at ob) (status_at L ob) (lp_spec L)
      (lp_connection L) = Inr (store_at ob, [])"
    by (rule getUpdateDeployments_fresh) (use assms(1) in \<open>simp_all add: calm_def\<close>)
  with assms(2) show ?thesis
    by (simp add: decides_def plan_at_def GeneratePlan_def Let_def split: sum.splits)
qed

lemma trace_decides:
  "decides sample_loop (loop_trace h 0) [] [] True False"
  "decides sample_loop (loop_trace h 1) [] [] False True"
  "decides sample_loop (loop_trace h 2) [] [((0, NewObjectRef sample_third_party (loop_deployment h (''v1'', 3))), 0)] False False"
  "decides sample_loop (loop_trace h 3) [''v1''] [] False False"
  by code_simp+

lemma trace_stepI:
  assumes "decides sample_loop (loop_trace sample_hash i) dels scales create route" and "i \<in> set [0 ..< 4]"
    and "\<And>p. plan_DeleteDeployments p = dels \<Longrightarrow> plan_ScaleDeployments p = scales \<Longrightarrow> plan_ShouldCreateDeployment p = create \<Longrightarrow>
      (case plan_VersionConfig p of None \<Rightarrow> \<not> route | Some vc \<Rightarrow> route \<and> vc_SetCurrent vc \<and> vc_BuildID vc = ''v2'') \<Longrightarrow>
      took_effect sample_loop p (loop_trace sample_hash i) (loop_trace sample_hash (Suc i))"
  shows "loop_step sample_loop (loop_trace sample_hash i) (loop_trace sample_hash (Suc i))"
proof -
  have c: "calm sample_loop (loop_trace sample_hash i)" "calm sample_loop (loop_trace sample_hash (Suc i))"
    using assms(2) by (auto intro!: trace_calm)
  from decides_plan [OF c(1) assms(1)] assms(3) c show ?thesis unfolding loop_step_def by blast
qed

lemmas loop_effects = took_effect_def replicas_after_def loop_trace_def loop_observation_simps sample_loop_simps loop_ks_def
  loop_deployment_fields loop_version_def zero_VersionInfo_def

lemma trace_steps:
  "loop_step sample_loop (loop_trace sample_hash 0) (loop_trace sample_hash 1)"
  "loop_step sample_loop (loop_trace sample_hash 1) (loop_trace sample_hash 2)"
  "loop_step sample_loop (loop_trace sample_hash 2) (loop_trace sample_hash 3)"
  "loop_step sample_loop (loop_trace sample_hash 3) (loop_trace sample_hash 4)"
proof -
  have "loop_step sample_loop (loop_trace sample_hash 0) (loop_trace sample_hash (Suc 0))"
    by (rule trace_stepI [OF trace_decides(1)]) (auto simp: loop_effects split: option.splits if_splits)
  then show "loop_step sample_loop (loop_trace sample_hash 0) (loop_trace sample_hash 1)" by simp
  have "loop_step sample_loop (loop_trace sample_hash 1) (loop_trace sample_hash (Suc 1))"
    by (rule trace_stepI [OF trace_decides(2)]) (auto simp: loop_effects split: option.splits if_splits)
  then show "loop_step sample_loop (loop_trace sample_hash 1) (loop_trace sample_hash 2)" by (simp add: numeral_2_eq_2)
  have "loop_step sample_loop (loop_trace sample_hash 2) (loop_trace sample_hash (Suc 2))"
    by (rule trace_stepI [OF trace_decides(3)]) (auto simp: loop_effects split: option.splits if_splits)
  then show "loop_step sample_loop (loop_trace sample_hash 2) (loop_trace sample_hash 3)" by (simp add: eval_nat_numeral)
  have "loop_step sample_loop (loop_trace sample_hash 3) (loop_trace sample_hash (Suc 3))"
    by (rule trace_stepI [OF trace_decides(4)]) (auto simp: loop_effects split: option.splits if_splits)
  then show "loop_step sample_loop (loop_trace sample_hash 3) (loop_trace sample_hash 4)" by (simp add: eval_nat_numeral)
qed

theorem loop_converges_witness:
  "(loop_step sample_loop ^^ 4) (loop_trace sample_hash 0) (loop_trace sample_hash 4)
   \<and> plan_at sample_loop (loop_trace sample_hash 4) = Inr (empty_plan, store_at (loop_trace sample_hash 4))
   \<and> current_at (loop_trace sample_hash 0) = ''v1'' \<and> current_at (loop_trace sample_hash 4) = ''v2''"
proof -
  have steps: "(loop_step sample_loop ^^ 4) (loop_trace sample_hash 0) (loop_trace sample_hash 4)"
    using trace_steps by (simp add: numeral_eq_Suc) blast
  have "delays (lp_spec sample_loop) Hour (24 * Hour)" using sample_delays by (simp add: delays_def sample_loop_def)
  then have r: "simple_rollout sample_loop" by (auto simp: simple_rollout_def sample_loop_def sample_rollout_def sample_spec_def)
  have room: "room sample_loop (loop_trace sample_hash 0)"
    using trace_decides(1) [of sample_hash] by (auto simp: decides_def room_def split: sum.splits)
  have "calm sample_loop (loop_trace sample_hash 0)" by (rule trace_calm) simp
  from loop_converges [OF r this room steps]
  have "plan_at sample_loop (loop_trace sample_hash 4) = Inr (empty_plan, store_at (loop_trace sample_hash 4))" by blast
  moreover have "current_at (loop_trace sample_hash 0) = ''v1'' \<and> current_at (loop_trace sample_hash 4) = ''v2''"
    by (simp add: loop_trace_def loop_observation_simps)
  ultimately show ?thesis using steps by blast
qed

section \<open>Where the loop is stuck\<close>

text \<open>
  As many Deployments as the limit stand for versions that never got traffic, and the target, which is not current, has no
  Deployment. The number of Deployments is below the range of the 32-bit count.
\<close>

definition blocked :: "loop_params \<Rightarrow> string set \<Rightarrow> observation \<Rightarrow> bool" where
  "blocked L B ob \<longleftrightarrow>
     map_get (store_at ob) (lp_target L) = None \<and> current_at ob \<noteq> lp_target L \<and> lp_target L \<notin> B \<and> current_at ob \<notin> B
     \<and> (\<forall>b \<in> B. b \<in> dom (map_get (store_at ob))
          \<and> (\<exists>vi. map_get (ts_Versions (o_ts ob)) b = Some vi \<and> vi_Status vi = VersionStatusInactive))
     \<and> card (dom (map_get (store_at ob))) < 2 ^ 31 \<and> finite B \<and> sint (lp_limit L) \<le> int (card B)"

lemma blocked_version:
  assumes "calm L ob" and "blocked L B ob" and "b \<in> B"
  obtains v where "v \<in> set (st_DeprecatedVersions (status_at L ob))" and "v_BuildID v = b" and "v_Status v = VersionStatusInactive"
    and "\<not> v_EligibleForDeletion v"
proof -
  obtain d vi where d: "map_get (store_at ob) b = Some d"
    and vi: "map_get (ts_Versions (o_ts ob)) b = Some vi" "vi_Status vi = VersionStatusInactive"
    using assms(2,3) unfolding blocked_def by blast
  have "b \<noteq> current_at ob" "b \<noteq> lp_target L" using assms(2,3) by (auto simp: blocked_def)
  from deprecated_at [OF assms(1) d this] obtain v where v: "v \<in> set (st_DeprecatedVersions (status_at L ob))" "v_BuildID v = b"
    by blast
  from mapDeprecated_fields [OF deprecated_in_status(1) [OF v(1) [unfolded status_at_def]]] vi v show thesis
    by (intro that [of v]) (simp_all add: newStateMapper_def)
qed

lemma blocked_plan:
  assumes "calm L ob" and "blocked L B ob" and "plan_at L ob = Inr (p, store)"
  shows "\<not> plan_ShouldCreateDeployment p" and "plan_VersionConfig p = None"
    and "b \<in> B \<Longrightarrow> delays (lp_spec L) x y \<Longrightarrow> b \<notin> set (plan_DeleteDeployments p)"
proof -
  let ?s = "status_at L ob" and ?vs = "st_DeprecatedVersions (status_at L ob)"
  have nodep: "v_HealthySince (st_TargetVersion ?s) = None"
    using assms(2)
    by (auto simp: blocked_def status_at_def mapToStatus_def mapTargetWorkerDeploymentVersionByBuildID_def newStateMapper_def Let_def
        split: option.split)
  then show "plan_VersionConfig p = None"
    using plan_parts(4) [OF assms(3)] by (auto simp: getVersionConfigDiff_def Let_def split: if_splits)
  have D: "distinct (map v_BuildID ?vs)" by (rule sm.deprecated_distinct [OF calm_mapped [OF assms(1)]])
  have "v_BuildID ` set ?vs \<subseteq> dom (map_get (store_at ob))" using deprecated_at_conv(1) by blast
  then have "card (v_BuildID ` set ?vs) \<le> card (dom (map_get (store_at ob)))" by (intro card_mono finite_dom_map_of)
  moreover have "card (v_BuildID ` set ?vs) = length ?vs" using distinct_card [OF D] by simp
  ultimately have small: "length ?vs < 2 ^ 31" using assms(2) by (simp add: blocked_def)
  let ?xs = "filter (\<lambda>v. \<not> v_EligibleForDeletion v) ?vs"
  have "B \<subseteq> v_BuildID ` set ?xs"
  proof
    fix b assume "b \<in> B"
    from blocked_version [OF assms(1,2) this] show "b \<in> v_BuildID ` set ?xs" by force
  qed
  then have "card B \<le> length ?xs" using card_mono [of "v_BuildID ` set ?xs" B] card_image_le [of "set ?xs" v_BuildID] card_length [of ?xs]
    by (meson List.finite_set finite_imageI le_trans)
  then have "sint (lp_limit L) \<le> int (length ?xs)" using assms(2) by (auto simp: blocked_def)
  then show "\<not> plan_ShouldCreateDeployment p"
    using plan_parts(5) [OF assms(3)] sint_count_ineligible [OF small] by (simp add: shouldCreateDeployment_def)
  assume b: "b \<in> B" and xy: "delays (lp_spec L) x y"
  obtain v where v: "v \<in> set ?vs" "v_BuildID v = b" "v_Status v = VersionStatusInactive"
    by (rule blocked_version [OF assms(1,2) b])
  show "b \<notin> set (plan_DeleteDeployments p)"
  proof
    assume "b \<in> set (plan_DeleteDeployments p)"
    then obtain v' where "v' \<in> set ?vs" "v_BuildID v' = b" "v_Status v' \<noteq> VersionStatusInactive"
      using getDeleteDeployments_eq [OF plan_parts(1) [OF assms(3)] xy] by (auto simp: deletable_def)
    with v sm.deprecated_unique [OF calm_mapped [OF assms(1)]] show False by metis
  qed
qed

lemma blocked_step:
  assumes "loop_step L ob ob'" and "delays (lp_spec L) x y" and "blocked L B ob"
  shows "blocked L B ob'"
proof -
  obtain p store where calm: "calm L ob" "calm L ob'" and p: "plan_at L ob = Inr (p, store)" and t: "took_effect L p ob ob'"
    by (rule loop_stepE [OF assms(1)])
  note P = blocked_plan [OF calm(1) assms(3) p]
  have cur: "current_at ob' = current_at ob" using t P(2) by (simp add: took_effect_def)
  have out: "replicas_after L p ob b = None" if "b \<notin> dom (map_get (store_at ob))" for b
    using that P(1) by (simp add: replicas_after_def domIff)
  have sub: "dom (map_get (store_at ob')) \<subseteq> dom (map_get (store_at ob))"
    using out replicas_step [OF t] by (metis domI domIff option.map_disc_iff subsetI)
  then have "card (dom (map_get (store_at ob'))) < 2 ^ 31"
    using card_mono [OF finite_dom_map_of sub] assms(3) by (simp add: blocked_def)
  moreover have "map_get (store_at ob') (lp_target L) = None" using sub assms(3) by (auto simp: blocked_def)
  moreover have "b \<in> dom (map_get (store_at ob'))
      \<and> (\<exists>vi. map_get (ts_Versions (o_ts ob')) b = Some vi \<and> vi_Status vi = VersionStatusInactive)" if b: "b \<in> B" for b
  proof -
    obtain d vi where d: "map_get (store_at ob) b = Some d"
      and vi: "map_get (ts_Versions (o_ts ob)) b = Some vi" "vi_Status vi = VersionStatusInactive"
      using assms(3) b unfolding blocked_def by blast
    have "replicas_after L p ob b \<noteq> None" using d P(3) [OF b assms(2)] by (simp add: replicas_after_def split: option.split)
    then have dom: "b \<in> dom (map_get (store_at ob'))" using replicas_step [OF t, of b] by auto
    then obtain vi' where vi': "map_get (ts_Versions (o_ts ob')) b = Some vi'" using calm(2) unfolding calm_def by blast
    have ne: "b \<noteq> []" "b \<noteq> lp_target L" "b \<noteq> current_at ob" using calm(1) d assms(3) b by (auto simp: calm_def blocked_def)
    then have "b \<noteq> ts_RampingBuildID (o_ts ob)" "b \<noteq> ts_RampingBuildID (o_ts ob')" using calm by (auto simp: calm_def)
    from stays_inactive [OF t vi vi' ne(3) this(1) _ this(2)] dom vi' ne(3) cur show ?thesis by simp
  qed
  ultimately show ?thesis using assms(3) cur by (simp add: blocked_def)
qed

text \<open>
  C29 (error). Versions that were abandoned before they got traffic block every later rollout: once there are as many of them as
  the limit, in a calm period no run ever deletes one, creates the target's Deployment or routes to it, under any strategy.
\<close>

theorem abandoned_versions_block:
  assumes "calm L ob" and "blocked L B ob" and "delays (lp_spec L) x y" and "(loop_step L ^^ n) ob ob'"
    and "plan_at L ob' = Inr (p, store)"
  shows "\<not> plan_ShouldCreateDeployment p \<and> plan_VersionConfig p = None \<and> B \<inter> set (plan_DeleteDeployments p) = {}
    \<and> B \<subseteq> dom (map_get (store_at ob')) \<and> map_get (store_at ob') (lp_target L) = None"
proof -
  have calm: "calm L ob'" using assms(1,4) by (cases n) (auto simp: loop_step_def)
  have "blocked L B ob'"
    using assms(4)
  proof (induction n arbitrary: ob')
    case (Suc n)
    then obtain ob1 where "blocked L B ob1" "loop_step L ob1 ob'" by auto
    then show ?case using blocked_step [OF _ assms(3)] by blast
  qed (use assms(2) in simp)
  note b = this
  have "B \<inter> set (plan_DeleteDeployments p) = {}" using blocked_plan(3) [OF calm b assms(5) _ assms(3)] by blast
  moreover have "B \<subseteq> dom (map_get (store_at ob'))" "map_get (store_at ob') (lp_target L) = None"
    using b unfolding blocked_def by blast+
  ultimately show ?thesis using blocked_plan(1,2) [OF calm b assms(5)] by blast
qed

text \<open>With the limit 1, a single abandoned version is enough.\<close>

abbreviation blocked_loop :: loop_params where
  "blocked_loop \<equiv> sample_loop\<lparr>lp_limit := 1\<rparr>"

definition blocked_observation :: "string \<Rightarrow> observation" where
  "blocked_observation h =
     loop_observation h [(''v0'', 0), (''v1'', 3)] ''v1''
       [loop_version ''v0'' VersionStatusInactive, loop_version ''v1'' VersionStatusCurrent]"

lemma blocked_decides: "decides blocked_loop (blocked_observation h) [] [] False False"
  by code_simp

theorem abandoned_versions_block_witness:
  "(loop_step blocked_loop ^^ 3) (blocked_observation sample_hash) (blocked_observation sample_hash)
   \<and> (\<exists>p store. plan_at blocked_loop (blocked_observation sample_hash) = Inr (p, store)
        \<and> \<not> plan_ShouldCreateDeployment p \<and> ''v0'' \<notin> set (plan_DeleteDeployments p))"
proof -
  let ?ob = "blocked_observation sample_hash"
  have calm: "calm blocked_loop ?ob"
    unfolding calm_limit blocked_observation_def
    by (intro loop_observation_calm loop_ks_wf) (auto simp: loop_version_def retired_def zero_VersionInfo_def)
  obtain p store where p: "plan_at blocked_loop ?ob = Inr (p, store)" "plan_DeleteDeployments p = []"
    "plan_ScaleDeployments p = []" "\<not> plan_ShouldCreateDeployment p" "plan_VersionConfig p = None"
    using decides_plan [OF calm blocked_decides] by (auto split: option.splits)
  then have "took_effect blocked_loop p ?ob ?ob"
    by (auto simp: blocked_observation_def loop_effects split: option.splits)
  with calm p(1) have "loop_step blocked_loop ?ob ?ob" unfolding loop_step_def by blast
  then have steps: "(loop_step blocked_loop ^^ 3) ?ob ?ob" by (auto simp: numeral_eq_Suc)
  have "blocked blocked_loop {''v0''} ?ob"
    by (simp add: blocked_def blocked_observation_def loop_observation_simps sample_loop_simps loop_ks_def loop_version_def
        zero_VersionInfo_def dom_fun_upd)
  from abandoned_versions_block [OF calm this _ steps p(1), of Hour "24 * Hour"] steps p(1) sample_delays show ?thesis
    by (auto simp: delays_def sample_loop_def)
qed

end
