(* ===== verification/Manager_Setup.thy ===== *)
theory Manager_Setup
  imports Reconcile
begin

text \<open>
  The controller binary (\<^verbatim>\<open>cmd/main.go\<close>), the registration of the reconciler with the manager and what triggers its runs
  (\<open>SetupWithManager\<close>), and the role it asks for (the \<open>kubebuilder:rbac\<close> markers of \<^verbatim>\<open>worker_controller.go\<close>). The manager
  belongs to controller-runtime: its operations are steps whose success is a parameter. The command line is what the flag
  package has parsed. Logging and the logging flags are left out.

  Shown: which runs the registered controller asks for when a worker deployment, a Deployment or a connection changes, and what is lost
  when the worker deployments cannot be listed; the role lacks ConfigMaps, so a gate that reads one ends every run.
\<close>

section \<open>Setting up the controller\<close>

text \<open>The flags that were given; the defaults are the code's.\<close>

record controller_flags =
  cf_metricsAddr :: "string option"
  cf_probeAddr :: "string option"
  cf_enableLeaderElection :: "bool option"

record manager_options =
  mo_MetricsBindAddress :: string
  mo_HealthProbeBindAddress :: string
  mo_LeaderElection :: bool
  mo_LeaderElectionID :: string

text \<open>The reconciler as \<open>main\<close> makes it, apart from the manager's client and scheme.\<close>

record 'c controller_config =
  cc_TemporalClientPool :: "'c ClientPool"
  cc_DisableRecoverPanic :: bool
  cc_MaxDeploymentVersionsIneligibleForDeletion :: int32

datatype kind = KindTemporalWorkerDeployment | KindTemporalConnection | KindDeployment

record 'c controller_setup =
  cs_For :: kind
  cs_Owns :: "kind list"
  cs_Watches :: "kind list"
  cs_MaxConcurrentReconciles :: int
  cs_RecoverPanic :: bool
  cs_reconciler :: "'c controller_config"

datatype 'c setup_step =
    AddToScheme string
  | GetConfig
  | NewManager manager_options
  | IndexField kind string
  | CompleteController "'c controller_setup"
  | AddHealthzCheck string
  | AddReadyzCheck string
  | StartManager

text \<open>One step: whether it fails, and the record of the steps taken.\<close>

type_synonym 'c setup_trace = "'c setup_step list"

definition attempt :: "('c setup_step \<Rightarrow> bool) \<Rightarrow> 'c setup_step \<Rightarrow> 'c setup_trace \<Rightarrow> bool \<times> 'c setup_trace" where
  "attempt fails s tr = (fails s, tr @ [s])"

definition SetupWithManager ::
  "('c setup_step \<Rightarrow> bool) \<Rightarrow> 'c controller_config \<Rightarrow> 'c setup_trace \<Rightarrow> bool \<times> 'c setup_trace" where
  "SetupWithManager fails r tr =
     (case attempt fails (IndexField KindDeployment ''.metadata.controller'') tr of
        (True, tr) \<Rightarrow> (True, tr)
      | (False, tr) \<Rightarrow>
          let recoverPanic = \<not> cc_DisableRecoverPanic r
          in attempt fails
               (CompleteController
                  \<lparr>cs_For = KindTemporalWorkerDeployment, cs_Owns = [KindDeployment], cs_Watches = [KindTemporalConnection],
                   cs_MaxConcurrentReconciles = 100, cs_RecoverPanic = recoverPanic, cs_reconciler = r\<rparr>) tr)"

definition controller_of_main :: "(string \<Rightarrow> string) \<Rightarrow> 'c controller_config" where
  "controller_of_main getenv =
     \<lparr>cc_TemporalClientPool = New, cc_DisableRecoverPanic = False,
      cc_MaxDeploymentVersionsIneligibleForDeletion = GetControllerMaxDeploymentVersionsIneligibleForDeletion getenv\<rparr>"

definition manager_options_of :: "controller_flags \<Rightarrow> manager_options" where
  "manager_options_of fl =
     \<lparr>mo_MetricsBindAddress = (case cf_metricsAddr fl of None \<Rightarrow> '':8080'' | Some a \<Rightarrow> a),
      mo_HealthProbeBindAddress = (case cf_probeAddr fl of None \<Rightarrow> '':8081'' | Some a \<Rightarrow> a),
      mo_LeaderElection = (case cf_enableLeaderElection fl of None \<Rightarrow> False | Some b \<Rightarrow> b),
      mo_LeaderElectionID = ''98e39f52.temporal.io''\<rparr>"

text \<open>\<open>main\<close>, with its exit code. \<open>GetConfigOrDie\<close> exits with 1 as well.\<close>

definition main :: "('c setup_step \<Rightarrow> bool) \<Rightarrow> controller_flags \<Rightarrow> (string \<Rightarrow> string) \<Rightarrow> 'c setup_trace \<Rightarrow> int \<times> 'c setup_trace" where
  "main fails fl getenv tr =
     (case attempt fails GetConfig tr of (True, tr) \<Rightarrow> (1, tr) | (False, tr) \<Rightarrow>
      case attempt fails (NewManager (manager_options_of fl)) tr of (True, tr) \<Rightarrow> (1, tr) | (False, tr) \<Rightarrow>
      case SetupWithManager fails (controller_of_main getenv) tr of (True, tr) \<Rightarrow> (1, tr) | (False, tr) \<Rightarrow>
      case attempt fails (AddHealthzCheck ''healthz'') tr of (True, tr) \<Rightarrow> (1, tr) | (False, tr) \<Rightarrow>
      case attempt fails (AddReadyzCheck ''readyz'') tr of (True, tr) \<Rightarrow> (1, tr) | (False, tr) \<Rightarrow>
      case attempt fails StartManager tr of (True, tr) \<Rightarrow> (1, tr) | (False, tr) \<Rightarrow> (0, tr))"

text \<open>The whole process: \<open>init\<close> first, where a failure is a panic, with which a Go program exits with 2.\<close>

definition process :: "('c setup_step \<Rightarrow> bool) \<Rightarrow> controller_flags \<Rightarrow> (string \<Rightarrow> string) \<Rightarrow> int \<times> 'c setup_trace" where
  "process fails fl getenv =
     (case attempt fails (AddToScheme ''clientgoscheme'') [] of (True, tr) \<Rightarrow> (2, tr) | (False, tr) \<Rightarrow>
      case attempt fails (AddToScheme ''temporal.io/v1alpha1'') tr of (True, tr) \<Rightarrow> (2, tr) | (False, tr) \<Rightarrow>
      main fails fl getenv tr)"

section \<open>What triggers a run\<close>

datatype change =
    WorkerDeploymentChanged NamespacedName
  | DeploymentChanged Deployment
  | ConnectionChanged TemporalConnection

text \<open>
  The handlers of the registered kinds: \<open>For\<close> asks for the object that changed, \<open>Owns\<close> has a handler of controller-runtime (\<open>owned\<close>), and
  the connections that are watched are mapped by \<open>findTWDsUsingConnection\<close>. A kind that is not registered triggers nothing.
\<close>

definition triggers ::
  "'c controller_setup \<Rightarrow> 'c reconciler \<Rightarrow> (Deployment \<Rightarrow> NamespacedName list) \<Rightarrow> change \<Rightarrow> NamespacedName list io" where
  "triggers s r owned c =
     (case c of
        WorkerDeploymentChanged n \<Rightarrow> io_return (if cs_For s = KindTemporalWorkerDeployment then [n] else [])
      | DeploymentChanged d \<Rightarrow> io_return (if KindDeployment \<in> set (cs_Owns s) then owned d else [])
      | ConnectionChanged tc \<Rightarrow>
          if KindTemporalConnection \<in> set (cs_Watches s) then findTWDsUsingConnection r tc else io_return [])"

section \<open>The role\<close>

record policy_rule =
  pr_Group :: string
  pr_Resource :: string
  pr_Verbs :: "string list"

definition manager_role :: "policy_rule list" where
  "manager_role =
     [\<lparr>pr_Group = ''temporal.io'', pr_Resource = ''temporalworkerdeployments'',
       pr_Verbs = [''get'', ''list'', ''watch'', ''create'', ''update'', ''patch'', ''delete'']\<rparr>,
      \<lparr>pr_Group = ''temporal.io'', pr_Resource = ''temporalworkerdeployments/status'', pr_Verbs = [''get'', ''update'', ''patch'']\<rparr>,
      \<lparr>pr_Group = ''temporal.io'', pr_Resource = ''temporalworkerdeployments/finalizers'', pr_Verbs = [''update'']\<rparr>,
      \<lparr>pr_Group = ''temporal.io'', pr_Resource = ''temporalconnections'', pr_Verbs = [''get'', ''list'', ''watch'']\<rparr>,
      \<lparr>pr_Group = ''core'', pr_Resource = ''secrets'', pr_Verbs = [''get'', ''list'', ''watch'']\<rparr>,
      \<lparr>pr_Group = ''apps'', pr_Resource = ''deployments'',
       pr_Verbs = [''get'', ''list'', ''watch'', ''create'', ''update'', ''patch'', ''delete'']\<rparr>,
      \<lparr>pr_Group = ''apps'', pr_Resource = ''deployments/scale'', pr_Verbs = [''update'']\<rparr>]"

definition allows :: "policy_rule list \<Rightarrow> string \<times> string \<times> string \<Rightarrow> bool" where
  "allows role req \<longleftrightarrow>
     (case req of (grp, resource, verb) \<Rightarrow>
        list_ex (\<lambda>p. pr_Group p = grp \<and> pr_Resource p = resource \<and> verb \<in> set (pr_Verbs p)) role)"

text \<open>What the requests of a run that change something in the cluster ask for.\<close>

fun call_permission :: "api_call \<Rightarrow> (string \<times> string \<times> string) option" where
  "call_permission (CreateDeployment d) = Some (''apps'', ''deployments'', ''create'')"
| "call_permission (DeleteDeployment d) = Some (''apps'', ''deployments'', ''delete'')"
| "call_permission (ScaleDeployment m n) = Some (''apps'', ''deployments/scale'', ''update'')"
| "call_permission (UpdateDeployment d) = Some (''apps'', ''deployments'', ''update'')"
| "call_permission (UpdateStatus w) = Some (''temporal.io'', ''temporalworkerdeployments/status'', ''update'')"
| "call_permission _ = None"

text \<open>The reads of a run, and an API server that grants what the role allows and nothing else.\<close>

definition reads :: "(string \<times> string \<times> string) list" where
  "reads =
     [(''temporal.io'', ''temporalworkerdeployments'', ''get''), (''temporal.io'', ''temporalworkerdeployments'', ''list''),
      (''temporal.io'', ''temporalconnections'', ''get''), (''apps'', ''deployments'', ''list''),
      (''core'', ''configmaps'', ''get''), (''core'', ''secrets'', ''get'')]"

definition enforces :: "policy_rule list \<Rightarrow> 'c reconciler \<Rightarrow> bool" where
  "enforces role r \<longleftrightarrow>
     (\<not> allows role (''core'', ''configmaps'', ''get'') \<longrightarrow> (\<forall>n w x. fst (r_GetConfigMap r n w) \<noteq> Inr x))
     \<and> (\<not> allows role (''core'', ''secrets'', ''get'') \<longrightarrow> (\<forall>n w x. fst (r_GetSecret r n w) \<noteq> Inr x))"

section \<open>Lemmas\<close>

text \<open>What the binary registers, if it gets that far.\<close>

lemma registered:
  assumes "CompleteController s \<in> set (snd (process fails fl getenv))"
  shows "s = \<lparr>cs_For = KindTemporalWorkerDeployment, cs_Owns = [KindDeployment], cs_Watches = [KindTemporalConnection],
              cs_MaxConcurrentReconciles = 100, cs_RecoverPanic = True, cs_reconciler = controller_of_main getenv\<rparr>"
  using assms
  by (auto simp: process_def main_def SetupWithManager_def attempt_def controller_of_main_def split: if_splits bool.splits)

lemma gate_input_denied:
  assumes "gate_InputFrom g = Some src" and "gi_ConfigMapKeyRef src = Some ref" and "\<And>n w x. fst (r_GetConfigMap r n w) \<noteq> Inr x"
  shows "gate_input r twd (Some g) w \<noteq> Some (Ok x, w')"
proof
  assume "gate_input r twd (Some g) w = Some (Ok x, w')"
  then obtain y w1 where "gate_config_map r twd src w = Some (Ok y, w1)"
    using assms(1) by (auto simp: gate_input_def elim!: io_bind_OkE)
  then show False using assms(2,3) by (auto simp: gate_config_map_def io_read_def elim!: io_bind_OkE split: sum.splits)
qed

lemma generatePlan_denied:
  assumes "rs_Gate (spec_RolloutStrategy (twd_Spec twd)) = Some g" and "gate_InputFrom g = Some src"
    and "gi_ConfigMapKeyRef src = Some ref" and "\<And>n w x. fst (r_GetConfigMap r n w) \<noteq> Inr x"
  shows "generatePlan r twd connection ts w \<noteq> Some (Ok x, w')"
proof
  assume "generatePlan r twd connection ts w = Some (Ok x, w')"
  then obtain y w1 w2 where
    "gate_input r twd (rs_Gate (effective_strategy (getControllerIdentity (r_getenv r)) twd ts)) w1 = Some (Ok y, w2)"
    unfolding generatePlan_def Let_def by (elim io_bind_OkE) (auto elim!: io_bind_OkE)
  then show False using gate_input_denied [OF assms(2-4)] assms(1) by (simp add: effective_strategy_def split: if_splits)
qed

lemma acted_denied:
  assumes "acted r updated ts made res" and "\<And>connection wa x wb. generatePlan r (updated\<lparr>twd_Spec := Spec_Default (twd_Spec updated)\<rparr>) connection ts wa \<noteq> Some (Ok x, wb)"
  shows "made = []"
  using assms unfolding acted_def by blast

text \<open>The role covers every change and every read but one.\<close>

lemma role_covers_calls: "call_permission c = Some p \<Longrightarrow> allows manager_role p"
  by (cases c) (simp_all add: allows_def manager_role_def, clarsimp+)

lemma role_covers_reads: "filter (\<lambda>p. \<not> allows manager_role p) reads = [(''core'', ''configmaps'', ''get'')]"
  by code_simp

lemma role_lacks_config_maps: "\<not> allows manager_role (''core'', ''configmaps'', ''get'')"
  by code_simp

text \<open>The documented behaviour of the handler of \<open>Owns\<close> and of lists that use the owner index.\<close>

definition owns_handler :: "(Deployment \<Rightarrow> OwnerReference option) \<Rightarrow> (Deployment \<Rightarrow> NamespacedName list) \<Rightarrow> bool" where
  "owns_handler controller_of owned \<longleftrightarrow>
     (\<forall>d own. controller_of d = Some own \<longrightarrow> or_APIVersion own = apiGVStr \<longrightarrow> or_Kind own = ''TemporalWorkerDeployment'' \<longrightarrow>
        \<lparr>nn_Namespace = om_Namespace (d_ObjectMeta d), nn_Name = or_Name own\<rparr> \<in> set (owned d))"

definition lists_by_owner :: "(Deployment \<Rightarrow> OwnerReference option) \<Rightarrow> 'c reconciler \<Rightarrow> bool" where
  "lists_by_owner controller_of r \<longleftrightarrow>
     (\<forall>n w ds d. fst (r_ListDeployments r n w) = Inr ds \<longrightarrow> d \<in> set ds \<longrightarrow>
        om_Namespace (d_ObjectMeta d) = nn_Namespace n \<and> nn_Name n \<in> set (owner_index controller_of d))"

section \<open>Properties\<close>

text \<open>
  C26 (safety). Which runs the controller asks for, as the binary registers it. A changed worker deployment is looked at again. A changed Deployment
  that a run for a request lists leads to another run for the same request: the index of owners and the handler of
  \<open>Owns\<close> agree. A changed connection leads to a run for exactly the worker deployments listed in its namespace that
  refer to it by name; when the list fails, the error is dropped and no run is asked for, so that the change is seen by the
  next periodic run only. Asking changes nothing.
\<close>

theorem changes_trigger_runs:
  assumes "CompleteController s \<in> set (snd (process fails fl getenv))"
    and "owns_handler controller_of owned" and "lists_by_owner controller_of r"
  shows "triggers s r owned (WorkerDeploymentChanged n) w = Some (Ok [n], w)
    \<and> (\<forall>req w1 ds d. fst (r_ListDeployments r req w1) = Inr ds \<and> d \<in> set ds \<longrightarrow>
         (\<exists>reqs. triggers s r owned (DeploymentChanged d) w = Some (Ok reqs, w) \<and> req \<in> set reqs))
    \<and> (\<exists>reqs w2. triggers s r owned (ConnectionChanged tc) w = Some (Ok reqs, w2) \<and> w_calls w2 = w_calls w
         \<and> (case fst (r_ListTWDs r (om_Namespace (tconn_ObjectMeta tc)) w) of
              Inl e \<Rightarrow> reqs = []
            | Inr items \<Rightarrow>
                \<forall>req. req \<in> set reqs \<longleftrightarrow>
                  (\<exists>twd \<in> set items. req = \<lparr>nn_Namespace = twd_Namespace twd, nn_Name = twd_Name twd\<rparr>
                     \<and> tcr_Name (wo_TemporalConnectionRef (spec_WorkerOptions (twd_Spec twd))) = om_Name (tconn_ObjectMeta tc))))"
proof (intro conjI allI impI)
  note s = registered [OF assms(1)]
  show "triggers s r owned (WorkerDeploymentChanged n) w = Some (Ok [n], w)" by (simp add: triggers_def s io_run)
  show "\<exists>reqs. triggers s r owned (DeploymentChanged d) w = Some (Ok reqs, w) \<and> req \<in> set reqs"
    if "fst (r_ListDeployments r req w1) = Inr ds \<and> d \<in> set ds" for req w1 ds d
  proof -
    have "om_Namespace (d_ObjectMeta d) = nn_Namespace req" "nn_Name req \<in> set (owner_index controller_of d)"
      using that assms(3) by (auto simp: lists_by_owner_def)
    then obtain own where own: "controller_of d = Some own" "or_APIVersion own = apiGVStr" "or_Kind own = ''TemporalWorkerDeployment''"
      "or_Name own = nn_Name req" by (cases "controller_of d") (auto simp: owner_index_def split: if_splits)
    then have "\<lparr>nn_Namespace = om_Namespace (d_ObjectMeta d), nn_Name = or_Name own\<rparr> \<in> set (owned d)"
      using assms(2) unfolding owns_handler_def by blast
    then have "req \<in> set (owned d)" using own(4) \<open>om_Namespace (d_ObjectMeta d) = nn_Namespace req\<close> by (cases req) simp
    then show ?thesis by (simp add: triggers_def s io_run)
  qed
  show "\<exists>reqs w2. triggers s r owned (ConnectionChanged tc) w = Some (Ok reqs, w2) \<and> w_calls w2 = w_calls w
         \<and> (case fst (r_ListTWDs r (om_Namespace (tconn_ObjectMeta tc)) w) of
              Inl e \<Rightarrow> reqs = []
            | Inr items \<Rightarrow>
                \<forall>req. req \<in> set reqs \<longleftrightarrow>
                  (\<exists>twd \<in> set items. req = \<lparr>nn_Namespace = twd_Namespace twd, nn_Name = twd_Name twd\<rparr>
                     \<and> tcr_Name (wo_TemporalConnectionRef (spec_WorkerOptions (twd_Spec twd))) = om_Name (tconn_ObjectMeta tc)))"
    by (cases "fst (r_ListTWDs r (om_Namespace (tconn_ObjectMeta tc)) w)")
       (auto simp: triggers_def s findTWDsUsingConnection_def io_bind_def io_read_def io_run)
qed

text \<open>A cluster with one Deployment, owned by the sample worker deployment.\<close>

definition sample_owned :: Deployment where
  "sample_owned =
     (let d = sample_deployment ''v1'' (Some 3)
      in d\<lparr>d_ObjectMeta := (d_ObjectMeta d)\<lparr>om_OwnerReferences :=
           [\<lparr>or_APIVersion = ''temporal.io/v1alpha1'', or_Kind = ''TemporalWorkerDeployment'', or_Name = ''foo'', or_UID = ''u1'',
             or_BlockOwnerDeletion = Some True, or_Controller = Some True\<rparr>]\<rparr>\<rparr>)"

definition sample_controller_of :: "Deployment \<Rightarrow> OwnerReference option" where
  "sample_controller_of d = find (\<lambda>own. or_Controller own = Some True) (om_OwnerReferences (d_ObjectMeta d))"

definition sample_owns :: "Deployment \<Rightarrow> NamespacedName list" where
  "sample_owns d =
     (case sample_controller_of d of
        None \<Rightarrow> [] | Some own \<Rightarrow> [\<lparr>nn_Namespace = om_Namespace (d_ObjectMeta d), nn_Name = or_Name own\<rparr>])"

abbreviation owning_reconciler :: "string reconciler" where
  "owning_reconciler \<equiv> sample_reconciler
     \<lparr>r_GetTWD := \<lambda>n _. (if n = sample_request then Inr sample_twd else Inl (new_error ''not found''), 1),
      r_ListDeployments := \<lambda>n _. (Inr (if n = sample_request then [sample_owned] else []), 1)\<rparr>"

abbreviation no_flags :: controller_flags where
  "no_flags \<equiv> \<lparr>cf_metricsAddr = None, cf_probeAddr = None, cf_enableLeaderElection = None\<rparr>"

abbreviation conn_changed :: TemporalConnection where
  "conn_changed \<equiv> \<lparr>tconn_ObjectMeta = sample_meta\<lparr>om_Name := ''conn''\<rparr>, tconn_Spec = sample_connection\<rparr>"

theorem changes_trigger_runs_witness:
  "\<exists>s. CompleteController s \<in> set (snd (process (\<lambda>_. False) no_flags (\<lambda>_. [])))
     \<and> (\<exists>reqs. triggers s owning_reconciler sample_owns (DeploymentChanged sample_owned) sample_world = Some (Ok reqs, sample_world)
          \<and> sample_request \<in> set reqs)
     \<and> (\<exists>reqs w2. triggers s owning_reconciler sample_owns (ConnectionChanged conn_changed) sample_world = Some (Ok reqs, w2)
          \<and> sample_request \<in> set reqs)"
proof -
  obtain s :: "string controller_setup" where s: "CompleteController s \<in> set (snd (process (\<lambda>_. False) no_flags (\<lambda>_. [])))"
    by (simp add: process_def main_def SetupWithManager_def attempt_def)
  have o: "owns_handler sample_controller_of sample_owns" by (simp add: owns_handler_def sample_owns_def)
  have l: "lists_by_owner sample_controller_of owning_reconciler"
    by (simp add: lists_by_owner_def owner_index_def sample_controller_of_def sample_owned_def sample_deployment_def sample_meta_def
        apiGVStr_def Let_def)
  note T = changes_trigger_runs [OF s o l, of sample_request sample_world conn_changed]
  have "\<exists>reqs. triggers s owning_reconciler sample_owns (DeploymentChanged sample_owned) sample_world = Some (Ok reqs, sample_world)
          \<and> sample_request \<in> set reqs"
    using conjunct1 [OF conjunct2 [OF T], rule_format, of sample_request sample_world "[sample_owned]" sample_owned] by simp
  moreover have "\<exists>reqs w2. triggers s owning_reconciler sample_owns (ConnectionChanged conn_changed) sample_world = Some (Ok reqs, w2)
          \<and> sample_request \<in> set reqs"
    using conjunct2 [OF conjunct2 [OF T]] by (auto simp: sample_reconciler_def sample_twd_def sample_spec_def sample_meta_def)
  ultimately show ?thesis using s by blast
qed

text \<open>
  C30 (error). The role of the markers lets the controller make every change it makes and every read but one: it has no rule for
  ConfigMaps. (The Helm chart has a second role, for leader election, which covers ConfigMaps in the namespace of the release only; what is
  stated is for worker deployments elsewhere, where the API server enforces the role of the markers alone.) Under an API server that enforces it, a worker deployment whose gate takes its input from a ConfigMap gets
  its status written and nothing else, in every run: nothing is created, scaled, updated, deleted or routed.
\<close>

theorem config_map_gate_blocks:
  assumes "enforces manager_role r"
    and "\<forall>twd w upd. fst (r_UpdateStatus r twd w) = Inr upd \<longrightarrow>
           (\<exists>g src ref. rs_Gate (spec_RolloutStrategy (twd_Spec upd)) = Some g \<and> gate_InputFrom g = Some src
              \<and> gi_ConfigMapKeyRef src = Some ref)"
  shows "(\<forall>c p. call_permission c = Some p \<longrightarrow> allows manager_role p)
    \<and> filter (\<lambda>p. \<not> allows manager_role p) reads = [(''core'', ''configmaps'', ''get'')]
    \<and> (\<exists>out w' made. Reconcile r req pool w = Some (out, w') \<and> w_calls w' = w_calls w @ made
         \<and> length made \<le> 1 \<and> (\<forall>x \<in> set made. status_call (fst x)))"
proof (intro conjI allI impI role_covers_reads)
  show "allows manager_role p" if "call_permission c = Some p" for c p by (rule role_covers_calls [OF that])
  have denied: "fst (r_GetConfigMap r n w) \<noteq> Inr x" for n w x
    using assms(1) role_lacks_config_maps unfolding enforces_def by blast
  obtain res pool' w' made where run: "Reconcile r req pool w = Some (Ok (res, pool'), w')" "w_calls w' = w_calls w @ made"
    and m: "made = [] \<or> (\<exists>c twd. reconciled r c req twd made res)"
    by (rule Reconcile_run [of r req pool w]) blast
  have "length made \<le> 1 \<and> (\<forall>x \<in> set made. status_call (fst x))"
  proof -
    have "rest = []" if u: "fst (r_UpdateStatus r twd wb) = Inr updated" and a: "acted r updated ts rest res" for twd wb updated ts rest
    proof (rule acted_denied [OF a])
      obtain g src ref where "rs_Gate (spec_RolloutStrategy (twd_Spec updated)) = Some g" "gate_InputFrom g = Some src"
        "gi_ConfigMapKeyRef src = Some ref" using assms(2) u by blast
      then show "generatePlan r (updated\<lparr>twd_Spec := Spec_Default (twd_Spec updated)\<rparr>) connection ts wa \<noteq> Some (Ok x, wc)"
        for connection wa x wc
        by (intro generatePlan_denied [where g = g and src = src and ref = ref, OF _ _ _ denied]) (simp_all add: Spec_Default_def Let_def)
    qed
    then have "made = [] \<or> (\<exists>twd e. made = [(UpdateStatus twd, e)])"
      using m unfolding reconciled_def by (elim disjE exE conjE) simp_all
    then show ?thesis by auto
  qed
  with run show "\<exists>out w' made. Reconcile r req pool w = Some (out, w') \<and> w_calls w' = w_calls w @ made
         \<and> length made \<le> 1 \<and> (\<forall>x \<in> set made. status_call (fst x))" by blast
qed

text \<open>The sample controller, with a gate that reads a ConfigMap; the sample API server has none to give.\<close>

definition config_map_twd :: TemporalWorkerDeployment where
  "config_map_twd = sample_twd\<lparr>twd_Spec := sample_spec\<lparr>spec_RolloutStrategy := sample_rollout\<lparr>rs_Gate :=
     Some \<lparr>gate_WorkflowType = ''gate'', gate_Input = None,
           gate_InputFrom = Some \<lparr>gi_ConfigMapKeyRef = Some \<lparr>ck_Name = ''cm'', ck_Key = ''input'', ck_Optional = None\<rparr>, gi_SecretKeyRef = None\<rparr>\<rparr>\<rparr>\<rparr>\<rparr>"

abbreviation denied_reconciler :: "string reconciler" where
  "denied_reconciler \<equiv> sample_reconciler
     \<lparr>r_GetTWD := \<lambda>_ _. (Inr config_map_twd, 1), r_UpdateStatus := \<lambda>twd _. (Inr (config_map_twd\<lparr>twd_Status := twd_Status twd\<rparr>), 1)\<rparr>"

theorem config_map_gate_blocks_witness:
  "\<not> allows manager_role (''core'', ''configmaps'', ''get'')
   \<and> (\<exists>out w'. Reconcile denied_reconciler sample_request New sample_world = Some (out, w')
        \<and> (\<forall>x \<in> set (w_calls w'). status_call (fst x)))"
proof
  show "\<not> allows manager_role (''core'', ''configmaps'', ''get'')" by (rule role_lacks_config_maps)
  have "enforces manager_role denied_reconciler" by (simp add: enforces_def allows_def manager_role_def sample_reconciler_def)
  moreover have "\<forall>twd w upd. fst (r_UpdateStatus denied_reconciler twd w) = Inr upd \<longrightarrow>
           (\<exists>g src ref. rs_Gate (spec_RolloutStrategy (twd_Spec upd)) = Some g \<and> gate_InputFrom g = Some src
              \<and> gi_ConfigMapKeyRef src = Some ref)"
    by (auto simp: config_map_twd_def)
  ultimately obtain out w' made where "Reconcile denied_reconciler sample_request New sample_world = Some (out, w')"
    and "w_calls w' = w_calls sample_world @ made" and "\<forall>x \<in> set made. status_call (fst x)"
    using config_map_gate_blocks [of denied_reconciler sample_request New sample_world] by blast
  then show "\<exists>out w'. Reconcile denied_reconciler sample_request New sample_world = Some (out, w')
        \<and> (\<forall>x \<in> set (w_calls w'). status_call (fst x))" by (intro exI [of _ out] exI [of _ w']) simp
qed

end
