(* ===== verification/Demo_Workers.thy ===== *)
theory Demo_Workers
  imports Worker_Contract
begin

text \<open>
  The workers of the repository: those of the integration tests (\<^verbatim>\<open>internal/testhelpers/workers.go\<close>) and of the demo
  (\<^verbatim>\<open>internal/demo/helloworld\<close>, \<^verbatim>\<open>internal/demo/util\<close>), with their workflows and activities. A workflow is a tree: it
  has ended, or it waits for the answer to a command. The SDK, the HTTP client, random numbers and the metrics exporter are
  parameters; logging is left out, and the quotes of \<open>%q\<close> escape nothing.

  Shown: a test worker started from a Deployment the controller built registers as a worker in its pod does, unless the user
  sets the controller's variables; the gate of the demo passes exactly when its activity succeeds; a test worker whose set-up
  fails tells nobody.
\<close>

section \<open>Workflows\<close>

record activity_options =
  ao_ScheduleToCloseTimeout :: duration
  ao_StartToCloseTimeout :: duration
  ao_HeartbeatTimeout :: duration
  ao_BackoffCoefficient :: "int option"          \<comment> \<open>of the retry policy, if there is one\<close>

datatype command =
    ExecuteActivity activity_options string "int list"
  | ExecuteChildWorkflow duration string          \<comment> \<open>execution timeout and workflow\<close>

datatype 'a workflow = Done "string + 'a" | Await command "string + string \<Rightarrow> 'a workflow"

text \<open>\<open>if err := future.Get(...); err != nil { return err }\<close>\<close>

definition await :: "command \<Rightarrow> (string \<Rightarrow> 'a workflow) \<Rightarrow> 'a workflow" where
  "await c f = Await c (\<lambda>r. case r of Inl e \<Rightarrow> Done (Inl e) | Inr x \<Rightarrow> f x)"

text \<open>A run: the commands, in order, and the result, given what each command is answered.\<close>

primrec run_workflow :: "'a workflow \<Rightarrow> (command \<Rightarrow> string + string) \<Rightarrow> command list \<times> (string + 'a)" where
  "run_workflow (Done r) ans = ([], r)"
| "run_workflow (Await c f) ans = (case run_workflow (f (ans c)) ans of (cs, r) \<Rightarrow> (c # cs, r))"

subsection \<open>The workflows of the tests\<close>

definition setActivityTimeout :: "duration \<Rightarrow> activity_options" where
  "setActivityTimeout d =
     \<lparr>ao_ScheduleToCloseTimeout = d, ao_StartToCloseTimeout = 0, ao_HeartbeatTimeout = 0, ao_BackoffCoefficient = None\<rparr>"

definition successTestWorkflow :: "string workflow" where
  "successTestWorkflow =
     (let ctx = setActivityTimeout (5 * Minute)
      in await (ExecuteActivity ctx ''getSubjectTestActivity'' []) (\<lambda>subject.
         await (ExecuteActivity ctx ''sleepTestActivity'' [5]) (\<lambda>_.
         Done (Inr (''Hello '' @ subject)))))"

definition failTestWorkflow :: "string workflow" where
  "failTestWorkflow =
     (let ctx = setActivityTimeout (5 * Minute)
      in await (ExecuteActivity ctx ''getSubjectTestActivity'' []) (\<lambda>subject.
         await (ExecuteActivity ctx ''sleepTestActivity'' [5]) (\<lambda>_.
         Done (Inl ''this is a manufactured error to make the test fail''))))"

text \<open>An activity that sleeps returns when it is over.\<close>

definition sleepTestActivity :: "int \<Rightarrow> go_time \<Rightarrow> go_time \<times> (string + unit)" where
  "sleepTestActivity seconds now = (now + max 0 (wrap64 (seconds * Second)), Inr ())"

definition getSubjectTestActivity :: "string + string" where
  "getSubjectTestActivity = Inr ''World10''"

subsection \<open>The workflows of the demo\<close>

definition SetActivityTimeout :: "duration \<Rightarrow> activity_options" where
  "SetActivityTimeout startToClose =
     \<lparr>ao_ScheduleToCloseTimeout = 0, ao_StartToCloseTimeout = startToClose, ao_HeartbeatTimeout = 30 * Second,
      ao_BackoffCoefficient = Some 1\<rparr>"

definition HelloWorld :: "string workflow" where
  "HelloWorld =
     await (ExecuteActivity (SetActivityTimeout (5 * Minute)) ''GetSubject'' []) (\<lambda>subject.
     Done (Inr (''Hello '' @ subject)))"

text \<open>\<open>random n\<close> is \<open>rand.Intn(n)\<close>.\<close>

definition GetSubject :: "(int \<Rightarrow> int) \<Rightarrow> go_time \<Rightarrow> go_time \<times> (string + string)" where
  "GetSubject random now = (now + max 0 (wrap64 (random 30 * Second)), Inr ''World'')"

definition RolloutGate :: "unit workflow" where
  "RolloutGate =
     await (ExecuteChildWorkflow Minute ''HelloWorld'') (\<lambda>greeting.
     if take (length ''Hello '') greeting \<noteq> ''Hello ''
     then Done (Inl (''greeting does not have expect prefix '' @ [CHR 0x22] @ ''Hello '' @ [CHR 0x22] @ ''; got: ''
                @ [CHR 0x22] @ greeting @ [CHR 0x22]))
     else Done (Inr ()))"

text \<open>\<open>AutoHeartbeat\<close>: how many heartbeats are sent, given what the \<open>select\<close> of each round receives. A ticker without a positive interval is a panic.\<close>

datatype heartbeat_event = Cancelled | Tick

fun heartbeat_loop :: "heartbeat_event list \<Rightarrow> nat" where
  "heartbeat_loop [] = 0"
| "heartbeat_loop (Cancelled # es) = 0"
| "heartbeat_loop (Tick # es) = Suc (heartbeat_loop es)"

definition AutoHeartbeat :: "duration \<Rightarrow> heartbeat_event list \<Rightarrow> go_panic + nat" where
  "AutoHeartbeat timeout events =
     (if timeout = 0 then Inr 0
      else if timeout div 2 \<le> 0 then Inl (PanicValue ''non-positive interval for NewTicker'')
      else Inr (heartbeat_loop events))"

subsection \<open>The client of the demo's API\<close>

record GetSubjectResponse =
  gs_ID :: int
  gs_Name :: string
  gs_Username :: string
  gs_Email :: string

record http_response =
  hr_StatusCode :: int
  hr_Body :: string

text \<open>Requests, the transport and JSON decoding; \<open>random n\<close> is below \<open>n\<close>.\<close>

record http_env =
  he_random :: "int \<Rightarrow> int"
  he_NewRequest :: "string \<Rightarrow> string + string"
  he_Transport :: "string \<Rightarrow> string + http_response"
  he_Decode :: "string \<Rightarrow> string + GetSubjectResponse"

text \<open>\<open>sleepyTransport.RoundTrip\<close>: the delay before the request, and the response. \<open>rand.Int63n\<close> panics unless its bound is positive.\<close>

definition RoundTrip :: "http_env \<Rightarrow> duration \<Rightarrow> string \<Rightarrow> go_panic + (duration \<times> (string + http_response))" where
  "RoundTrip env maxDelay req =
     (if maxDelay \<le> 0 then Inl (PanicValue ''invalid argument to Int63n'')
      else Inr (he_random env maxDelay, he_Transport env req))"

definition NewHTTPClient :: "http_env \<Rightarrow> duration \<Rightarrow> string \<Rightarrow> go_panic + (duration \<times> (string + http_response))" where
  "NewHTTPClient env maxDelay = RoundTrip env maxDelay"

definition fetchUser :: "http_env \<Rightarrow> string \<Rightarrow> go_panic + (string + GetSubjectResponse)" where
  "fetchUser env apiEndpoint =
     (let userID = he_random env 10 + 1;
          url = apiEndpoint @ ''/users/'' @ digits (nat userID)
      in case he_NewRequest env url of
           Inl e \<Rightarrow> Inr (Inl (''failed to create request: '' @ e))
         | Inr req \<Rightarrow>
             bindE (NewHTTPClient env (30 * Second) req) (\<lambda>(delay, res).
             case res of
               Inl e \<Rightarrow> Inr (Inl (''failed to fetch user: '' @ e))
             | Inr resp \<Rightarrow>
                 if hr_StatusCode resp \<noteq> 200 then Inr (Inl (''API returned status '' @ digits (nat (hr_StatusCode resp))))
                 else case he_Decode env (hr_Body resp) of
                        Inl e \<Rightarrow> Inr (Inl (''failed to decode response: '' @ e))
                      | Inr user \<Rightarrow> Inr (Inr user)))"

section \<open>Starting a worker\<close>

record client_options =
  co_Identity :: string
  co_HostPort :: string
  co_Namespace :: string

text \<open>What the SDK answers.\<close>

record 'c sdk =
  sdk_LoadDefaultClientOptions :: "string + client_options"
  sdk_PrometheusExporter :: "string option"
  sdk_Dial :: "client_options \<Rightarrow> string + 'c"
  sdk_CheckHealth :: "'c \<Rightarrow> string option"
  sdk_ListWorkflow :: "'c \<Rightarrow> string \<Rightarrow> string option"
  sdk_Start :: "'c \<Rightarrow> worker_options \<Rightarrow> string option"

subsection \<open>The demo\<close>

record observability =
  ob_version :: string          \<comment> \<open>the attribute of all metrics\<close>
  ob_address :: string          \<comment> \<open>where the metrics are served\<close>

definition configureObservability :: "'c sdk \<Rightarrow> string \<Rightarrow> nat \<Rightarrow> go_panic + observability" where
  "configureObservability s buildID metricsPort =
     (case sdk_PrometheusExporter s of
        Some e \<Rightarrow> Inl (PanicValue e)
      | None \<Rightarrow> Inr \<lparr>ob_version = buildID, ob_address = '':'' @ digits metricsPort\<rparr>)"

definition util_newClient :: "'c sdk \<Rightarrow> (string \<Rightarrow> string) \<Rightarrow> string \<Rightarrow> nat \<Rightarrow> go_panic + 'c" where
  "util_newClient s getenv buildID metricsPort =
     bindE (configureObservability s buildID metricsPort) (\<lambda>_.
     case sdk_LoadDefaultClientOptions s of
       Inl e \<Rightarrow> Inl (PanicValue e)
     | Inr opts0 \<Rightarrow>
         let opts = opts0\<lparr>co_Identity := getenv ''HOSTNAME''\<rparr>
         in case sdk_Dial s opts of
              Inl e \<Rightarrow> Inl (PanicValue e)
            | Inr c \<Rightarrow> (case sdk_ListWorkflow s c (co_Namespace opts) of Some e \<Rightarrow> Inl (PanicValue e) | None \<Rightarrow> Inr c))"

definition NewClient :: "'c sdk \<Rightarrow> (string \<Rightarrow> string) \<Rightarrow> string \<Rightarrow> int \<Rightarrow> go_panic + 'c" where
  "NewClient s getenv buildID metricsPort = util_newClient s getenv buildID (nat metricsPort)"

text \<open>
  The goroutine \<open>NewVersionedWorker\<close> starts: from when on the pod answers that it is ready, unless it cannot listen, which is a
  panic. The stop function it returns waits for the worker (\<open>stopping\<close>) and then for the metrics to be flushed.
\<close>

definition serve_readiness :: "(go_time \<Rightarrow> string option) \<Rightarrow> go_time \<Rightarrow> go_panic + go_time" where
  "serve_readiness listen started =
     (let now = started + 5 * Second
      in case listen now of Some e \<Rightarrow> Inl (PanicValue e) | None \<Rightarrow> Inr now)"

definition stopClient :: "go_time \<Rightarrow> go_time" where
  "stopClient now = now + 5 * Second"

definition stopFunc :: "nat \<Rightarrow> go_time \<Rightarrow> go_time" where
  "stopFunc stopping now = stopClient (now + int stopping)"

text \<open>The demo's \<open>main\<close>: what the worker serves, and the exit code. A panic exits with 2.\<close>

record worker_registry =
  wr_options :: worker_options
  wr_workflows :: "string list"
  wr_activities :: "string list"

definition demo_main :: "'c sdk \<Rightarrow> (string \<Rightarrow> string option) \<Rightarrow> int \<times> worker_registry option" where
  "demo_main s lookup =
     (case NewVersionedWorker [] lookup (NewClient s (\<lambda>k. case lookup k of None \<Rightarrow> [] | Some v \<Rightarrow> v)) of
        Inl p \<Rightarrow> (2, None)
      | Inr (opts, c) \<Rightarrow>
          let w = \<lparr>wr_options = opts, wr_workflows = [''RolloutGate'', ''HelloWorld''], wr_activities = [''GetSubject'']\<rparr>
          in (case sdk_Start s c opts of Some e \<Rightarrow> 1 | None \<Rightarrow> 0, Some w))"

subsection \<open>The tests\<close>

text \<open>\<open>Containers[0]\<close> of a pod without containers is a panic.\<close>

definition getEnv :: "PodTemplateSpec \<Rightarrow> string \<Rightarrow> go_panic + (string + string)" where
  "getEnv podTemplateSpec key =
     (case ps_Containers (pt_Spec podTemplateSpec) of
        [] \<Rightarrow> Inl (PanicValue ''index out of range'')
      | c # _ \<Rightarrow>
          Inr (case find (\<lambda>e. ev_Name e = key) (ctr_Env c) of
                 Some e \<Rightarrow> Inr (ev_Value e)
               | None \<Rightarrow> Inl (''environment variable '' @ [CHR 0x22] @ key @ [CHR 0x22] @ '' must be set'')))"

text \<open>Sequencing of functions that return an error or panic.\<close>

definition bindR :: "go_panic + (string + 'a) \<Rightarrow> ('a \<Rightarrow> go_panic + (string + 'b)) \<Rightarrow> go_panic + (string + 'b)" where
  "bindR m f = bindE m (\<lambda>r. case r of Inl e \<Rightarrow> Inr (Inl e) | Inr x \<Rightarrow> f x)"

definition test_newClient :: "'c sdk \<Rightarrow> string \<Rightarrow> string \<Rightarrow> string + 'c" where
  "test_newClient s hostPort ns =
     (case sdk_Dial s \<lparr>co_Identity = ''integration-tests'', co_HostPort = hostPort, co_Namespace = ns\<rparr> of
        Inl e \<Rightarrow> Inl (''failed to dial server: '' @ e)
      | Inr c \<Rightarrow>
          (case sdk_CheckHealth s c of
             Some e \<Rightarrow> Inl (''failed to check health for server client: '' @ e)
           | None \<Rightarrow>
               (case sdk_ListWorkflow s c ns of
                  Some e \<Rightarrow> Inl (''failed to list workflows with server client: '' @ e)
                | None \<Rightarrow> Inr c)))"

definition NewWorker ::
  "'c sdk \<Rightarrow> string \<Rightarrow> string \<Rightarrow> string \<Rightarrow> string \<Rightarrow> string \<Rightarrow> bool \<Rightarrow> string + (worker_options \<times> 'c)" where
  "NewWorker s temporalDeploymentName workerBuildId temporalTaskQueue temporalHostPort temporalNamespace versioned =
     (let opts = (if versioned
                  then \<lparr>wk_UseVersioning = True, wk_DeploymentName = temporalDeploymentName, wk_BuildId = workerBuildId,
                        wk_DefaultVersioningBehavior = VersioningBehaviorPinned, wk_TaskQueue = temporalTaskQueue, wk_rest = []\<rparr>
                  else \<lparr>wk_UseVersioning = False, wk_DeploymentName = [], wk_BuildId = [],
                        wk_DefaultVersioningBehavior = VersioningBehaviorUnspecified, wk_TaskQueue = temporalTaskQueue, wk_rest = []\<rparr>)
      in case test_newClient s temporalHostPort temporalNamespace of Inl e \<Rightarrow> Inl e | Inr c \<Rightarrow> Inr (opts, c))"

definition newVersionedWorker :: "'c sdk \<Rightarrow> PodTemplateSpec \<Rightarrow> go_panic + (string + (worker_options \<times> 'c))" where
  "newVersionedWorker s pod =
     bindR (getEnv pod ''TEMPORAL_DEPLOYMENT_NAME'') (\<lambda>temporalDeploymentName.
     bindR (getEnv pod ''TEMPORAL_WORKER_BUILD_ID'') (\<lambda>workerBuildId.
     bindR (getEnv pod ''TEMPORAL_TASK_QUEUE'') (\<lambda>temporalTaskQueue.
     bindR (getEnv pod ''TEMPORAL_ADDRESS'') (\<lambda>temporalHostPort.
     bindR (getEnv pod ''TEMPORAL_NAMESPACE'') (\<lambda>temporalNamespace.
       Inr (NewWorker s temporalDeploymentName workerBuildId temporalTaskQueue temporalHostPort temporalNamespace True))))))"

text \<open>
  What \<open>RunHelloWorldWorker\<close> does: what the worker serves, and what the callback is called with: whether it gets a function
  that stops the worker, and the error.
\<close>

definition RunHelloWorldWorker :: "'c sdk \<Rightarrow> PodTemplateSpec \<Rightarrow> go_panic + (worker_registry option \<times> (bool \<times> string option) list)" where
  "RunHelloWorldWorker s pod =
     bindE (newVersionedWorker s pod) (\<lambda>r.
     case r of
       Inl e \<Rightarrow> Inr (None, [])
     | Inr (opts, c) \<Rightarrow>
         Inr (Some \<lparr>wr_options = opts, wr_workflows = [''successTestWorkflow'', ''failTestWorkflow''],
                    wr_activities = [''getSubjectTestActivity'', ''sleepTestActivity'']\<rparr>,
              [case sdk_Start s c opts of Some e \<Rightarrow> (False, Some e) | None \<Rightarrow> (True, None)]))"

section \<open>Lemmas\<close>

lemma run_await [simp]:
  "run_workflow (await c f) ans =
     (case ans c of Inl e \<Rightarrow> ([c], Inl e) | Inr x \<Rightarrow> (case run_workflow (f x) ans of (cs, r) \<Rightarrow> (c # cs, r)))"
  by (simp add: await_def split: sum.split)

lemma bindR_simps [simp]:
  "bindR (Inr (Inr x)) f = f x" "bindR (Inr (Inl e)) f = Inr (Inl e)" "bindR (Inl p) f = Inl p"
  by (simp_all add: bindR_def)

lemma bindR_eq_Inr: "bindR m f = Inr (Inr y) \<longleftrightarrow> (\<exists>x. m = Inr (Inr x) \<and> f x = Inr (Inr y))"
  by (auto simp: bindR_def bindE_def split: sum.splits)

text \<open>A workflow only sees the answers to the commands it issues: replaying a run against its history gives the same run.\<close>

lemma replay:
  "(\<And>c. c \<in> set (fst (run_workflow t ans)) \<Longrightarrow> ans' c = ans c) \<Longrightarrow> run_workflow t ans' = run_workflow t ans"
proof (induction t)
  case (Await c f)
  have c: "ans' c = ans c" by (rule Await.prems) (simp add: case_prod_unfold)
  have "run_workflow (f (ans c)) ans' = run_workflow (f (ans c)) ans"
    by (rule Await.IH) (simp_all add: Await.prems case_prod_unfold)
  then show ?case by (simp add: c)
qed simp

text \<open>The first definition of a variable, where the names of the user's variables are all different.\<close>

lemma getEnv_user:
  assumes "ps_Containers (pt_Spec pod) = c # cs" and "ctr_Env c = user @ controller"
    and "find (\<lambda>e. ev_Name e = key) user = Some e"
  shows "getEnv pod key = Inr (Inr (ev_Value e))"
  using assms by (simp add: getEnv_def find_append)

lemma getEnv_controller:
  assumes "ps_Containers (pt_Spec pod) = c # cs" and "ctr_Env c = user @ controller" and "key \<notin> ev_Name ` set user"
    and "find (\<lambda>e. ev_Name e = key) controller = Some e"
  shows "getEnv pod key = Inr (Inr (ev_Value e))"
proof -
  have "find (\<lambda>e. ev_Name e = key) user = None" using assms(3) by (auto simp: find_None_iff)
  then show ?thesis using assms(1,2,4) by (simp add: getEnv_def find_append)
qed

lemma find_controller_env:
  "find (\<lambda>e. ev_Name e = ''TEMPORAL_DEPLOYMENT_NAME'') (controller_env connection ns name b) = Some (env_value ''TEMPORAL_DEPLOYMENT_NAME'' name)"
  "find (\<lambda>e. ev_Name e = ''TEMPORAL_WORKER_BUILD_ID'') (controller_env connection ns name b) = Some (env_value ''TEMPORAL_WORKER_BUILD_ID'' b)"
  "find (\<lambda>e. ev_Name e = ''TEMPORAL_ADDRESS'') (controller_env connection ns name b) = Some (env_value ''TEMPORAL_ADDRESS'' (tc_HostPort connection))"
  "find (\<lambda>e. ev_Name e = ''TEMPORAL_NAMESPACE'') (controller_env connection ns name b) = Some (env_value ''TEMPORAL_NAMESPACE'' ns)"
  "''TEMPORAL_TASK_QUEUE'' \<notin> ev_Name ` set (controller_env connection ns name b)"
  by (auto simp: controller_env_def base_env_def env_value_def tls_env_def api_key_env_def split: option.splits)

lemma find_distinct:
  "distinct (map f xs) \<Longrightarrow> x \<in> set xs \<Longrightarrow> find (\<lambda>y. f y = f x) xs = Some x"
  by (induction xs) auto

lemma last_env_task_queue:
  assumes "ctr_Env c = user @ controller_env connection ns name b" and "distinct (map ev_Name user)"
    and "e \<in> set user" and "ev_Name e = ''TEMPORAL_TASK_QUEUE''"
  shows "last_env ''TEMPORAL_TASK_QUEUE'' c = Some e"
proof -
  have "find (\<lambda>e. ev_Name e = ''TEMPORAL_TASK_QUEUE'') (rev (controller_env connection ns name b)) = None"
    using find_controller_env(5) by (force simp: find_None_iff)
  moreover have "find (\<lambda>x. ev_Name x = ev_Name e) (rev user) = Some e"
    by (rule find_distinct) (use assms(2,3) in \<open>simp_all add: rev_map [symmetric]\<close>)
  ultimately show ?thesis using assms(1,4) by (simp add: last_env_def find_append)
qed

text \<open>The first container of a new Deployment has the user's variables, then the controller's.\<close>

lemma NewDeployment_first:
  assumes "ps_Containers (pt_Spec (spec_Template spec)) = c0 # cs"
  obtains c cs' where "ps_Containers (pt_Spec (ds_Template (d_Spec (NewDeploymentWithOwnerRef tp tm om spec name b connection)))) = c # cs'"
    and "ctr_Env c = ctr_Env c0 @ controller_env connection (wo_TemporalNamespace (spec_WorkerOptions spec)) name b"
  using assms by (auto simp: NewDeploymentWithOwnerRef_def Let_def ApplyController_eq)

text \<open>A test worker whose set-up fails is not heard of: its callback is not called.\<close>

lemma setup_error_dropped: "newVersionedWorker s pod = Inr (Inl e) \<Longrightarrow> RunHelloWorldWorker s pod = Inr (None, [])"
  by (simp add: RunHelloWorldWorker_def)

lemma NewWorker_options:
  "NewWorker s name b q host ns True = Inr (opts, cl) \<Longrightarrow>
     opts = \<lparr>wk_UseVersioning = True, wk_DeploymentName = name, wk_BuildId = b,
        wk_DefaultVersioningBehavior = VersioningBehaviorPinned, wk_TaskQueue = q, wk_rest = []\<rparr>"
  by (cases "test_newClient s host ns") (simp_all add: NewWorker_def)

text \<open>The test worker takes the first definition of a variable, where the kubelet takes the last.\<close>

lemma test_worker_takes_first:
  assumes "ps_Containers (pt_Spec (spec_Template spec)) = c0 # cs"
    and "find (\<lambda>e. ev_Name e = ''TEMPORAL_DEPLOYMENT_NAME'') (ctr_Env c0) = Some e"
    and "newVersionedWorker s (ds_Template (d_Spec (NewDeploymentWithOwnerRef tp tm om spec name b connection))) = Inr (Inr (opts, cl))"
  shows "wk_DeploymentName opts = ev_Value e"
proof -
  obtain c cs' where c: "ps_Containers (pt_Spec (ds_Template (d_Spec (NewDeploymentWithOwnerRef tp tm om spec name b connection)))) = c # cs'"
    "ctr_Env c = ctr_Env c0 @ controller_env connection (wo_TemporalNamespace (spec_WorkerOptions spec)) name b"
    by (rule NewDeployment_first [OF assms(1)])
  show ?thesis
    using assms(3) getEnv_user [OF c assms(2)]
    by (auto simp: newVersionedWorker_def bindR_eq_Inr dest: NewWorker_options)
qed

section \<open>Properties\<close>

text \<open>
  C34 (equivalence). The workers of the tests stand for the workers in the pods, where the user leaves the controller's variables alone:
  if the variables of the first container of the template have different names, none of them one of the four below that the controller sets, a task
  queue is among them, and both workers can connect, then a test worker started from a Deployment the controller built registers with the same options, the versioning
  behaviour included, as a worker with the options of the demo in the first container of its pods. Where the user does set such
  a variable this fails: the test worker takes the first definition and the kubelet the last.
\<close>

theorem test_worker_stands_for_pod:
  assumes "ps_Containers (pt_Spec (spec_Template spec)) = c0 # cs" and "distinct (map ev_Name (ctr_Env c0))"
    and "ev_Name ` set (ctr_Env c0) \<inter> {''TEMPORAL_DEPLOYMENT_NAME'', ''TEMPORAL_WORKER_BUILD_ID'', ''TEMPORAL_ADDRESS'', ''TEMPORAL_NAMESPACE''} = {}"
    and "env_value ''TEMPORAL_TASK_QUEUE'' q \<in> set (ctr_Env c0)"
    and "ps_Containers (pt_Spec (ds_Template (d_Spec (NewDeploymentWithOwnerRef tp tm om spec name b connection)))) = c # cs'"
    and "env_of c lookup" and "new_client b 9090 = Inr cl"
    and "test_newClient s (tc_HostPort connection) (wo_TemporalNamespace (spec_WorkerOptions spec)) = Inr tcl"
  shows "\<exists>opts. newVersionedWorker s (ds_Template (d_Spec (NewDeploymentWithOwnerRef tp tm om spec name b connection))) = Inr (Inr (opts, tcl))
     \<and> NewVersionedWorker [] lookup new_client = Inr (opts, cl)"
proof -
  let ?ns = "wo_TemporalNamespace (spec_WorkerOptions spec)"
  have env: "ctr_Env c = ctr_Env c0 @ controller_env connection ?ns name b"
    using NewDeployment_first [OF assms(1), of tp tm om name b connection] assms(5) by auto
  have names: "''TEMPORAL_DEPLOYMENT_NAME'' \<notin> ev_Name ` set (ctr_Env c0)" "''TEMPORAL_WORKER_BUILD_ID'' \<notin> ev_Name ` set (ctr_Env c0)"
    "''TEMPORAL_ADDRESS'' \<notin> ev_Name ` set (ctr_Env c0)" "''TEMPORAL_NAMESPACE'' \<notin> ev_Name ` set (ctr_Env c0)"
    using assms(3) by blast+
  have q: "find (\<lambda>e. ev_Name e = ''TEMPORAL_TASK_QUEUE'') (ctr_Env c0) = Some (env_value ''TEMPORAL_TASK_QUEUE'' q)"
    using find_distinct [OF assms(2,4)] by (simp add: env_value_def)
  have lookup: "lookup ''TEMPORAL_TASK_QUEUE'' = Some q"
    using last_env_task_queue [OF env assms(2,4)] assms(6) unfolding env_of_def by (simp add: env_value_def)
  have "NewVersionedWorker [] lookup new_client
      = Inr (\<lparr>wk_UseVersioning = True, wk_DeploymentName = name, wk_BuildId = b,
        wk_DefaultVersioningBehavior = VersioningBehaviorPinned, wk_TaskQueue = q, wk_rest = []\<rparr>, cl)"
    by (rule NewVersionedWorker_env [OF env assms(6) lookup]) (rule assms(7))
  moreover have "newVersionedWorker s (ds_Template (d_Spec (NewDeploymentWithOwnerRef tp tm om spec name b connection)))
      = Inr (Inr (\<lparr>wk_UseVersioning = True, wk_DeploymentName = name, wk_BuildId = b,
        wk_DefaultVersioningBehavior = VersioningBehaviorPinned, wk_TaskQueue = q, wk_rest = []\<rparr>, tcl))"
    using getEnv_controller [OF assms(5) env names(1) find_controller_env(1)] getEnv_controller [OF assms(5) env names(2) find_controller_env(2)]
      getEnv_controller [OF assms(5) env names(3) find_controller_env(3)] getEnv_controller [OF assms(5) env names(4) find_controller_env(4)]
      getEnv_user [OF assms(5) env q] assms(8)
    by (simp add: newVersionedWorker_def NewWorker_def env_value_def)
  ultimately show ?thesis by blast
qed

text \<open>A server that answers, and a Deployment of a user who sets the task queue.\<close>

definition sample_sdk :: "unit sdk" where
  "sample_sdk =
     \<lparr>sdk_LoadDefaultClientOptions = Inr \<lparr>co_Identity = [], co_HostPort = [], co_Namespace = []\<rparr>, sdk_PrometheusExporter = None,
      sdk_Dial = \<lambda>_. Inr (), sdk_CheckHealth = \<lambda>_. None, sdk_ListWorkflow = \<lambda>_ _. None, sdk_Start = \<lambda>_ _. None\<rparr>"

definition queue_deployment :: Deployment where
  "queue_deployment =
     NewDeploymentWithOwnerRef sample_third_party (twd_TypeMeta sample_twd) sample_meta queue_spec ''ns/foo'' ''v2'' sample_connection"

theorem test_worker_stands_for_pod_witness:
  "\<exists>c opts. newVersionedWorker sample_sdk (ds_Template (d_Spec queue_deployment)) = Inr (Inr (opts, ()))
     \<and> NewVersionedWorker [] (literal_env c) (\<lambda>b port. Inr ()) = Inr (opts, ())"
proof -
  obtain c cs' where c: "ps_Containers (pt_Spec (ds_Template (d_Spec queue_deployment))) = c # cs'"
    by (simp add: queue_deployment_def NewDeploymentWithOwnerRef_def ApplyController_eq queue_spec_def Let_def)
  have env: "env_of c (literal_env c)" by (simp add: env_of_def literal_env_def)
  have 1: "ps_Containers (pt_Spec (spec_Template queue_spec)) = [sample_container\<lparr>ctr_Env := [env_value ''TEMPORAL_TASK_QUEUE'' ''hello'']\<rparr>]"
    by (simp add: queue_spec_def)
  obtain opts where o: "newVersionedWorker sample_sdk (ds_Template (d_Spec queue_deployment)) = Inr (Inr (opts, ()))"
    "NewVersionedWorker [] (literal_env c) (\<lambda>b port. Inr ()) = Inr (opts, ())"
    using test_worker_stands_for_pod [OF 1 _ _ _ c [unfolded queue_deployment_def] env, of "''hello''" "\<lambda>b port. Inr ()" "()" sample_sdk "()"]
    by (auto simp: env_value_def test_newClient_def sample_sdk_def queue_deployment_def)
  then show ?thesis by blast
qed

text \<open>
  The gate of the demo, whose child workflow is run as well: it passes exactly when the activity of the
  child succeeds, and fails with the error of the activity; its check of the greeting never fails.
\<close>

definition with_child :: "(command \<Rightarrow> string + string) \<Rightarrow> command \<Rightarrow> string + string" where
  "with_child ans c =
     (case c of
        ExecuteChildWorkflow t w \<Rightarrow> if w = ''HelloWorld'' then snd (run_workflow HelloWorld ans) else ans c
      | _ \<Rightarrow> ans c)"

theorem demo_gate:
  "snd (run_workflow RolloutGate (with_child ans))
     = (case ans (ExecuteActivity (SetActivityTimeout (5 * Minute)) ''GetSubject'' []) of Inl e \<Rightarrow> Inl e | Inr _ \<Rightarrow> Inr ())"
  by (simp add: RolloutGate_def with_child_def HelloWorld_def split: sum.split)

lemma test_workflows:
  "snd (run_workflow failTestWorkflow ans) \<noteq> Inr greeting"
  "(\<And>c. ans c = (case c of ExecuteActivity _ name _ \<Rightarrow>
        if name = ''getSubjectTestActivity'' then getSubjectTestActivity else Inr [] | _ \<Rightarrow> Inl [])) \<Longrightarrow>
     snd (run_workflow successTestWorkflow ans) = Inr ''Hello World10''"
  by (simp_all add: failTestWorkflow_def successTestWorkflow_def getSubjectTestActivity_def Let_def split: sum.split)

end
