(* ===== verification/Test_Objects.thy ===== *)
theory Test_Objects
  imports Updates
begin

text \<open>
  The builders of test objects (\<^verbatim>\<open>internal/testhelpers/make.go\<close>). Unversioned is the SDK's constant for no version, \<open>now\<close> what
  \<open>time.Now\<close> reads, \<open>uuid\<close> what the generator returns and \<open>a\<close> the address of a new reference. The zero value of a status,
  whose version status is the empty string, is an argument. A pod spec that is changed in place is returned changed.

  Shown: the references in a test's expected status are the names the controller gives its Deployments, the task queue is set
  once in every container, and which combinations of arguments a builder cannot take.
\<close>

section \<open>Worker deployments\<close>

definition taskQueueEnvKey :: string where
  "taskQueueEnvKey = ''TEMPORAL_TASK_QUEUE''"

definition MakeTWD ::
  "TemporalWorkerDeploymentStatus \<Rightarrow> string \<Rightarrow> string \<Rightarrow> string \<Rightarrow> int32 \<Rightarrow> PodTemplateSpec \<Rightarrow> RolloutStrategy option
   \<Rightarrow> SunsetStrategy option \<Rightarrow> WorkerOptions option \<Rightarrow> TemporalWorkerDeployment" where
  "MakeTWD st0 uuid name namespace replicas podSpec rolloutStrategy sunsetStrategy workerOpts =
     (let r = (case rolloutStrategy of
                 None \<Rightarrow> \<lparr>rs_Strategy = OtherStrategy [], rs_Gate = None, rs_Steps = []\<rparr> | Some x \<Rightarrow> x);
          s = (case sunsetStrategy of None \<Rightarrow> \<lparr>ss_ScaledownDelay = None, ss_DeleteDelay = None\<rparr> | Some x \<Rightarrow> x);
          w = (case workerOpts of
                 None \<Rightarrow> \<lparr>wo_TemporalConnectionRef = \<lparr>tcr_Name = []\<rparr>, wo_TemporalNamespace = [], wo_UnsafeCustomBuildID = []\<rparr>
               | Some x \<Rightarrow> x)
      in \<lparr>twd_TypeMeta = \<lparr>tm_APIVersion = ''temporal.io/v1alpha1'', tm_Kind = ''TemporalWorkerDeployment''\<rparr>,
          twd_ObjectMeta =
            \<lparr>om_Name = name, om_Namespace = namespace, om_UID = ''test-owner-'' @ uuid,
             om_Labels = Some [(''app'', ''test-worker'')], om_Annotations = None, om_OwnerReferences = [],
             om_CreationTimestamp = zero_time, om_ResourceVersion = []\<rparr>,
          twd_Spec =
            \<lparr>spec_Replicas = Some replicas, spec_Template = podSpec, spec_MinReadySeconds = 0, spec_ProgressDeadlineSeconds = None,
             spec_RolloutStrategy = r, spec_SunsetStrategy = s, spec_WorkerOptions = w\<rparr>,
          twd_Status = st0\<rparr>)"

definition MakePodSpec :: "Container list \<Rightarrow> (string, string) go_map option \<Rightarrow> string \<Rightarrow> PodTemplateSpec" where
  "MakePodSpec containers labels taskQueue =
     \<lparr>pt_Labels = labels, pt_Annotations = None,
      pt_Spec = \<lparr>ps_Containers = map (\<lambda>c. c\<lparr>ctr_Env := ctr_Env c @ [env_value taskQueueEnvKey taskQueue]\<rparr>) containers,
                 ps_Volumes = [], ps_rest = []\<rparr>,
      pt_rest = []\<rparr>"

definition test_container :: "string \<Rightarrow> string \<Rightarrow> Container" where
  "test_container name img = \<lparr>ctr_Name = name, ctr_Image = img, ctr_Env = [], ctr_VolumeMounts = [], ctr_rest = []\<rparr>"

definition MakePodSpecWithImage :: "string \<Rightarrow> PodTemplateSpec" where
  "MakePodSpecWithImage imageName =
     MakePodSpec [test_container ''worker'' imageName] (Some [(''app'', ''test-worker'')]) []"

text \<open>The body of the outer loop of \<open>SetTaskQueue\<close>.\<close>

definition set_task_queue :: "string \<Rightarrow> Container \<Rightarrow> Container" where
  "set_task_queue taskQueue c =
     (let found = list_ex (\<lambda>e. ev_Name e = taskQueueEnvKey) (ctr_Env c);
          env = map (\<lambda>e. if ev_Name e = taskQueueEnvKey then e\<lparr>ev_Value := taskQueue\<rparr> else e) (ctr_Env c)
      in c\<lparr>ctr_Env := (if \<not> found then env @ [env_value taskQueueEnvKey taskQueue] else env)\<rparr>)"

definition SetTaskQueue :: "PodTemplateSpec \<Rightarrow> string \<Rightarrow> PodTemplateSpec" where
  "SetTaskQueue podSpec taskQueue =
     podSpec\<lparr>pt_Spec := (pt_Spec podSpec)\<lparr>ps_Containers := map (set_task_queue taskQueue) (ps_Containers (pt_Spec podSpec))\<rparr>\<rparr>"

definition MakeTWDWithImage ::
  "TemporalWorkerDeploymentStatus \<Rightarrow> string \<Rightarrow> string \<Rightarrow> string \<Rightarrow> string \<Rightarrow> TemporalWorkerDeployment" where
  "MakeTWDWithImage st0 uuid name namespace imageName =
     MakeTWD st0 uuid name namespace 1 (MakePodSpec [test_container [] imageName] None []) None None None"

definition MakeTWDWithName :: "TemporalWorkerDeploymentStatus \<Rightarrow> string \<Rightarrow> string \<Rightarrow> string \<Rightarrow> TemporalWorkerDeployment" where
  "MakeTWDWithName st0 uuid name namespace =
     (let twd = MakeTWD st0 uuid name namespace 1 (MakePodSpec [] None []) None None None
      in twd\<lparr>twd_ObjectMeta := (twd_ObjectMeta twd)\<lparr>om_Name := name\<rparr>\<rparr>)"

definition ModifyObj :: "'a \<Rightarrow> ('a \<Rightarrow> 'a) \<Rightarrow> 'a" where
  "ModifyObj obj callback = callback obj"

definition MakeBuildId ::
  "third_party \<Rightarrow> TemporalWorkerDeploymentStatus \<Rightarrow> string \<Rightarrow> string \<Rightarrow> string \<Rightarrow> string \<Rightarrow> PodTemplateSpec option \<Rightarrow> string" where
  "MakeBuildId tp st0 uuid twdName imageName unsafeCustomBuildID podSpec =
     (if unsafeCustomBuildID \<noteq> [] then unsafeCustomBuildID
      else ComputeBuildID tp
             (ModifyObj (MakeTWDWithName st0 uuid twdName [])
                (\<lambda>obj. obj\<lparr>twd_Spec := (twd_Spec obj)\<lparr>spec_Template :=
                   (case podSpec of Some p \<Rightarrow> p | None \<Rightarrow> SetTaskQueue (MakePodSpecWithImage imageName) twdName)\<rparr>\<rparr>)))"

section \<open>Versions\<close>

text \<open>Asking to create the Deployment of a version without one dereferences nil.\<close>

definition MakeBaseVersion ::
  "third_party \<Rightarrow> TemporalWorkerDeploymentStatus \<Rightarrow> string \<Rightarrow> nat \<Rightarrow> string \<Rightarrow> string \<Rightarrow> string \<Rightarrow> string \<Rightarrow> VersionStatus
   \<Rightarrow> bool \<Rightarrow> bool \<Rightarrow> go_panic + BaseWorkerDeploymentVersion" where
  "MakeBaseVersion tp st0 uuid a namespace twdName imageName unsafeCustomBuildID status createDeployment hasDeployment =
     (let buildID = MakeBuildId tp st0 uuid twdName imageName unsafeCustomBuildID None;
          ref = \<lparr>ref_APIVersion = [], ref_Kind = [], ref_Name = ComputeVersionedDeploymentName twdName buildID,
                 ref_Namespace = namespace, ref_UID = [], ref_ResourceVersion = [], ref_FieldPath = []\<rparr>;
          ret = \<lparr>v_BuildID = buildID, v_Status = status, v_HealthySince = None,
                 v_Deployment = (if hasDeployment then Some (a, ref) else None),
                 v_TaskQueues = [\<lparr>tq_Name = twdName\<rparr>], v_ManagedBy = []\<rparr>
      in if createDeployment
         then bindE (deref (v_Deployment ret)) (\<lambda>(a, ref).
                Inr (ret\<lparr>v_Deployment := Some (a, ref\<lparr>ref_FieldPath := ''create''\<rparr>)\<rparr>))
         else Inr ret)"

definition MakeCurrentVersion ::
  "third_party \<Rightarrow> TemporalWorkerDeploymentStatus \<Rightarrow> string \<Rightarrow> nat \<Rightarrow> string \<Rightarrow> go_time \<Rightarrow> string \<Rightarrow> string \<Rightarrow> string \<Rightarrow> string
   \<Rightarrow> bool \<Rightarrow> bool \<Rightarrow> go_panic + CurrentWorkerDeploymentVersion option" where
  "MakeCurrentVersion tp st0 uuid a unversioned now namespace twdName imageName unsafeCustomBuildID healthy createDeployment =
     (if imageName = unversioned then Inr None
      else bindE (MakeBaseVersion tp st0 uuid a namespace twdName imageName unsafeCustomBuildID VersionStatusCurrent
                    createDeployment True) (\<lambda>ret.
           Inr (Some (if healthy then ret\<lparr>v_HealthySince := Some now\<rparr> else ret))))"

definition MakeTargetVersion ::
  "third_party \<Rightarrow> TemporalWorkerDeploymentStatus \<Rightarrow> string \<Rightarrow> nat \<Rightarrow> go_time \<Rightarrow> string \<Rightarrow> string \<Rightarrow> string \<Rightarrow> string
   \<Rightarrow> VersionStatus \<Rightarrow> int32 \<Rightarrow> bool \<Rightarrow> bool \<Rightarrow> go_panic + TargetWorkerDeploymentVersion" where
  "MakeTargetVersion tp st0 uuid a now namespace twdName imageName unsafeCustomBuildID status rampPercentage healthy
       createDeployment =
     bindE (MakeBaseVersion tp st0 uuid a namespace twdName imageName unsafeCustomBuildID status createDeployment True) (\<lambda>base.
       let ret = BaseWorkerDeploymentVersion.extend base (TargetWorkerDeploymentVersion.fields [] None None None);
           ret = (if sint rampPercentage \<ge> 0 then ret\<lparr>v_RampPercentage := Some (float32_of_int (sint rampPercentage))\<rparr> else ret)
       in Inr (if healthy then ret\<lparr>v_HealthySince := Some now\<rparr> else ret))"

definition MakeDeprecatedVersion ::
  "third_party \<Rightarrow> TemporalWorkerDeploymentStatus \<Rightarrow> string \<Rightarrow> nat \<Rightarrow> go_time \<Rightarrow> string \<Rightarrow> string \<Rightarrow> string \<Rightarrow> string
   \<Rightarrow> VersionStatus \<Rightarrow> bool \<Rightarrow> bool \<Rightarrow> bool \<Rightarrow> go_panic + DeprecatedWorkerDeploymentVersion" where
  "MakeDeprecatedVersion tp st0 uuid a now namespace twdName imageName unsafeCustomBuildID status healthy createDeployment
       hasDeployment =
     bindE (MakeBaseVersion tp st0 uuid a namespace twdName imageName unsafeCustomBuildID status createDeployment
              hasDeployment) (\<lambda>base.
       let ret = BaseWorkerDeploymentVersion.extend base (DeprecatedWorkerDeploymentVersion.fields None False);
           ret = (if status = VersionStatusDrained then ret\<lparr>v_DrainedSince := Some now\<rparr> else ret)
       in Inr (if healthy then ret\<lparr>v_HealthySince := Some now\<rparr> else ret))"

section \<open>What the builders give\<close>

text \<open>The queue is set once in every container that has no definition, and every definition there is gets the value.\<close>

definition put_queue :: "string \<Rightarrow> EnvVar \<Rightarrow> EnvVar" where
  "put_queue q e = (if ev_Name e = taskQueueEnvKey then e\<lparr>ev_Value := q\<rparr> else e)"

lemma put_queue_simps [simp]:
  "ev_Name (put_queue q e) = ev_Name e" "put_queue q' (put_queue q e) = put_queue q' e"
  "ev_Name e = taskQueueEnvKey \<Longrightarrow> ev_Value (put_queue q e) = q"
  "put_queue q' (env_value taskQueueEnvKey q) = env_value taskQueueEnvKey q'"
  by (simp_all add: put_queue_def env_value_def)

lemma set_task_queue_env:
  "set_task_queue q c =
     c\<lparr>ctr_Env := map (put_queue q) (ctr_Env c)
        @ (if list_ex (\<lambda>e. ev_Name e = taskQueueEnvKey) (ctr_Env c) then [] else [env_value taskQueueEnvKey q])\<rparr>"
  unfolding set_task_queue_def Let_def put_queue_def by simp

lemma set_task_queue_sets:
  "(\<exists>e\<in>set (ctr_Env (set_task_queue q c)). ev_Name e = taskQueueEnvKey)
   \<and> (\<forall>e\<in>set (ctr_Env (set_task_queue q c)). ev_Name e = taskQueueEnvKey \<longrightarrow> ev_Value e = q)"
  by (auto simp: set_task_queue_env list_ex_iff env_value_def)

lemma set_task_queue_idem: "set_task_queue q' (set_task_queue q c) = set_task_queue q' c"
proof -
  have "list_ex (\<lambda>e. ev_Name e = taskQueueEnvKey) (ctr_Env (set_task_queue q c))"
    using set_task_queue_sets [of q c] by (simp add: list_ex_iff)
  then have "set_task_queue q' (set_task_queue q c)
      = c\<lparr>ctr_Env := map (put_queue q') (ctr_Env (set_task_queue q c))\<rparr>"
    by (simp add: set_task_queue_env [of q'] set_task_queue_env [of q])
  also have "map (put_queue q') (ctr_Env (set_task_queue q c)) = ctr_Env (set_task_queue q' c)"
    by (simp add: set_task_queue_env)
  also have "c\<lparr>ctr_Env := ctr_Env (set_task_queue q' c)\<rparr> = set_task_queue q' c"
    by (simp add: set_task_queue_env)
  finally show ?thesis .
qed

lemma SetTaskQueue_idem: "SetTaskQueue (SetTaskQueue p q) q' = SetTaskQueue p q'"
  by (simp add: SetTaskQueue_def set_task_queue_idem comp_def)

lemma SetTaskQueue_sets:
  assumes "c \<in> set (ps_Containers (pt_Spec (SetTaskQueue p q)))" "e \<in> set (ctr_Env c)" "ev_Name e = taskQueueEnvKey"
  shows "ev_Value e = q"
  using assms set_task_queue_sets by (fastforce simp: SetTaskQueue_def)

text \<open>A pod spec from an image starts with an empty queue and takes one by replacement.\<close>

lemma MakePodSpecWithImage_queue:
  "map ctr_Env (ps_Containers (pt_Spec (SetTaskQueue (MakePodSpecWithImage img) q))) = [[env_value taskQueueEnvKey q]]"
  by (simp add: SetTaskQueue_def MakePodSpecWithImage_def MakePodSpec_def set_task_queue_def test_container_def env_value_def)

lemma MakeBaseVersion_panics:
  "(\<exists>p. MakeBaseVersion tp st0 uuid a ns n img unsafe status create has = Inl p) \<longleftrightarrow> create \<and> \<not> has"
  by (cases has; cases create) (simp_all add: MakeBaseVersion_def Let_def deref_def)

text \<open>The reference of an expected version is the name and namespace of the Deployment the controller builds for that version.\<close>

lemma MakeBaseVersion_names:
  assumes "MakeBaseVersion tp st0 uuid a ns n img unsafe status create True = Inr v"
    and "om_Name om = n" "om_Namespace om = ns"
  obtains r where "v_Deployment v = Some (a, r)"
    "ref_Name r = om_Name (d_ObjectMeta (NewDeploymentWithOwnerRef tp tm om spec wdn (v_BuildID v) conn))"
    "ref_Namespace r = om_Namespace (d_ObjectMeta (NewDeploymentWithOwnerRef tp tm om spec wdn (v_BuildID v) conn))"
  using assms by (cases create) (auto simp: MakeBaseVersion_def Let_def deref_def NewDeploymentWithOwnerRef_def)

text \<open>The current version of an unversioned worker is none; the others carry what their arguments say.\<close>

lemma MakeCurrentVersion_unversioned [simp]:
  "MakeCurrentVersion tp st0 uuid a unversioned now ns n unversioned unsafe healthy create = Inr None"
  by (simp add: MakeCurrentVersion_def)

lemma MakeCurrentVersion_healthy:
  assumes "MakeCurrentVersion tp st0 uuid a unversioned now ns n img unsafe healthy create = Inr (Some v)"
  shows "v_Status v = VersionStatusCurrent \<and> v_HealthySince v = (if healthy then Some now else None) \<and> v_Deployment v \<noteq> None"
  using assms by (auto simp: MakeCurrentVersion_def MakeBaseVersion_def Let_def deref_def split: if_splits)

lemma MakeTargetVersion_ramp:
  assumes "MakeTargetVersion tp st0 uuid a now ns n img unsafe status ramp healthy create = Inr v"
  shows "v_RampPercentage v = (if sint ramp \<ge> 0 then Some (float32_of_int (sint ramp)) else None)"
  using assms by (auto simp: MakeTargetVersion_def MakeBaseVersion_def Let_def deref_def
      TargetWorkerDeploymentVersion.defs BaseWorkerDeploymentVersion.defs split: if_splits)

lemma MakeDeprecatedVersion_drained:
  assumes "MakeDeprecatedVersion tp st0 uuid a now ns n img unsafe status healthy create has = Inr v"
  shows "(v_DrainedSince v \<noteq> None) = (status = VersionStatusDrained) \<and> \<not> v_EligibleForDeletion v"
  using assms by (auto simp: MakeDeprecatedVersion_def MakeBaseVersion_def Let_def deref_def
      DeprecatedWorkerDeploymentVersion.defs BaseWorkerDeploymentVersion.defs split: if_splits)

end
