(* ===== verification/Demo_Helper.thy ===== *)
theory Demo_Helper
  imports Prelude
begin

text \<open>
  The command-line helper that plays the demo (\<^verbatim>\<open>hack/demohelper/main.go\<close>): steps of shell commands, each step
  confirmed with ENTER. What a run does is a trace; the answers of the shell, of the keyboard and of \<open>clear\<close> are
  functions of the trace so far, the colours of the terminal parameters. \<open>log.Fatalf\<close> ends the run with a message.

  Shown: the commands are executed in order up to the first that fails, every step only after a confirmation; a watched
  command that is killed does not fail; with the patches missing that the second step applies, nothing after it is run.
\<close>

section \<open>Commands and steps\<close>

record demoCommand =
  dc_description :: string
  dc_command :: string
  dc_watchDuration :: duration

record demoStep =
  st_description :: string
  st_commands :: "demoCommand list"

definition newCommand :: "string \<Rightarrow> demoCommand" where
  "newCommand command = \<lparr>dc_description = [], dc_command = command, dc_watchDuration = 0\<rparr>"

definition WithWatchDuration :: "demoCommand \<Rightarrow> duration \<Rightarrow> demoCommand" where
  "WithWatchDuration c d = \<lparr>dc_description = [], dc_command = dc_command c, dc_watchDuration = d\<rparr>"

definition skaffoldRunCmd :: demoCommand where
  "skaffoldRunCmd = newCommand ''skaffold run --profile demo''"

definition gitResetWorkflowCmd :: demoCommand where
  "gitResetWorkflowCmd = newCommand ''git checkout internal/demo/worker/workflow.go''"

definition getWorkerStatusCmd :: demoCommand where
  "getWorkerStatusCmd = newCommand ''kubectl get temporalworkerdeployment demo -o json | jq .status''"

text \<open>The bytes of the prompt, a duck.\<close>

definition fakePromptUser :: string where
  "fakePromptUser = [CHR 0xF0, CHR 0x9F, CHR 0xA6, CHR 0x86]"

section \<open>Running\<close>

datatype demo_event =
    Cleared
  | Printed string
  | Scanned
  | Executed string "duration option"            \<comment> \<open>the command and the time after which it is killed\<close>

datatype demo_error = ExitError int string | OtherError string

primrec error_text :: "demo_error \<Rightarrow> string" where
  "error_text (ExitError code msg) = msg"
| "error_text (OtherError msg) = msg"

record console =
  con_faint :: "string \<Rightarrow> string"
  con_blue :: "string \<Rightarrow> string"
  con_clear :: "demo_event list \<Rightarrow> demo_error option"
  con_scan :: "demo_event list \<Rightarrow> demo_error option"
  con_exec :: "demo_event list \<Rightarrow> string \<Rightarrow> duration option \<Rightarrow> demo_error option"

type_synonym demo_run = "demo_event list \<Rightarrow> demo_error option \<times> demo_event list"

definition printConsole :: "string \<Rightarrow> demo_event list \<Rightarrow> demo_event list" where
  "printConsole msg t = t @ [Printed (fakePromptUser @ '' $ '' @ msg)]"

definition printConsoleComment :: "console \<Rightarrow> string \<Rightarrow> demo_event list \<Rightarrow> demo_event list" where
  "printConsoleComment con comment = printConsole (con_faint con (''# '' @ comment))"

definition clearConsole :: "console \<Rightarrow> demo_run" where
  "clearConsole con t = (con_clear con t, t @ [Cleared])"

text \<open>An exit code of -1 stands for a process that was killed.\<close>

definition ignoreExecKillError :: "demo_error option \<Rightarrow> demo_error option" where
  "ignoreExecKillError err =
     (case err of Some (ExitError code msg) \<Rightarrow> if code = -1 then None else err | _ \<Rightarrow> err)"

text \<open>The body of the loop of \<open>run\<close>: what it prints, and the function literal that runs the command.\<close>

definition announce :: "console \<Rightarrow> demoCommand \<Rightarrow> demo_event list \<Rightarrow> demo_event list" where
  "announce con c t =
     (let t = (if dc_description c \<noteq> [] then printConsoleComment con (dc_description c @ [CHR 0x0A]) t else t)
      in printConsole (con_blue con (dc_command c @ [CHR 0x0A])) t)"

definition run_command :: "console \<Rightarrow> demoCommand \<Rightarrow> demo_run" where
  "run_command con c t =
     (let isWatch = dc_watchDuration c > 0;
          timeout = (if isWatch then Some (dc_watchDuration c) else None);
          err = con_exec con t (dc_command c) timeout
      in (if isWatch then ignoreExecKillError err else err, t @ [Executed (dc_command c) timeout]))"

primrec run_commands :: "console \<Rightarrow> bool \<Rightarrow> demoCommand list \<Rightarrow> demo_run" where
  "run_commands con printFirst [] t = (None, t)"
| "run_commands con printFirst (c # cs) t =
     (case run_command con c (if printFirst then announce con c t else t) of
        (Some e, t') \<Rightarrow> (Some e, t')
      | (None, t') \<Rightarrow> run_commands con True cs t')"

definition run :: "console \<Rightarrow> demoStep \<Rightarrow> bool \<Rightarrow> demo_run" where
  "run con ds printFirstCommand = run_commands con printFirstCommand (st_commands ds)"

definition RunAfterConfirmation :: "console \<Rightarrow> demoStep \<Rightarrow> demo_run" where
  "RunAfterConfirmation con ds t =
     (case st_commands ds of
        [] \<Rightarrow> run con ds False t
      | c # _ \<Rightarrow>
          (let t' = printConsole [] t @ [Printed (con_blue con (dc_command c) @ '' '')]
           in case con_scan con t' of
                Some e \<Rightarrow> (Some (OtherError (''error reading input: '' @ error_text e)), t' @ [Scanned])
              | None \<Rightarrow> run con ds False (t' @ [Scanned])))"

text \<open>The message a run ends with, when it ends with \<open>log.Fatalf\<close>.\<close>

primrec run_steps :: "console \<Rightarrow> demoStep list \<Rightarrow> demo_event list \<Rightarrow> string option \<times> demo_event list" where
  "run_steps con [] t = (None, printConsoleComment con (''Demo complete!'' @ [CHR 0x0A]) t)"
| "run_steps con (s # ss) t =
     (case RunAfterConfirmation con s (printConsoleComment con (st_description s @ [CHR 0x0A]) t) of
        (Some e, t') \<Rightarrow> (Some (''Error running command: '' @ error_text e), t')
      | (None, t') \<Rightarrow> run_steps con ss t')"

definition runDemo :: "console \<Rightarrow> demoStep list \<Rightarrow> string option \<times> demo_event list" where
  "runDemo con steps =
     (case clearConsole con [] of
        (Some e, t) \<Rightarrow> (Some (''Error clearing console: '' @ error_text e), t)
      | (None, t) \<Rightarrow> run_steps con steps t)"

definition demo_steps :: "demoStep list" where
  "demo_steps =
    [\<lparr>st_description = ''Ensure worker is up to date'',
      st_commands = [skaffoldRunCmd]\<rparr>,
     \<lparr>st_description = ''Switch to workflow.Sleep using a patch/version check'',
      st_commands = [newCommand ''git apply ./internal/demo/changes/version-gate.patch'']\<rparr>,
     \<lparr>st_description = ''Remove the patch/version check'',
      st_commands = [gitResetWorkflowCmd, newCommand ''git apply ./internal/demo/changes/no-version-gate.patch'']\<rparr>,
     \<lparr>st_description = ''Deploy the change to workflow.Sleep'',
      st_commands =
       [newCommand ''git add internal/demo/worker/workflow.go'',
        newCommand (''git commit -m '' @ [CHR 0x22] @ ''Use workflow.Sleep instead of time.Sleep (no version gate)'' @ [CHR 0x22]),
        skaffoldRunCmd]\<rparr>,
     \<lparr>st_description = ''Apply progressive rollout strategy'',
      st_commands = [newCommand ''git apply internal/demo/changes/progressive-rollout.patch'']\<rparr>,
     \<lparr>st_description = ''Make another code change and re-deploy'',
      st_commands =
       [newCommand ''git add internal/demo/worker/workflow.go'',
        newCommand (''git commit -m '' @ [CHR 0x22] @ ''Update activity GetSubject'' @ [CHR 0x22]),
        skaffoldRunCmd]\<rparr>]"

definition demohelper_main :: "console \<Rightarrow> string option \<times> demo_event list" where
  "demohelper_main con = runDemo con demo_steps"

section \<open>What is executed\<close>

fun executed :: "demo_event list \<Rightarrow> string list" where
  "executed [] = []"
| "executed (Executed c d # t) = c # executed t"
| "executed (_ # t) = executed t"

lemma executed_append [simp]: "executed (t @ u) = executed t @ executed u"
  by (induction t rule: executed.induct) simp_all

lemma executed_print [simp]:
  "executed (printConsole msg t) = executed t" "executed (printConsoleComment con msg t) = executed t"
  "executed (announce con c t) = executed t"
  by (simp_all add: printConsole_def printConsoleComment_def announce_def Let_def)

lemma executed_command [simp]: "executed (snd (run_command con c t)) = executed t @ [dc_command c]"
  by (simp add: run_command_def Let_def)

text \<open>Commands run in order; a run without an error has run them all, one with an error stops at the command that failed.\<close>

definition ran :: "string list \<Rightarrow> 'e option \<times> demo_event list \<Rightarrow> demo_event list \<Rightarrow> bool" where
  "ran cs r t \<longleftrightarrow> (\<exists>k\<le>length cs. executed (snd r) = executed t @ take k cs \<and> (fst r = None \<longrightarrow> k = length cs))"

lemma ran_append:
  assumes "ran cs (None, t') t" "ran ds r t'"
  shows "ran (cs @ ds) r t"
proof -
  from assms(2) obtain k where "k \<le> length ds" "executed (snd r) = executed t' @ take k ds" "fst r = None \<longrightarrow> k = length ds"
    by (auto simp: ran_def)
  with assms(1) show ?thesis by (auto simp: ran_def intro!: exI [of _ "length cs + k"])
qed

lemma ran_prefix: "ran cs (Some e, t') t \<Longrightarrow> ran (cs @ ds) (Some e', t') t"
  unfolding ran_def by (elim exE, rule_tac x = k in exI) simp

lemma ran_trace: "executed t = executed t' \<Longrightarrow> ran cs r t = ran cs r t'"
  by (simp add: ran_def)

lemma run_commands_ran: "ran (map dc_command cs) (run_commands con p cs t) t"
proof (induction cs arbitrary: p t)
  case (Cons c cs)
  obtain r t' where r: "run_command con c (if p then announce con c t else t) = (r, t')" by fastforce
  have t': "executed t' = executed t @ [dc_command c]"
    using executed_command [of con c "if p then announce con c t else t"] r by (simp split: if_splits)
  show ?case
  proof (cases r)
    case None
    have "ran [dc_command c] (None :: demo_error option, t') t" using t' by (auto simp: ran_def)
    from ran_append [OF this Cons.IH [of True t']] show ?thesis using r None by simp
  next
    case (Some e)
    have "ran [dc_command c] (Some e, t') t" using t' by (auto simp: ran_def intro!: exI [of _ 1])
    from ran_prefix [OF this] show ?thesis using r Some by simp
  qed
qed (simp add: ran_def)

lemma RunAfterConfirmation_ran: "ran (map dc_command (st_commands ds)) (RunAfterConfirmation con ds t) t"
proof (cases "st_commands ds")
  case (Cons c cs)
  let ?t = "printConsole [] t @ [Printed (con_blue con (dc_command c) @ '' '')]"
  have "ran (map dc_command (st_commands ds)) (run con ds False (?t @ [Scanned])) t"
    using run_commands_ran [of "st_commands ds" con False "?t @ [Scanned]"] by (simp add: run_def ran_def)
  then show ?thesis using Cons
    by (auto simp: RunAfterConfirmation_def Let_def ran_def split: option.split)
qed (simp add: RunAfterConfirmation_def run_def ran_def)

lemma run_steps_ran: "ran (concat (map (map dc_command \<circ> st_commands) ss)) (run_steps con ss t) t"
proof (induction ss arbitrary: t)
  case (Cons s ss)
  let ?t = "printConsoleComment con (st_description s @ [CHR 0x0A]) t"
  obtain r t' where r: "RunAfterConfirmation con s ?t = (r, t')" by fastforce
  have s: "ran (map dc_command (st_commands s)) (r, t') t"
    using RunAfterConfirmation_ran [of s con ?t] r by (simp add: ran_def)
  show ?case using s r ran_append [OF _ Cons.IH] ran_prefix by (cases r) (simp_all add: comp_def)
qed (simp add: ran_def)

text \<open>Whatever the shell answers, a demo executes a prefix of its commands, all of them if it completes.\<close>

theorem runDemo_commands: "ran (concat (map (map dc_command \<circ> st_commands) steps)) (runDemo con steps) []"
proof (cases "con_clear con []")
  case None
  then show ?thesis using run_steps_ran [of steps con "[Cleared]"] by (simp add: runDemo_def clearConsole_def ran_def)
next
  case (Some e)
  then show ?thesis by (auto simp: runDemo_def clearConsole_def ran_def intro!: exI [of _ 0])
qed

lemma killed_watch_succeeds:
  assumes "dc_watchDuration c > 0" "con_exec con t (dc_command c) (Some (dc_watchDuration c)) = Some (ExitError (-1) msg)"
  shows "fst (run_command con c t) = None"
  using assms by (simp add: run_command_def ignoreExecKillError_def)

lemma RunAfterConfirmation_single:
  assumes "st_commands ds = [newCommand c]"
  obtains e t' where "RunAfterConfirmation con ds t = (e, t')" "executed t' \<in> {executed t, executed t @ [c]}"
    "e = None \<Longrightarrow> executed t' = executed t @ [c]"
proof -
  obtain e t' where r: "RunAfterConfirmation con ds t = (e, t')" by fastforce
  obtain k where "k \<le> 1" "executed t' = executed t @ take k [c]" "e = None \<longrightarrow> k = 1"
    using RunAfterConfirmation_ran [of ds con t] assms r by (auto simp: ran_def newCommand_def)
  with r that show ?thesis by (cases k) auto
qed

lemma single_fails:
  assumes "st_commands ds = [newCommand c]" "\<And>t. con_exec con t c None \<noteq> None"
  obtains e t' where "RunAfterConfirmation con ds t = (Some e, t')" "executed t' \<in> {executed t, executed t @ [c]}"
proof -
  have "fst (run con ds False t') \<noteq> None" for t'
    using assms(1) assms(2) [of t']
    by (auto simp: run_def run_command_def newCommand_def)
  then have "fst (RunAfterConfirmation con ds t) \<noteq> None" using assms(1)
    by (simp add: RunAfterConfirmation_def Let_def split: option.split)
  with RunAfterConfirmation_single [OF assms(1), of con t] that show ?thesis by (metis fst_conv option.exhaust)
qed

text \<open>
  The second step applies \<^verbatim>\<open>internal/demo/changes/version-gate.patch\<close>, which the repository does not have: as that
  command always fails, the demo ends with an error and executes at most the first two of its commands.
\<close>

theorem demo_stops_at_missing_patch:
  assumes "\<And>t. con_exec con t ''git apply ./internal/demo/changes/version-gate.patch'' None \<noteq> None"
  shows "fst (demohelper_main con) \<noteq> None
    \<and> executed (snd (demohelper_main con))
        \<in> {[], [''skaffold run --profile demo''],
           [''skaffold run --profile demo'', ''git apply ./internal/demo/changes/version-gate.patch'']}"
proof (cases "con_clear con []")
  case (Some e)
  then show ?thesis by (simp add: demohelper_main_def runDemo_def clearConsole_def)
next
  case None
  let ?t = "printConsoleComment con (''Ensure worker is up to date'' @ [CHR 0x0A]) [Cleared]"
  obtain e t1 where 1: "RunAfterConfirmation con (hd demo_steps) ?t = (e, t1)" "executed t1 \<in> {[], [''skaffold run --profile demo'']}"
    and all: "e = None \<Longrightarrow> executed t1 = [''skaffold run --profile demo'']"
    using RunAfterConfirmation_single [of "hd demo_steps" "''skaffold run --profile demo''" con ?t]
    by (auto simp: demo_steps_def skaffoldRunCmd_def)
  show ?thesis
  proof (cases e)
    case (Some x)
    then show ?thesis using None 1 by (auto simp: demohelper_main_def runDemo_def clearConsole_def demo_steps_def)
  next
    case step: None
    let ?u = "printConsoleComment con (''Switch to workflow.Sleep using a patch/version check'' @ [CHR 0x0A]) t1"
    obtain x t2 where "RunAfterConfirmation con (demo_steps ! 1) ?u = (Some x, t2)"
      "executed t2 \<in> {executed t1, executed t1 @ [''git apply ./internal/demo/changes/version-gate.patch'']}"
      using single_fails [of "demo_steps ! 1" "''git apply ./internal/demo/changes/version-gate.patch''" con ?u, OF _ assms]
      by (auto simp: demo_steps_def)
    then show ?thesis using None step 1 all
      by (auto simp: demohelper_main_def runDemo_def clearConsole_def demo_steps_def)
  qed
qed

end
