(* ===== verification/Spec2Isabelle.thy ===== *)
theory Spec2Isabelle
  imports Sample_Run Deep_Copy Closed_Loop Manager_Setup Demo_Workers Test_Objects Demo_Helper
begin

text \<open>
  \<^bold>\<open>The Temporal worker controller.\<close> A Kubernetes controller that keeps one Deployment per version of a
  Temporal worker. For each \<open>TemporalWorkerDeployment\<close> a run of its loop reads the Deployments
  of the worker and the state of the versions in Temporal, writes a status, plans what to
  create, delete, scale, update and how to route traffic, and executes the plan.

  \<^bold>\<open>Parts, theories and source.\<close> Paths are relative to \<^verbatim>\<open>src/\<close>.

  \<^item> \<open>Prelude\<close>: Go maps as association lists, nil dereference and nil map writes as panics, an
    error monad on sums, times and durations (nanoseconds, 64-bit saturation and wrap-around
    written out), 32-bit integers as words. \<open>Api_Types\<close>: the resources of \<^verbatim>\<open>api/v1alpha1\<close> and the
    parts of core Kubernetes objects the code touches. \<open>Samples\<close>: concrete resources for
    the witnesses. \<open>Go_IO\<close>: computations that call the API server or Temporal, as functions on a
    world (the clock and the record of changing calls); answers of remote calls are parameters
    and may depend on the whole world.
  \<^item> \<open>Webhook\<close>: defaulting and admission (\<^verbatim>\<open>api/v1alpha1/temporalworker_webhook.go\<close>), with the
    interface \<open>rollout_validator\<close> that the rollout relies on.
  \<^item> \<open>Naming\<close>, \<open>Digest\<close>, \<open>K8s_Deployments\<close>: names, hashes, build IDs, the cluster state and the
    construction of Deployments (\<^verbatim>\<open>internal/k8s/deployments.go\<close>, \<^verbatim>\<open>internal/controller/k8s.io/utils\<close>).
  \<^item> \<open>Temporal_State\<close>: reading and classifying versions, retries, pollers, ownership metadata and
    test workflows (\<^verbatim>\<open>internal/temporal/worker_deployment.go\<close>).
  \<^item> \<open>Rollout\<close>, \<open>Sunset\<close>, \<open>Updates\<close>, \<open>Planner\<close>: the planner (\<^verbatim>\<open>internal/planner/planner.go\<close>). \<open>Rollout\<close> has the
    routing decision, and progressive rollouts as a step relation of decisions, enactment and
    time; \<open>Sunset\<close> deletion, scaling, creation, over the interface \<open>status_provider\<close>; \<open>Updates\<close> the in-place updates of
    Deployments on an explicit store; \<open>Planner\<close> the gate and the whole plan.
  \<^item> \<open>State_Mapper\<close>: the status (\<^verbatim>\<open>internal/controller/state_mapper.go\<close>, \<^verbatim>\<open>genstatus.go\<close>); it provides what
    \<open>status_provider\<close> asks for.
  \<^item> \<open>Exec_Plan\<close>: the controller's environment and the execution of a plan (\<^verbatim>\<open>util.go\<close>, \<^verbatim>\<open>execplan.go\<close>).
    \<open>Client_Pool\<close>: the cache of Temporal clients and its lock (\<^verbatim>\<open>clientpool/clientpool.go\<close>), with the interface
    \<open>client_cache\<close> the reconciler uses; \<open>Pool_Races\<close>: interleavings of its operations under the read-write lock. \<open>Reconcile\<close>: plan generation and one run of the loop
    (\<^verbatim>\<open>genplan.go\<close>, \<^verbatim>\<open>worker_controller.go\<close>). \<open>Worker_Contract\<close>: the
    start of a worker in a pod (\<^verbatim>\<open>internal/demo/util/worker.go\<close>, \<^verbatim>\<open>env.go\<close>). \<open>Composition\<close> and this theory: what holds across
    components; \<open>Sample_Run\<close>: a run that routes, evaluated. \<open>Closed_Loop\<close>: the planner, run after run, in an environment that carries its plans out.
  \<^item> \<open>Go_Heap\<close>, \<open>Heap_Types\<close>, \<open>Deep_Copy\<close>: the generated deep copies (\<^verbatim>\<open>api/v1alpha1/zz_generated.deepcopy.go\<close>) on Go's memory. \<open>Go_Heap\<close>
    has the heap, the views that read a value from it, and the contract \<open>deep_copyable\<close> of a copy; \<open>Heap_Types\<close> the structs as
    they lie in memory; \<open>Deep_Copy\<close> every method.
  \<^item> \<open>Manager_Setup\<close>: the binary as a sequence of setup steps that may fail, the registration with the manager, which changes
    trigger a run, and the role (\<^verbatim>\<open>cmd/main.go\<close>, \<^verbatim>\<open>SetupWithManager\<close> and the markers of \<^verbatim>\<open>worker_controller.go\<close>).
  \<^item> \<open>Demo_Workers\<close>: workflows and activities, and the start of the workers of the demo and of the integration tests
    (\<^verbatim>\<open>internal/demo\<close>, \<^verbatim>\<open>internal/testhelpers/workers.go\<close>); \<open>Test_Objects\<close>: the builders of test objects
    (\<^verbatim>\<open>internal/testhelpers/make.go\<close>); \<open>Demo_Helper\<close>: the command-line helper that plays the demo (\<^verbatim>\<open>hack/demohelper/main.go\<close>).

  \<^bold>\<open>How code is modelled.\<close> Structs are records, string enums datatypes with a constructor for other
  strings, pointers options (or, where identity matters, an address with its object). A pure
  function that can panic returns \<open>go_panic + 'a\<close>, one that returns an error \<open>api_error + 'a\<close>;
  code with remote calls is an \<open>io\<close> computation, whose outcome is a value, an error or a panic, and which may
  fail to return. The iteration order of a Go map is a parameter wherever it can matter. The time a
  plan is computed at is one value per plan. Logging is left out.

  \<^bold>\<open>What is shown.\<close> \<open>Rollout\<close>: in every run of a validated progressive rollout the steps are applied in
  order and held for their pause, and the rollout can always be completed; traffic moves only for a
  healthy, registered target that passed its gate. \<open>Sunset\<close> and \<open>State_Mapper\<close>: exactly which
  Deployments are deleted and scaled; what serves or drains is spared. \<open>Updates\<close>: updates are idempotent and leave new
  Deployments alone; an updated Deployment is what building it anew would give.
  \<open>K8s_Deployments\<close>: the cluster state is read correctly and what is built is read back under its build ID. \<open>Temporal_State\<close>: classification
  of versions, and that reads and retries return. \<open>Planner\<close>: planning does not panic under stated conditions.
  \<open>Exec_Plan\<close>: execution refines the list of calls of the plan and stops at the first error. \<open>Client_Pool\<close>: the pool
  keeps its invariant, never serves a client with an expired certificate, and where it holds its lock.
  \<open>Reconcile\<close>: every run returns, writes the status before it acts, and leaves routing alone when somebody else
  took over. \<open>Pool_Races\<close>: which pool operations can race. \<open>Worker_Contract\<close>: workers
  register as the version the controller tracks, and how an update can break this. \<open>Closed_Loop\<close>: in a calm period a rollout with
  AllAtOnce ends after four runs and the loop is at rest; versions that were abandoned before they got traffic can block all later ones.
  \<open>Deep_Copy\<close>: deep copies are type safe, mean the same and share nothing with the original, but for the inputs of a gate.
  \<open>Manager_Setup\<close>: which runs a change asks for, and that a failing list drops them; the role lacks one read, so that a gate with input from a
  ConfigMap blocks. \<open>Demo_Workers\<close>: a test worker registers as the worker in the pod does. \<open>Test_Objects\<close>: test objects carry the names the controller gives. \<open>Demo_Helper\<close>: the helper runs a
  prefix of its commands, and in this repository stops at the second. This theory: a run never deletes a Deployment of the target or current
  version, routes only to a target that is ready, and does nothing in the steady state; an outage of Temporal can make the planner panic.

  \<^bold>\<open>Bounds.\<close> No fuel is used: loops are structural recursion, and the retry loop, which Go bounds by the clock, is a
  \<open>partial_function (option)\<close> that is proved to return.

  \<^bold>\<open>Not modelled.\<close> The scheme registration (\<^verbatim>\<open>groupversion_info.go\<close> and the \<open>init\<close> functions of the API package) beyond
  that it can fail; flag parsing and logging; the integration tests with their builder
  and logger (\<^verbatim>\<open>internal/tests\<close>, \<^verbatim>\<open>test_builder.go\<close>, \<^verbatim>\<open>testlogr\<close>), which are expectations rather than behaviour; manifests. Third-party
  code (the SDK, the API server, controller-runtime, spew, the image reference parser, certificate parsing, the shell) is a parameter with the behaviour
  relied upon as hypotheses. Runs of different workers share only the client pool; their interleaving is modelled there, by the events of the pool operations.
\<close>

section \<open>A run spares what serves\<close>

text \<open>
  C3 (safety). A run never deletes a Deployment that serves traffic: every Deployment it deletes carries a
  build ID that is, in the status the same run has just written, neither the target's nor the
  current version's. What is relied on of the API server is that a status update
  returns the build IDs that were written.
\<close>

theorem Reconcile_spares_serving:
  assumes "\<forall>twd w upd. fst (r_UpdateStatus r twd w) = Inr upd \<longrightarrow> same_versions (twd_Status twd) (twd_Status upd)"
  shows "\<exists>out w' made. Reconcile r req pool w = Some (out, w') \<and> w_calls w' = w_calls w @ made
     \<and> (\<forall>d e. (DeleteDeployment d, e) \<in> set made \<longrightarrow>
          (\<exists>twd b. (UpdateStatus twd, None) \<in> set made \<and> deployment_build_id d = Some b
             \<and> b \<noteq> v_BuildID (st_TargetVersion (twd_Status twd))
             \<and> (\<forall>c. st_CurrentVersion (twd_Status twd) = Some c \<longrightarrow> v_BuildID c \<noteq> b)))"
proof -
  obtain res pool' w' made where run: "Reconcile r req pool w = Some (Ok (res, pool'), w')" "w_calls w' = w_calls w @ made"
    and m: "made = [] \<or> (\<exists>c twd. reconciled r c req twd made res)"
    by (rule Reconcile_run [of r req pool w]) blast
  have "\<exists>twd b. (UpdateStatus twd, None) \<in> set made \<and> deployment_build_id d = Some b
       \<and> b \<noteq> v_BuildID (st_TargetVersion (twd_Status twd))
       \<and> (\<forall>c. st_CurrentVersion (twd_Status twd) = Some c \<longrightarrow> v_BuildID c \<noteq> b)"
    if d: "(DeleteDeployment d, e) \<in> set made" for d e
  proof -
    obtain c twd0 twd updated ts rest wa wb where made: "made = (UpdateStatus twd, None) # rest"
      and o: "observe r c req twd0 wa = Some (Ok (twd_Status twd, ts), wb)"
      and u: "fst (r_UpdateStatus r twd wb) = Inr updated" and a: "acted r updated ts rest res"
      using m d unfolding reconciled_def by auto
    have rest: "(DeleteDeployment d, e) \<in> set rest" using d made by simp
    obtain b where b: "deployment_build_id d = Some b" "b \<in> v_BuildID ` set (st_DeprecatedVersions (twd_Status updated))"
      using acted_deletes [OF a rest] by blast
    have "same_versions (twd_Status twd) (twd_Status updated)" using assms u by blast
    then have dep: "b \<in> v_BuildID ` set (st_DeprecatedVersions (twd_Status twd))"
      using b(2) unfolding same_versions_def by (metis set_map)
    obtain order ks n where s: "twd_Status twd = mapToStatus order (newStateMapper ks ts n) (ComputeBuildID (r_third_party r) twd0)"
      using observe_status [OF o] by blast
    note D = mapped_deprecated [OF dep [unfolded s]]
    show ?thesis
      using made b(1) D unfolding s [symmetric] by (intro exI [of _ twd] exI [of _ b]) (auto simp: s target_in_status)
  qed
  with run show ?thesis by blast
qed

theorem Reconcile_spares_serving_witness:
  "\<exists>out w'. Reconcile sample_reconciler sample_request New sample_world = Some (out, w')
     \<and> (\<forall>d e. (DeleteDeployment d, e) \<in> set (w_calls w') \<longrightarrow> (\<exists>b. deployment_build_id d = Some b))"
proof -
  have "\<forall>twd w upd. fst (r_UpdateStatus sample_reconciler twd w) = Inr upd \<longrightarrow> same_versions (twd_Status twd) (twd_Status upd)"
    by (simp add: sample_reconciler_def same_versions_def)
  from Reconcile_spares_serving [OF this, of sample_request New sample_world] show ?thesis by fastforce
qed

section \<open>A run routes only what is ready\<close>

text \<open>
  C4 (safety). A run routes traffic or touches version metadata only when the object it has just written the
  status of allows it: the strategy is not Manual, the target is healthy and known to Temporal, and a configured gate has
  passed. Every such call is about the worker deployment of that object and carries the conflict token of that status and the
  controller's identity. A target that is not current is made current or, in a Progressive rollout, ramped to the percentage of one of the
  steps; when the target is current, the only routing call takes the ramp away. Authorship is recorded for the version that was
  routed, and the only metadata removed is the override.
\<close>

theorem Reconcile_routes_safely:
  "\<exists>out w' made. Reconcile r req pool w = Some (out, w') \<and> w_calls w' = w_calls w @ made
     \<and> (\<forall>c e. (c, e) \<in> set made \<longrightarrow> routing_call c \<longrightarrow>
          (\<exists>twd updated wb. (UpdateStatus twd, None) \<in> set made \<and> fst (r_UpdateStatus r twd wb) = Inr updated
             \<and> may_route (twd_Spec updated) (twd_Status updated)
             \<and> well_routed (spec_RolloutStrategy (twd_Spec updated)) (twd_Status updated) (ComputeWorkerDeploymentName updated)
                 (getControllerIdentity (r_getenv r)) c))"
proof -
  obtain res pool' w' made where run: "Reconcile r req pool w = Some (Ok (res, pool'), w')" "w_calls w' = w_calls w @ made"
    and m: "made = [] \<or> (\<exists>c twd. reconciled r c req twd made res)"
    by (rule Reconcile_run [of r req pool w]) blast
  have "\<exists>twd updated wb. (UpdateStatus twd, None) \<in> set made \<and> fst (r_UpdateStatus r twd wb) = Inr updated
             \<and> may_route (twd_Spec updated) (twd_Status updated)
             \<and> well_routed (spec_RolloutStrategy (twd_Spec updated)) (twd_Status updated) (ComputeWorkerDeploymentName updated)
                 (getControllerIdentity (r_getenv r)) c"
    if c: "(c, e) \<in> set made" "routing_call c" for c e
  proof -
    obtain cl twd0 twd updated ts rest wa wb where made: "made = (UpdateStatus twd, None) # rest"
      and "observe r cl req twd0 wa = Some (Ok (twd_Status twd, ts), wb)"
      and u: "fst (r_UpdateStatus r twd wb) = Inr updated" and a: "acted r updated ts rest res"
      using m c unfolding reconciled_def by auto
    have "(c, e) \<in> set rest" using c made by auto
    from acted_routes [OF a this c(2)] u made show ?thesis
      by (intro exI [of _ twd] exI [of _ updated] exI [of _ wb]) simp
  qed
  with run show ?thesis by blast
qed

theorem Reconcile_routes_safely_witness:
  "\<exists>out w'. Reconcile routing_reconciler sample_request New sample_world = Some (out, w')
     \<and> (SetCurrentVersion ''ns/foo'' ''v2'' ''tok'' ''temporal-worker-controller'', None) \<in> set (w_calls w')
     \<and> (\<exists>twd updated. (UpdateStatus twd, None) \<in> set (w_calls w') \<and> may_route (twd_Spec updated) (twd_Status updated)
          \<and> v_BuildID (st_TargetVersion (twd_Status updated)) = ''v2'' \<and> \<not> target_is_current (twd_Status updated)
          \<and> st_VersionConflictToken (twd_Status updated) = ''tok'' \<and> ComputeWorkerDeploymentName updated = ''ns/foo'')"
proof -
  obtain out w' where r: "Reconcile routing_reconciler sample_request New sample_world = Some (out, w')"
    and c: "(SetCurrentVersion ''ns/foo'' ''v2'' ''tok'' ''temporal-worker-controller'', None) \<in> set (w_calls w')"
    using routing_run by blast
  from Reconcile_routes_safely [of routing_reconciler sample_request New sample_world] r
  have "\<forall>c e. (c, e) \<in> set (w_calls w') \<longrightarrow> routing_call c \<longrightarrow>
          (\<exists>twd updated wb. (UpdateStatus twd, None) \<in> set (w_calls w') \<and> may_route (twd_Spec updated) (twd_Status updated)
             \<and> well_routed (spec_RolloutStrategy (twd_Spec updated)) (twd_Status updated) (ComputeWorkerDeploymentName updated)
                 (getControllerIdentity (r_getenv routing_reconciler)) c)" by fastforce
  from this [rule_format, OF c] r c show ?thesis by auto
qed

section \<open>The steady state is left alone\<close>

text \<open>
  C9 (invariant). The loop has reached its goal when the target is current, nothing ramps, no other version is left and the
  target's Deployment has the desired replicas and the present hashes: then the plan is empty, under every rollout strategy and
  with or without a gate, and executing it makes no call.
\<close>

theorem steady_state_quiet:
  assumes "steady tp ks status spec ts connection"
  shows "GeneratePlan tp now ks status spec (Some ts) connection config name limit input secret = Inr (empty_plan, ks_Deployments ks)
    \<and> executePlan api identity version (ks_Deployments ks) (plan_ScaleDeployments empty_plan) (convert_plan w empty_plan None) wld
        = Some (Ok (), wld)"
  using GeneratePlan_empty [OF assms] executePlan_empty by (simp add: empty_plan_def)

definition steady_ks :: DeploymentState where
  "steady_ks =
     (let d = NewDeploymentWithOwnerRef sample_third_party (twd_TypeMeta sample_twd) sample_meta sample_spec ''ns/foo'' ''v1'' sample_connection
      in \<lparr>ks_Deployments = [(''v1'', d)], ks_DeploymentsByTime = [d], ks_DeploymentRefs = [(''v1'', sample_ref 1)]\<rparr>)"

definition steady_status :: TemporalWorkerDeploymentStatus where
  "steady_status =
     sample_status\<lparr>st_TargetVersion := sample_target\<lparr>v_BuildID := ''v1'', v_Status := VersionStatusCurrent, v_Deployment := Some (sample_ref 1)\<rparr>,
       st_CurrentVersion := Some (sample_current\<lparr>v_Deployment := Some (sample_ref 1)\<rparr>)\<rparr>"

theorem steady_state_quiet_witness:
  "GeneratePlan sample_third_party 0 steady_ks steady_status sample_spec (Some empty_TemporalWorkerState) sample_connection
     \<lparr>cfg_RolloutStrategy = sample_rollout\<rparr> ''ns/foo'' 75 [] False = Inr (empty_plan, ks_Deployments steady_ks)"
proof -
  have "steady sample_third_party steady_ks steady_status sample_spec empty_TemporalWorkerState sample_connection"
    by (simp add: steady_def steady_ks_def steady_status_def sample_status_def sample_current_def empty_TemporalWorkerState_def
        pod_fresh_def conn_fresh_def annotation_def NewDeploymentWithOwnerRef_def pod_annotations_def sample_spec_def Let_def)
  from steady_state_quiet [OF this] show ?thesis by blast
qed

section \<open>An outage reaches the planner\<close>

text \<open>
  C28 (error). When Temporal lists a version as drained and then fails to describe it, the version counts as
  drained without a drain time, and if its Deployment is still in the cluster, planning panics
  with a nil dereference: no part of the plan is made, for as long as the outage lasts. The version is neither the target nor current
  nor ramping, and the controller itself made the last change.
\<close>

theorem temporal_outage_panics:
  assumes "\<forall>w. fst (cl_Describe client n w) = Inr resp" and "dd_LastModifierIdentity resp = ident"
    and "s \<in> set (dd_VersionSummaries resp)" and "vs_DrainageStatus s = DrainageDrained"
    and "\<forall>s' \<in> set (dd_VersionSummaries resp). wdv_BuildId (vs_Version s') = wdv_BuildId (vs_Version s) \<longrightarrow> s' = s"
    and "\<forall>v. rc_CurrentVersion (dd_RoutingConfig resp) = Some v \<longrightarrow> wdv_BuildId v \<noteq> wdv_BuildId (vs_Version s)"
    and "rc_RampingVersion (dd_RoutingConfig resp) \<noteq> Some (vs_Version s)"
    and "\<forall>w. fst (cl_DescribeVersion client n (wdv_BuildId (vs_Version s)) w) = Inl e" and "err_kind e \<noteq> ErrNotFound"
    and "GetDeploymentState tp (Inr items) = Inr ks"
    and "wdv_BuildId (vs_Version s) \<in> dom (map_get (ks_Deployments ks)) \<inter> set order - {[], target}"
  shows "\<exists>ts w'. GetWorkerDeploymentState client n (ks_Deployments ks) target strategy ident w = Some (Ok ts, w')
     \<and> GeneratePlan tp now ks (mapToStatus order (newStateMapper ks ts n) target) spec (Some ts) connection config n limit
         input secret = Inl NilPointer"
proof -
  let ?b = "wdv_BuildId (vs_Version s)" and ?rc = "dd_RoutingConfig resp"
  let ?z = "zero_VersionInfo (vs_Version s) VersionStatusDrained"
  let ?w1 = "w\<lparr>w_now := w_now w + int (snd (cl_Describe client n w))\<rparr>"
  let ?rv = "read_versions client n (ks_Deployments ks) ?rc target strategy (dd_VersionSummaries resp) (routing_state resp False)"
  have eq: "GetWorkerDeploymentState client n (ks_Deployments ks) target strategy ident w = ?rv ?w1"
    using assms(1,2) by (simp add: GetWorkerDeploymentState_def io_bind_def io_read_def io_run)
  have out: "io_gives (version_info client n (ks_Deployments ks) ?rc target strategy s) (\<lambda>vi. vi = ?z)"
    by (rule version_info_outage [of _ _ _ _ e]) (use assms in auto)
  have "io_gives ?rv (\<lambda>st'. map_get (ts_Versions st') ?b = Some ?z)"
    by (rule read_versions_outage) (use assms(3,5) out in auto)
  then obtain ts w' where ts: "?rv ?w1 = Some (Ok ts, w')" "map_get (ts_Versions ts) ?b = Some ?z" by (rule io_givesE)
  obtain ts' w'' where "?rv ?w1 = Some (Ok ts', w'')" "versions_from ?rc (routing_state resp False) (dd_VersionSummaries resp) ts'"
    by (rule read_versions_run)
  with ts(1) have "ts\<lparr>ts_Versions := []\<rparr> = (routing_state resp False)\<lparr>ts_Versions := []\<rparr>" by (simp add: versions_from_def)
  then have "ts_CurrentBuildID (ts\<lparr>ts_Versions := []\<rparr>) = (case rc_CurrentVersion ?rc of None \<Rightarrow> [] | Some v \<Rightarrow> wdv_BuildId v)"
    by (simp add: routing_state_def Let_def)
  with assms(6,11) have "?b \<noteq> ts_CurrentBuildID ts" by (auto split: option.splits)
  with assms(10,11) ts(2) have "GeneratePlan tp now ks (mapToStatus order (newStateMapper ks ts n) target) spec (Some ts) connection
      config n limit input secret = Inl NilPointer"
    by (intro GeneratePlan_nil_drain [of ts ?b ?z]) (auto simp: zero_VersionInfo_def)
  with ts(1) show ?thesis unfolding eq by blast
qed

definition outage_response :: WorkerDeploymentDescribeResponse where
  "outage_response =
     sample_response\<lparr>dd_LastModifierIdentity := ''me'',
       dd_RoutingConfig := sample_routing\<lparr>rc_CurrentVersion := None, rc_RampingVersion := None\<rparr>,
       dd_VersionSummaries := [\<lparr>vs_Version = sample_version ''v0'', vs_DrainageStatus = DrainageDrained\<rparr>]\<rparr>"

definition outage_client :: temporal_client where
  "outage_client =
     sample_client\<lparr>cl_Describe := \<lambda>_ _. (Inr outage_response, 1),
       cl_DescribeVersion := \<lambda>_ _ _. (Inl (new_error ''unavailable''), 1)\<rparr>"

theorem temporal_outage_panics_witness:
  "\<exists>ts w'. GetWorkerDeploymentState outage_client ''ns/foo'' (ks_Deployments sample_ks) ''v2'' UpdateProgressive ''me'' sample_world
         = Some (Ok ts, w')
     \<and> GeneratePlan sample_third_party 0 sample_ks (mapToStatus [''v0''] (newStateMapper sample_ks ts ''ns/foo'') ''v2'') sample_spec
         (Some ts) sample_connection \<lparr>cfg_RolloutStrategy = sample_rollout\<rparr> ''ns/foo'' 75 [] False = Inl NilPointer"
  by (rule temporal_outage_panics [where resp = outage_response and e = "new_error ''unavailable''"
        and s = "\<lparr>vs_Version = sample_version ''v0'', vs_DrainageStatus = DrainageDrained\<rparr>", OF _ _ _ _ _ _ _ _ _ sample_ks_read])
     (simp_all add: outage_client_def outage_response_def sample_version_def sample_ks_eq)

end
